(* ===== verification/Prelude.thy ===== *)
theory Prelude
  imports Main "HOL-Library.Word"
begin

text \<open>
  Shared vocabulary of the development: the machine types of the Rust sources, the
  bounds-checked slice accesses of the standard library (\<open>slice::get\<close>), the saturating and
  checked additions the parsers use, and the decimal and hexadecimal rendering behind
  \<open>format!\<close>. The generic list lemmas the components share are collected in
  \<open>slice_simps\<close>.

  Conventions. A \<open>usize\<close> is a \<^typ>\<open>nat\<close>; the target is 64 bit, so \<open>u64 as usize\<close> is
  \<open>unat\<close> and the saturating operations on \<open>usize\<close> saturate at \<open>2 ^ 64 - 1\<close>. Integers read
  from the disk keep their width. A Rust \<open>String\<close> is the list of its UTF-8 bytes; a
  \<open>&'static str\<close> is a HOL string.
\<close>

unbundle bit_operations_syntax

section \<open>Machine types\<close>

type_synonym u8 = "8 word"
type_synonym u16 = "16 word"
type_synonym u32 = "32 word"
type_synonym u64 = "64 word"
type_synonym bytes = "u8 list"
type_synonym rstring = "u8 list"

named_theorems slice_simps "facts about the bounds-checked slice accesses"

section \<open>Bounds-checked slice access\<close>

text \<open>\<open>s.get(a..b)\<close>: \<open>None\<close> when \<open>a > b\<close> or \<open>b\<close> lies past the end.\<close>

definition get_range :: "'a list \<Rightarrow> nat \<Rightarrow> nat \<Rightarrow> 'a list option" where
  "get_range xs a b =
     (if a \<le> b \<and> b \<le> length xs then Some (take (b - a) (drop a xs)) else None)"

text \<open>\<open>s.get(a..)\<close>.\<close>

definition get_from :: "'a list \<Rightarrow> nat \<Rightarrow> 'a list option" where
  "get_from xs a = (if a \<le> length xs then Some (drop a xs) else None)"

text \<open>\<open>o.unwrap_or(d)\<close>.\<close>

definition unwrap_or :: "'a option \<Rightarrow> 'a \<Rightarrow> 'a" where
  "unwrap_or x d = (case x of None \<Rightarrow> d | Some y \<Rightarrow> y)"

lemma unwrap_or_simps [simp]:
  "unwrap_or None d = d"
  "unwrap_or (Some y) d = y"
  by (simp_all add: unwrap_or_def)

lemma get_range_Some_iff [slice_simps]:
  "get_range xs a b = Some ys \<longleftrightarrow> a \<le> b \<and> b \<le> length xs \<and> ys = take (b - a) (drop a xs)"
  by (auto simp: get_range_def)

lemma get_range_None_iff [slice_simps]:
  "get_range xs a b = None \<longleftrightarrow> b < a \<or> length xs < b"
  by (auto simp: get_range_def)

lemma get_range_length: "get_range xs a b = Some ys \<Longrightarrow> length ys = b - a"
  by (auto simp: slice_simps)

lemma get_range_nth:
  "get_range xs a b = Some ys \<Longrightarrow> i < length ys \<Longrightarrow> ys ! i = xs ! (a + i)"
  by (auto simp: slice_simps)

lemma get_range_append1:
  "b \<le> length xs \<Longrightarrow> get_range (xs @ ys) a b = get_range xs a b"
  by (auto simp: get_range_def)

lemma get_range_append2:
  "get_range (xs @ ys) (length xs + a) (length xs + b) = get_range ys a b"
  by (auto simp: get_range_def)

lemma get_range_drop:
  "get_range (drop k xs) a b = (if k \<le> length xs then get_range xs (k + a) (k + b)
     else if a = 0 \<and> b = 0 then Some [] else None)"
  by (auto simp: get_range_def ac_simps)

lemma get_range_take:
  "b \<le> n \<Longrightarrow> get_range (take n xs) a b = get_range xs a b"
  by (auto simp: get_range_def drop_take min_def)

lemma get_range_prefix [slice_simps]:
  "get_range (xs @ ys) 0 (length xs) = Some xs"
  by (simp add: get_range_def)

lemma get_from_Some_iff [slice_simps]:
  "get_from xs a = Some ys \<longleftrightarrow> a \<le> length xs \<and> ys = drop a xs"
  by (auto simp: get_from_def)

lemma get_from_None_iff [slice_simps]: "get_from xs a = None \<longleftrightarrow> length xs < a"
  by (auto simp: get_from_def)

text \<open>Overwriting the bytes at an offset, to state what an edit of a block does.\<close>

definition overwrite :: "'a list \<Rightarrow> nat \<Rightarrow> 'a list \<Rightarrow> 'a list" where
  "overwrite xs off e = take off xs @ e @ drop (off + length e) xs"

lemma length_overwrite [simp]: "off + length e \<le> length xs \<Longrightarrow> length (overwrite xs off e) = length xs"
  by (simp add: overwrite_def)

lemma take_overwrite_before: "n \<le> off \<Longrightarrow> off + length e \<le> length xs \<Longrightarrow> take n (overwrite xs off e) = take n xs"
  by (simp add: overwrite_def min_def)

lemma drop_overwrite_after:
  "off + length e \<le> n \<Longrightarrow> off + length e \<le> length xs \<Longrightarrow> drop n (overwrite xs off e) = drop n xs"
  by (simp add: overwrite_def)

lemma get_range_overwrite_before:
  "b \<le> off \<Longrightarrow> off + length e \<le> length xs \<Longrightarrow>
     get_range (overwrite xs off e) a b = get_range xs a b"
  by (auto simp: get_range_def drop_take [symmetric] take_overwrite_before)

lemma get_range_overwrite_after:
  "off + length e \<le> a \<Longrightarrow> off + length e \<le> length xs \<Longrightarrow>
     get_range (overwrite xs off e) a b = get_range xs a b"
  by (auto simp: get_range_def drop_overwrite_after)

text \<open>A window \<open>[a, b)\<close> of a list with an edited piece inside it.\<close>

lemma split_window:
  assumes "a \<le> off" and "off + k \<le> b" and "b \<le> length xs"
  obtains A P M S Z where "xs = A @ P @ M @ S @ Z" and "length A = a" and "length P = off - a"
    and "length M = k" and "length S = b - (off + k)"
proof -
  have 1: "drop a xs = take (off - a) (drop a xs) @ drop off xs"
    using append_take_drop_id [of "off - a" "drop a xs"] assms by simp
  have 2: "drop off xs = take k (drop off xs) @ drop (off + k) xs"
    using append_take_drop_id [of k "drop off xs"] by (simp add: add.commute)
  have 3: "drop (off + k) xs = take (b - (off + k)) (drop (off + k) xs) @ drop b xs"
    using append_take_drop_id [of "b - (off + k)" "drop (off + k) xs"] assms by simp
  have "xs = take a xs @ drop a xs" by simp
  also have "\<dots> = take a xs @ take (off - a) (drop a xs) @ take k (drop off xs) @
      take (b - (off + k)) (drop (off + k) xs) @ drop b xs"
    by (subst 1, subst 2, subst 3) simp
  finally show ?thesis
    using assms by (intro that) auto
qed

lemma overwrite_middle:
  "length X = off \<Longrightarrow> length M = length e \<Longrightarrow> overwrite (X @ M @ Y) off e = X @ e @ Y"
  by (simp add: overwrite_def)

lemma get_range_middle:
  "length A = a \<Longrightarrow> b = a + length X \<Longrightarrow> get_range (A @ X @ Z) a b = Some X"
  by (simp add: get_range_def)

section \<open>Saturating and checked arithmetic\<close>

definition usize_max :: nat where
  "usize_max = 18446744073709551615"

text \<open>\<open>usize::saturating_add\<close> and \<open>usize::saturating_mul\<close>.\<close>

definition sat_add :: "nat \<Rightarrow> nat \<Rightarrow> nat" where
  "sat_add a b = min (a + b) usize_max"

definition sat_mul :: "nat \<Rightarrow> nat \<Rightarrow> nat" where
  "sat_mul a b = min (a * b) usize_max"

text \<open>\<open>usize::checked_add\<close>.\<close>

definition usize_checked_add :: "nat \<Rightarrow> nat \<Rightarrow> nat option" where
  "usize_checked_add a b = (if a + b \<le> usize_max then Some (a + b) else None)"

text \<open>\<open>u64::saturating_add\<close>, \<open>u64::saturating_mul\<close> and \<open>u64::checked_add\<close>.\<close>

definition u64_sat_add :: "u64 \<Rightarrow> u64 \<Rightarrow> u64" where
  "u64_sat_add a b = (if unat a + unat b < 2 ^ 64 then a + b else - 1)"

definition u64_sat_mul :: "u64 \<Rightarrow> u64 \<Rightarrow> u64" where
  "u64_sat_mul a b = (if unat a * unat b < 2 ^ 64 then a * b else - 1)"

definition u64_checked_add :: "u64 \<Rightarrow> u64 \<Rightarrow> u64 option" where
  "u64_checked_add a b = (if unat a + unat b < 2 ^ 64 then Some (a + b) else None)"

lemma u64_checked_add_Some:
  "u64_checked_add a b = Some c \<longleftrightarrow> unat a + unat b < 2 ^ 64 \<and> c = a + b"
  by (auto simp: u64_checked_add_def)

lemma u64_checked_add_None:
  "u64_checked_add a b = None \<longleftrightarrow> 2 ^ 64 \<le> unat a + unat b"
  by (auto simp: u64_checked_add_def)

lemma unat_add_u64: "unat (a :: u64) + unat b < 2 ^ 64 \<Longrightarrow> unat (a + b) = unat a + unat b"
  by (simp add: unat_word_ariths)

lemma u64_checked_add_unat:
  "u64_checked_add a b = Some c \<Longrightarrow> unat c = unat a + unat b"
  by (auto simp: u64_checked_add_Some unat_add_u64)

lemma unat_sub_u64: "b \<le> (a :: u64) \<Longrightarrow> unat (a - b) = unat a - unat b"
  by (rule unat_sub)

lemma sat_add_exact: "a + b \<le> usize_max \<Longrightarrow> sat_add a b = a + b"
  by (simp add: sat_add_def)

lemma sat_add_le: "sat_add a b \<le> a + b"
  by (simp add: sat_add_def)

lemma sat_add_ge: "a \<le> usize_max \<Longrightarrow> a \<le> sat_add a b"
  by (simp add: sat_add_def)

lemma unat_less_exp: "unat (x :: 'a::len word) < 2 ^ LENGTH('a)"
  by (rule unsigned_less)

lemma unat_u64_le_usize_max: "unat (x :: u64) \<le> usize_max"
  using unat_less_exp [of x] by (simp add: usize_max_def)

lemma unat_u32_le: "unat (x :: u32) \<le> 4294967295"
  using unat_less_exp [of x] by simp

lemma unat_u16_le: "unat (x :: u16) \<le> 65535"
  using unat_less_exp [of x] by simp

lemma unat_u8_le: "unat (x :: u8) \<le> 255"
  using unat_less_exp [of x] by simp

text \<open>
  A slice of the address space: no Rust slice is longer than \<open>isize::MAX\<close> bytes. The slice
  \<open>get(start..start.saturating_add(n))\<close> of such a buffer has exactly \<open>n\<close> bytes.
\<close>

definition fits_memory :: "'a list \<Rightarrow> bool" where
  "fits_memory xs \<longleftrightarrow> length xs < 2 ^ 63"

lemma get_range_sat_add:
  assumes "fits_memory xs"
  shows "get_range xs a (sat_add a n) = (if a + n \<le> length xs then Some (take n (drop a xs)) else None)"
  using assms by (auto simp: get_range_def sat_add_def fits_memory_def usize_max_def min_def)

lemma get_range_sat_add_length_le:
  "get_range xs a (sat_add a n) = Some ys \<Longrightarrow> length ys \<le> n"
  by (auto simp: slice_simps sat_add_def)

section \<open>Text\<close>

text \<open>A literal of the source as the bytes of a \<open>String\<close>.\<close>

definition str :: "string \<Rightarrow> rstring" where
  "str s = map of_char s"

text \<open>\<open>{n}\<close> in a format string: decimal digits.\<close>

fun dec_nat :: "nat \<Rightarrow> rstring" where
  "dec_nat n = (if n < 10 then [48 + of_nat n] else dec_nat (n div 10) @ [48 + of_nat (n mod 10)])"

declare dec_nat.simps [simp del]

definition dec_u64 :: "u64 \<Rightarrow> rstring" where
  "dec_u64 w = dec_nat (unat w)"

text \<open>\<open>{b:02x}\<close> and \<open>{x:08x}\<close>: lower-case hexadecimal, zero padded.\<close>

definition hex_digit :: "nat \<Rightarrow> u8" where
  "hex_digit n = (if n < 10 then 48 + of_nat n else 87 + of_nat n)"

fun hex_pad :: "nat \<Rightarrow> nat \<Rightarrow> rstring" where
  "hex_pad 0 n = []"
| "hex_pad (Suc k) n = hex_pad k (n div 16) @ [hex_digit (n mod 16)]"

definition hex_u8 :: "u8 \<Rightarrow> rstring" where
  "hex_u8 b = hex_pad 2 (unat b)"

definition hex_u32 :: "u32 \<Rightarrow> rstring" where
  "hex_u32 w = hex_pad 8 (unat w)"

lemma length_hex_pad [simp]: "length (hex_pad k n) = k"
  by (induction k n rule: hex_pad.induct) simp_all

text \<open>The value a digit string denotes, used to state that rendering loses nothing.\<close>

definition digit_val :: "u8 \<Rightarrow> nat" where
  "digit_val c = (if unat c < 58 then unat c - 48 else unat c - 87)"

definition base_val :: "nat \<Rightarrow> rstring \<Rightarrow> nat" where
  "base_val b s = foldl (\<lambda>acc c. b * acc + digit_val c) 0 s"

lemma base_val_snoc [simp]: "base_val b (s @ [c]) = b * base_val b s + digit_val c"
  by (simp add: base_val_def)

lemma base_val_Nil [simp]: "base_val b [] = 0"
  by (simp add: base_val_def)

lemma unat_digit: "n < 168 \<Longrightarrow> unat (87 + of_nat n :: u8) = 87 + n"
  by (simp add: unat_word_ariths unat_of_nat)

lemma digit_val_dec: "n < 10 \<Longrightarrow> digit_val (48 + of_nat n) = n"
  by (simp add: digit_val_def unat_word_ariths unat_of_nat)

lemma digit_val_hex: "n < 16 \<Longrightarrow> digit_val (hex_digit n) = n"
  by (simp add: hex_digit_def digit_val_def unat_word_ariths unat_of_nat)

lemma dec_nat_value: "base_val 10 (dec_nat n) = n"
proof (induction n rule: dec_nat.induct)
  case (1 n)
  show ?case
  proof (cases "n < 10")
    case True
    then show ?thesis
      using base_val_snoc [of 10 "[]" "48 + of_nat n"]
      by (simp add: dec_nat.simps [of n] digit_val_dec)
  next
    case False
    with 1 show ?thesis
      by (simp add: dec_nat.simps [of n] digit_val_dec)
  qed
qed

lemma dec_nat_inj: "dec_nat m = dec_nat n \<Longrightarrow> m = n"
  by (metis dec_nat_value)

lemma dec_u64_inj: "dec_u64 a = dec_u64 b \<longleftrightarrow> a = b"
  by (auto simp: dec_u64_def word_unat_eq_iff dest: dec_nat_inj)

lemma hex_pad_value: "n < 16 ^ k \<Longrightarrow> base_val 16 (hex_pad k n) = n"
proof (induction k n rule: hex_pad.induct)
  case (2 k n)
  then have "n div 16 < 16 ^ k"
    by (simp add: less_mult_imp_div_less mult.commute)
  with 2 show ?case
    by (simp add: digit_val_hex)
qed simp

lemma length_hex_u8 [simp]: "length (hex_u8 b) = 2"
  by (simp add: hex_u8_def)

lemma length_hex_u32 [simp]: "length (hex_u32 b) = 8"
  by (simp add: hex_u32_def)

lemma hex_u8_value: "base_val 16 (hex_u8 b) = unat b"
  unfolding hex_u8_def by (rule hex_pad_value) (use unat_less_exp [of b] in simp)

lemma hex_u32_value: "base_val 16 (hex_u32 w) = unat w"
  unfolding hex_u32_def by (rule hex_pad_value) (use unat_less_exp [of w] in simp)

lemma hex_u8_inj [simp]: "hex_u8 a = hex_u8 b \<longleftrightarrow> a = b"
  by (metis hex_u8_value word_unat_eq_iff)

lemma hex_u32_inj [simp]: "hex_u32 a = hex_u32 b \<longleftrightarrow> a = b"
  by (metis hex_u32_value word_unat_eq_iff)

section \<open>Lists\<close>

lemma map_nth_take_drop:
  "off + n \<le> length xs \<Longrightarrow> map (\<lambda>i. xs ! (off + i)) [0..<n] = take n (drop off xs)"
  by (intro nth_equalityI) auto

lemma find_split:
  "find P xs = Some x \<Longrightarrow> \<exists>as bs. xs = as @ x # bs \<and> P x \<and> (\<forall>a\<in>set as. \<not> P a)"
proof (induction xs)
  case (Cons y ys)
  show ?case
  proof (cases "P y")
    case True
    with Cons.prems show ?thesis by fastforce
  next
    case False
    with Cons obtain as bs where "ys = as @ x # bs" "P x" "\<forall>a\<in>set as. \<not> P a"
      by auto
    with False have "y # ys = (y # as) @ x # bs" "P x" "\<forall>a\<in>set (y # as). \<not> P a"
      by auto
    then show ?thesis by blast
  qed
qed simp

lemma find_append_first:
  "P x \<Longrightarrow> \<forall>a\<in>set as. \<not> P a \<Longrightarrow> find P (as @ x # bs) = Some x"
  by (induction as) auto

lemma find_append: "find P (xs @ ys) = (case find P xs of None \<Rightarrow> find P ys | Some x \<Rightarrow> Some x)"
  by (induction xs) auto

lemma find_in_set: "find P xs = Some x \<Longrightarrow> x \<in> set xs \<and> P x"
  by (auto dest: find_split)

end
