(* ===== verification/Bytes.thy ===== *)
theory Bytes
  imports Prelude
begin

text \<open>
  The bounds-checked little-endian readers: \<open>core/src/bytes.rs\<close>, and the copies the auditor
  carries in \<open>forensic/src/lib.rs\<close>. Out of range they yield \<open>0\<close>. The lemmas give the
  round trip with \<open>to_le_bytes\<close>, the value in and out of range, the equality of the two
  copies, and that the unchecked \<open>off + n\<close> of the core readers cannot be observed to wrap.
\<close>

section \<open>Integers as bytes (\<open>from_le_bytes\<close>, \<open>to_le_bytes\<close>)\<close>

fun le_nat :: "bytes \<Rightarrow> nat" where
  "le_nat [] = 0"
| "le_nat (b # bs) = unat b + 256 * le_nat bs"

fun nat_le :: "nat \<Rightarrow> nat \<Rightarrow> bytes" where
  "nat_le 0 n = []"
| "nat_le (Suc k) n = of_nat n # nat_le k (n div 256)"

definition from_le_bytes :: "bytes \<Rightarrow> 'a::len word" where
  "from_le_bytes bs = of_nat (le_nat bs)"

definition to_le_bytes :: "'a::len word \<Rightarrow> bytes" where
  "to_le_bytes w = nat_le (LENGTH('a) div 8) (unat w)"

definition from_be_bytes :: "bytes \<Rightarrow> 'a::len word" where
  "from_be_bytes bs = from_le_bytes (rev bs)"

definition to_be_bytes :: "'a::len word \<Rightarrow> bytes" where
  "to_be_bytes w = rev (to_le_bytes w)"

lemma length_nat_le [simp]: "length (nat_le k n) = k"
  by (induction k n rule: nat_le.induct) simp_all

lemma length_to_le_bytes [simp]: "length (to_le_bytes (w :: 'a::len word)) = LENGTH('a) div 8"
  by (simp add: to_le_bytes_def)

lemma length_to_be_bytes [simp]: "length (to_be_bytes (w :: 'a::len word)) = LENGTH('a) div 8"
  by (simp add: to_be_bytes_def)

lemma le_nat_nat_le: "n < 256 ^ k \<Longrightarrow> le_nat (nat_le k n) = n"
proof (induction k n rule: nat_le.induct)
  case (2 k n)
  then have "n div 256 < 256 ^ k"
    by (simp add: less_mult_imp_div_less mult.commute)
  with 2 show ?case
    by (simp add: unat_of_nat)
qed simp

lemma nat_le_le_nat: "nat_le (length bs) (le_nat bs) = bs"
proof (induction bs)
  case (Cons b bs)
  have "(unat b + 256 * le_nat bs) div 256 = le_nat bs"
    using unat_u8_le [of b] by simp
  moreover have "(of_nat (unat b + 256 * le_nat bs) :: u8) = b"
    by (rule word_unat_eq_iff [THEN iffD2]) (use unat_u8_le [of b] in \<open>simp only: unat_of_nat, simp\<close>)
  ultimately show ?case
    using Cons by simp
qed simp

lemma le_nat_less: "le_nat bs < 256 ^ length bs"
proof (induction bs)
  case (Cons b bs)
  then have "le_nat bs + 1 \<le> 256 ^ length bs" by simp
  then have "256 * le_nat bs + 256 \<le> 256 * 256 ^ length bs" by simp
  with unat_u8_le [of b] show ?case by simp
qed simp

lemma le_nat_append: "le_nat (xs @ ys) = le_nat xs + 256 ^ length xs * le_nat ys"
  by (induction xs) (simp_all add: algebra_simps)

lemma le_nat_replicate_0 [simp]: "le_nat (replicate n 0) = 0"
  by (induction n) simp_all

lemma le_nat_inj: "length xs = length ys \<Longrightarrow> le_nat xs = le_nat ys \<Longrightarrow> xs = ys"
  by (metis nat_le_le_nat)

lemma from_le_bytes_replicate_0 [simp]: "from_le_bytes (replicate n 0) = 0"
  by (simp add: from_le_bytes_def)

lemma unat_from_le_bytes:
  assumes "8 * length bs = LENGTH('a)"
  shows "unat (from_le_bytes bs :: 'a::len word) = le_nat bs"
proof -
  have "(256 :: nat) ^ length bs = 2 ^ LENGTH('a)"
    by (simp flip: assms add: power_mult)
  with le_nat_less [of bs] show ?thesis
    by (simp add: from_le_bytes_def unat_of_nat)
qed

lemma from_to_le_bytes:
  assumes "8 dvd LENGTH('a)"
  shows "from_le_bytes (to_le_bytes w) = (w :: 'a::len word)"
proof -
  from assms obtain k where k: "LENGTH('a) = 8 * k" by (elim dvdE)
  then have "(256 :: nat) ^ (LENGTH('a) div 8) = 2 ^ LENGTH('a)"
    by (simp add: power_mult)
  then have "le_nat (nat_le (LENGTH('a) div 8) (unat w)) = unat w"
    using unat_less_exp [of w] by (intro le_nat_nat_le) simp
  then show ?thesis
    by (simp add: from_le_bytes_def to_le_bytes_def)
qed

lemma to_from_le_bytes:
  assumes "8 * length bs = LENGTH('a)"
  shows "to_le_bytes (from_le_bytes bs :: 'a::len word) = bs"
proof -
  from assms have "LENGTH('a) div 8 = length bs" by simp
  with assms show ?thesis
    by (simp add: to_le_bytes_def unat_from_le_bytes nat_le_le_nat)
qed

lemma from_le_bytes_inj:
  assumes "8 * length xs = LENGTH('a)" and "length xs = length ys"
    and "(from_le_bytes xs :: 'a::len word) = from_le_bytes ys"
  shows "xs = ys"
  using assms by (metis to_from_le_bytes)

section \<open>The readers of \<open>core/src/bytes.rs\<close>\<close>

definition le_u16 :: "bytes \<Rightarrow> nat \<Rightarrow> u16" where
  "le_u16 data off = from_le_bytes (unwrap_or (get_range data off (off + 2)) (replicate 2 0))"

definition le_u32 :: "bytes \<Rightarrow> nat \<Rightarrow> u32" where
  "le_u32 data off = from_le_bytes (unwrap_or (get_range data off (off + 4)) (replicate 4 0))"

definition le_u64 :: "bytes \<Rightarrow> nat \<Rightarrow> u64" where
  "le_u64 data off = from_le_bytes (unwrap_or (get_range data off (off + 8)) (replicate 8 0))"

definition u8_at :: "bytes \<Rightarrow> nat \<Rightarrow> u8" where
  "u8_at data off = (if off < length data then data ! off else 0)"

text \<open>The copies in the auditor: a saturating end, then a conversion to a fixed array.\<close>

definition try_array :: "nat \<Rightarrow> bytes \<Rightarrow> bytes option" where
  "try_array n bs = (if length bs = n then Some bs else None)"

definition f_le_u16 :: "bytes \<Rightarrow> nat \<Rightarrow> u16" where
  "f_le_u16 d ofs =
     (case Option.bind (get_range d ofs (sat_add ofs 2)) (try_array 2) of
        None \<Rightarrow> 0 | Some b \<Rightarrow> from_le_bytes b)"

definition f_le_u64 :: "bytes \<Rightarrow> nat \<Rightarrow> u64" where
  "f_le_u64 d ofs =
     (case Option.bind (get_range d ofs (sat_add ofs 8)) (try_array 8) of
        None \<Rightarrow> 0 | Some b \<Rightarrow> from_le_bytes b)"

text \<open>\<open>n\<close> consecutive bytes read one by one with \<open>u8_at\<close>, as the array fields are.\<close>

definition bytes_at :: "bytes \<Rightarrow> nat \<Rightarrow> nat \<Rightarrow> bytes" where
  "bytes_at data off n = map (\<lambda>i. u8_at data (off + i)) [0..<n]"

lemma length_bytes_at [simp]: "length (bytes_at data off n) = n"
  by (simp add: bytes_at_def)

lemma bytes_at_in_range:
  "off + n \<le> length data \<Longrightarrow> bytes_at data off n = take n (drop off data)"
  unfolding bytes_at_def
  by (rule trans [OF map_cong [OF refl] map_nth_take_drop]) (auto simp: u8_at_def)

lemma u8_at_out_of_range: "length data \<le> off \<Longrightarrow> u8_at data off = 0"
  by (simp add: u8_at_def)

lemma le_u16_in_range:
  "off + 2 \<le> length data \<Longrightarrow> le_u16 data off = from_le_bytes (take 2 (drop off data))"
  by (simp add: le_u16_def get_range_def)

lemma le_u32_in_range:
  "off + 4 \<le> length data \<Longrightarrow> le_u32 data off = from_le_bytes (take 4 (drop off data))"
  by (simp add: le_u32_def get_range_def)

lemma le_u64_in_range:
  "off + 8 \<le> length data \<Longrightarrow> le_u64 data off = from_le_bytes (take 8 (drop off data))"
  by (simp add: le_u64_def get_range_def)

lemma le_u16_out_of_range: "length data < off + 2 \<Longrightarrow> le_u16 data off = 0"
  by (simp add: le_u16_def get_range_def from_le_bytes_def)

lemma le_u32_out_of_range: "length data < off + 4 \<Longrightarrow> le_u32 data off = 0"
  by (simp add: le_u32_def get_range_def from_le_bytes_def)

lemma le_u64_out_of_range: "length data < off + 8 \<Longrightarrow> le_u64 data off = 0"
  by (simp add: le_u64_def get_range_def from_le_bytes_def)

text \<open>Reading back what was written, at any position of a larger buffer.\<close>

lemma le_u16_written: "le_u16 (xs @ to_le_bytes w @ ys) (length xs) = w"
  by (simp add: le_u16_in_range from_to_le_bytes)

lemma le_u32_written: "le_u32 (xs @ to_le_bytes w @ ys) (length xs) = w"
  by (simp add: le_u32_in_range from_to_le_bytes)

lemma le_u64_written: "le_u64 (xs @ to_le_bytes w @ ys) (length xs) = w"
  by (simp add: le_u64_in_range from_to_le_bytes)

text \<open>A reader sees only its own bytes: appending or dropping others changes nothing.\<close>

lemma le_u16_append: "off + 2 \<le> length xs \<Longrightarrow> le_u16 (xs @ ys) off = le_u16 xs off"
  by (simp add: le_u16_def get_range_append1)

lemma le_u32_append: "off + 4 \<le> length xs \<Longrightarrow> le_u32 (xs @ ys) off = le_u32 xs off"
  by (simp add: le_u32_def get_range_append1)

lemma le_u64_append: "off + 8 \<le> length xs \<Longrightarrow> le_u64 (xs @ ys) off = le_u64 xs off"
  by (simp add: le_u64_def get_range_append1)

lemma u8_at_append: "off < length xs \<Longrightarrow> u8_at (xs @ ys) off = u8_at xs off"
  by (simp add: u8_at_def nth_append)

lemmas readers_append = le_u16_append le_u32_append le_u64_append u8_at_append

lemma le_u16_drop: "le_u16 (drop k xs) off = (if k \<le> length xs then le_u16 xs (k + off) else 0)"
  by (simp add: le_u16_def get_range_drop add.assoc)

lemma le_u64_drop: "le_u64 (drop k xs) off = (if k \<le> length xs then le_u64 xs (k + off) else 0)"
  by (simp add: le_u64_def get_range_drop add.assoc)

section \<open>The unchecked end offset \<open>off + n\<close>\<close>

text \<open>
  \<open>off + 2\<close> is unchecked arithmetic on \<open>usize\<close>: in a release build it wraps modulo
  \<open>2 ^ 64\<close>. The following readers take the offset at its machine width and wrap.
\<close>

definition le_u16_wrap :: "bytes \<Rightarrow> u64 \<Rightarrow> u16" where
  "le_u16_wrap data off =
     from_le_bytes (unwrap_or (get_range data (unat off) (unat (off + 2))) (replicate 2 0))"

definition le_u32_wrap :: "bytes \<Rightarrow> u64 \<Rightarrow> u32" where
  "le_u32_wrap data off =
     from_le_bytes (unwrap_or (get_range data (unat off) (unat (off + 4))) (replicate 4 0))"

definition le_u64_wrap :: "bytes \<Rightarrow> u64 \<Rightarrow> u64" where
  "le_u64_wrap data off =
     from_le_bytes (unwrap_or (get_range data (unat off) (unat (off + 8))) (replicate 8 0))"

lemma get_range_wrap:
  assumes "fits_memory data" and "unat k < 2 ^ 63" and "0 < unat k"
  shows "get_range data (unat off) (unat (off + k :: u64)) =
    get_range data (unat off) (unat off + unat k)"
proof (cases "unat off + unat k < 2 ^ 64")
  case True
  then show ?thesis by (simp add: unat_add_u64)
next
  case False
  have "unat off < 2 ^ 64" using unat_less_exp [of off] by simp
  with False assms have "unat (off + k) = unat off + unat k - 2 ^ 64"
    by (simp add: unat_word_ariths mod_if)
  moreover from False assms have "unat off + unat k - 2 ^ 64 < unat off"
    by simp
  ultimately have "get_range data (unat off) (unat (off + k)) = None"
    using \<open>unat off < 2 ^ 64\<close> by (auto simp: get_range_None_iff)
  moreover from False assms have "get_range data (unat off) (unat off + unat k) = None"
    by (simp add: get_range_None_iff fits_memory_def)
  ultimately show ?thesis by simp
qed

lemma readers_wrap:
  assumes "fits_memory data"
  shows "le_u16_wrap data off = le_u16 data (unat off)"
    and "le_u32_wrap data off = le_u32 data (unat off)"
    and "le_u64_wrap data off = le_u64 data (unat off)"
  using assms
  by (simp_all add: le_u16_wrap_def le_u16_def le_u32_wrap_def le_u32_def
      le_u64_wrap_def le_u64_def get_range_wrap)

text \<open>The auditor's copies agree with the reader's.\<close>

lemma f_readers_eq:
  assumes "fits_memory data"
  shows "f_le_u16 data off = le_u16 data off" and "f_le_u64 data off = le_u64 data off"
  unfolding f_le_u16_def f_le_u64_def le_u16_def le_u64_def get_range_sat_add [OF assms]
  by (simp_all add: get_range_def try_array_def from_le_bytes_def)

section \<open>Symbolic reading\<close>

text \<open>
  Rewriting a read of a concatenation towards the piece that holds it. With these rules the
  simplifier evaluates the parsers on images written as concatenations of fields.
\<close>

named_theorems read_simps "reads of concatenated fields"

lemma le_u16_skip [read_simps]:
  "length xs \<le> k \<Longrightarrow> le_u16 (xs @ ys) k = le_u16 ys (k - length xs)"
  using le_u16_drop [of "length xs" "xs @ ys" "k - length xs"] by simp

lemma le_u32_drop: "le_u32 (drop k xs) off = (if k \<le> length xs then le_u32 xs (k + off) else 0)"
  by (simp add: le_u32_def get_range_drop add.assoc)

lemma le_u32_skip [read_simps]:
  "length xs \<le> k \<Longrightarrow> le_u32 (xs @ ys) k = le_u32 ys (k - length xs)"
  using le_u32_drop [of "length xs" "xs @ ys" "k - length xs"] by simp

lemma le_u64_skip [read_simps]:
  "length xs \<le> k \<Longrightarrow> le_u64 (xs @ ys) k = le_u64 ys (k - length xs)"
  using le_u64_drop [of "length xs" "xs @ ys" "k - length xs"] by simp

lemma u8_at_drop: "u8_at (drop k xs) off = (if k \<le> length xs then u8_at xs (k + off) else 0)"
  by (auto simp: u8_at_def)

lemma u8_at_skip [read_simps]:
  "length xs \<le> k \<Longrightarrow> u8_at (xs @ ys) k = u8_at ys (k - length xs)"
  using u8_at_drop [of "length xs" "xs @ ys" "k - length xs"] by simp

lemma bytes_at_drop:
  "k \<le> length xs \<Longrightarrow> bytes_at (drop k xs) off n = bytes_at xs (k + off) n"
  by (simp add: bytes_at_def u8_at_drop add.assoc)

lemma bytes_at_skip [read_simps]:
  "length xs \<le> k \<Longrightarrow> bytes_at (xs @ ys) k n = bytes_at ys (k - length xs) n"
  using bytes_at_drop [of "length xs" "xs @ ys" "k - length xs"] by simp

lemma readers_Cons [read_simps]:
  "0 < k \<Longrightarrow> le_u16 (x # ys) k = le_u16 ys (k - 1)"
  "0 < k \<Longrightarrow> le_u32 (x # ys) k = le_u32 ys (k - 1)"
  "0 < k \<Longrightarrow> le_u64 (x # ys) k = le_u64 ys (k - 1)"
  "0 < k \<Longrightarrow> u8_at (x # ys) k = u8_at ys (k - 1)"
  "0 < k \<Longrightarrow> bytes_at (x # ys) k n = bytes_at ys (k - 1) n"
  "u8_at (x # ys) 0 = x"
  using le_u16_skip [of "[x]" k ys] le_u32_skip [of "[x]" k ys] le_u64_skip [of "[x]" k ys]
    u8_at_skip [of "[x]" k ys] bytes_at_skip [of "[x]" k ys n]
  by (simp_all add: u8_at_def)

lemma readers_head [read_simps]:
  "le_u16 (to_le_bytes v @ ys) 0 = v"
  "le_u32 (to_le_bytes w @ ys) 0 = w"
  "le_u64 (to_le_bytes x @ ys) 0 = x"
  "length xs = n \<Longrightarrow> bytes_at (xs @ ys) 0 n = xs"
  using le_u16_written [of "[]" v ys] le_u32_written [of "[]" w ys] le_u64_written [of "[]" x ys]
  by (simp_all add: bytes_at_in_range)

lemma readers_whole [read_simps]:
  "le_u16 (to_le_bytes v) 0 = v"
  "le_u32 (to_le_bytes w) 0 = w"
  "le_u64 (to_le_bytes x) 0 = x"
  "length xs = n \<Longrightarrow> bytes_at xs 0 n = xs"
  using readers_head(1) [of v "[]"] readers_head(2) [of w "[]"] readers_head(3) [of x "[]"]
  by (simp_all add: bytes_at_in_range)

text \<open>Slices of concatenations.\<close>

lemma get_range_skip [read_simps]:
  "length xs \<le> a \<Longrightarrow> length xs \<le> b \<Longrightarrow>
     get_range (xs @ ys) a b = get_range ys (a - length xs) (b - length xs)"
  by (auto simp: get_range_def)

lemma get_range_Cons [read_simps]:
  "0 < a \<Longrightarrow> 0 < b \<Longrightarrow> get_range (x # ys) a b = get_range ys (a - 1) (b - 1)"
  using get_range_skip [of "[x]" a b ys] by simp

lemma get_range_head [read_simps]:
  "length xs = n \<Longrightarrow> get_range (xs @ ys) 0 n = Some xs"
  "length xs = n \<Longrightarrow> get_range xs 0 n = Some xs"
  by (auto simp: get_range_def)

text \<open>Reads inside a block of zeros.\<close>

lemma readers_zeros [read_simps]:
  "le_u16 (replicate n 0) k = 0"
  "le_u32 (replicate n 0) k = 0"
  "le_u64 (replicate n 0) k = 0"
  "u8_at (replicate n 0) k = 0"
  "k + 2 \<le> n \<Longrightarrow> le_u16 (replicate n 0 @ ys) k = 0"
  "k + 4 \<le> n \<Longrightarrow> le_u32 (replicate n 0 @ ys) k = 0"
  "k + 8 \<le> n \<Longrightarrow> le_u64 (replicate n 0 @ ys) k = 0"
  "k < n \<Longrightarrow> u8_at (replicate n 0 @ ys) k = 0"
  "k + m \<le> n \<Longrightarrow> bytes_at (replicate n 0 @ ys) k m = replicate m 0"
  by (auto simp: le_u16_def le_u32_def le_u64_def u8_at_def get_range_def from_le_bytes_def
      bytes_at_in_range nth_append)

lemmas readers_in_range = le_u16_in_range le_u32_in_range le_u64_in_range bytes_at_in_range
lemmas readers_out_of_range =
  le_u16_out_of_range le_u32_out_of_range le_u64_out_of_range u8_at_out_of_range

section \<open>Property\<close>

text \<open>
  The readers compute the end of their field with an unchecked \<open>off + n\<close>, and the
  auditor carries its own copies with a saturating end. On a buffer that fits in memory all
  three agree at every 64-bit offset: the wrap-around never turns an out-of-range read into a
  read of the wrong bytes, and a field that does not lie inside the buffer reads as zero.
\<close>

theorem readers_agree:
  assumes "fits_memory data"
  shows "le_u16_wrap data off = le_u16 data (unat off) \<and>
    le_u32_wrap data off = le_u32 data (unat off) \<and>
    le_u64_wrap data off = le_u64 data (unat off) \<and>
    f_le_u16 data (unat off) = le_u16 data (unat off) \<and>
    f_le_u64 data (unat off) = le_u64 data (unat off) \<and>
    le_u16_wrap data off = (if unat off + 2 \<le> length data
      then from_le_bytes (take 2 (drop (unat off) data)) else 0) \<and>
    le_u32_wrap data off = (if unat off + 4 \<le> length data
      then from_le_bytes (take 4 (drop (unat off) data)) else 0) \<and>
    le_u64_wrap data off = (if unat off + 8 \<le> length data
      then from_le_bytes (take 8 (drop (unat off) data)) else 0)"
  using assms
  by (simp add: readers_wrap f_readers_eq le_u16_out_of_range le_u64_out_of_range
      le_u32_out_of_range le_u16_in_range le_u32_in_range le_u64_in_range)

theorem readers_agree_witness:
  "le_u16_wrap [1, 2, 3] 1 = 0x302 \<and> le_u16_wrap [1, 2, 3] (- 2) = 0 \<and>
   le_u64_wrap [1, 2, 3] (- 4) = 0 \<and> f_le_u16 [1, 2, 3] 0 = 0x201"
proof -
  have fits: "fits_memory [1, 2, 3 :: u8]" by (simp add: fits_memory_def)
  show ?thesis
    using readers_agree [OF fits, of 1] readers_agree [OF fits, of "- 2"]
      readers_agree [OF fits, of "- 4"] readers_agree [OF fits, of 0]
    by (simp add: from_le_bytes_def le_u16_in_range le_u16_out_of_range le_u64_out_of_range)
qed

end
