(* ===== verification/Crc.thy ===== *)
theory Crc
  imports Bytes
begin

text \<open>
  \<open>core/src/crc.rs\<close>: the checksum-type code and the non-fatal crc32c verification of a
  metadata block. The CRC itself is the \<open>crc\<close> crate's \<open>CRC_32_ISCSI\<close>, which the model takes
  as the parameter \<open>crc\<close>; what the verification relies on is the law of the locale
  \<open>checksum\<close>, that the digest tells apart two messages that differ in at most four
  consecutive bytes. The locale is interpreted on the bitwise CRC32c the repository's own
  tests compute their fixtures with.
\<close>

definition BTRFS_CSUM_SIZE :: nat where
  "BTRFS_CSUM_SIZE = 32"

datatype csum_type = Crc32c | Xxhash64 | Sha256 | Blake2 | UnknownCsum u16

definition csum_from_code :: "u16 \<Rightarrow> csum_type" where
  "csum_from_code code =
     (if code = 0 then Crc32c
      else if code = 1 then Xxhash64
      else if code = 2 then Sha256
      else if code = 3 then Blake2
      else UnknownCsum code)"

definition verify_superblock_crc32c :: "(bytes \<Rightarrow> u32) \<Rightarrow> bytes \<Rightarrow> nat \<Rightarrow> bool" where
  "verify_superblock_crc32c crc block covered_len =
     (case get_range block 0 4 of
        None \<Rightarrow> False
      | Some stored \<Rightarrow>
          if covered_len \<le> BTRFS_CSUM_SIZE then False
          else (case get_range block BTRFS_CSUM_SIZE covered_len of
                  None \<Rightarrow> False
                | Some covered \<Rightarrow> to_le_bytes (crc covered) = stored))"

definition superblock_crc_status ::
  "(bytes \<Rightarrow> u32) \<Rightarrow> csum_type \<Rightarrow> bytes \<Rightarrow> nat \<Rightarrow> bool option" where
  "superblock_crc_status crc csum_type block covered_len =
     (case csum_type of
        Crc32c \<Rightarrow> Some (verify_superblock_crc32c crc block covered_len)
      | _ \<Rightarrow> None)"

lemma verify_iff:
  "verify_superblock_crc32c crc block n \<longleftrightarrow>
     32 < n \<and> n \<le> length block \<and> to_le_bytes (crc (take (n - 32) (drop 32 block))) = take 4 block"
  by (auto simp: verify_superblock_crc32c_def BTRFS_CSUM_SIZE_def get_range_def)

lemma crc_status_None_iff: "superblock_crc_status crc t block n = None \<longleftrightarrow> t \<noteq> Crc32c"
  by (cases t) (simp_all add: superblock_crc_status_def)

lemma crc_status_Crc32c [simp]:
  "superblock_crc_status crc Crc32c block n = Some (verify_superblock_crc32c crc block n)"
  by (simp add: superblock_crc_status_def)

lemma csum_from_code_inj: "csum_from_code a = csum_from_code b \<Longrightarrow> a = b"
  by (auto simp: csum_from_code_def split: if_splits)

text \<open>Sealing a block: the digest of the covered range stored in the first four bytes.\<close>

definition seal :: "(bytes \<Rightarrow> u32) \<Rightarrow> bytes \<Rightarrow> bytes" where
  "seal crc block = overwrite block 0 (to_le_bytes (crc (drop 32 block)))"

lemma length_seal [simp]: "4 \<le> length block \<Longrightarrow> length (seal crc block) = length block"
  by (simp add: seal_def)

lemma drop_seal: "4 \<le> n \<Longrightarrow> 4 \<le> length block \<Longrightarrow> drop n (seal crc block) = drop n block"
  by (simp add: seal_def drop_overwrite_after)

lemma verify_seal: "32 < length block \<Longrightarrow> verify_superblock_crc32c crc (seal crc block) (length block)"
  by (simp add: verify_iff drop_seal) (simp add: seal_def overwrite_def)

section \<open>What the verification needs of the CRC\<close>

locale checksum =
  fixes crc :: "bytes \<Rightarrow> u32"
  assumes burst_detected:
    "length e = length e' \<Longrightarrow> length e \<le> 4 \<Longrightarrow> crc (p @ e @ s) = crc (p @ e' @ s) \<Longrightarrow> e = e'"
begin

lemma covered_edit_detected:
  assumes ok: "verify_superblock_crc32c crc block n"
    and pos: "32 \<le> off" "off + length e \<le> n" and small: "length e \<le> 4"
    and ok': "verify_superblock_crc32c crc (overwrite block off e) n"
  shows "overwrite block off e = block"
proof -
  have n: "32 < n" "n \<le> length block"
    using ok by (auto simp: verify_iff)
  from pos(1,2) n(2) obtain A P M S Z where block: "block = A @ P @ M @ S @ Z"
    and len: "length A = 32" "length P = off - 32" "length M = length e"
      "length S = n - (off + length e)"
    by (rule split_window)
  have edit: "overwrite block off e = A @ P @ e @ S @ Z"
    using len pos overwrite_middle [of "A @ P" off M e "S @ Z"] by (simp add: block)
  have "get_range block 32 n = Some (P @ M @ S)"
    using len pos get_range_middle [of A 32 n "P @ M @ S" Z] by (simp add: block)
  moreover have "get_range (overwrite block off e) 32 n = Some (P @ e @ S)"
    using len pos get_range_middle [of A 32 n "P @ e @ S" Z] by (simp add: edit)
  moreover have "get_range (overwrite block off e) 0 4 = get_range block 0 4"
    unfolding edit using len by (simp add: block get_range_def)
  ultimately have "to_le_bytes (crc (P @ e @ S)) = to_le_bytes (crc (P @ M @ S))"
    using ok ok'
    by (auto simp: verify_superblock_crc32c_def BTRFS_CSUM_SIZE_def split: option.splits if_splits)
  then have "(from_le_bytes (to_le_bytes (crc (P @ e @ S))) :: u32) =
      from_le_bytes (to_le_bytes (crc (P @ M @ S)))"
    by simp
  then have "crc (P @ e @ S) = crc (P @ M @ S)"
    by (simp add: from_to_le_bytes)
  then have "e = M"
    using len small by (intro burst_detected) auto
  then show ?thesis
    unfolding edit by (simp add: block)
qed

lemma edit_detected:
  assumes "verify_superblock_crc32c crc block n"
    and "off + length e \<le> 4 \<or> 32 \<le> off \<and> off + length e \<le> n \<and> length e \<le> 4"
    and "overwrite block off e \<noteq> block"
  shows "\<not> verify_superblock_crc32c crc (overwrite block off e) n"
proof
  assume ok': "verify_superblock_crc32c crc (overwrite block off e) n"
  from assms(1) have n: "32 < n" "n \<le> length block"
    by (auto simp: verify_iff)
  show False
  proof (cases "32 \<le> off \<and> off + length e \<le> n \<and> length e \<le> 4")
    case True
    with covered_edit_detected [OF assms(1) _ _ _ ok'] assms(3) show False by blast
  next
    case False
    with assms(2) have stored: "off + length e \<le> 4" by blast
    then have after: "drop k (overwrite block off e) = drop k block" if "4 \<le> k" for k
      using that n by (intro drop_overwrite_after) auto
    with assms(1) ok' have "take 4 (overwrite block off e) = take 4 block"
      by (simp add: verify_iff)
    with after [of 4] have "overwrite block off e = block"
      by (metis append_take_drop_id order_refl)
    with assms(3) show False by blast
  qed
qed

end

section \<open>The reference CRC32c\<close>

text \<open>
  The CRC32c the repository's tests seal their fixtures with (\<open>crc32c\<close> in the test module of
  \<open>core/src/vfs.rs\<close>): reflected, polynomial 82F63B78, initial value and final complement FFFFFFFF.
\<close>

definition crc_bit :: "u32 \<Rightarrow> u32" where
  "crc_bit c = (if c AND 1 = 1 then drop_bit 1 c XOR 0x82F63B78 else drop_bit 1 c)"

definition crc_byte :: "u32 \<Rightarrow> u8 \<Rightarrow> u32" where
  "crc_byte c b = (crc_bit ^^ 8) (c XOR ucast b)"

definition crc32c_ref :: "bytes \<Rightarrow> u32" where
  "crc32c_ref buf = foldl crc_byte 0xFFFFFFFF buf XOR 0xFFFFFFFF"

lemma crc_bit_alt: "crc_bit c = drop_bit 1 c XOR (if bit c 0 then 0x82F63B78 else 0)"
  by (simp add: crc_bit_def and_one_eq bit_0 odd_iff_mod_2_eq_one)

lemma crc_bit_xor: "crc_bit (x XOR y) = crc_bit x XOR crc_bit y"
  by (simp add: crc_bit_alt bit_xor_iff drop_bit_xor xor.assoc xor.left_commute)

lemma crc_bit_pow_xor: "(crc_bit ^^ n) (x XOR y) = (crc_bit ^^ n) x XOR (crc_bit ^^ n) y"
  by (induction n) (simp_all add: crc_bit_xor)

lemma crc_bit_eq_0: "crc_bit x = 0 \<Longrightarrow> x = 0"
proof -
  assume eq: "crc_bit x = 0"
  have top: "\<not> bit (drop_bit 1 x) 31"
    using bit_imp_le_length [of x 32] by (auto simp: bit_drop_bit_eq)
  have "\<not> bit x 0"
  proof
    assume "bit x 0"
    then have "bit (crc_bit x) 31"
      using top by (simp add: crc_bit_alt bit_xor_iff)
    with eq show False by simp
  qed
  moreover from this eq have "drop_bit 1 x = 0"
    by (simp add: crc_bit_alt)
  then have "bit (drop_bit 1 x) n = bit (0 :: u32) n" for n
    by simp
  then have "\<not> bit x (Suc n)" for n
    by (simp add: bit_drop_bit_eq)
  ultimately have "\<not> bit x n" for n
    by (cases n) auto
  then show "x = 0"
    by (intro bit_eqI) simp
qed

lemma crc_bit_inj: "crc_bit x = crc_bit y \<Longrightarrow> x = y"
proof -
  assume "crc_bit x = crc_bit y"
  then have "crc_bit (x XOR y) = 0" by (simp add: crc_bit_xor)
  then have "x XOR y = 0" by (rule crc_bit_eq_0)
  then show "x = y"
    by (metis xor.left_neutral xor.right_neutral xor_self_eq xor.assoc)
qed

lemma crc_bit_pow_inj: "(crc_bit ^^ n) x = (crc_bit ^^ n) y \<Longrightarrow> x = y"
  by (induction n) (auto dest: crc_bit_inj)

lemma drop_push_bit:
  assumes "\<And>i. 32 - m \<le> i \<Longrightarrow> \<not> bit y i"
  shows "drop_bit m (push_bit m y) = (y :: u32)"
proof (rule bit_eqI)
  fix i
  show "bit (drop_bit m (push_bit m y)) i = bit y i"
    using assms [of i] by (cases "32 - m \<le> i") (auto simp: bit_drop_bit_eq bit_push_bit_iff)
qed

lemma crc_bit_pow_push:
  "(\<And>i. 32 - n \<le> i \<Longrightarrow> \<not> bit x i) \<Longrightarrow> n \<le> 32 \<Longrightarrow> (crc_bit ^^ n) (push_bit n x) = (x :: u32)"
proof (induction n)
  case (Suc n)
  let ?y = "push_bit n x"
  have "crc_bit (push_bit (Suc n) x) = drop_bit 1 (push_bit 1 ?y)"
  proof -
    have "\<not> bit (push_bit (Suc n) x) 0"
      by (simp only: bit_push_bit_iff) simp
    then have "crc_bit (push_bit (Suc n) x) = drop_bit 1 (push_bit (Suc n) x)"
      by (simp only: crc_bit_alt if_False xor.right_neutral)
    then show ?thesis
      by (simp only: push_bit_push_bit) simp
  qed
  also have "\<dots> = ?y"
  proof (rule drop_push_bit)
    fix i :: nat assume "32 - 1 \<le> i"
    then show "\<not> bit ?y i"
      using Suc.prems(1) [of "i - n"] Suc.prems(2) by (auto simp: bit_push_bit_iff)
  qed
  finally have "(crc_bit ^^ Suc n) (push_bit (Suc n) x) = (crc_bit ^^ n) ?y"
    by (simp add: funpow_Suc_right del: funpow.simps)
  also have "\<dots> = x"
    using Suc.prems by (intro Suc.IH) auto
  finally show ?case .
qed simp

text \<open>Up to four bytes as one little-endian word, combined by exclusive or.\<close>

fun word_of_burst :: "bytes \<Rightarrow> u32" where
  "word_of_burst [] = 0"
| "word_of_burst (b # bs) = ucast b XOR push_bit 8 (word_of_burst bs)"

lemma bit_word_of_burst: "8 * length bs \<le> i \<Longrightarrow> \<not> bit (word_of_burst bs) i"
proof (induction bs arbitrary: i)
  case (Cons b bs)
  then show ?case
    using bit_imp_le_length [of b i] by (auto simp: bit_simps)
qed simp

lemma foldl_crc_byte_burst:
  "length bs \<le> 4 \<Longrightarrow> foldl crc_byte c bs = (crc_bit ^^ (8 * length bs)) (c XOR word_of_burst bs)"
proof (induction bs arbitrary: c)
  case (Cons b bs)
  let ?w = "word_of_burst bs"
  have "(crc_bit ^^ 8) (push_bit 8 ?w) = ?w"
    using Cons.prems by (intro crc_bit_pow_push bit_word_of_burst) auto
  then have "(crc_bit ^^ 8) (c XOR ucast b) XOR ?w = (crc_bit ^^ 8) (c XOR word_of_burst (b # bs))"
    by (simp add: crc_bit_pow_xor xor.assoc)
  moreover have "foldl crc_byte c (b # bs) =
      (crc_bit ^^ (8 * length bs)) ((crc_bit ^^ 8) (c XOR ucast b) XOR ?w)"
    using Cons.IH [of "crc_byte c b"] Cons.prems by (simp only: foldl_Cons length_Cons) (simp add: crc_byte_def)
  ultimately show ?case
    by (simp only: length_Cons mult_Suc_right funpow_add comp_apply add.commute [of 8])
qed simp

lemma word_of_burst_inj:
  "length xs = length ys \<Longrightarrow> length xs \<le> 4 \<Longrightarrow> word_of_burst xs = word_of_burst ys \<Longrightarrow> xs = ys"
proof (induction xs ys rule: list_induct2)
  case (Cons x xs y ys)
  let ?v = "word_of_burst xs" and ?w = "word_of_burst ys"
  have eq: "bit (word_of_burst (x # xs)) i = bit (word_of_burst (y # ys)) i" for i
    using Cons.prems by simp
  have "x = y"
  proof (rule bit_eqI)
    fix i assume "possible_bit TYPE(u8) i"
    then show "bit x i = bit y i"
      using eq [of i] by (simp add: bit_simps)
  qed
  moreover have "?v = ?w"
  proof (rule bit_eqI)
    fix i
    show "bit ?v i = bit ?w i"
      using eq [of "i + 8"] bit_word_of_burst [of xs i] bit_word_of_burst [of ys i]
        Cons.hyps Cons.prems bit_imp_le_length [of x "i + 8"] bit_imp_le_length [of y "i + 8"]
      by (cases "i < 24") (auto simp: bit_simps)
  qed
  ultimately show ?case
    using Cons by simp
qed simp

lemma foldl_crc_byte_inj: "foldl crc_byte c s = foldl crc_byte d s \<Longrightarrow> c = d"
proof (induction s arbitrary: c d)
  case (Cons b s)
  then have "(crc_bit ^^ 8) (c XOR ucast b) = (crc_bit ^^ 8) (d XOR ucast b)"
    by (auto simp: crc_byte_def)
  then have "c XOR ucast b = d XOR ucast b"
    by (rule crc_bit_pow_inj)
  then have "(c XOR ucast b) XOR ucast b = (d XOR ucast b) XOR ucast b"
    by simp
  then show ?case by (simp add: xor.assoc)
qed simp

interpretation ref: checksum crc32c_ref
proof
  fix e e' p s :: bytes
  assume len: "length e = length e'" "length e \<le> 4"
    and eq: "crc32c_ref (p @ e @ s) = crc32c_ref (p @ e' @ s)"
  let ?c = "foldl crc_byte 0xFFFFFFFF p"
  have "(foldl crc_byte (foldl crc_byte ?c e) s XOR 0xFFFFFFFF) XOR 0xFFFFFFFF =
      (foldl crc_byte (foldl crc_byte ?c e') s XOR 0xFFFFFFFF) XOR 0xFFFFFFFF"
    using eq by (simp only: crc32c_ref_def foldl_append)
  then have "foldl crc_byte (foldl crc_byte ?c e) s = foldl crc_byte (foldl crc_byte ?c e') s"
    by (simp only: xor.assoc xor_self_eq xor.right_neutral)
  then have "foldl crc_byte ?c e = foldl crc_byte ?c e'"
    by (rule foldl_crc_byte_inj)
  then have "?c XOR word_of_burst e = ?c XOR word_of_burst e'"
    using len by (simp only: foldl_crc_byte_burst) (rule crc_bit_pow_inj)
  then have "?c XOR (?c XOR word_of_burst e) = ?c XOR (?c XOR word_of_burst e')"
    by simp
  then have "word_of_burst e = word_of_burst e'"
    by (simp flip: xor.assoc)
  with len show "e = e'"
    by (rule word_of_burst_inj)
qed

lemma crc_byte_unroll:
  "crc_byte c b =
     crc_bit (crc_bit (crc_bit (crc_bit (crc_bit (crc_bit (crc_bit (crc_bit (c XOR ucast b))))))))"
  by (simp add: crc_byte_def numeral_eq_Suc)

text \<open>The check value of \<open>CRC_32_ISCSI\<close>: the digest of \<open>123456789\<close> is E3069283.\<close>

lemma crc32c_ref_check: "crc32c_ref (str ''123456789'') = 0xE3069283"
  by (simp add: crc32c_ref_def crc_byte_unroll crc_bit_def str_def)

section \<open>Property\<close>

text \<open>
  A block whose CRC32c verifies stops verifying when an edit of at most four
  consecutive bytes, inside the stored digest or inside the covered range, changes it; and no
  other checksum type is ever reported as verified or as failed. The hypothesis on \<open>crc\<close> is
  that it detects every burst of up to 32 bits, as CRC32c does.
\<close>

theorem crc_status_detects_edit:
  assumes "checksum crc"
    and "superblock_crc_status crc t block n = Some True"
    and "off + length e \<le> 4 \<or> 32 \<le> off \<and> off + length e \<le> n \<and> length e \<le> 4"
    and "overwrite block off e \<noteq> block"
  shows "t = Crc32c \<and> superblock_crc_status crc t (overwrite block off e) n = Some False"
proof -
  have t: "t = Crc32c"
    using assms(2) crc_status_None_iff [of crc t block n] by auto
  then have "verify_superblock_crc32c crc block n"
    using assms(2) by simp
  from checksum.edit_detected [OF assms(1) this assms(3,4)] t show ?thesis
    by simp
qed

theorem crc_status_detects_edit_witness:
  "superblock_crc_status crc32c_ref Crc32c
     (overwrite (seal crc32c_ref (replicate 40 0)) 36 [1, 2]) 40 = Some False"
proof -
  let ?b = "seal crc32c_ref (replicate 40 0)"
  have "verify_superblock_crc32c crc32c_ref ?b 40"
    using verify_seal [of "replicate 40 0" crc32c_ref] by simp
  moreover have "overwrite ?b 36 [1, 2] ! 36 \<noteq> ?b ! 36"
    by (simp add: seal_def overwrite_def nth_append)
  then have "overwrite ?b 36 [1, 2] \<noteq> ?b" by auto
  ultimately show ?thesis
    using crc_status_detects_edit [OF ref.checksum_axioms, of Crc32c ?b 40 36 "[1, 2]"] by simp
qed

end
