(* ===== verification/Errors.thy ===== *)
theory Errors
  imports Bytes
begin

text \<open>
  \<open>core/src/error.rs\<close>: the error type every parser returns, and the message its \<open>Display\<close>
  instance renders. A \<open>Result<T, BtrfsError>\<close> is a value of \<^typ>\<open>'e + 'a\<close> with the error on
  the left.
\<close>

datatype btrfs_error =
    Truncated string nat nat          \<comment> \<open>\<open>structure\<close>, \<open>need\<close>, \<open>have\<close>\<close>
  | BadMagic bytes                    \<comment> \<open>the eight bytes found\<close>
  | AllocationBomb string u64 u64     \<comment> \<open>\<open>field\<close>, \<open>claimed\<close>, \<open>bound\<close>\<close>

text \<open>\<open>{bytes:02x?}\<close>: the debug rendering of a byte array with two-digit lower-case elements.\<close>

fun join :: "rstring \<Rightarrow> rstring list \<Rightarrow> rstring" where
  "join sep [] = []"
| "join sep [x] = x"
| "join sep (x # y # zs) = x @ sep @ join sep (y # zs)"

definition debug_hex :: "bytes \<Rightarrow> rstring" where
  "debug_hex bs = str ''['' @ join (str '', '') (map hex_u8 bs) @ str '']''"

fun display :: "btrfs_error \<Rightarrow> rstring" where
  "display (Truncated structure need have_len) =
     str ''buffer too small for '' @ str structure @ str '': need '' @ dec_nat need
     @ str '' bytes, have '' @ dec_nat have_len"
| "display (BadMagic bs) =
     str ''bad btrfs magic: found bytes '' @ debug_hex bs
     @ str '' at superblock offset 0x40, expected 5f42485266535f4d (\"_BHRfS_M\")''"
| "display (AllocationBomb field claimed bound) =
     str ''allocation bomb: '' @ str field @ str '' claims '' @ dec_u64 claimed
     @ str '' bytes, exceeding the '' @ dec_u64 bound @ str ''-byte bound''"

text \<open>The question-mark operator: an error ends the function, a value goes on.\<close>

definition try_res :: "'e + 'a \<Rightarrow> ('a \<Rightarrow> 'e + 'b) \<Rightarrow> 'e + 'b" where
  "try_res r f = (case r of Inl e \<Rightarrow> Inl e | Inr x \<Rightarrow> f x)"

text \<open>\<open>o.ok_or(e)\<close>.\<close>

definition ok_or :: "'a option \<Rightarrow> 'e \<Rightarrow> 'e + 'a" where
  "ok_or x e = (case x of None \<Rightarrow> Inl e | Some y \<Rightarrow> Inr y)"

definition is_ok :: "'e + 'a \<Rightarrow> bool" where
  "is_ok r = (case r of Inl _ \<Rightarrow> False | Inr _ \<Rightarrow> True)"

lemma try_res_simps [simp]:
  "try_res (Inl e) f = Inl e"
  "try_res (Inr x) f = f x"
  by (simp_all add: try_res_def)

lemma try_res_Inr_iff: "try_res r f = Inr y \<longleftrightarrow> (\<exists>x. r = Inr x \<and> f x = Inr y)"
  by (cases r) auto

lemma try_res_Inl_iff:
  "try_res r f = Inl e \<longleftrightarrow> r = Inl e \<or> (\<exists>x. r = Inr x \<and> f x = Inl e)"
  by (cases r) auto

lemma ok_or_simps [simp]:
  "ok_or None e = Inl e"
  "ok_or (Some y) e = Inr y"
  by (simp_all add: ok_or_def)

lemma ok_or_Inr_iff [simp]: "ok_or x e = Inr y \<longleftrightarrow> x = Some y"
  by (cases x) auto

lemma ok_or_Inl_iff [simp]: "ok_or x e = Inl e' \<longleftrightarrow> x = None \<and> e' = e"
  by (cases x) auto

lemma is_ok_simps [simp]: "is_ok (Inr x)" "\<not> is_ok (Inl e)"
  by (simp_all add: is_ok_def)

lemma is_ok_iff: "is_ok r \<longleftrightarrow> (\<exists>x. r = Inr x)"
  by (cases r) auto

lemmas result_simps = try_res_Inr_iff try_res_Inl_iff is_ok_iff

end
