(* ===== verification/Chunk.thy ===== *)
theory Chunk
  imports Crc Errors "HOL-Library.Product_Lexorder"
begin

text \<open>
  \<open>core/src/chunk.rs\<close>: disk keys, stripes, and the \<open>sys_chunk_array\<close> of the superblock, which
  bootstraps the logical-to-physical map. The locale \<open>linear_map\<close> is the contract of an
  address translation on one chunk (base plus displacement inside the span); it is
  interpreted on \<open>SysChunk::logical_to_physical\<close> here, and on the entries of the full chunk
  map in theory ChunkMap.
\<close>

section \<open>Constants\<close>

definition SYS_CHUNK_ARRAY_OFFSET :: nat where "SYS_CHUNK_ARRAY_OFFSET = 0x32b"
definition DISK_KEY_SIZE :: nat where "DISK_KEY_SIZE = 17"
definition CHUNK_HEADER_SIZE :: nat where "CHUNK_HEADER_SIZE = 48"
definition STRIPE_SIZE :: nat where "STRIPE_SIZE = 32"
definition CHUNK_ITEM_KEY :: u8 where "CHUNK_ITEM_KEY = 228"

lemmas chunk_consts = SYS_CHUNK_ARRAY_OFFSET_def DISK_KEY_SIZE_def CHUNK_HEADER_SIZE_def
  STRIPE_SIZE_def CHUNK_ITEM_KEY_def

section \<open>Disk keys\<close>

record disk_key =
  k_objectid :: u64
  k_type :: u8
  k_offset :: u64

definition disk_key_parse :: "bytes \<Rightarrow> nat \<Rightarrow> disk_key" where
  "disk_key_parse data off =
     \<lparr> k_objectid = le_u64 data off,
       k_type = u8_at data (off + 8),
       k_offset = le_u64 data (off + 9) \<rparr>"

text \<open>
  The order every btrfs tree keeps its items in (ADR 0006): the tuple of object id, type and
  offset, compared as integers.
\<close>

instantiation disk_key_ext :: (linorder) linorder
begin

definition less_eq_disk_key_ext :: "'a disk_key_ext \<Rightarrow> 'a disk_key_ext \<Rightarrow> bool" where
  "less_eq_disk_key_ext a b \<longleftrightarrow>
     (k_objectid a, k_type a, k_offset a, disk_key.more a)
     \<le> (k_objectid b, k_type b, k_offset b, disk_key.more b)"

definition less_disk_key_ext :: "'a disk_key_ext \<Rightarrow> 'a disk_key_ext \<Rightarrow> bool" where
  "less_disk_key_ext a b \<longleftrightarrow>
     (k_objectid a, k_type a, k_offset a, disk_key.more a)
     < (k_objectid b, k_type b, k_offset b, disk_key.more b)"

instance
  by standard (auto simp: less_eq_disk_key_ext_def less_disk_key_ext_def)

end

lemma disk_key_less_iff:
  "(a :: disk_key) < b \<longleftrightarrow>
     k_objectid a < k_objectid b \<or> k_objectid a = k_objectid b \<and>
       (k_type a < k_type b \<or> k_type a = k_type b \<and> k_offset a < k_offset b)"
  by (auto simp: less_disk_key_ext_def)

definition encode_disk_key :: "disk_key \<Rightarrow> bytes" where
  "encode_disk_key k = to_le_bytes (k_objectid k) @ [k_type k] @ to_le_bytes (k_offset k)"

lemma length_encode_disk_key [simp]: "length (encode_disk_key k) = 17"
  by (simp add: encode_disk_key_def)

lemma disk_key_parse_encode [read_simps]: "disk_key_parse (encode_disk_key k @ ys) 0 = k"
  by (simp add: disk_key_parse_def encode_disk_key_def read_simps)

lemma disk_key_parse_drop:
  "k \<le> length xs \<Longrightarrow> disk_key_parse (drop k xs) off = disk_key_parse xs (k + off)"
  by (simp add: disk_key_parse_def le_u64_drop u8_at_drop add.assoc)

lemma disk_key_parse_skip [read_simps]:
  "length xs \<le> k \<Longrightarrow> disk_key_parse (xs @ ys) k = disk_key_parse ys (k - length xs)"
  using disk_key_parse_drop [of "length xs" "xs @ ys" "k - length xs"] by simp

section \<open>Stripes\<close>

record stripe =
  s_devid :: u64
  s_offset :: u64
  s_uuid :: bytes

definition stripe_at :: "bytes \<Rightarrow> nat \<Rightarrow> stripe" where
  "stripe_at data s =
     \<lparr> s_devid = le_u64 data s,
       s_offset = le_u64 data (s + 8),
       s_uuid = bytes_at data (s + 16) 16 \<rparr>"

definition encode_stripe :: "stripe \<Rightarrow> bytes" where
  "encode_stripe s = to_le_bytes (s_devid s) @ to_le_bytes (s_offset s) @ s_uuid s"

definition wf_stripe :: "stripe \<Rightarrow> bool" where
  "wf_stripe s \<longleftrightarrow> length (s_uuid s) = 16"

lemma length_encode_stripe [simp]: "wf_stripe s \<Longrightarrow> length (encode_stripe s) = 32"
  by (simp add: encode_stripe_def wf_stripe_def)

lemma wf_stripe_at [simp]: "wf_stripe (stripe_at data s)"
  by (simp add: wf_stripe_def stripe_at_def)

lemma stripe_at_drop: "k \<le> length xs \<Longrightarrow> stripe_at (drop k xs) off = stripe_at xs (k + off)"
  by (simp add: stripe_at_def le_u64_drop bytes_at_drop add.assoc)

lemma stripe_at_skip [read_simps]:
  "length xs \<le> k \<Longrightarrow> stripe_at (xs @ ys) k = stripe_at ys (k - length xs)"
  using stripe_at_drop [of "length xs" "xs @ ys" "k - length xs"] by simp

lemma stripe_at_encode [read_simps]: "wf_stripe s \<Longrightarrow> stripe_at (encode_stripe s @ ys) 0 = s"
  by (simp add: stripe_at_def encode_stripe_def wf_stripe_def read_simps)

text \<open>The stripe loop of \<open>parse_array\<close>: \<open>n\<close> stripes from offset \<open>s\<close>.\<close>

fun parse_stripes :: "bytes \<Rightarrow> nat \<Rightarrow> nat \<Rightarrow> stripe list" where
  "parse_stripes block s 0 = []"
| "parse_stripes block s (Suc n) =
     stripe_at block s # parse_stripes block (sat_add s STRIPE_SIZE) n"

lemma length_parse_stripes [simp]: "length (parse_stripes block s n) = n"
  by (induction block s n rule: parse_stripes.induct) simp_all

lemma wf_parse_stripes: "st \<in> set (parse_stripes block s n) \<Longrightarrow> wf_stripe st"
  by (induction block s n rule: parse_stripes.induct) auto

lemma parse_stripes_encode:
  assumes "length xs = s" and "\<forall>st\<in>set sts. wf_stripe st"
    and "s + 32 * length sts \<le> usize_max"
  shows "parse_stripes (xs @ concat (map encode_stripe sts) @ ys) s (length sts) = sts"
  using assms
proof (induction sts arbitrary: xs s)
  case (Cons st sts)
  have "sat_add s STRIPE_SIZE = s + 32"
    using Cons.prems by (simp add: sat_add_def STRIPE_SIZE_def)
  moreover have "parse_stripes ((xs @ encode_stripe st) @ concat (map encode_stripe sts) @ ys)
      (s + 32) (length sts) = sts"
    using Cons.prems by (intro Cons.IH) auto
  ultimately show ?case
    using Cons.prems by (simp add: read_simps)
qed simp

section \<open>The bootstrap chunk array\<close>

record sys_chunk =
  sc_key :: disk_key
  sc_length :: u64
  sc_owner :: u64
  sc_stripe_len :: u64
  sc_type :: u64
  sc_num_stripes :: u16
  sc_sub_stripes :: u16
  sc_stripes :: "stripe list"

definition sys_chunk_l2p :: "sys_chunk \<Rightarrow> u64 \<Rightarrow> u64 option" where
  "sys_chunk_l2p c logical =
     (let start = k_offset (sc_key c) in
      case u64_checked_add start (sc_length c) of
        None \<Rightarrow> None
      | Some lim \<Rightarrow>
          if logical < start \<or> lim \<le> logical then None
          else (case sc_stripes c of
                  [] \<Rightarrow> None
                | stripe # _ \<Rightarrow> u64_checked_add (s_offset stripe) (logical - start)))"

text \<open>
  One turn of the loop of \<open>parse_array\<close>: the entry at \<open>p\<close> and the position after it, or
  \<open>None\<close> for either \<open>break\<close>.
\<close>

definition sys_chunk_entry :: "bytes \<Rightarrow> nat \<Rightarrow> nat \<Rightarrow> (sys_chunk \<times> nat) option" where
  "sys_chunk_entry block lim p =
     (let key_end = sat_add p DISK_KEY_SIZE;
          hdr_end = sat_add key_end CHUNK_HEADER_SIZE in
      if lim < hdr_end then None
      else
        let key = disk_key_parse block p;
            c = key_end;
            num_stripes = le_u16 block (c + 44);
            stripes_start = sat_add c CHUNK_HEADER_SIZE;
            stripes_bytes = sat_mul (unat num_stripes) STRIPE_SIZE;
            stripes_end = sat_add stripes_start stripes_bytes in
        if lim < stripes_end then None
        else Some
          (\<lparr> sc_key = key,
             sc_length = le_u64 block c,
             sc_owner = le_u64 block (c + 8),
             sc_stripe_len = le_u64 block (c + 16),
             sc_type = le_u64 block (c + 24),
             sc_num_stripes = num_stripes,
             sc_sub_stripes = le_u16 block (c + 46),
             sc_stripes = parse_stripes block stripes_start (unat num_stripes) \<rparr>,
           stripes_end))"

text \<open>
  The loop goes on at the position after the entry. The position always grows (lemma
  \<open>sys_chunk_entry_progress\<close>: the additions cannot saturate inside a buffer that fits in
  memory); the test \<open>p < p'\<close> makes that visible to the termination proof.
\<close>

function parse_array_from :: "bytes \<Rightarrow> nat \<Rightarrow> nat \<Rightarrow> sys_chunk list" where
  "parse_array_from block lim p =
     (case sys_chunk_entry block lim p of
        None \<Rightarrow> []
      | Some (chunk, p') \<Rightarrow>
          chunk # (if p < p' \<and> p' \<le> lim then parse_array_from block lim p' else []))"
  by pat_completeness auto
termination
  by (relation "measure (\<lambda>(block, lim, p). Suc lim - p)") auto

declare parse_array_from.simps [simp del]

definition parse_array :: "bytes \<Rightarrow> nat \<Rightarrow> u32 \<Rightarrow> sys_chunk list" where
  "parse_array block array_off array_size =
     (let declared_end = sat_add array_off (unat array_size);
          lim = min declared_end (length block) in
      parse_array_from block lim array_off)"

section \<open>Address translation on one chunk\<close>

text \<open>
  The contract: a chunk has a logical start, a length and, if it has a stripe, a physical base;
  it translates exactly the addresses of its span, by displacement, and only when neither the
  end of the span nor the physical address leaves 64 bits.
\<close>

locale linear_map =
  fixes translate :: "'c \<Rightarrow> u64 \<Rightarrow> u64 option"
    and lstart :: "'c \<Rightarrow> u64" and llen :: "'c \<Rightarrow> u64" and pbase :: "'c \<Rightarrow> u64 option"
  assumes translate_iff:
    "translate c l = Some p \<longleftrightarrow>
       (\<exists>b. pbase c = Some b \<and> unat (lstart c) + unat (llen c) < 2 ^ 64 \<and>
          unat (lstart c) \<le> unat l \<and> unat l < unat (lstart c) + unat (llen c) \<and>
          unat p = unat b + (unat l - unat (lstart c)))"
begin

lemma translate_inj: "translate c l = Some p \<Longrightarrow> translate c l' = Some p \<Longrightarrow> l = l'"
  by (auto simp: translate_iff word_unat_eq_iff)

lemma translate_shift:
  assumes "translate c l = Some p" and "unat l + d < unat (lstart c) + unat (llen c)"
    and "unat p + d < 2 ^ 64"
  shows "translate c (l + of_nat d) = Some (p + of_nat d)"
proof -
  from assms(1,2) have "unat l + d < 2 ^ 64"
    by (auto simp: translate_iff)
  then have "unat (l + of_nat d) = unat l + d"
    by (simp add: unat_word_ariths unat_of_nat)
  moreover from assms(3) have "unat (p + of_nat d) = unat p + d"
    by (simp add: unat_word_ariths unat_of_nat)
  ultimately show ?thesis
    using assms by (auto simp: translate_iff)
qed

lemma translate_window:
  assumes "translate c l = Some p" and "translate c l' = Some p'"
  shows "unat p' + unat l = unat l' + unat p"
  using assms by (auto simp: translate_iff)

lemma translate_None_outside:
  "unat l < unat (lstart c) \<or> unat (lstart c) + unat (llen c) \<le> unat l \<Longrightarrow> translate c l = None"
  by (cases "translate c l") (auto simp: translate_iff)

end

text \<open>The shape both translations of the source have, on the numbers they read.\<close>

lemma translate_span_iff:
  fixes start len base l p :: u64
  shows "(\<exists>lim. u64_checked_add start len = Some lim \<and> start \<le> l \<and> l < lim \<and>
      u64_checked_add base (l - start) = Some p) \<longleftrightarrow>
    unat start + unat len < 2 ^ 64 \<and> unat start \<le> unat l \<and>
    unat l < unat start + unat len \<and> unat p = unat base + (unat l - unat start)"
proof
  assume "\<exists>lim. u64_checked_add start len = Some lim \<and> start \<le> l \<and> l < lim \<and>
      u64_checked_add base (l - start) = Some p"
  then obtain lim where "u64_checked_add start len = Some lim" "start \<le> l" "l < lim"
    "u64_checked_add base (l - start) = Some p"
    by blast
  then show "unat start + unat len < 2 ^ 64 \<and> unat start \<le> unat l \<and>
      unat l < unat start + unat len \<and> unat p = unat base + (unat l - unat start)"
    using u64_checked_add_unat [of start len lim] u64_checked_add_unat [of base "l - start" p]
    by (auto simp: u64_checked_add_Some unat_sub_u64 word_le_nat_alt word_less_nat_alt)
next
  assume r: "unat start + unat len < 2 ^ 64 \<and> unat start \<le> unat l \<and>
      unat l < unat start + unat len \<and> unat p = unat base + (unat l - unat start)"
  then have le: "start \<le> l" by (simp add: word_le_nat_alt)
  have sub: "unat (l - start) = unat l - unat start"
    using le by (rule unat_sub_u64)
  have "unat p < 2 ^ 64" using unat_less_exp [of p] by simp
  then have "unat (base + (l - start)) = unat p"
    using r sub by (simp add: unat_add_u64)
  then have "u64_checked_add base (l - start) = Some p"
    using r sub \<open>unat p < 2 ^ 64\<close> by (simp add: u64_checked_add_Some word_unat_eq_iff)
  moreover have "u64_checked_add start len = Some (start + len)" "l < start + len"
    using r by (simp_all add: u64_checked_add_Some word_less_nat_alt unat_add_u64)
  ultimately show "\<exists>lim. u64_checked_add start len = Some lim \<and> start \<le> l \<and> l < lim \<and>
      u64_checked_add base (l - start) = Some p"
    using le by blast
qed

definition sys_chunk_base :: "sys_chunk \<Rightarrow> u64 option" where
  "sys_chunk_base c = (case sc_stripes c of [] \<Rightarrow> None | s # _ \<Rightarrow> Some (s_offset s))"

interpretation sys: linear_map sys_chunk_l2p "\<lambda>c. k_offset (sc_key c)" sc_length sys_chunk_base
proof
  fix c :: sys_chunk and l p :: u64
  show "sys_chunk_l2p c l = Some p \<longleftrightarrow>
       (\<exists>b. sys_chunk_base c = Some b \<and> unat (k_offset (sc_key c)) + unat (sc_length c) < 2 ^ 64 \<and>
          unat (k_offset (sc_key c)) \<le> unat l \<and>
          unat l < unat (k_offset (sc_key c)) + unat (sc_length c) \<and>
          unat p = unat b + (unat l - unat (k_offset (sc_key c))))"
  proof (cases "sc_stripes c")
    case Nil
    then show ?thesis
      by (auto simp: sys_chunk_l2p_def sys_chunk_base_def Let_def split: option.splits)
  next
    case (Cons s ss)
    then show ?thesis
      using translate_span_iff [of "k_offset (sc_key c)" "sc_length c" l "s_offset s" p]
      by (auto simp: sys_chunk_l2p_def sys_chunk_base_def Let_def not_less not_le
          split: option.splits if_splits)
  qed
qed

section \<open>Bounds of the array parser\<close>

lemma sys_chunk_entry_Some:
  assumes "sys_chunk_entry block lim p = Some (chunk, p')" and "lim < usize_max"
  shows "p' = p + 65 + 32 * unat (sc_num_stripes chunk)"
    and "p' \<le> lim"
    and "length (sc_stripes chunk) = unat (sc_num_stripes chunk)"
    and "\<forall>st\<in>set (sc_stripes chunk). wf_stripe st"
  using assms
  by (auto simp: sys_chunk_entry_def Let_def chunk_consts sat_add_def sat_mul_def min_def
      wf_parse_stripes split: if_splits)

lemma sys_chunk_entry_progress:
  assumes "sys_chunk_entry block lim p = Some (chunk, p')" and "lim < usize_max"
  shows "p < p' \<and> p' \<le> lim"
  using sys_chunk_entry_Some [OF assms] by simp

text \<open>The loop as the source has it, without the progress test.\<close>

lemma parse_array_from_unfold:
  assumes "lim < usize_max"
  shows "parse_array_from block lim p =
    (case sys_chunk_entry block lim p of
       None \<Rightarrow> [] | Some (chunk, p') \<Rightarrow> chunk # parse_array_from block lim p')"
  using sys_chunk_entry_progress [OF _ assms, of block p]
  by (auto simp: parse_array_from.simps [of block lim p] split: option.split)

definition wf_sys_chunk :: "sys_chunk \<Rightarrow> bool" where
  "wf_sys_chunk c \<longleftrightarrow>
     length (sc_stripes c) = unat (sc_num_stripes c) \<and> (\<forall>st\<in>set (sc_stripes c). wf_stripe st)"

definition sys_chunk_size :: "sys_chunk \<Rightarrow> nat" where
  "sys_chunk_size c = 65 + 32 * length (sc_stripes c)"

lemma parse_array_from_bounds:
  assumes "lim < usize_max"
  shows "(\<forall>c\<in>set (parse_array_from block lim p). wf_sys_chunk c) \<and>
    sum_list (map sys_chunk_size (parse_array_from block lim p)) \<le> lim - p"
  using assms
proof (induction block lim p rule: parse_array_from.induct)
  case (1 block lim p)
  show ?case
  proof (cases "sys_chunk_entry block lim p")
    case None
    then show ?thesis by (simp add: parse_array_from.simps)
  next
    case (Some r)
    obtain c p' where r: "r = (c, p')" by fastforce
    note entry = Some [unfolded r]
    note facts = sys_chunk_entry_Some [OF entry "1.prems"]
    have IH: "(\<forall>c\<in>set (parse_array_from block lim p'). wf_sys_chunk c) \<and>
        sum_list (map sys_chunk_size (parse_array_from block lim p')) \<le> lim - p'"
      using "1.IH" [OF Some r [symmetric]] facts "1.prems" by simp
    have wf: "wf_sys_chunk c" and size: "p' = p + sys_chunk_size c"
      using facts by (simp_all add: wf_sys_chunk_def sys_chunk_size_def)
    have "parse_array_from block lim p = c # parse_array_from block lim p'"
      by (simp add: parse_array_from_unfold [OF "1.prems"] entry)
    with IH wf size \<open>p' \<le> lim\<close> show ?thesis
      by auto
  qed
qed

lemma parse_array_bounds:
  assumes "fits_memory block"
  shows "\<forall>c\<in>set (parse_array block off n). wf_sys_chunk c"
    and "sum_list (map sys_chunk_size (parse_array block off n)) \<le> min (unat n) (length block - off)"
proof -
  let ?lim = "min (sat_add off (unat n)) (length block)"
  have lim: "?lim < usize_max"
    using assms by (simp add: fits_memory_def usize_max_def)
  note b = parse_array_from_bounds [OF lim, of block off]
  then show "\<forall>c\<in>set (parse_array block off n). wf_sys_chunk c"
    by (simp add: parse_array_def)
  have "?lim - off \<le> min (unat n) (length block - off)"
    using sat_add_le [of off "unat n"] by auto
  with b show "sum_list (map sys_chunk_size (parse_array block off n)) \<le> min (unat n) (length block - off)"
    by (simp add: parse_array_def Let_def del: min_less_iff_conj) 
qed

section \<open>Round trip of the array\<close>

text \<open>
  The on-disk form of an entry. The three 32-bit geometry hints the reader skips
  (\<open>io_align\<close>, \<open>io_width\<close>, \<open>sector_size\<close>) are the twelve bytes \<open>hints\<close>.
\<close>

definition encode_sys_chunk :: "bytes \<Rightarrow> sys_chunk \<Rightarrow> bytes" where
  "encode_sys_chunk hints c =
     encode_disk_key (sc_key c) @ to_le_bytes (sc_length c) @ to_le_bytes (sc_owner c)
     @ to_le_bytes (sc_stripe_len c) @ to_le_bytes (sc_type c) @ hints
     @ to_le_bytes (sc_num_stripes c) @ to_le_bytes (sc_sub_stripes c)
     @ concat (map encode_stripe (sc_stripes c))"

lemma length_concat_stripes:
  "\<forall>st\<in>set sts. wf_stripe st \<Longrightarrow> length (concat (map encode_stripe sts)) = 32 * length sts"
  by (induction sts) auto

lemma length_encode_sys_chunk:
  "length hints = 12 \<Longrightarrow> wf_sys_chunk c \<Longrightarrow> length (encode_sys_chunk hints c) = sys_chunk_size c"
  by (simp add: encode_sys_chunk_def sys_chunk_size_def wf_sys_chunk_def length_concat_stripes)

lemma length_concat_sys_chunks:
  "length hints = 12 \<Longrightarrow> \<forall>c\<in>set cs. wf_sys_chunk c \<Longrightarrow>
     length (concat (map (encode_sys_chunk hints) cs)) = sum_list (map sys_chunk_size cs)"
  by (induction cs) (auto simp: length_encode_sys_chunk)

lemma sys_chunk_entry_encode:
  assumes wf: "wf_sys_chunk c" and hints: "length hints = 12"
    and lim: "length pre + sys_chunk_size c \<le> lim" "lim < usize_max"
  shows "sys_chunk_entry (pre @ encode_sys_chunk hints c @ post) lim (length pre) =
    Some (c, length pre + sys_chunk_size c)"
proof -
  let ?p = "length pre"
  let ?hdr = "encode_disk_key (sc_key c) @ to_le_bytes (sc_length c) @ to_le_bytes (sc_owner c)
     @ to_le_bytes (sc_stripe_len c) @ to_le_bytes (sc_type c) @ hints
     @ to_le_bytes (sc_num_stripes c) @ to_le_bytes (sc_sub_stripes c)"
  let ?block = "pre @ encode_sys_chunk hints c @ post"
  have ends: "sat_add ?p DISK_KEY_SIZE = ?p + 17" "sat_add (?p + 17) CHUNK_HEADER_SIZE = ?p + 65"
    "sat_add (?p + 65) (sat_mul (unat (sc_num_stripes c)) STRIPE_SIZE) = ?p + sys_chunk_size c"
    using lim wf by (auto simp: sat_add_def sat_mul_def chunk_consts sys_chunk_size_def wf_sys_chunk_def)
  have "?block = (pre @ ?hdr) @ concat (map encode_stripe (sc_stripes c)) @ post"
    by (simp add: encode_sys_chunk_def)
  moreover have "parse_stripes ((pre @ ?hdr) @ concat (map encode_stripe (sc_stripes c)) @ post)
      (?p + 65) (length (sc_stripes c)) = sc_stripes c"
    using wf lim hints
    by (intro parse_stripes_encode) (auto simp: wf_sys_chunk_def sys_chunk_size_def)
  ultimately have stripes: "parse_stripes ?block (?p + 65) (length (sc_stripes c)) = sc_stripes c"
    by (simp only:)
  have num: "le_u16 ?block (61 + ?p) = sc_num_stripes c"
    using hints by (simp add: encode_sys_chunk_def read_simps)
  have fields: "disk_key_parse ?block ?p = sc_key c" "le_u64 ?block (?p + 17) = sc_length c"
    "le_u64 ?block (25 + ?p) = sc_owner c" "le_u64 ?block (33 + ?p) = sc_stripe_len c"
    "le_u64 ?block (41 + ?p) = sc_type c" "le_u16 ?block (63 + ?p) = sc_sub_stripes c"
    using hints by (simp_all add: encode_sys_chunk_def read_simps)
  show ?thesis
    using wf lim stripes
    by (simp add: sys_chunk_entry_def Let_def ends num fields wf_sys_chunk_def)
       (simp add: sys_chunk_size_def)
qed

lemma sys_chunk_entry_short: "lim < p + 65 \<Longrightarrow> lim < usize_max \<Longrightarrow> sys_chunk_entry block lim p = None"
  by (auto simp: sys_chunk_entry_def Let_def chunk_consts sat_add_def min_def)

lemma parse_array_from_encode:
  assumes "\<forall>c\<in>set cs. wf_sys_chunk c" and "length hints = 12"
    and "lim = length pre + sum_list (map sys_chunk_size cs)" and "lim < usize_max"
  shows "parse_array_from (pre @ concat (map (encode_sys_chunk hints) cs) @ post) lim (length pre) = cs"
  using assms
proof (induction cs arbitrary: pre)
  case Nil
  then show ?case
    by (simp add: parse_array_from_unfold sys_chunk_entry_short)
next
  case (Cons c cs)
  let ?e = "encode_sys_chunk hints c"
  have len: "length ?e = sys_chunk_size c"
    using Cons.prems by (simp add: length_encode_sys_chunk)
  have "parse_array_from ((pre @ ?e) @ concat (map (encode_sys_chunk hints) cs) @ post) lim
      (length (pre @ ?e)) = cs"
    using Cons.prems len by (intro Cons.IH) auto
  moreover have "sys_chunk_entry (pre @ ?e @ (concat (map (encode_sys_chunk hints) cs) @ post)) lim
      (length pre) = Some (c, length pre + sys_chunk_size c)"
    using Cons.prems by (intro sys_chunk_entry_encode) auto
  ultimately show ?case
    using len Cons.prems(4) by (simp add: parse_array_from_unfold)
qed

section \<open>Properties\<close>

text \<open>
  \<open>parse_array\<close> inverts the on-disk layout: a sequence of entries laid out anywhere
  in a block, with the array size the superblock declares, is read back entry by entry with
  all its stripes, whatever the geometry hints and the bytes around the array are.
\<close>

theorem parse_array_roundtrip:
  assumes "\<forall>c\<in>set cs. wf_sys_chunk c" and "length hints = 12"
    and "unat n = sum_list (map sys_chunk_size cs)" and "length pre + unat n < usize_max"
  shows "parse_array (pre @ concat (map (encode_sys_chunk hints) cs) @ post) (length pre) n = cs"
proof -
  have "length (concat (map (encode_sys_chunk hints) cs)) = unat n"
    using assms(1-3) by (simp only: length_concat_sys_chunks)
  then have "min (sat_add (length pre) (unat n))
      (length (pre @ concat (map (encode_sys_chunk hints) cs) @ post)) = length pre + unat n"
    using assms(4) by (simp add: sat_add_def)
  with assms show ?thesis
    by (simp add: parse_array_def Let_def parse_array_from_encode)
qed

definition demo_chunk :: sys_chunk where
  "demo_chunk =
     \<lparr> sc_key = \<lparr> k_objectid = 256, k_type = CHUNK_ITEM_KEY, k_offset = 0x1500000 \<rparr>,
       sc_length = 0x800000, sc_owner = 2, sc_stripe_len = 0x10000, sc_type = 34,
       sc_num_stripes = 2, sc_sub_stripes = 1,
       sc_stripes = [\<lparr> s_devid = 1, s_offset = 0x1500000, s_uuid = replicate 16 7 \<rparr>,
                     \<lparr> s_devid = 1, s_offset = 0x1D00000, s_uuid = replicate 16 7 \<rparr>] \<rparr>"

lemma wf_demo_chunk: "wf_sys_chunk demo_chunk"
  by (simp add: wf_sys_chunk_def demo_chunk_def wf_stripe_def)

lemma demo_chunk_size: "sys_chunk_size demo_chunk = 129"
  by (simp add: sys_chunk_size_def demo_chunk_def)

theorem parse_array_roundtrip_witness:
  "parse_array ([9] @ concat (map (encode_sys_chunk (replicate 12 0)) [demo_chunk]) @ [5]) 1 129
     = [demo_chunk]"
  using parse_array_roundtrip [of "[demo_chunk]" "replicate 12 0" 129 "[9]" "[5]"]
  by (simp add: wf_demo_chunk demo_chunk_size usize_max_def)

text \<open>
  On any bytes \<open>parse_array\<close> reads only what the declared size and the block allow:
  every entry carries exactly the stripes its count announces, and the entries together
  occupy at most the smaller of the declared size and the bytes behind the array's start.
\<close>

theorem parse_array_within_bounds:
  assumes "fits_memory block"
  shows "(\<forall>c\<in>set (parse_array block off n).
       length (sc_stripes c) = unat (sc_num_stripes c) \<and> (\<forall>st\<in>set (sc_stripes c). wf_stripe st)) \<and>
     (\<Sum>c\<leftarrow>parse_array block off n. 65 + 32 * length (sc_stripes c))
       \<le> min (unat n) (length block - off)"
  using parse_array_bounds [OF assms, of off n]
  by (simp add: wf_sys_chunk_def sys_chunk_size_def [abs_def])

theorem parse_array_within_bounds_witness:
  "(\<Sum>c\<leftarrow>parse_array (replicate 200 0) 10 (- 1). 65 + 32 * length (sc_stripes c)) \<le> 190"
  using parse_array_within_bounds [of "replicate 200 0" 10 "- 1"]
  by (simp add: fits_memory_def)

text \<open>
  \<open>SysChunk::logical_to_physical\<close> answers exactly on the chunk's span, by
  displacement from the first stripe; two different logical addresses never share a physical
  one, and a span or a physical address that leaves 64 bits yields no translation.
\<close>

theorem sys_chunk_translation:
  "(sys_chunk_l2p c l = Some p \<longleftrightarrow>
      (\<exists>s ss. sc_stripes c = s # ss \<and>
         unat (k_offset (sc_key c)) + unat (sc_length c) < 2 ^ 64 \<and>
         unat (k_offset (sc_key c)) \<le> unat l \<and>
         unat l < unat (k_offset (sc_key c)) + unat (sc_length c) \<and>
         unat p = unat (s_offset s) + (unat l - unat (k_offset (sc_key c))))) \<and>
   \<not> (l \<noteq> l' \<and> sys_chunk_l2p c l = Some p \<and> sys_chunk_l2p c l' = Some p)"
proof (intro conjI)
  show "sys_chunk_l2p c l = Some p \<longleftrightarrow>
      (\<exists>s ss. sc_stripes c = s # ss \<and>
         unat (k_offset (sc_key c)) + unat (sc_length c) < 2 ^ 64 \<and>
         unat (k_offset (sc_key c)) \<le> unat l \<and>
         unat l < unat (k_offset (sc_key c)) + unat (sc_length c) \<and>
         unat p = unat (s_offset s) + (unat l - unat (k_offset (sc_key c))))"
    unfolding sys.translate_iff by (auto simp: sys_chunk_base_def split: list.splits)
  show "\<not> (l \<noteq> l' \<and> sys_chunk_l2p c l = Some p \<and> sys_chunk_l2p c l' = Some p)"
    using sys.translate_inj by blast
qed

end
