(* ===== verification/Utf8.thy ===== *)
theory Utf8
  imports Bytes
begin

text \<open>
  \<open>String::from_utf8_lossy\<close> of the standard library, which every name, label and attribute
  key of an image goes through: well-formed UTF-8 is copied, each maximal ill-formed piece
  becomes one replacement character U+FFFD (EF BF BD). The lemmas show that the result is
  always well-formed, that well-formed input is unchanged, and so that decoding twice is
  decoding once.
\<close>

definition is_cont :: "u8 \<Rightarrow> bool" where
  "is_cont b \<longleftrightarrow> b AND 192 = 128"

definition in_rng :: "u8 \<Rightarrow> u8 \<Rightarrow> u8 \<Rightarrow> bool" where
  "in_rng lo hi b \<longleftrightarrow> lo \<le> b \<and> b \<le> hi"

text \<open>
  The second byte of a three- or four-byte sequence: overlong forms, surrogates and values
  past U+10FFFF are excluded here.
\<close>

definition second3 :: "u8 \<Rightarrow> u8 \<Rightarrow> bool" where
  "second3 b c \<longleftrightarrow>
     b = 0xE0 \<and> in_rng 0xA0 0xBF c \<or> in_rng 0xE1 0xEC b \<and> in_rng 0x80 0xBF c
     \<or> b = 0xED \<and> in_rng 0x80 0x9F c \<or> in_rng 0xEE 0xEF b \<and> in_rng 0x80 0xBF c"

definition second4 :: "u8 \<Rightarrow> u8 \<Rightarrow> bool" where
  "second4 b c \<longleftrightarrow>
     b = 0xF0 \<and> in_rng 0x90 0xBF c \<or> in_rng 0xF1 0xF3 b \<and> in_rng 0x80 0xBF c
     \<or> b = 0xF4 \<and> in_rng 0x80 0x8F c"

text \<open>
  One step of the decoder at the head of a non-empty input: how many bytes it takes, and
  whether they are a well-formed character. A byte past the end reads as \<open>0\<close>.
\<close>

definition utf8_dec :: "u8 \<Rightarrow> u8 \<Rightarrow> u8 \<Rightarrow> u8 \<Rightarrow> nat \<times> bool" where
  "utf8_dec b c d e =
     (if b < 128 then (1, True)
      else if in_rng 0xC2 0xDF b then
        (if is_cont c then (2, True) else (1, False))
      else if in_rng 0xE0 0xEF b then
        (if \<not> second3 b c then (1, False)
         else if \<not> is_cont d then (2, False) else (3, True))
      else if in_rng 0xF0 0xF4 b then
        (if \<not> second4 b c then (1, False)
         else if \<not> is_cont d then (2, False)
         else if \<not> is_cont e then (3, False) else (4, True))
      else (1, False))"

definition utf8_char :: "bytes \<Rightarrow> nat \<times> bool" where
  "utf8_char s = utf8_dec (u8_at s 0) (u8_at s 1) (u8_at s 2) (u8_at s 3)"

definition replacement :: bytes where
  "replacement = [0xEF, 0xBF, 0xBD]"

lemma utf8_char_pos [simp]: "0 < fst (utf8_char s)"
  by (simp add: utf8_char_def utf8_dec_def)

function from_utf8_lossy :: "bytes \<Rightarrow> rstring" where
  "from_utf8_lossy [] = []"
| "from_utf8_lossy (b # bs) =
     (if snd (utf8_char (b # bs)) then take (fst (utf8_char (b # bs))) (b # bs) else replacement)
     @ from_utf8_lossy (drop (fst (utf8_char (b # bs))) (b # bs))"
  by pat_completeness auto
termination
  by (relation "measure length") (use utf8_char_pos in \<open>auto simp: Suc_le_eq\<close>)

function valid_utf8 :: "bytes \<Rightarrow> bool" where
  "valid_utf8 [] = True"
| "valid_utf8 (b # bs) =
     (snd (utf8_char (b # bs)) \<and> valid_utf8 (drop (fst (utf8_char (b # bs))) (b # bs)))"
  by pat_completeness auto
termination
  by (relation "measure length") (use utf8_char_pos in \<open>auto simp: Suc_le_eq\<close>)

declare from_utf8_lossy.simps(2) [simp del] valid_utf8.simps(2) [simp del]

lemma not_cont_0 [simp]: "\<not> is_cont 0"
  by (simp add: is_cont_def)

lemma not_second_0 [simp]: "\<not> second3 b 0" "\<not> second4 b 0"
  by (auto simp: second3_def second4_def in_rng_def)

text \<open>A well-formed character lies wholly in the input, and is recognised again in front of any rest.\<close>

lemma u8_at_nonzero_in_range: "u8_at s i \<noteq> 0 \<Longrightarrow> i < length s"
  by (auto simp: u8_at_def split: if_splits)

lemma is_cont_in_range: "is_cont (u8_at s i) \<Longrightarrow> i < length s"
  by (rule u8_at_nonzero_in_range) (use not_cont_0 in metis)

lemma second_in_range:
  "second3 b (u8_at s i) \<Longrightarrow> i < length s"
  "second4 b (u8_at s i) \<Longrightarrow> i < length s"
  by (metis not_second_0 u8_at_nonzero_in_range)+

lemmas cont_in_range = is_cont_in_range second_in_range

lemma utf8_char_ok_le:
  "s \<noteq> [] \<Longrightarrow> snd (utf8_char s) \<Longrightarrow> fst (utf8_char s) \<le> length s"
  by (auto simp: utf8_char_def utf8_dec_def Suc_le_eq split: if_splits dest!: cont_in_range)

lemma u8_at_take_append: "i < n \<Longrightarrow> n \<le> length s \<Longrightarrow> u8_at (take n s @ t) i = u8_at s i"
  by (auto simp: u8_at_def nth_append)

lemma utf8_dec_cong:
  assumes "utf8_dec b c d e = (n, True)"
    and "n \<le> 1 \<or> c' = c" and "n \<le> 2 \<or> d' = d" and "n \<le> 3 \<or> e' = e"
  shows "utf8_dec b c' d' e' = (n, True)"
proof -
  consider (one) "b < 128" | (two) "\<not> b < 128" "in_rng 0xC2 0xDF b"
    | (three) "\<not> b < 128" "\<not> in_rng 0xC2 0xDF b" "in_rng 0xE0 0xEF b"
    | (four) "\<not> b < 128" "\<not> in_rng 0xC2 0xDF b" "\<not> in_rng 0xE0 0xEF b" "in_rng 0xF0 0xF4 b"
    | (none) "\<not> b < 128" "\<not> in_rng 0xC2 0xDF b" "\<not> in_rng 0xE0 0xEF b" "\<not> in_rng 0xF0 0xF4 b"
    by blast
  then show ?thesis
    using assms by cases (auto simp: utf8_dec_def split: if_split_asm)
qed

lemma utf8_char_prefix:
  assumes "s \<noteq> []" and "snd (utf8_char s)"
  shows "utf8_char (take (fst (utf8_char s)) s @ t) = utf8_char s"
proof -
  define n where "n = fst (utf8_char s)"
  have s: "utf8_char s = (n, True)"
    using assms(2) by (simp add: n_def prod_eq_iff)
  have at: "u8_at (take n s @ t) i = u8_at s i" if "i < n" for i
    using that utf8_char_ok_le [OF assms] unfolding n_def by (rule u8_at_take_append)
  have "u8_at (take n s @ t) 0 = u8_at s 0"
    by (rule at) (simp add: n_def)
  moreover have "n \<le> i \<or> u8_at (take n s @ t) i = u8_at s i" for i
    using at [of i] by linarith
  ultimately show ?thesis
    unfolding s fst_conv using s [unfolded utf8_char_def]
    by (simp only: utf8_char_def) (rule utf8_dec_cong; assumption)
qed

lemma utf8_char_replacement: "utf8_char (replacement @ t) = (3, True)"
  by (simp add: utf8_char_def utf8_dec_def replacement_def u8_at_def second3_def in_rng_def is_cont_def)

lemma valid_utf8_char_append:
  assumes "s \<noteq> []" and "snd (utf8_char s)"
  shows "valid_utf8 (take (fst (utf8_char s)) s @ t) = valid_utf8 t"
proof -
  let ?u = "take (fst (utf8_char s)) s"
  have u: "utf8_char (?u @ t) = utf8_char s"
    using assms by (rule utf8_char_prefix)
  have len: "length ?u = fst (utf8_char s)"
    using utf8_char_ok_le [OF assms] by simp
  obtain b bs where cons: "?u @ t = b # bs"
    using len utf8_char_pos [of s] by (cases "?u @ t") (auto simp del: utf8_char_pos)
  have "drop (fst (utf8_char s)) (?u @ t) = t"
    using len by simp
  with u assms show ?thesis
    unfolding cons by (simp add: valid_utf8.simps(2))
qed

lemma valid_utf8_replacement_append: "valid_utf8 (replacement @ t) = valid_utf8 t"
proof -
  have "replacement @ t = 0xEF # 0xBF # 0xBD # t"
    by (simp add: replacement_def)
  moreover have "utf8_char (0xEF # 0xBF # 0xBD # t) = (3, True)"
    using utf8_char_replacement [of t] by (simp add: replacement_def)
  ultimately show ?thesis
    by (simp only: valid_utf8.simps(2)) simp
qed

lemma valid_utf8_from_utf8_lossy: "valid_utf8 (from_utf8_lossy s)"
proof (induction s rule: from_utf8_lossy.induct)
  case (2 b bs)
  then show ?case
    using valid_utf8_char_append [of "b # bs"] valid_utf8_replacement_append
    by (simp add: from_utf8_lossy.simps(2))
qed simp

lemma from_utf8_lossy_valid: "valid_utf8 s \<Longrightarrow> from_utf8_lossy s = s"
proof (induction s rule: from_utf8_lossy.induct)
  case (2 b bs)
  then show ?case
    by (simp add: from_utf8_lossy.simps(2) valid_utf8.simps(2))
qed simp

lemma from_utf8_lossy_idem: "from_utf8_lossy (from_utf8_lossy s) = from_utf8_lossy s"
  by (rule from_utf8_lossy_valid) (rule valid_utf8_from_utf8_lossy)

lemma utf8_char_ascii: "b < 128 \<Longrightarrow> utf8_char (b # bs) = (1, True)"
  by (simp add: utf8_char_def utf8_dec_def u8_at_def)

lemma valid_utf8_ascii: "\<forall>b\<in>set s. b < 128 \<Longrightarrow> valid_utf8 s"
  by (induction s) (simp_all add: valid_utf8.simps(2) utf8_char_ascii)

lemma from_utf8_lossy_ascii: "\<forall>b\<in>set s. b < 128 \<Longrightarrow> from_utf8_lossy s = s"
  by (intro from_utf8_lossy_valid valid_utf8_ascii)

lemma set_from_utf8_lossy: "set (from_utf8_lossy s) \<subseteq> set s \<union> set replacement"
proof (induction s rule: from_utf8_lossy.induct)
  case (2 b bs)
  then show ?case
    using set_take_subset [of "fst (utf8_char (b # bs))" "b # bs"]
      set_drop_subset [of "fst (utf8_char (b # bs))" "b # bs"]
    by (auto simp: from_utf8_lossy.simps(2))
qed simp

lemma from_utf8_lossy_no_nul: "0 \<notin> set s \<Longrightarrow> 0 \<notin> set (from_utf8_lossy s)"
  using set_from_utf8_lossy [of s] by (auto simp: replacement_def)

end
