(* ===== verification/Superblock.thy ===== *)
theory Superblock
  imports Chunk Utf8
begin

text \<open>
  \<open>core/src/superblock.rs\<close>: the superblock record, its parser and the rendering of the
  filesystem UUID. The lemmas characterise the two errors, show that a parsed superblock is
  well formed, give the round trip with the on-disk layout, and say what \<open>crc_valid\<close> covers.
\<close>

definition BTRFS_SUPER_INFO_OFFSET :: nat where "BTRFS_SUPER_INFO_OFFSET = 65536"
definition BTRFS_SUPER_INFO_SIZE :: nat where "BTRFS_SUPER_INFO_SIZE = 4096"
definition BTRFS_MAGIC :: bytes where "BTRFS_MAGIC = str ''_BHRfS_M''"
definition MAGIC_OFFSET :: nat where "MAGIC_OFFSET = 0x40"
definition BTRFS_FSID_SIZE :: nat where "BTRFS_FSID_SIZE = 16"
definition BTRFS_LABEL_SIZE :: nat where "BTRFS_LABEL_SIZE = 256"
definition SB_MIN_LEN :: nat where "SB_MIN_LEN = 0xc9"

lemmas super_consts = BTRFS_SUPER_INFO_OFFSET_def BTRFS_SUPER_INFO_SIZE_def MAGIC_OFFSET_def
  BTRFS_FSID_SIZE_def BTRFS_LABEL_SIZE_def SB_MIN_LEN_def

record superblock =
  sb_magic :: bytes
  sb_csum :: bytes
  sb_fsid :: bytes
  sb_bytenr :: u64
  sb_flags :: u64
  sb_generation :: u64
  sb_root :: u64
  sb_chunk_root :: u64
  sb_log_root :: u64
  sb_total_bytes :: u64
  sb_bytes_used :: u64
  sb_root_dir_objectid :: u64
  sb_num_devices :: u64
  sb_sectorsize :: u32
  sb_nodesize :: u32
  sb_stripesize :: u32
  sb_sys_chunk_array_size :: u32
  sb_chunk_root_generation :: u64
  sb_compat_flags :: u64
  sb_compat_ro_flags :: u64
  sb_incompat_flags :: u64
  sb_csum_type :: csum_type
  sb_root_level :: u8
  sb_chunk_root_level :: u8
  sb_log_root_level :: u8
  sb_label :: rstring
  sb_sys_chunks :: "sys_chunk list"
  sb_crc_valid :: "bool option"

text \<open>The NUL-terminated label: the first piece of the field split at zero bytes.\<close>

definition decode_label :: "bytes \<Rightarrow> nat \<Rightarrow> rstring" where
  "decode_label block off =
     (let lim = min (sat_add off BTRFS_LABEL_SIZE) (length block);
          raw = unwrap_or (get_range block off lim) [];
          trimmed = takeWhile (\<lambda>b. b \<noteq> 0) raw in
      from_utf8_lossy trimmed)"

definition superblock_parse :: "(bytes \<Rightarrow> u32) \<Rightarrow> bytes \<Rightarrow> btrfs_error + superblock" where
  "superblock_parse crc block =
     (let magic = bytes_at block MAGIC_OFFSET 8 in
      if magic \<noteq> BTRFS_MAGIC then Inl (BadMagic magic)
      else if length block < SB_MIN_LEN then
        Inl (Truncated ''superblock'' SB_MIN_LEN (length block))
      else
        let csum = bytes_at block 0 4;
            fsid = bytes_at block 0x20 BTRFS_FSID_SIZE;
            sectorsize = le_u32 block 0x90;
            csum_type = csum_from_code (le_u16 block 0xc4);
            covered = max (min (unat sectorsize) (length block)) BTRFS_CSUM_SIZE;
            crc_valid = superblock_crc_status crc csum_type block covered;
            sys_chunk_array_size = le_u32 block 0xa0;
            sys_chunks = parse_array block SYS_CHUNK_ARRAY_OFFSET sys_chunk_array_size;
            label = decode_label block 0x12b in
        Inr
          \<lparr> sb_magic = magic,
            sb_csum = csum,
            sb_fsid = fsid,
            sb_bytenr = le_u64 block 0x30,
            sb_flags = le_u64 block 0x38,
            sb_generation = le_u64 block 0x48,
            sb_root = le_u64 block 0x50,
            sb_chunk_root = le_u64 block 0x58,
            sb_log_root = le_u64 block 0x60,
            sb_total_bytes = le_u64 block 0x70,
            sb_bytes_used = le_u64 block 0x78,
            sb_root_dir_objectid = le_u64 block 0x80,
            sb_num_devices = le_u64 block 0x88,
            sb_sectorsize = sectorsize,
            sb_nodesize = le_u32 block 0x94,
            sb_stripesize = le_u32 block 0x9c,
            sb_sys_chunk_array_size = sys_chunk_array_size,
            sb_chunk_root_generation = le_u64 block 0xa4,
            sb_compat_flags = le_u64 block 0xac,
            sb_compat_ro_flags = le_u64 block 0xb4,
            sb_incompat_flags = le_u64 block 0xbc,
            sb_csum_type = csum_type,
            sb_root_level = u8_at block 0xc6,
            sb_chunk_root_level = u8_at block 0xc7,
            sb_log_root_level = u8_at block 0xc8,
            sb_label = label,
            sb_sys_chunks = sys_chunks,
            sb_crc_valid = crc_valid \<rparr>)"

text \<open>The canonical 8-4-4-4-12 form of a sixteen-byte UUID.\<close>

definition uuid_string :: "bytes \<Rightarrow> rstring" where
  "uuid_string u =
     (let h = map hex_u8 u in
      h!0 @ h!1 @ h!2 @ h!3 @ str ''-'' @ h!4 @ h!5 @ str ''-'' @ h!6 @ h!7 @ str ''-''
      @ h!8 @ h!9 @ str ''-'' @ h!10 @ h!11 @ h!12 @ h!13 @ h!14 @ h!15)"

definition fsid_string :: "superblock \<Rightarrow> rstring" where
  "fsid_string sb = uuid_string (sb_fsid sb)"

section \<open>Errors and well-formedness\<close>

lemma superblock_parse_BadMagic_iff:
  "superblock_parse crc block = Inl (BadMagic m) \<longleftrightarrow>
     m = bytes_at block 0x40 8 \<and> m \<noteq> BTRFS_MAGIC"
  by (auto simp: superblock_parse_def Let_def super_consts)

lemma superblock_parse_Truncated_iff:
  "superblock_parse crc block = Inl (Truncated s n h) \<longleftrightarrow>
     bytes_at block 0x40 8 = BTRFS_MAGIC \<and> length block < 0xc9 \<and>
     s = ''superblock'' \<and> n = 0xc9 \<and> h = length block"
  by (auto simp: superblock_parse_def Let_def super_consts)

lemma superblock_parse_ok_iff:
  "is_ok (superblock_parse crc block) \<longleftrightarrow>
     0xc9 \<le> length block \<and> take 8 (drop 0x40 block) = BTRFS_MAGIC"
  by (auto simp: superblock_parse_def Let_def super_consts bytes_at_in_range)

lemma superblock_parse_not_AllocationBomb:
  "superblock_parse crc block \<noteq> Inl (AllocationBomb f c b)"
  by (simp add: superblock_parse_def Let_def)

lemma superblock_parse_fields:
  assumes "superblock_parse crc block = Inr sb"
  shows "sb_magic sb = BTRFS_MAGIC" and "length (sb_fsid sb) = 16" and "length (sb_csum sb) = 4"
    and "sb_root sb = le_u64 block 0x50" and "sb_chunk_root sb = le_u64 block 0x58"
    and "sb_generation sb = le_u64 block 0x48" and "sb_nodesize sb = le_u32 block 0x94"
    and "sb_sectorsize sb = le_u32 block 0x90" and "sb_fsid sb = bytes_at block 0x20 16"
    and "sb_sys_chunks sb = parse_array block 0x32b (le_u32 block 0xa0)"
    and "sb_label sb = decode_label block 0x12b"
    and "sb_csum_type sb = csum_from_code (le_u16 block 0xc4)"
    and "sb_crc_valid sb = superblock_crc_status crc (csum_from_code (le_u16 block 0xc4)) block
           (max (min (unat (le_u32 block 0x90)) (length block)) 32)"
  using assms
  by (auto simp: superblock_parse_def Let_def super_consts chunk_consts BTRFS_CSUM_SIZE_def
      split: if_splits)

lemma decode_label_valid: "valid_utf8 (decode_label block off)"
  by (simp add: decode_label_def Let_def valid_utf8_from_utf8_lossy)

lemma decode_label_no_nul: "0 \<notin> set (decode_label block off)"
  unfolding decode_label_def Let_def
  by (rule from_utf8_lossy_no_nul) (auto dest: set_takeWhileD)

section \<open>UUIDs\<close>

lemma length16_elems:
  "length u = 16 \<Longrightarrow> \<exists>a b c d e f g h i j k l m n p q. u = [a,b,c,d,e,f,g,h,i,j,k,l,m,n,p,q]"
  by (auto simp: numeral_eq_Suc length_Suc_conv)

lemma length_uuid_string: "length u = 16 \<Longrightarrow> length (uuid_string u) = 36"
  by (auto simp: uuid_string_def Let_def str_def dest!: length16_elems)

lemma uuid_string_inj:
  "length u = 16 \<Longrightarrow> length v = 16 \<Longrightarrow> uuid_string u = uuid_string v \<Longrightarrow> u = v"
  by (auto simp: uuid_string_def Let_def str_def dest!: length16_elems)

lemma uuid_string_eq_iff:
  "length u = 16 \<Longrightarrow> length v = 16 \<Longrightarrow> uuid_string u = uuid_string v \<longleftrightarrow> u = v"
  by (auto dest: uuid_string_inj)

section \<open>Round trip with the on-disk layout\<close>

fun csum_code :: "csum_type \<Rightarrow> u16" where
  "csum_code Crc32c = 0"
| "csum_code Xxhash64 = 1"
| "csum_code Sha256 = 2"
| "csum_code Blake2 = 3"
| "csum_code (UnknownCsum c) = c"

definition wf_csum_type :: "csum_type \<Rightarrow> bool" where
  "wf_csum_type t \<longleftrightarrow> (case t of UnknownCsum c \<Rightarrow> 3 < c | _ \<Rightarrow> True)"

lemma csum_from_csum_code: "wf_csum_type t \<Longrightarrow> csum_from_code (csum_code t) = t"
  by (cases t) (auto simp: csum_from_code_def wf_csum_type_def)

definition zeros :: "nat \<Rightarrow> bytes" where
  "zeros n = replicate n 0"

lemma length_zeros [simp]: "length (zeros n) = n"
  by (simp add: zeros_def)

text \<open>
  The layout of \<open>btrfs_super_block\<close> up to the end of the chunk array, with the fields the
  reader does not look at zero; \<open>rest\<close> is whatever follows.
\<close>

definition encode_superblock :: "superblock \<Rightarrow> bytes \<Rightarrow> bytes" where
  "encode_superblock sb rest =
     sb_csum sb @ zeros 28 @ sb_fsid sb
     @ to_le_bytes (sb_bytenr sb) @ to_le_bytes (sb_flags sb) @ BTRFS_MAGIC
     @ to_le_bytes (sb_generation sb) @ to_le_bytes (sb_root sb) @ to_le_bytes (sb_chunk_root sb)
     @ to_le_bytes (sb_log_root sb) @ zeros 8 @ to_le_bytes (sb_total_bytes sb)
     @ to_le_bytes (sb_bytes_used sb) @ to_le_bytes (sb_root_dir_objectid sb)
     @ to_le_bytes (sb_num_devices sb) @ to_le_bytes (sb_sectorsize sb)
     @ to_le_bytes (sb_nodesize sb) @ zeros 4 @ to_le_bytes (sb_stripesize sb)
     @ to_le_bytes (sb_sys_chunk_array_size sb) @ to_le_bytes (sb_chunk_root_generation sb)
     @ to_le_bytes (sb_compat_flags sb) @ to_le_bytes (sb_compat_ro_flags sb)
     @ to_le_bytes (sb_incompat_flags sb) @ to_le_bytes (csum_code (sb_csum_type sb))
     @ [sb_root_level sb] @ [sb_chunk_root_level sb] @ [sb_log_root_level sb] @ zeros 98
     @ (sb_label sb @ zeros (256 - length (sb_label sb))) @ zeros 256
     @ concat (map (encode_sys_chunk (zeros 12)) (sb_sys_chunks sb)) @ rest"

definition wf_superblock :: "superblock \<Rightarrow> bool" where
  "wf_superblock sb \<longleftrightarrow>
     sb_magic sb = BTRFS_MAGIC \<and> length (sb_csum sb) = 4 \<and> length (sb_fsid sb) = 16 \<and>
     wf_csum_type (sb_csum_type sb) \<and> length (sb_label sb) \<le> 256 \<and> 0 \<notin> set (sb_label sb) \<and>
     valid_utf8 (sb_label sb) \<and> (\<forall>c\<in>set (sb_sys_chunks sb). wf_sys_chunk c) \<and>
     unat (sb_sys_chunk_array_size sb) = sum_list (map sys_chunk_size (sb_sys_chunks sb))"

lemma length_BTRFS_MAGIC [simp]: "length BTRFS_MAGIC = 8"
  by (simp add: BTRFS_MAGIC_def str_def)

lemma takeWhile_label: "0 \<notin> set l \<Longrightarrow> takeWhile (\<lambda>b. b \<noteq> 0) (l @ zeros n) = l"
  by (induction l) (auto simp: zeros_def)

lemma encode_superblock_label:
  assumes "wf_superblock sb"
  shows "decode_label (encode_superblock sb rest) 0x12b = sb_label sb"
proof -
  let ?b = "encode_superblock sb rest"
  let ?lab = "sb_label sb @ zeros (256 - length (sb_label sb))"
  have len: "555 \<le> length ?b" "length ?lab = 256"
    using assms by (auto simp: encode_superblock_def wf_superblock_def)
  have "get_range ?b 0x12b 0x22b = Some ?lab"
    using assms len(2) unfolding encode_superblock_def wf_superblock_def
    by (simp add: read_simps del: length_append append_assoc)
  then show ?thesis
    using assms len(1)
    by (simp add: decode_label_def Let_def sat_add_def usize_max_def BTRFS_LABEL_SIZE_def
        takeWhile_label from_utf8_lossy_valid wf_superblock_def)
qed

lemma encode_superblock_chunks:
  assumes "wf_superblock sb"
  shows "parse_array (encode_superblock sb rest) 0x32b (sb_sys_chunk_array_size sb) = sb_sys_chunks sb"
proof -
  let ?pre = "take 0x32b (encode_superblock sb rest)"
  let ?cs = "concat (map (encode_sys_chunk (zeros 12)) (sb_sys_chunks sb))"
  obtain pre where pre: "encode_superblock sb rest = pre @ ?cs @ rest" "length pre = 0x32b"
    using assms by (intro that [of ?pre]) (auto simp: encode_superblock_def wf_superblock_def)
  let ?lim = "0x32b + sum_list (map sys_chunk_size (sb_sys_chunks sb))"
  have n: "unat (sb_sys_chunk_array_size sb) = sum_list (map sys_chunk_size (sb_sys_chunks sb))"
    using assms by (simp add: wf_superblock_def)
  have small: "?lim < usize_max"
    using unat_u32_le [of "sb_sys_chunk_array_size sb"] n by (simp add: usize_max_def)
  have "length (encode_superblock sb rest) = ?lim + length rest"
    using assms pre by (simp add: length_concat_sys_chunks wf_superblock_def)
  then have "min (sat_add 0x32b (unat (sb_sys_chunk_array_size sb))) (length (encode_superblock sb rest)) = ?lim"
    using n small by (simp add: sat_add_def)
  moreover have "parse_array_from (pre @ ?cs @ rest) ?lim (length pre) = sb_sys_chunks sb"
    using assms small pre(2) by (intro parse_array_from_encode) (auto simp: wf_superblock_def)
  ultimately show ?thesis
    using pre by (simp add: parse_array_def Let_def)
qed

lemma encode_superblock_reads:
  assumes "wf_superblock sb"
  shows "le_u32 (encode_superblock sb rest) 144 = sb_sectorsize sb"
    and "le_u32 (encode_superblock sb rest) 148 = sb_nodesize sb"
    and "le_u32 (encode_superblock sb rest) 156 = sb_stripesize sb"
    and "le_u32 (encode_superblock sb rest) 160 = sb_sys_chunk_array_size sb"
    and "le_u64 (encode_superblock sb rest) 48 = sb_bytenr sb"
    and "le_u64 (encode_superblock sb rest) 56 = sb_flags sb"
    and "le_u64 (encode_superblock sb rest) 72 = sb_generation sb"
    and "le_u64 (encode_superblock sb rest) 80 = sb_root sb"
    and "le_u64 (encode_superblock sb rest) 88 = sb_chunk_root sb"
    and "le_u64 (encode_superblock sb rest) 96 = sb_log_root sb"
    and "le_u64 (encode_superblock sb rest) 112 = sb_total_bytes sb"
    and "le_u64 (encode_superblock sb rest) 120 = sb_bytes_used sb"
    and "le_u64 (encode_superblock sb rest) 128 = sb_root_dir_objectid sb"
    and "le_u64 (encode_superblock sb rest) 136 = sb_num_devices sb"
    and "le_u64 (encode_superblock sb rest) 164 = sb_chunk_root_generation sb"
    and "le_u64 (encode_superblock sb rest) 172 = sb_compat_flags sb"
    and "le_u64 (encode_superblock sb rest) 180 = sb_compat_ro_flags sb"
    and "le_u64 (encode_superblock sb rest) 188 = sb_incompat_flags sb"
    and "le_u16 (encode_superblock sb rest) 196 = csum_code (sb_csum_type sb)"
    and "u8_at (encode_superblock sb rest) 198 = sb_root_level sb"
    and "u8_at (encode_superblock sb rest) 199 = sb_chunk_root_level sb"
    and "u8_at (encode_superblock sb rest) 200 = sb_log_root_level sb"
    and "bytes_at (encode_superblock sb rest) 64 8 = BTRFS_MAGIC"
    and "bytes_at (encode_superblock sb rest) 0 4 = sb_csum sb"
    and "bytes_at (encode_superblock sb rest) 32 16 = sb_fsid sb"
  using assms unfolding encode_superblock_def wf_superblock_def
  by (simp_all add: read_simps)

lemma superblock_parse_encode:
  assumes wf: "wf_superblock sb"
  shows "superblock_parse crc (encode_superblock sb rest) =
    Inr (sb\<lparr>sb_crc_valid :=
      superblock_crc_status crc (sb_csum_type sb) (encode_superblock sb rest)
        (max (min (unat (sb_sectorsize sb)) (length (encode_superblock sb rest))) 32)\<rparr>)"
proof -
  have len: "\<not> length (encode_superblock sb rest) < 0xc9"
    using wf by (simp add: encode_superblock_def wf_superblock_def)
  have "sb_magic sb = BTRFS_MAGIC" "csum_from_code (csum_code (sb_csum_type sb)) = sb_csum_type sb"
    using wf by (simp_all add: wf_superblock_def csum_from_csum_code)
  with len show ?thesis
    using encode_superblock_chunks [OF wf, of rest] encode_superblock_label [OF wf, of rest]
    by (simp add: superblock_parse_def Let_def super_consts chunk_consts BTRFS_CSUM_SIZE_def
        encode_superblock_reads [OF wf])
qed

section \<open>Properties\<close>


text \<open>
  \<open>Superblock::parse\<close> fails in exactly two ways: on a wrong magic (reported with the
  eight bytes found, also when the block is too short to hold them), and on a block with the
  magic but shorter than the declared fields (reported with both lengths). Any other block
  parses, a failing checksum included.
\<close>

theorem superblock_parse_errors:
  "superblock_parse crc block = Inl e \<longleftrightarrow>
     bytes_at block 0x40 8 \<noteq> BTRFS_MAGIC \<and> e = BadMagic (bytes_at block 0x40 8) \<or>
     bytes_at block 0x40 8 = BTRFS_MAGIC \<and> length block < 0xc9 \<and>
       e = Truncated ''superblock'' 0xc9 (length block)"
  by (cases e)
    (auto simp: superblock_parse_BadMagic_iff superblock_parse_Truncated_iff
      superblock_parse_not_AllocationBomb)

definition demo_superblock :: superblock where
  "demo_superblock =
     \<lparr> sb_magic = BTRFS_MAGIC, sb_csum = [1, 2, 3, 4], sb_fsid = replicate 16 0xab,
       sb_bytenr = 65536, sb_flags = 1, sb_generation = 9, sb_root = 0x1d00000,
       sb_chunk_root = 0x1500000, sb_log_root = 0, sb_total_bytes = 0x8000000,
       sb_bytes_used = 0x24000, sb_root_dir_objectid = 6, sb_num_devices = 1,
       sb_sectorsize = 4096, sb_nodesize = 16384, sb_stripesize = 4096,
       sb_sys_chunk_array_size = 129, sb_chunk_root_generation = 7, sb_compat_flags = 0,
       sb_compat_ro_flags = 3, sb_incompat_flags = 0x361, sb_csum_type = Xxhash64,
       sb_root_level = 0, sb_chunk_root_level = 0, sb_log_root_level = 0,
       sb_label = str ''BTRFS-ORACLE'', sb_sys_chunks = [demo_chunk], sb_crc_valid = None \<rparr>"

lemma wf_demo_superblock: "wf_superblock demo_superblock"
  using wf_demo_chunk demo_chunk_size
  by (simp add: wf_superblock_def demo_superblock_def wf_csum_type_def str_def valid_utf8_ascii)


text \<open>
  The label of a parsed superblock is valid UTF-8 and holds no NUL; its identifier
  renders as 36 characters, and two superblocks render to the same text only when their
  identifiers are equal.
\<close>

theorem superblock_text:
  assumes "superblock_parse crc block = Inr sb" and "superblock_parse crc block' = Inr sb'"
  shows "valid_utf8 (sb_label sb) \<and> 0 \<notin> set (sb_label sb) \<and> length (fsid_string sb) = 36 \<and>
    (fsid_string sb = fsid_string sb' \<longleftrightarrow> sb_fsid sb = sb_fsid sb')"
  using superblock_parse_fields [OF assms(1)] superblock_parse_fields [OF assms(2)]
  by (simp_all add: decode_label_valid decode_label_no_nul fsid_string_def length_uuid_string
      uuid_string_eq_iff)

theorem superblock_text_witness:
  "\<exists>sb. superblock_parse crc32c_ref (replicate 64 0 @ BTRFS_MAGIC @ replicate 200 0) = Inr sb \<and>
     length (fsid_string sb) = 36"
proof -
  have "is_ok (superblock_parse crc32c_ref (replicate 64 0 @ BTRFS_MAGIC @ replicate 200 0))"
    by (simp add: superblock_parse_ok_iff)
  then obtain sb where sb: "superblock_parse crc32c_ref (replicate 64 0 @ BTRFS_MAGIC @ replicate 200 0) = Inr sb"
    by (auto simp: is_ok_iff)
  from superblock_text [OF sb sb] sb show ?thesis by (intro exI [of _ sb]) simp
qed

end
