(* ===== verification/Node.thy ===== *)
theory Node
  imports Superblock
begin

text \<open>
  \<open>core/src/node.rs\<close>, first half: the node header, leaf items, interior key pointers and chunk
  items. Three tables of the format are parsed in the same way (a declared count, capped by
  what the buffer can hold); the locale \<open>capped_table\<close> states that contract once and is
  interpreted on item headers, key pointers and chunk stripes.
\<close>

section \<open>Constants\<close>

definition BTRFS_HEADER_SIZE :: nat where "BTRFS_HEADER_SIZE = 101"
definition BTRFS_ITEM_SIZE :: nat where "BTRFS_ITEM_SIZE = DISK_KEY_SIZE + 4 + 4"
definition BTRFS_KEY_PTR_SIZE :: nat where "BTRFS_KEY_PTR_SIZE = DISK_KEY_SIZE + 8 + 8"
definition CHUNK_TREE_OBJECTID :: u64 where "CHUNK_TREE_OBJECTID = 3"

lemmas node_consts = BTRFS_HEADER_SIZE_def BTRFS_ITEM_SIZE_def BTRFS_KEY_PTR_SIZE_def
  CHUNK_TREE_OBJECTID_def

section \<open>Data\<close>

record header =
  h_csum :: bytes
  h_fsid :: bytes
  h_bytenr :: u64
  h_flags :: u64
  h_chunk_tree_uuid :: bytes
  h_generation :: u64
  h_owner :: u64
  h_nritems :: u32
  h_level :: u8

text \<open>The offsets of \<open>hdr\<close>.\<close>

definition HDR_FSID :: nat where [simp]: "HDR_FSID = 0x20"
definition HDR_BYTENR :: nat where [simp]: "HDR_BYTENR = 0x30"
definition HDR_FLAGS :: nat where [simp]: "HDR_FLAGS = 0x38"
definition HDR_CHUNK_TREE_UUID :: nat where [simp]: "HDR_CHUNK_TREE_UUID = 0x40"
definition HDR_GENERATION :: nat where [simp]: "HDR_GENERATION = 0x50"
definition HDR_OWNER :: nat where [simp]: "HDR_OWNER = 0x58"
definition HDR_NRITEMS :: nat where [simp]: "HDR_NRITEMS = 0x60"
definition HDR_LEVEL :: nat where [simp]: "HDR_LEVEL = 0x64"

definition header_parse :: "bytes \<Rightarrow> header option" where
  "header_parse block =
     (if length block < BTRFS_HEADER_SIZE then None
      else Some
        \<lparr> h_csum = bytes_at block 0 4,
          h_fsid = bytes_at block HDR_FSID 16,
          h_bytenr = le_u64 block HDR_BYTENR,
          h_flags = le_u64 block HDR_FLAGS,
          h_chunk_tree_uuid = bytes_at block HDR_CHUNK_TREE_UUID 16,
          h_generation = le_u64 block HDR_GENERATION,
          h_owner = le_u64 block HDR_OWNER,
          h_nritems = le_u32 block HDR_NRITEMS,
          h_level = u8_at block HDR_LEVEL \<rparr>)"

record key_ptr =
  kp_key :: disk_key
  kp_blockptr :: u64
  kp_generation :: u64

record chunk =
  ck_length :: u64
  ck_owner :: u64
  ck_stripe_len :: u64
  ck_type :: u64
  ck_num_stripes :: u16
  ck_sub_stripes :: u16
  ck_stripes :: "stripe list"

record item_header =
  ih_key :: disk_key
  ih_data_offset :: u32
  ih_data_size :: u32

datatype body = Leaf "item_header list" | Interior "key_ptr list"

record node =
  n_header :: header
  n_crc_valid :: "bool option"
  n_body :: body
  n_block :: bytes

section \<open>Operations\<close>

text \<open>The stripe loop of \<open>Chunk::parse\<close>.\<close>

definition chunk_stripes :: "bytes \<Rightarrow> nat \<Rightarrow> stripe list" where
  "chunk_stripes data num_stripes =
     (let avail = length data - CHUNK_HEADER_SIZE;
          max_fit = avail div STRIPE_SIZE;
          n = min num_stripes max_fit in
      map (\<lambda>i. stripe_at data (CHUNK_HEADER_SIZE + i * STRIPE_SIZE)) [0..<n])"

definition chunk_parse :: "bytes \<Rightarrow> chunk" where
  "chunk_parse data =
     (let num_stripes = le_u16 data 44 in
      \<lparr> ck_length = le_u64 data 0,
        ck_owner = le_u64 data 8,
        ck_stripe_len = le_u64 data 16,
        ck_type = le_u64 data 24,
        ck_num_stripes = num_stripes,
        ck_sub_stripes = le_u16 data 46,
        ck_stripes = chunk_stripes data (unat num_stripes) \<rparr>)"

definition item_header_at :: "bytes \<Rightarrow> nat \<Rightarrow> item_header" where
  "item_header_at block io =
     \<lparr> ih_key = disk_key_parse block io,
       ih_data_offset = le_u32 block (io + DISK_KEY_SIZE),
       ih_data_size = le_u32 block (io + DISK_KEY_SIZE + 4) \<rparr>"

definition parse_items :: "bytes \<Rightarrow> nat \<Rightarrow> item_header list" where
  "parse_items block nritems =
     (let avail = length block - BTRFS_HEADER_SIZE;
          max_fit = avail div BTRFS_ITEM_SIZE;
          n = min nritems max_fit in
      map (\<lambda>i. item_header_at block (BTRFS_HEADER_SIZE + i * BTRFS_ITEM_SIZE)) [0..<n])"

definition key_ptr_at :: "bytes \<Rightarrow> nat \<Rightarrow> key_ptr" where
  "key_ptr_at block po =
     \<lparr> kp_key = disk_key_parse block po,
       kp_blockptr = le_u64 block (po + DISK_KEY_SIZE),
       kp_generation = le_u64 block (po + DISK_KEY_SIZE + 8) \<rparr>"

definition parse_key_ptrs :: "bytes \<Rightarrow> nat \<Rightarrow> key_ptr list" where
  "parse_key_ptrs block nritems =
     (let avail = length block - BTRFS_HEADER_SIZE;
          max_fit = avail div BTRFS_KEY_PTR_SIZE;
          n = min nritems max_fit in
      map (\<lambda>i. key_ptr_at block (BTRFS_HEADER_SIZE + i * BTRFS_KEY_PTR_SIZE)) [0..<n])"

definition node_parse :: "(bytes \<Rightarrow> u32) \<Rightarrow> bytes \<Rightarrow> btrfs_error + node" where
  "node_parse crc block =
     (case header_parse block of
        None \<Rightarrow> Inl (Truncated ''btrfs_header'' BTRFS_HEADER_SIZE (length block))
      | Some header \<Rightarrow>
          let crc_valid = superblock_crc_status crc Crc32c block (length block);
              nritems = unat (h_nritems header);
              body = (if h_level header = 0 then Leaf (parse_items block nritems)
                      else Interior (parse_key_ptrs block nritems)) in
          Inr \<lparr> n_header = header, n_crc_valid = crc_valid, n_body = body, n_block = block \<rparr>)"

definition is_leaf :: "node \<Rightarrow> bool" where
  "is_leaf n = (case n_body n of Leaf _ \<Rightarrow> True | Interior _ \<Rightarrow> False)"

definition item_data :: "node \<Rightarrow> item_header \<Rightarrow> bytes" where
  "item_data n it =
     (let start = sat_add BTRFS_HEADER_SIZE (unat (ih_data_offset it));
          lim = sat_add start (unat (ih_data_size it)) in
      unwrap_or (get_range (n_block n) start lim) [])"

definition leaf_items :: "node \<Rightarrow> (disk_key \<times> bytes) list" where
  "leaf_items n =
     (let items = (case n_body n of Leaf items \<Rightarrow> items | Interior _ \<Rightarrow> []) in
      map (\<lambda>it. (ih_key it, item_data n it)) items)"

definition key_ptrs :: "node \<Rightarrow> key_ptr list" where
  "key_ptrs n = (case n_body n of Interior ptrs \<Rightarrow> ptrs | Leaf _ \<Rightarrow> [])"

definition chunk_items :: "node \<Rightarrow> (u64 \<times> chunk) list" where
  "chunk_items n =
     map (\<lambda>(key, data). (k_offset key, chunk_parse data))
       (filter (\<lambda>(key, _). k_type key = CHUNK_ITEM_KEY) (leaf_items n))"

section \<open>Tables with a declared count\<close>

text \<open>
  The contract of the three table parsers: the count is capped by the room behind the table's
  base, and entry \<open>i\<close> is decoded at \<open>base + i * size\<close>. What a client relies on: the length, the
  position of every decoded entry inside the buffer, and the round trip with an encoder.
\<close>

locale capped_table =
  fixes parse :: "bytes \<Rightarrow> nat \<Rightarrow> 'e list" and base size :: nat
    and entry_at :: "bytes \<Rightarrow> nat \<Rightarrow> 'e" and encode :: "'e \<Rightarrow> bytes" and wf :: "'e \<Rightarrow> bool"
  assumes parse_eq:
      "parse block n = map (\<lambda>i. entry_at block (base + i * size))
         [0..<min n ((length block - base) div size)]"
    and size_pos: "0 < size"
    and length_encode: "wf e \<Longrightarrow> length (encode e) = size"
    and entry_at_encode: "wf e \<Longrightarrow> entry_at (pre @ encode e @ post) (length pre) = e"
begin

lemma length_parse: "length (parse block n) = min n ((length block - base) div size)"
  by (simp add: parse_eq)

lemma entry_in_buffer:
  assumes "i < length (parse block n)"
  shows "base + i * size + size \<le> length block" and "parse block n ! i = entry_at block (base + i * size)"
proof -
  from assms have "Suc i \<le> (length block - base) div size"
    by (simp add: length_parse)
  then have "Suc i * size \<le> length block - base"
    using size_pos by (simp add: less_eq_div_iff_mult_less_eq)
  moreover have "0 < Suc i * size" using size_pos by simp
  ultimately have "base + Suc i * size \<le> length block" by linarith
  then show "base + i * size + size \<le> length block"
    by (simp add: ac_simps)
  show "parse block n ! i = entry_at block (base + i * size)"
    using assms by (simp add: parse_eq length_parse)
qed

lemma table_fits: "base \<le> length block \<Longrightarrow> base + length (parse block n) * size \<le> length block"
proof -
  assume base: "base \<le> length block"
  have "length (parse block n) * size \<le> (length block - base) div size * size"
    by (simp add: length_parse)
  also have "\<dots> \<le> length block - base" by simp
  finally show ?thesis using base by simp
qed

lemma length_table: "\<forall>e\<in>set es. wf e \<Longrightarrow> length (concat (map encode es)) = length es * size"
  by (induction es) (simp_all add: length_encode)

lemma entries_encode:
  "\<forall>e\<in>set es. wf e \<Longrightarrow>
     map (\<lambda>i. entry_at (pre @ concat (map encode es) @ post) (length pre + i * size)) [0..<length es] = es"
proof (induction es arbitrary: pre)
  case (Cons e es)
  let ?b = "pre @ concat (map encode (e # es)) @ post"
  have b: "?b = (pre @ encode e) @ concat (map encode es) @ post" by simp
  have len: "length (pre @ encode e) = length pre + size"
    using Cons.prems by (simp add: length_encode)
  have "map (\<lambda>i. entry_at ?b (length pre + i * size)) [0..<length (e # es)] =
      entry_at ?b (length pre) # map (\<lambda>i. entry_at ?b (length pre + size + i * size)) [0..<length es]"
    by (simp only: length_Cons map_upt_Suc) (simp add: ac_simps)
  also have "map (\<lambda>i. entry_at ?b (length pre + size + i * size)) [0..<length es] = es"
    using Cons.IH [of "pre @ encode e"] Cons.prems unfolding b len by simp
  also have "entry_at ?b (length pre) = e"
    using entry_at_encode [of e pre "concat (map encode es) @ post"] Cons.prems by simp
  finally show ?case .
qed simp

lemma parse_encode:
  assumes wf: "\<forall>e\<in>set es. wf e" and base: "length pre = base"
  shows "parse (pre @ concat (map encode es) @ post) (length es) = es"
proof -
  let ?b = "pre @ concat (map encode es) @ post"
  have "length es * size \<le> length ?b - base"
    using base by (simp add: length_table [OF wf])
  then have "length es \<le> (length ?b - base) div size"
    using size_pos by (simp add: less_eq_div_iff_mult_less_eq)
  then show ?thesis
    unfolding parse_eq using entries_encode [OF wf, of pre post] base by (simp add: min_def)
qed

end

definition encode_item_header :: "item_header \<Rightarrow> bytes" where
  "encode_item_header ih =
     encode_disk_key (ih_key ih) @ to_le_bytes (ih_data_offset ih) @ to_le_bytes (ih_data_size ih)"

definition encode_key_ptr :: "key_ptr \<Rightarrow> bytes" where
  "encode_key_ptr kp =
     encode_disk_key (kp_key kp) @ to_le_bytes (kp_blockptr kp) @ to_le_bytes (kp_generation kp)"

interpretation items: capped_table parse_items BTRFS_HEADER_SIZE BTRFS_ITEM_SIZE item_header_at
    encode_item_header "\<lambda>_. True"
  by unfold_locales
    (simp_all add: parse_items_def Let_def item_header_at_def encode_item_header_def
      BTRFS_ITEM_SIZE_def DISK_KEY_SIZE_def read_simps)

interpretation ptrs: capped_table parse_key_ptrs BTRFS_HEADER_SIZE BTRFS_KEY_PTR_SIZE key_ptr_at
    encode_key_ptr "\<lambda>_. True"
  by unfold_locales
    (simp_all add: parse_key_ptrs_def Let_def key_ptr_at_def encode_key_ptr_def
      BTRFS_KEY_PTR_SIZE_def DISK_KEY_SIZE_def read_simps)

interpretation stripes: capped_table chunk_stripes CHUNK_HEADER_SIZE STRIPE_SIZE stripe_at
    encode_stripe wf_stripe
  by unfold_locales
    (simp_all add: chunk_stripes_def Let_def STRIPE_SIZE_def read_simps)

lemma unat_of_nat_u32: "n < 2 ^ 32 \<Longrightarrow> unat (of_nat n :: u32) = n"
  by (simp add: unat_of_nat)

section \<open>Totality and bounds of node parsing\<close>

lemma header_parse_fields:
  assumes "header_parse block = Some h"
  shows "h_nritems h = le_u32 block 0x60" and "h_level h = u8_at block 0x64"
    and "h_owner h = le_u64 block 0x58" and "h_generation h = le_u64 block 0x50"
    and "h_bytenr h = le_u64 block 0x30" and "h_fsid h = bytes_at block 0x20 16"
  using assms by (auto simp: header_parse_def split: if_splits)

lemma node_parse_Inr_iff:
  "node_parse crc block = Inr n \<longleftrightarrow>
     101 \<le> length block \<and> n_block n = block \<and> header_parse block = Some (n_header n) \<and>
     n_crc_valid n = Some (verify_superblock_crc32c crc block (length block)) \<and>
     n_body n = (if h_level (n_header n) = 0
       then Leaf (parse_items block (unat (h_nritems (n_header n))))
       else Interior (parse_key_ptrs block (unat (h_nritems (n_header n)))))"
  by (cases n) (auto simp: node_parse_def header_parse_def BTRFS_HEADER_SIZE_def Let_def)

lemma node_parse_ok_iff: "(\<exists>n. node_parse crc block = Inr n) \<longleftrightarrow> 101 \<le> length block"
  by (auto simp: node_parse_def header_parse_def BTRFS_HEADER_SIZE_def Let_def)

lemma node_parse_Inl_iff:
  "node_parse crc block = Inl e \<longleftrightarrow>
     length block < 101 \<and> e = Truncated ''btrfs_header'' 101 (length block)"
  by (auto simp: node_parse_def header_parse_def BTRFS_HEADER_SIZE_def Let_def split: if_splits)

lemma is_leaf_iff: "node_parse crc block = Inr n \<Longrightarrow> is_leaf n \<longleftrightarrow> h_level (n_header n) = 0"
  by (auto simp: node_parse_Inr_iff is_leaf_def)

lemma leaf_items_interior: "\<not> is_leaf n \<Longrightarrow> leaf_items n = []"
  by (auto simp: is_leaf_def leaf_items_def split: body.splits)

lemma key_ptrs_leaf: "is_leaf n \<Longrightarrow> key_ptrs n = []"
  by (auto simp: is_leaf_def key_ptrs_def split: body.splits)

text \<open>The data of an item on a block that fits in memory, without saturation.\<close>

lemma item_data_exact:
  assumes "fits_memory (n_block n)"
  shows "item_data n it =
    (if 101 + unat (ih_data_offset it) + unat (ih_data_size it) \<le> length (n_block n)
     then take (unat (ih_data_size it)) (drop (101 + unat (ih_data_offset it)) (n_block n)) else [])"
proof -
  have "sat_add 101 (unat (ih_data_offset it)) = 101 + unat (ih_data_offset it)"
    using unat_u32_le [of "ih_data_offset it"] by (intro sat_add_exact) (simp add: usize_max_def)
  then show ?thesis
    by (simp add: item_data_def Let_def BTRFS_HEADER_SIZE_def get_range_sat_add [OF assms])
qed

lemma leaf_items_at:
  assumes "node_parse crc block = Inr n" and "is_leaf n" and "i < length (leaf_items n)"
  shows "leaf_items n ! i = (disk_key_parse block (101 + i * 25),
    item_data n (item_header_at block (101 + i * 25)))"
proof -
  let ?its = "parse_items block (unat (h_nritems (n_header n)))"
  have body: "n_body n = Leaf ?its"
    using assms(1,2) by (auto simp: node_parse_Inr_iff is_leaf_def split: if_splits)
  with assms(3) have i: "i < length ?its" by (simp add: leaf_items_def)
  then have "?its ! i = item_header_at block (101 + i * 25)"
    using items.entry_in_buffer(2) [of i block] by (simp add: node_consts DISK_KEY_SIZE_def)
  with body i show ?thesis
    by (simp add: leaf_items_def item_header_at_def)
qed

lemma length_leaf_items:
  assumes "node_parse crc block = Inr n" and "is_leaf n"
  shows "length (leaf_items n) = min (unat (h_nritems (n_header n))) ((length block - 101) div 25)"
  using assms items.length_parse [of block]
  by (auto simp: node_parse_Inr_iff is_leaf_def leaf_items_def node_consts DISK_KEY_SIZE_def
      split: if_splits)

section \<open>Writing nodes\<close>

text \<open>
  The layout the tests build their fixtures with (\<open>build_leaf\<close> in \<open>core/src/vfs.rs\<close>): item
  headers grow forward from the header, data backward from the end of the block.
\<close>

definition encode_header :: "header \<Rightarrow> bytes" where
  "encode_header h =
     h_csum h @ zeros 28 @ h_fsid h @ to_le_bytes (h_bytenr h) @ to_le_bytes (h_flags h)
     @ h_chunk_tree_uuid h @ to_le_bytes (h_generation h) @ to_le_bytes (h_owner h)
     @ to_le_bytes (h_nritems h) @ [h_level h]"

definition wf_header :: "header \<Rightarrow> bool" where
  "wf_header h \<longleftrightarrow>
     length (h_csum h) = 4 \<and> length (h_fsid h) = 16 \<and> length (h_chunk_tree_uuid h) = 16"

lemma length_encode_header [simp]: "wf_header h \<Longrightarrow> length (encode_header h) = 101"
  by (simp add: encode_header_def wf_header_def)

lemma header_parse_encode: "wf_header h \<Longrightarrow> header_parse (encode_header h @ rest) = Some h"
  unfolding header_parse_def encode_header_def wf_header_def
  by (simp add: BTRFS_HEADER_SIZE_def read_simps)

text \<open>The item headers of a leaf whose data area ends \<open>tail\<close> bytes behind the node header.\<close>

fun item_table :: "nat \<Rightarrow> (disk_key \<times> bytes) list \<Rightarrow> item_header list" where
  "item_table tail [] = []"
| "item_table tail ((k, d) # its) =
     \<lparr> ih_key = k, ih_data_offset = of_nat (tail - length d), ih_data_size = of_nat (length d) \<rparr>
     # item_table (tail - length d) its"

definition data_size :: "(disk_key \<times> bytes) list \<Rightarrow> nat" where
  "data_size its = sum_list (map (\<lambda>(_, d). length d) its)"

definition encode_leaf :: "header \<Rightarrow> bytes \<Rightarrow> (disk_key \<times> bytes) list \<Rightarrow> bytes" where
  "encode_leaf h gap its =
     encode_header h
     @ concat (map encode_item_header (item_table (25 * length its + length gap + data_size its) its))
     @ gap @ concat (rev (map snd its))"

definition wf_leaf :: "header \<Rightarrow> bytes \<Rightarrow> (disk_key \<times> bytes) list \<Rightarrow> bool" where
  "wf_leaf h gap its \<longleftrightarrow>
     wf_header h \<and> h_level h = 0 \<and> unat (h_nritems h) = length its \<and>
     25 * length its + length gap + data_size its < 2 ^ 32"

lemma length_item_table [simp]: "length (item_table tail its) = length its"
  by (induction tail its rule: item_table.induct) simp_all

lemma data_size_simps [simp]:
  "data_size [] = 0" "data_size ((k, d) # its) = length d + data_size its"
  by (simp_all add: data_size_def)

lemma length_concat_rev_data: "length (concat (rev (map snd its))) = data_size its"
  by (induction its) auto

lemma length_concat_data: "length (concat (map snd its)) = data_size its"
  by (induction its) auto

lemma length_encode_leaf:
  "wf_header h \<Longrightarrow> length (encode_leaf h gap its) = 101 + 25 * length its + length gap + data_size its"
  using items.length_table by (simp add: encode_leaf_def length_concat_rev_data length_concat_data
      node_consts DISK_KEY_SIZE_def)

lemma item_data_slice:
  assumes "fits_memory (n_block n)" and "n_block n = A @ d @ B"
    and "length A = 101 + unat (ih_data_offset it)" and "length d = unat (ih_data_size it)"
  shows "item_data n it = d"
  unfolding item_data_exact [OF assms(1)] using assms by simp

lemma item_table_data:
  assumes "n_block n = pre @ concat (rev (map snd its)) @ post"
    and "length pre + data_size its = 101 + tail" and "data_size its \<le> tail" and "tail < 2 ^ 32"
    and "fits_memory (n_block n)"
  shows "map (\<lambda>it. (ih_key it, item_data n it)) (item_table tail its) = its"
  using assms
proof (induction its arbitrary: tail post)
  case (Cons kd its)
  obtain k d where kd: "kd = (k, d)" by fastforce
  let ?it = "\<lparr> ih_key = k, ih_data_offset = of_nat (tail - length d), ih_data_size = of_nat (length d) \<rparr>"
  have block: "n_block n = pre @ concat (rev (map snd its)) @ d @ post"
    using Cons.prems(1) by (simp add: kd)
  have off: "unat (of_nat (tail - length d) :: u32) = tail - length d"
    "unat (of_nat (length d) :: u32) = length d"
    by (rule unat_of_nat_u32, use Cons.prems(3,4) in \<open>simp add: kd\<close>)+
  have pos: "101 + (tail - length d) = length (pre @ concat (rev (map snd its)))"
    using Cons.prems(2,3) by (simp add: kd length_concat_data)
  have "item_data n ?it = d"
    using block pos off
    by (intro item_data_slice [OF Cons.prems(5), of "pre @ concat (rev (map snd its))" d post])
      (simp_all del: of_nat_diff)
  moreover have "map (\<lambda>it. (ih_key it, item_data n it)) (item_table (tail - length d) its) = its"
    using Cons.prems block by (intro Cons.IH [of "d @ post"]) (auto simp: kd)
  ultimately show ?case by (simp add: kd)
qed simp

lemma encode_leaf_items:
  assumes wf: "wf_leaf h gap its" and n: "node_parse crc (encode_leaf h gap its) = Inr n"
  shows "n_header n = h" and "leaf_items n = its" and "is_leaf n"
proof -
  let ?tail = "25 * length its + length gap + data_size its"
  let ?tab = "concat (map encode_item_header (item_table ?tail its))"
  have blk: "encode_leaf h gap its = encode_header h @ ?tab @ (gap @ concat (rev (map snd its)))"
    by (simp add: encode_leaf_def)
  have hdr: "header_parse (encode_leaf h gap its) = Some h"
    using wf by (simp add: encode_leaf_def header_parse_encode wf_leaf_def)
  then show h: "n_header n = h"
    using n by (simp add: node_parse_Inr_iff)
  have "parse_items (encode_leaf h gap its) (length (item_table ?tail its)) = item_table ?tail its"
    unfolding blk using wf by (intro items.parse_encode) (auto simp: wf_leaf_def BTRFS_HEADER_SIZE_def)
  then have body: "n_body n = Leaf (item_table ?tail its)"
    using n wf h by (simp add: node_parse_Inr_iff wf_leaf_def)
  then show "is_leaf n" by (simp add: is_leaf_def)
  have len: "length ?tab = 25 * length its"
    using items.length_table [of "item_table ?tail its"] by (simp add: node_consts DISK_KEY_SIZE_def)
  have "map (\<lambda>it. (ih_key it, item_data n it)) (item_table ?tail its) = its"
  proof (rule item_table_data)
    show "n_block n = (encode_header h @ ?tab @ gap) @ concat (rev (map snd its)) @ []"
      using n by (simp add: node_parse_Inr_iff blk)
    show "length (encode_header h @ ?tab @ gap) + data_size its = 101 + ?tail"
      using wf len by (simp add: wf_leaf_def)
    have "length (n_block n) = 101 + ?tail"
      using n wf len by (simp add: node_parse_Inr_iff blk length_concat_data wf_leaf_def)
    then show "fits_memory (n_block n)"
      using wf by (simp add: fits_memory_def wf_leaf_def)
  qed (use wf in \<open>auto simp: wf_leaf_def\<close>)
  then show "leaf_items n = its"
    using body by (simp add: leaf_items_def)
qed

definition encode_interior :: "header \<Rightarrow> key_ptr list \<Rightarrow> bytes \<Rightarrow> bytes" where
  "encode_interior h ptrs rest = encode_header h @ concat (map encode_key_ptr ptrs) @ rest"

lemma encode_interior_ptrs:
  assumes "wf_header h" and "h_level h \<noteq> 0" and "unat (h_nritems h) = length ptrs"
    and n: "node_parse crc (encode_interior h ptrs rest) = Inr n"
  shows "n_header n = h" and "key_ptrs n = ptrs" and "\<not> is_leaf n"
proof -
  have hdr: "header_parse (encode_interior h ptrs rest) = Some h"
    using assms(1) by (simp add: encode_interior_def header_parse_encode)
  then show h: "n_header n = h"
    using n by (simp add: node_parse_Inr_iff)
  have "parse_key_ptrs (encode_interior h ptrs rest) (length ptrs) = ptrs"
    unfolding encode_interior_def using assms(1)
    by (intro ptrs.parse_encode) (auto simp: BTRFS_HEADER_SIZE_def)
  then have "n_body n = Interior ptrs"
    using assms h by (simp add: node_parse_Inr_iff)
  then show "key_ptrs n = ptrs" "\<not> is_leaf n"
    by (simp_all add: key_ptrs_def is_leaf_def)
qed

text \<open>A chunk item.\<close>

definition encode_chunk :: "bytes \<Rightarrow> chunk \<Rightarrow> bytes" where
  "encode_chunk hints c =
     to_le_bytes (ck_length c) @ to_le_bytes (ck_owner c) @ to_le_bytes (ck_stripe_len c)
     @ to_le_bytes (ck_type c) @ hints @ to_le_bytes (ck_num_stripes c)
     @ to_le_bytes (ck_sub_stripes c) @ concat (map encode_stripe (ck_stripes c))"

definition wf_chunk :: "chunk \<Rightarrow> bool" where
  "wf_chunk c \<longleftrightarrow>
     length (ck_stripes c) = unat (ck_num_stripes c) \<and> (\<forall>s\<in>set (ck_stripes c). wf_stripe s)"

lemma chunk_parse_encode:
  assumes "wf_chunk c" and hints: "length hints = 12"
  shows "chunk_parse (encode_chunk hints c) = c"
proof -
  let ?hdr = "to_le_bytes (ck_length c) @ to_le_bytes (ck_owner c) @ to_le_bytes (ck_stripe_len c)
     @ to_le_bytes (ck_type c) @ hints @ to_le_bytes (ck_num_stripes c) @ to_le_bytes (ck_sub_stripes c)"
  have "encode_chunk hints c = ?hdr @ concat (map encode_stripe (ck_stripes c)) @ []"
    by (simp add: encode_chunk_def)
  moreover have "chunk_stripes (?hdr @ concat (map encode_stripe (ck_stripes c)) @ [])
      (length (ck_stripes c)) = ck_stripes c"
    using assms by (intro stripes.parse_encode) (auto simp: wf_chunk_def CHUNK_HEADER_SIZE_def)
  ultimately have "chunk_stripes (encode_chunk hints c) (length (ck_stripes c)) = ck_stripes c"
    by simp
  moreover have "le_u16 (encode_chunk hints c) 44 = ck_num_stripes c"
    "le_u64 (encode_chunk hints c) 0 = ck_length c" "le_u64 (encode_chunk hints c) 8 = ck_owner c"
    "le_u64 (encode_chunk hints c) 16 = ck_stripe_len c" "le_u64 (encode_chunk hints c) 24 = ck_type c"
    "le_u16 (encode_chunk hints c) 46 = ck_sub_stripes c"
    using hints by (simp_all add: encode_chunk_def read_simps)
  ultimately show ?thesis
    using assms by (simp add: chunk_parse_def Let_def wf_chunk_def)
qed

section \<open>Properties\<close>

text \<open>
  Claim C36. \<open>Node::parse\<close> and \<open>leaf_items\<close> invert the on-disk layout of a leaf: header, keys and
  data of every item come back in order, whatever the checksum says and whatever fills the gap
  between the item headers and the data; a leaf offers no key pointers.
\<close>

theorem leaf_roundtrip:
  assumes "wf_leaf h gap its"
  shows "\<exists>n. node_parse crc (encode_leaf h gap its) = Inr n \<and> n_header n = h \<and> is_leaf n \<and>
    leaf_items n = its \<and> key_ptrs n = []"
proof -
  have "101 \<le> length (encode_leaf h gap its)"
    using assms by (simp add: encode_leaf_def wf_leaf_def)
  then obtain n where n: "node_parse crc (encode_leaf h gap its) = Inr n"
    using node_parse_ok_iff by blast
  with encode_leaf_items [OF assms n] key_ptrs_leaf show ?thesis
    by blast
qed

definition demo_header :: "u64 \<Rightarrow> u8 \<Rightarrow> nat \<Rightarrow> header" where
  "demo_header owner level n =
     \<lparr> h_csum = replicate 4 0, h_fsid = replicate 16 1, h_bytenr = 30654464, h_flags = 1,
       h_chunk_tree_uuid = replicate 16 2, h_generation = 9, h_owner = owner,
       h_nritems = of_nat n, h_level = level \<rparr>"

lemma demo_header_simps [simp]:
  "wf_header (demo_header owner level n)"
  "h_level (demo_header owner level n) = level"
  "h_owner (demo_header owner level n) = owner"
  "h_nritems (demo_header owner level n) = of_nat n"
  "h_bytenr (demo_header owner level n) = 30654464"
  by (simp_all add: demo_header_def wf_header_def)

theorem leaf_roundtrip_witness:
  "\<exists>n. node_parse crc32c_ref (encode_leaf (demo_header 5 0 2) [0, 0]
       [(\<lparr>k_objectid = 256, k_type = 1, k_offset = 0\<rparr>, [1, 2, 3]),
        (\<lparr>k_objectid = 257, k_type = 1, k_offset = 0\<rparr>, [4])]) = Inr n \<and>
     map snd (leaf_items n) = [[1, 2, 3], [4]]"
  using leaf_roundtrip [of "demo_header 5 0 2" "[0, 0]"
      "[(\<lparr>k_objectid = 256, k_type = 1, k_offset = 0\<rparr>, [1, 2, 3]),
        (\<lparr>k_objectid = 257, k_type = 1, k_offset = 0\<rparr>, [4])]" crc32c_ref]
  by (auto simp: wf_leaf_def)

text \<open>
  Interior nodes likewise: the key pointers laid out behind the header come back in
  order, and an interior node offers no items.
\<close>

theorem interior_roundtrip:
  assumes "wf_header h" and "h_level h \<noteq> 0" and "unat (h_nritems h) = length ptrs"
  shows "\<exists>n. node_parse crc (encode_interior h ptrs rest) = Inr n \<and> n_header n = h \<and> \<not> is_leaf n \<and>
    key_ptrs n = ptrs \<and> leaf_items n = []"
proof -
  have "101 \<le> length (encode_interior h ptrs rest)"
    using assms by (simp add: encode_interior_def)
  then obtain n where n: "node_parse crc (encode_interior h ptrs rest) = Inr n"
    using node_parse_ok_iff by blast
  with encode_interior_ptrs [OF assms n] leaf_items_interior show ?thesis
    by blast
qed

theorem interior_roundtrip_witness:
  "\<exists>n. node_parse crc32c_ref (encode_interior (demo_header 3 1 1)
       [\<lparr>kp_key = \<lparr>k_objectid = 256, k_type = 228, k_offset = 0\<rparr>, kp_blockptr = 4096, kp_generation = 8\<rparr>]
       [7]) = Inr n \<and> map kp_blockptr (key_ptrs n) = [4096]"
  using interior_roundtrip [of "demo_header 3 1 1"
      "[\<lparr>kp_key = \<lparr>k_objectid = 256, k_type = 228, k_offset = 0\<rparr>, kp_blockptr = 4096, kp_generation = 8\<rparr>]"
      crc32c_ref "[7]"]
  by auto

text \<open>
  Claim C37. On any leaf that fits in memory, however its header lies, item \<open>i\<close> is read as
  declared at position \<open>101 + 25 * i\<close>, its data is the declared slice when that slice lies
  inside the block and empty otherwise, and the number of items is the declared count capped
  by the room for item headers.
\<close>

theorem leaf_items_exact:
  assumes "node_parse crc block = Inr n" and "is_leaf n" and "fits_memory block"
  shows "leaf_items n =
    map (\<lambda>i. let p = 101 + 25 * i; s = 101 + unat (le_u32 block (p + 17)); m = unat (le_u32 block (p + 21)) in
         (disk_key_parse block p, if s + m \<le> length block then take m (drop s block) else []))
      [0..<min (unat (le_u32 block 0x60)) ((length block - 101) div 25)]"
    (is "_ = map ?f [0..<?n]")
proof (rule nth_equalityI)
  have "h_nritems (n_header n) = le_u32 block 0x60" and blk: "n_block n = block"
    using assms(1) by (auto simp: node_parse_Inr_iff header_parse_fields)
  then show "length (leaf_items n) = length (map ?f [0..<?n])"
    using length_leaf_items [OF assms(1,2)] by simp
  then have len: "length (leaf_items n) = ?n" by simp
  fix i assume i: "i < length (leaf_items n)"
  have p: "101 + i * 25 = 101 + 25 * i" by simp
  show "leaf_items n ! i = map ?f [0..<?n] ! i"
    unfolding leaf_items_at [OF assms(1,2) i] p
    using i len assms(3)
    by (simp add: item_data_exact blk Let_def item_header_at_def DISK_KEY_SIZE_def ac_simps)
qed

theorem leaf_items_exact_witness:
  "\<exists>n. node_parse crc32c_ref (encode_header (demo_header 5 0 9) @ encode_item_header
       \<lparr>ih_key = \<lparr>k_objectid = 256, k_type = 1, k_offset = 0\<rparr>, ih_data_offset = 0, ih_data_size = 99\<rparr>)
     = Inr n \<and> map snd (leaf_items n) = [[]]"
proof -
  define it where "it = \<lparr>ih_key = \<lparr>k_objectid = 256, k_type = 1, k_offset = 0\<rparr>,
    ih_data_offset = 0, ih_data_size = 99\<rparr>"
  define b where "b = encode_header (demo_header 5 0 9) @ encode_item_header it"
  have len: "length b = 126"
    by (simp add: b_def encode_item_header_def)
  have hdr: "header_parse b = Some (demo_header 5 0 9)"
    by (simp add: b_def header_parse_encode)
  have reads: "le_u32 b 118 = 0" "le_u32 b 122 = 99"
    by (simp_all add: b_def encode_item_header_def it_def read_simps)
  obtain n where n: "node_parse crc32c_ref b = Inr n"
    using node_parse_ok_iff [of crc32c_ref b] len by auto
  have "n_header n = demo_header 5 0 9"
    using n hdr by (simp add: node_parse_Inr_iff)
  then have leaf: "is_leaf n" by (simp add: is_leaf_iff [OF n])
  moreover have "le_u32 b 96 = 9" "fits_memory b"
    using header_parse_fields(1) [OF hdr] by (simp_all add: fits_memory_def len)
  ultimately have "map snd (leaf_items n) = [[]]"
    using leaf_items_exact [OF n] by (simp add: Let_def len reads)
  with n show ?thesis
    unfolding it_def [symmetric] b_def [symmetric] by (intro exI [of _ n] conjI)
qed

text \<open>
  Tampering with a verified node is visible and not fatal: after an edit of at most
  four consecutive bytes, in the stored digest or behind the digest field, the node still
  parses and its checksum status is \<open>Some(false)\<close>. A node shorter than its header is the only
  parse error.
\<close>

theorem node_tamper_visible:
  assumes "checksum crc" and "node_parse crc block = Inr n" and "n_crc_valid n = Some True"
    and "off + length e \<le> 4 \<or> 32 \<le> off \<and> off + length e \<le> length block \<and> length e \<le> 4"
    and "overwrite block off e \<noteq> block"
  shows "\<exists>n'. node_parse crc (overwrite block off e) = Inr n' \<and> n_crc_valid n' = Some False"
proof -
  have ok: "verify_superblock_crc32c crc block (length block)" and len: "101 \<le> length block"
    using assms(2,3) by (auto simp: node_parse_Inr_iff)
  have len': "length (overwrite block off e) = length block"
    using assms(4) len by (intro length_overwrite) auto
  then obtain n' where n': "node_parse crc (overwrite block off e) = Inr n'"
    using node_parse_ok_iff [of crc "overwrite block off e"] len by auto
  moreover have "\<not> verify_superblock_crc32c crc (overwrite block off e) (length block)"
    using assms by (intro checksum.edit_detected [OF assms(1) ok]) auto
  ultimately show ?thesis
    using len' by (auto simp: node_parse_Inr_iff)
qed

theorem node_tamper_visible_witness:
  "\<exists>n'. node_parse crc32c_ref
     (overwrite (seal crc32c_ref (encode_leaf (demo_header 5 0 0) [0] [])) 88 [6]) = Inr n' \<and>
     n_crc_valid n' = Some False"
proof -
  let ?l = "encode_leaf (demo_header 5 0 0) [0] []"
  let ?b = "seal crc32c_ref ?l"
  have len: "length ?l = 102" by (simp add: encode_leaf_def)
  then have "length ?b = 102" "verify_superblock_crc32c crc32c_ref ?b (length ?b)"
    using verify_seal [of ?l crc32c_ref] by simp_all
  moreover from this obtain n where n: "node_parse crc32c_ref ?b = Inr n"
    using node_parse_ok_iff [of crc32c_ref ?b] by auto
  moreover have "drop 88 (overwrite ?b 88 [6]) = 6 # drop 89 ?b"
    using \<open>length ?b = 102\<close> by (simp add: overwrite_def)
  moreover have "drop 88 ?b = drop 88 ?l"
    using len by (simp add: drop_seal)
  moreover have "take 1 (drop 88 ?l) = [5]"
    using nat_le.simps(2) [of 7 5]
    by (simp add: encode_leaf_def encode_header_def demo_header_def zeros_def to_le_bytes_def)
  ultimately have "overwrite ?b 88 [6] \<noteq> ?b" by auto
  with n \<open>length ?b = 102\<close> \<open>verify_superblock_crc32c crc32c_ref ?b (length ?b)\<close> show ?thesis
    by (intro node_tamper_visible [OF ref.checksum_axioms n]) (auto simp: node_parse_Inr_iff)
qed

end
