(* ===== verification/ChunkMap.thy ===== *)
theory ChunkMap
  imports Node
begin

text \<open>
  \<open>core/src/node.rs\<close>, second half: the chunk map (logical to physical), the walk of the chunk
  tree that builds it, and \<open>read_node\<close>. The stack of the walk is a list whose head is the top;
  its visit budget of 4096 is the recursion argument. The function \<open>subtree\<close> says which nodes a
  tree consists of, independently of stack and budget, and the walk is proved to collect
  exactly its leaves.
\<close>

section \<open>The map\<close>

record map_entry =
  me_start :: u64
  me_length :: u64
  me_stripes :: "(u64 \<times> u64) list"

type_synonym chunk_map = "map_entry list"

definition map_new :: chunk_map where
  "map_new = []"

definition entry_of_chunk :: "u64 \<times> chunk \<Rightarrow> map_entry" where
  "entry_of_chunk lc =
     (case lc of (logical, chunk) \<Rightarrow>
        \<lparr> me_start = logical, me_length = ck_length chunk,
          me_stripes = map (\<lambda>s. (s_devid s, s_offset s)) (ck_stripes chunk) \<rparr>)"

definition entry_of_sys :: "sys_chunk \<Rightarrow> map_entry" where
  "entry_of_sys c =
     \<lparr> me_start = k_offset (sc_key c), me_length = sc_length c,
       me_stripes = map (\<lambda>s. (s_devid s, s_offset s)) (sc_stripes c) \<rparr>"

definition add_from_node :: "chunk_map \<Rightarrow> node \<Rightarrow> chunk_map" where
  "add_from_node m node = m @ map entry_of_chunk (chunk_items node)"

text \<open>The lookup returns from the loop as soon as one \<open>?\<close> fails.\<close>

fun map_l2p :: "chunk_map \<Rightarrow> u64 \<Rightarrow> (u64 \<times> u64) option" where
  "map_l2p [] logical = None"
| "map_l2p (e # es) logical =
     (case u64_checked_add (me_start e) (me_length e) of
        None \<Rightarrow> None
      | Some lim \<Rightarrow>
          if me_start e \<le> logical \<and> logical < lim then
            (case me_stripes e of
               [] \<Rightarrow> None
             | (devid, phys_start) # _ \<Rightarrow>
                 let delta = logical - me_start e in
                 (case u64_checked_add phys_start delta of
                    None \<Rightarrow> None
                  | Some phys \<Rightarrow> Some (devid, phys)))
          else map_l2p es logical)"

section \<open>Building the map\<close>

definition or_else :: "'a option \<Rightarrow> 'a option \<Rightarrow> 'a option" where
  "or_else x y = (case x of None \<Rightarrow> y | Some _ \<Rightarrow> x)"

lemma or_else_simps [simp]: "or_else None y = y" "or_else (Some x) y = Some x"
  by (simp_all add: or_else_def)

fun walk_loop :: "(bytes \<Rightarrow> u32) \<Rightarrow> bytes \<Rightarrow> nat \<Rightarrow> chunk_map \<Rightarrow>
    nat \<Rightarrow> chunk_map \<Rightarrow> u64 list \<Rightarrow> bool \<Rightarrow> btrfs_error + chunk_map" where
  "walk_loop crc img nodesize boot budget m [] bootstrapped = Inr m"
| "walk_loop crc img nodesize boot 0 m (logical # st) bootstrapped = Inr m"
| "walk_loop crc img nodesize boot (Suc budget) m (logical # st) bootstrapped =
     (case or_else (map_l2p m logical) (map_l2p boot logical) of
        None \<Rightarrow>
          if \<not> bootstrapped then
            Inl (Truncated ''chunk_root logical (sys_chunk_array bootstrap)'' (unat logical) 0)
          else walk_loop crc img nodesize boot budget m st bootstrapped
      | Some (_, phys) \<Rightarrow>
          let start = unat phys in
          (case get_range img start (sat_add start nodesize) of
             None \<Rightarrow>
               if m = [] then
                 Inl (Truncated ''chunk_root node (out of image)'' (sat_add start nodesize) (length img))
               else walk_loop crc img nodesize boot budget m st True
           | Some block \<Rightarrow>
               (case node_parse crc block of
                  Inl _ \<Rightarrow> walk_loop crc img nodesize boot budget m st True
                | Inr node \<Rightarrow>
                    if is_leaf node then
                      walk_loop crc img nodesize boot budget (add_from_node m node) st True
                    else
                      walk_loop crc img nodesize boot budget m
                        (rev (map kp_blockptr (key_ptrs node)) @ st) True)))"

definition boot_map :: "superblock \<Rightarrow> chunk_map" where
  "boot_map sb = map entry_of_sys (sb_sys_chunks sb)"

definition walk :: "(bytes \<Rightarrow> u32) \<Rightarrow> bytes \<Rightarrow> superblock \<Rightarrow> btrfs_error + chunk_map" where
  "walk crc img sb =
     walk_loop crc img (unat (sb_nodesize sb)) (boot_map sb) 4096 [] [sb_chunk_root sb] False"

section \<open>Reading a node by its logical address\<close>

text \<open>\<open>Iterator::find_map\<close>.\<close>

fun find_map :: "('a \<Rightarrow> 'b option) \<Rightarrow> 'a list \<Rightarrow> 'b option" where
  "find_map f [] = None"
| "find_map f (x # xs) = (case f x of None \<Rightarrow> find_map f xs | Some y \<Rightarrow> Some y)"

definition node_phys :: "superblock \<Rightarrow> chunk_map \<Rightarrow> u64 \<Rightarrow> (u64 \<times> u64) option" where
  "node_phys sb m logical =
     or_else (map_l2p m logical)
       (find_map (\<lambda>c. map_option (Pair 0) (sys_chunk_l2p c logical)) (sb_sys_chunks sb))"

definition read_node ::
    "(bytes \<Rightarrow> u32) \<Rightarrow> bytes \<Rightarrow> superblock \<Rightarrow> chunk_map \<Rightarrow> u64 \<Rightarrow> btrfs_error + node" where
  "read_node crc img sb m logical =
     (case node_phys sb m logical of
        None \<Rightarrow> Inl (Truncated ''logical address (no chunk mapping)'' (unat logical) 0)
      | Some (_, phys) \<Rightarrow>
          let nodesize = unat (sb_nodesize sb); start = unat phys in
          (case get_range img start (sat_add start nodesize) of
             None \<Rightarrow> Inl (Truncated ''node block (out of image)'' (sat_add start nodesize) (length img))
           | Some block \<Rightarrow> node_parse crc block))"

section \<open>Lookup\<close>

text \<open>What one entry does with an address.\<close>

definition span_ok :: "map_entry \<Rightarrow> bool" where
  "span_ok e \<longleftrightarrow> unat (me_start e) + unat (me_length e) < 2 ^ 64"

definition covers :: "map_entry \<Rightarrow> u64 \<Rightarrow> bool" where
  "covers e l \<longleftrightarrow> unat (me_start e) \<le> unat l \<and> unat l < unat (me_start e) + unat (me_length e)"

definition entry_base :: "map_entry \<Rightarrow> u64 option" where
  "entry_base e = (case me_stripes e of [] \<Rightarrow> None | s # _ \<Rightarrow> Some (snd s))"

definition entry_l2p :: "map_entry \<Rightarrow> u64 \<Rightarrow> u64 option" where
  "entry_l2p e l = map_option snd (map_l2p [e] l)"

interpretation entry: linear_map entry_l2p me_start me_length entry_base
proof
  fix e :: map_entry and l p :: u64
  show "entry_l2p e l = Some p \<longleftrightarrow>
      (\<exists>b. entry_base e = Some b \<and> unat (me_start e) + unat (me_length e) < 2 ^ 64 \<and>
         unat (me_start e) \<le> unat l \<and> unat l < unat (me_start e) + unat (me_length e) \<and>
         unat p = unat b + (unat l - unat (me_start e)))"
  proof (cases "me_stripes e")
    case Nil
    then show ?thesis
      by (auto simp: entry_l2p_def entry_base_def split: option.splits if_splits)
  next
    case (Cons s ss)
    then show ?thesis
      using translate_span_iff [of "me_start e" "me_length e" l "snd s" p]
      by (auto simp: entry_l2p_def entry_base_def Let_def split: option.splits if_splits prod.splits)
  qed
qed

lemma map_l2p_Cons:
  "map_l2p (e # es) l =
     (if \<not> span_ok e then None else if covers e l then map_l2p [e] l else map_l2p es l)"
  by (auto simp: span_ok_def covers_def u64_checked_add_def word_le_nat_alt word_less_nat_alt
      unat_add_u64)

lemma map_l2p_single_Some:
  "map_l2p [e] l = Some (d, p) \<longleftrightarrow>
     (\<exists>ss b. me_stripes e = (d, b) # ss) \<and> entry_l2p e l = Some p"
  by (auto simp: entry_l2p_def Let_def split: option.splits if_splits list.splits)

lemma map_l2p_skip:
  "\<forall>e\<in>set es. span_ok e \<and> \<not> covers e l \<Longrightarrow> map_l2p (es @ es') l = map_l2p es' l"
  by (induction es) (auto simp: map_l2p_Cons simp del: map_l2p.simps(2))

lemma map_l2p_Some_iff:
  "map_l2p m l = Some (d, p) \<longleftrightarrow>
     (\<exists>es e es'. m = es @ e # es' \<and> (\<forall>x\<in>set es. span_ok x \<and> \<not> covers x l) \<and> covers e l \<and>
        (\<exists>ss b. me_stripes e = (d, b) # ss) \<and> entry_l2p e l = Some p)"
proof
  assume "map_l2p m l = Some (d, p)"
  then show "\<exists>es e es'. m = es @ e # es' \<and> (\<forall>x\<in>set es. span_ok x \<and> \<not> covers x l) \<and> covers e l \<and>
        (\<exists>ss b. me_stripes e = (d, b) # ss) \<and> entry_l2p e l = Some p"
  proof (induction m)
    case (Cons a m)
    show ?case
    proof (cases "covers a l")
      case True
      with Cons.prems have "map_l2p [a] l = Some (d, p)"
        by (auto simp: map_l2p_Cons [of a m] simp del: map_l2p.simps(2) split: if_splits)
      then have "(\<exists>ss b. me_stripes a = (d, b) # ss) \<and> entry_l2p a l = Some p"
        by (simp only: map_l2p_single_Some)
      with True show ?thesis
        by (intro exI [of _ "[]"] exI [of _ a] exI [of _ m]) auto
    next
      case False
      with Cons.prems have a: "span_ok a" and "map_l2p m l = Some (d, p)"
        by (auto simp: map_l2p_Cons [of a m] simp del: map_l2p.simps(2) split: if_splits)
      with Cons.IH obtain es e es' where m: "m = es @ e # es'"
        and r: "\<forall>x\<in>set es. span_ok x \<and> \<not> covers x l" "covers e l"
          "\<exists>ss b. me_stripes e = (d, b) # ss" "entry_l2p e l = Some p"
        by blast
      from m r a False show ?thesis
        by (intro exI [of _ "a # es"] exI [of _ e] exI [of _ es']) auto
    qed
  qed simp
next
  assume "\<exists>es e es'. m = es @ e # es' \<and> (\<forall>x\<in>set es. span_ok x \<and> \<not> covers x l) \<and> covers e l \<and>
        (\<exists>ss b. me_stripes e = (d, b) # ss) \<and> entry_l2p e l = Some p"
  then obtain es e es' where m: "m = es @ e # es'" "\<forall>x\<in>set es. span_ok x \<and> \<not> covers x l"
    and e: "covers e l" "\<exists>ss b. me_stripes e = (d, b) # ss" "entry_l2p e l = Some p"
    by blast
  then have "map_l2p m l = map_l2p (e # es') l" by (simp add: map_l2p_skip)
  also have "\<dots> = map_l2p [e] l"
    using e by (auto simp: map_l2p_Cons [of e es'] entry.translate_iff span_ok_def
        simp del: map_l2p.simps(2))
  also have "\<dots> = Some (d, p)" using e map_l2p_single_Some by blast
  finally show "map_l2p m l = Some (d, p)" .
qed

text \<open>
  On entries whose spans do not wrap and do not overlap, the map is a function of the set of
  entries: order and repetition do not matter.
\<close>

definition disjoint_spans :: "chunk_map \<Rightarrow> bool" where
  "disjoint_spans m \<longleftrightarrow>
     (\<forall>e\<in>set m. span_ok e) \<and>
     (\<forall>e\<in>set m. \<forall>e'\<in>set m. \<forall>l. covers e l \<and> covers e' l \<longrightarrow> e = e')"

lemma map_l2p_disjoint:
  assumes "disjoint_spans m" and "e \<in> set m" and "covers e l"
  shows "map_l2p m l = map_l2p [e] l"
proof -
  from assms(2) obtain es es' where m: "m = es @ e # es'" and new: "e \<notin> set es"
    by (meson split_list_first)
  have "span_ok x \<and> \<not> covers x l" if "x \<in> set es" for x
    using that assms m new unfolding disjoint_spans_def by (metis Un_iff set_append)
  then have "map_l2p m l = map_l2p (e # es') l"
    unfolding m by (simp add: map_l2p_skip)
  also have "\<dots> = map_l2p [e] l"
    using assms by (simp add: map_l2p_Cons [of e es'] disjoint_spans_def del: map_l2p.simps(2))
  finally show ?thesis .
qed

lemma map_l2p_uncovered: "\<forall>e\<in>set m. \<not> covers e l \<Longrightarrow> map_l2p m l = None"
  by (induction m) (auto simp: map_l2p_Cons simp del: map_l2p.simps(2))

lemma map_l2p_set:
  assumes "disjoint_spans m" and "set m' = set m"
  shows "map_l2p m' l = map_l2p m l"
proof (cases "\<exists>e\<in>set m. covers e l")
  case True
  then obtain e where "e \<in> set m" "covers e l" by blast
  moreover have "disjoint_spans m'"
    using assms by (simp add: disjoint_spans_def)
  ultimately show ?thesis
    using assms map_l2p_disjoint [of m e l] map_l2p_disjoint [of m' e l] by simp
next
  case False
  then show ?thesis using assms by (simp add: map_l2p_uncovered)
qed

section \<open>The nodes of a tree\<close>

text \<open>
  The nodes below an address, given a function that locates nodes: their number, and the
  leaves from left to right. \<open>None\<close> when a node is missing or the tree is deeper than \<open>d\<close>.
\<close>

primrec subtree :: "(u64 \<Rightarrow> node option) \<Rightarrow> nat \<Rightarrow> u64 \<Rightarrow> (nat \<times> node list) option" where
  "subtree loc 0 l = None"
| "subtree loc (Suc d) l =
     (case loc l of
        None \<Rightarrow> None
      | Some node \<Rightarrow>
          if is_leaf node then Some (1, [node])
          else map_option (\<lambda>rs. (1 + sum_list (map fst rs), concat (map snd rs)))
                 (those (map (subtree loc d) (map kp_blockptr (key_ptrs node)))))"

lemma those_Some_Cons: "those (x # xs) = Some ys \<longleftrightarrow> (\<exists>y zs. x = Some y \<and> those xs = Some zs \<and> ys = y # zs)"
  by (auto split: option.splits)

lemma those_append_Some:
  "those (xs @ ys) = Some zs \<longleftrightarrow> (\<exists>as bs. those xs = Some as \<and> those ys = Some bs \<and> zs = as @ bs)"
  by (induction xs arbitrary: zs) (auto simp: those_Some_Cons simp del: those.simps(2))

lemma those_rev: "those xs = Some ys \<Longrightarrow> those (rev xs) = Some (rev ys)"
  by (induction xs arbitrary: ys) (auto simp: those_append_Some those_Some_Cons simp del: those.simps(2))

definition node_at ::
    "(bytes \<Rightarrow> u32) \<Rightarrow> bytes \<Rightarrow> nat \<Rightarrow> (u64 \<Rightarrow> u64 option) \<Rightarrow> u64 \<Rightarrow> node option" where
  "node_at crc img nodesize tr l =
     (case tr l of
        None \<Rightarrow> None
      | Some p \<Rightarrow>
          (case get_range img (unat p) (sat_add (unat p) nodesize) of
             None \<Rightarrow> None
           | Some block \<Rightarrow> (case node_parse crc block of Inl _ \<Rightarrow> None | Inr node \<Rightarrow> Some node)))"

definition boot_loc :: "(bytes \<Rightarrow> u32) \<Rightarrow> bytes \<Rightarrow> superblock \<Rightarrow> u64 \<Rightarrow> node option" where
  "boot_loc crc img sb =
     node_at crc img (unat (sb_nodesize sb)) (\<lambda>l. map_option snd (map_l2p (boot_map sb) l))"

section \<open>The walk collects exactly the leaves\<close>

text \<open>
  A partial map agrees with the bootstrap map on the addresses of nodes: it does not translate
  them at all, or to the same place.
\<close>

definition agrees :: "(u64 \<Rightarrow> node option) \<Rightarrow> chunk_map \<Rightarrow> chunk_map \<Rightarrow> bool" where
  "agrees loc boot m \<longleftrightarrow>
     (\<forall>l. loc l \<noteq> None \<longrightarrow>
        (case map_l2p m l of None \<Rightarrow> True | Some (_, p) \<Rightarrow> map_option snd (map_l2p boot l) = Some p))"

definition leaf_entries :: "node list \<Rightarrow> chunk_map" where
  "leaf_entries ns = concat (map (\<lambda>n. map entry_of_chunk (chunk_items n)) ns)"

lemma leaf_entries_simps [simp]:
  "leaf_entries [] = []"
  "leaf_entries (n # ns) = map entry_of_chunk (chunk_items n) @ leaf_entries ns"
  "leaf_entries (ns @ ns') = leaf_entries ns @ leaf_entries ns'"
  by (simp_all add: leaf_entries_def)

lemma walk_step:
  assumes "node_at crc img ns (\<lambda>l. map_option snd (map_l2p boot l)) l = Some node"
    and "agrees (node_at crc img ns (\<lambda>l. map_option snd (map_l2p boot l))) boot m"
  shows "walk_loop crc img ns boot (Suc k) m (l # st) b =
    (if is_leaf node then walk_loop crc img ns boot k (add_from_node m node) st True
     else walk_loop crc img ns boot k m (rev (map kp_blockptr (key_ptrs node)) @ st) True)"
proof -
  from assms(1) obtain d p where boot: "map_l2p boot l = Some (d, p)"
    and nd: "(case get_range img (unat p) (sat_add (unat p) ns) of None \<Rightarrow> None
           | Some block \<Rightarrow> (case node_parse crc block of Inl _ \<Rightarrow> None | Inr node \<Rightarrow> Some node)) = Some node"
    by (auto simp: node_at_def split: option.splits prod.splits)
  have "case map_l2p m l of None \<Rightarrow> True | Some (_, q) \<Rightarrow> map_option snd (map_l2p boot l) = Some q"
    using assms unfolding agrees_def by (metis option.distinct(1))
  then have "\<exists>d'. or_else (map_l2p m l) (map_l2p boot l) = Some (d', p)"
    using boot by (auto split: option.splits)
  then show ?thesis
    using nd by (auto simp: Let_def split: option.splits sum.splits)
qed

text \<open>A stack of subtrees is walked one after the other, when each single one is walked whole.\<close>

lemma walk_stack:
  fixes crc img ns boot
  defines "loc \<equiv> node_at crc img ns (\<lambda>l. map_option snd (map_l2p boot l))"
  assumes one: "\<And>l n lvs k m st b. subtree loc d l = Some (n, lvs) \<Longrightarrow> n \<le> k \<Longrightarrow>
      (\<And>j. j \<le> length (leaf_entries (rev lvs)) \<Longrightarrow> agrees loc boot (m @ take j (leaf_entries (rev lvs)))) \<Longrightarrow>
      walk_loop crc img ns boot k m (l # st) b =
        walk_loop crc img ns boot (k - n) (m @ leaf_entries (rev lvs)) st True"
    and "those (map (subtree loc d) qs) = Some ss" and "sum_list (map fst ss) \<le> k"
    and "\<And>j. j \<le> length (leaf_entries (rev (concat (map snd (rev ss))))) \<Longrightarrow>
       agrees loc boot (m @ take j (leaf_entries (rev (concat (map snd (rev ss))))))"
  shows "walk_loop crc img ns boot k m (qs @ st) True =
    walk_loop crc img ns boot (k - sum_list (map fst ss))
      (m @ leaf_entries (rev (concat (map snd (rev ss))))) st True"
  using assms(3-)
proof (induction qs arbitrary: ss k m)
  case (Cons q qs)
  from Cons.prems(1) obtain c ls ss' where q: "subtree loc d q = Some (c, ls)"
    and ss': "those (map (subtree loc d) qs) = Some ss'" and ss: "ss = (c, ls) # ss'"
    by (auto simp: those_Some_Cons simp del: those.simps(2))
  let ?E = "leaf_entries (rev ls)" and ?R = "leaf_entries (rev (concat (map snd (rev ss'))))"
  have all: "leaf_entries (rev (concat (map snd (rev ss)))) = ?E @ ?R"
    by (simp add: ss)
  have agE: "agrees loc boot (m @ take j ?E)" if "j \<le> length ?E" for j
    using Cons.prems(3) [of j] that unfolding all by simp
  have agR: "agrees loc boot ((m @ ?E) @ take j ?R)" if "j \<le> length ?R" for j
    using Cons.prems(3) [of "length ?E + j"] that unfolding all by simp
  have "walk_loop crc img ns boot k m (q # (qs @ st)) True =
      walk_loop crc img ns boot (k - c) (m @ ?E) (qs @ st) True"
    using Cons.prems(2) by (intro one [OF q _ agE]) (auto simp: ss)
  also have "\<dots> = walk_loop crc img ns boot (k - c - sum_list (map fst ss')) ((m @ ?E) @ ?R) st True"
    using Cons.prems(2) by (intro Cons.IH [OF ss' _ agR]) (auto simp: ss)
  finally show ?case unfolding all by (simp add: ss diff_diff_left)
qed simp

lemma walk_subtree:
  fixes crc img ns boot
  defines "loc \<equiv> node_at crc img ns (\<lambda>l. map_option snd (map_l2p boot l))"
  assumes "subtree loc d l = Some (n, lvs)" and "n \<le> k"
    and "\<And>j. j \<le> length (leaf_entries (rev lvs)) \<Longrightarrow> agrees loc boot (m @ take j (leaf_entries (rev lvs)))"
  shows "walk_loop crc img ns boot k m (l # st) b =
    walk_loop crc img ns boot (k - n) (m @ leaf_entries (rev lvs)) st True"
  using assms(2-)
proof (induction d arbitrary: l n lvs k m st b)
  case (Suc d)
  from Suc.prems(1) obtain node where loc: "loc l = Some node"
    by (auto split: option.splits)
  have ag: "agrees loc boot m" using Suc.prems(3) [of 0] by simp
  have n1: "1 \<le> n"
    using Suc.prems(1) loc by (auto split: if_splits)
  then obtain k' where k: "k = Suc k'" using Suc.prems(2) by (cases k) auto
  note step = walk_step [of crc img ns boot l node m k' st b, folded loc_def, OF loc ag]
  show ?case
  proof (cases "is_leaf node")
    case True
    then have "n = 1" "lvs = [node]" using Suc.prems(1) loc by auto
    then show ?thesis using step True by (simp add: k add_from_node_def)
  next
    case False
    let ?ps = "map kp_blockptr (key_ptrs node)"
    from Suc.prems(1) loc False obtain rs where rs: "those (map (subtree loc d) ?ps) = Some rs"
      and n: "n = 1 + sum_list (map fst rs)" and lvs: "lvs = concat (map snd rs)"
      by auto
    have "those (map (subtree loc d) (rev ?ps)) = Some (rev rs)"
      using those_rev [OF rs] by (simp add: rev_map)
    moreover have "sum_list (map fst (rev rs)) = n - 1"
      by (simp add: n rev_map [symmetric])
    ultimately have "walk_loop crc img ns boot k' m (rev ?ps @ st) True =
        walk_loop crc img ns boot (k' - (n - 1)) (m @ leaf_entries (rev lvs)) st True"
      using walk_stack [of crc img ns boot d "rev ?ps" "rev rs" k' m st, folded loc_def, OF Suc.IH]
        Suc.prems(2,3) n1 by (simp add: k lvs)
    then show ?thesis
      using step False n1 by (simp add: k)
  qed
qed simp

section \<open>Soundness of the walk\<close>

text \<open>Every entry of the map was read from a chunk item of a leaf inside the image.\<close>

definition leaf_in_image :: "(bytes \<Rightarrow> u32) \<Rightarrow> bytes \<Rightarrow> nat \<Rightarrow> node \<Rightarrow> bool" where
  "leaf_in_image crc img ns node \<longleftrightarrow>
     is_leaf node \<and> (\<exists>p block. get_range img p (sat_add p ns) = Some block \<and> node_parse crc block = Inr node)"

definition from_leaves :: "(bytes \<Rightarrow> u32) \<Rightarrow> bytes \<Rightarrow> nat \<Rightarrow> chunk_map \<Rightarrow> bool" where
  "from_leaves crc img ns m \<longleftrightarrow>
     (\<forall>e\<in>set m. \<exists>node. leaf_in_image crc img ns node \<and> e \<in> entry_of_chunk ` set (chunk_items node))"

lemma from_leaves_add:
  "from_leaves crc img ns m \<Longrightarrow> leaf_in_image crc img ns node \<Longrightarrow> from_leaves crc img ns (add_from_node m node)"
  by (auto simp: from_leaves_def add_from_node_def)

lemma walk_loop_sound:
  "walk_loop crc img ns boot k m st b = Inr m' \<Longrightarrow> from_leaves crc img ns m \<Longrightarrow> from_leaves crc img ns m'"
proof (induction k arbitrary: m st b)
  case 0
  then show ?case by (cases st) auto
next
  case (Suc k)
  show ?case
  proof (cases st)
    case Nil
    with Suc.prems show ?thesis by simp
  next
    case (Cons l st')
    have leaf: "from_leaves crc img ns (add_from_node m node)"
      if "get_range img p (sat_add p ns) = Some block" "node_parse crc block = Inr node" "is_leaf node"
      for p block node
      using that Suc.prems(2) by (intro from_leaves_add) (auto simp: leaf_in_image_def)
    show ?thesis
      using Suc.prems unfolding Cons walk_loop.simps(3) Let_def
      by (auto split: option.splits sum.splits prod.splits if_splits intro: Suc.IH leaf)
  qed
qed

section \<open>Errors\<close>

lemma walk_boot_fails:
  assumes "map_l2p (boot_map sb) (sb_chunk_root sb) = None"
  shows "walk crc img sb =
    Inl (Truncated ''chunk_root logical (sys_chunk_array bootstrap)'' (unat (sb_chunk_root sb)) 0)"
  using assms by (simp add: walk_def numeral_eq_Suc)

lemma walk_root_outside:
  assumes "map_l2p (boot_map sb) (sb_chunk_root sb) = Some (d, p)" and "fits_memory img"
    and "length img < unat p + unat (sb_nodesize sb)"
  shows "walk crc img sb =
    Inl (Truncated ''chunk_root node (out of image)'' (sat_add (unat p) (unat (sb_nodesize sb))) (length img))"
  using assms by (simp add: walk_def numeral_eq_Suc get_range_sat_add)

lemma walk_loop_error:
  assumes "walk_loop crc img ns boot k m st b = Inl e" and "m = [] \<or> b"
  shows "(\<exists>l. \<not> b \<and> m = [] \<and> e = Truncated ''chunk_root logical (sys_chunk_array bootstrap)'' (unat l) 0 \<and>
        st \<noteq> [] \<and> l = hd st \<and> map_l2p boot l = None) \<or>
    (\<exists>p. get_range img p (sat_add p ns) = None \<and>
        e = Truncated ''chunk_root node (out of image)'' (sat_add p ns) (length img))"
  using assms
proof (induction k arbitrary: m st b)
  case 0
  then show ?case by (cases st) auto
next
  case (Suc k)
  show ?case
  proof (cases st)
    case Nil
    with Suc.prems show ?thesis by simp
  next
    case (Cons l st')
    show ?thesis
      using Suc.prems unfolding Cons walk_loop.simps(3) Let_def
      by (auto split: option.splits sum.splits prod.splits if_splits dest: Suc.IH)
  qed
qed

section \<open>Reading nodes\<close>

lemma find_map_append_first:
  "\<forall>a\<in>set as. f a = None \<Longrightarrow> f x = Some y \<Longrightarrow> find_map f (as @ x # bs) = Some y"
  by (induction as) auto

text \<open>
  The two bootstrap lookups: the search over \<open>SysChunk\<close>s in \<open>read_node\<close> answers whenever the
  bootstrap map of the walk does, with the same physical address.
\<close>

lemma sys_chunk_l2p_entry: "sys_chunk_l2p c l = entry_l2p (entry_of_sys c) l"
  by (auto simp: sys_chunk_l2p_def entry_l2p_def entry_of_sys_def Let_def split: option.splits list.splits)

lemma boot_agrees:
  assumes "map_l2p (boot_map sb) l = Some (d, p)"
  shows "find_map (\<lambda>c. map_option (Pair 0) (sys_chunk_l2p c l)) (sb_sys_chunks sb) = Some (0 :: u64, p)"
proof -
  from assms obtain es e es' where m: "boot_map sb = es @ e # es'"
    and before: "\<forall>x\<in>set es. span_ok x \<and> \<not> covers x l" and e: "entry_l2p e l = Some p"
    by (auto simp: map_l2p_Some_iff)
  from m obtain cs c cs' where cs: "sb_sys_chunks sb = cs @ c # cs'"
    and es: "es = map entry_of_sys cs" "e = entry_of_sys c"
    by (auto simp: boot_map_def map_eq_append_conv map_eq_Cons_conv)
  have "sys_chunk_l2p x l = None" if "x \<in> set cs" for x
    using that before es unfolding sys_chunk_l2p_entry
    by (intro entry.translate_None_outside) (auto simp: covers_def)
  then show ?thesis
    using es e unfolding cs by (intro find_map_append_first) (auto simp: sys_chunk_l2p_entry)
qed

lemma read_node_Inr_iff:
  assumes "fits_memory img"
  shows "read_node crc img sb m l = Inr n \<longleftrightarrow>
    (\<exists>d p. node_phys sb m l = Some (d, p) \<and> unat p + unat (sb_nodesize sb) \<le> length img \<and>
       node_parse crc (take (unat (sb_nodesize sb)) (drop (unat p) img)) = Inr n)"
  using assms
  by (auto simp: read_node_def Let_def get_range_sat_add split: option.splits prod.splits)

lemma read_node_block:
  assumes "fits_memory img" and "read_node crc img sb m l = Inr n"
  shows "length (n_block n) = unat (sb_nodesize sb)"
  using assms by (auto simp: read_node_Inr_iff node_parse_Inr_iff)

section \<open>A small chunk tree\<close>

text \<open>One leaf at address 0 with one chunk item that maps the first 4096 bytes to themselves.\<close>

definition demo_geom :: chunk where
  "demo_geom =
     \<lparr> ck_length = 0x1000, ck_owner = 2, ck_stripe_len = 0x10000, ck_type = 34, ck_num_stripes = 1,
       ck_sub_stripes = 1, ck_stripes = [\<lparr> s_devid = 1, s_offset = 0, s_uuid = replicate 16 7 \<rparr>] \<rparr>"

definition demo_image :: bytes where
  "demo_image = encode_leaf (demo_header 3 0 1) []
     [(\<lparr>k_objectid = 256, k_type = 228, k_offset = 0\<rparr>, encode_chunk (replicate 12 0) demo_geom)]"

definition demo_sb :: superblock where
  "demo_sb = demo_superblock
     \<lparr> sb_chunk_root := 0, sb_nodesize := 206,
       sb_sys_chunks :=
         [\<lparr> sc_key = \<lparr>k_objectid = 256, k_type = 228, k_offset = 0\<rparr>, sc_length = 0x1000, sc_owner = 2,
            sc_stripe_len = 0x10000, sc_type = 34, sc_num_stripes = 1, sc_sub_stripes = 1,
            sc_stripes = [\<lparr> s_devid = 1, s_offset = 0, s_uuid = replicate 16 7 \<rparr>] \<rparr>] \<rparr>"

definition demo_map :: chunk_map where
  "demo_map = [\<lparr> me_start = 0, me_length = 0x1000, me_stripes = [(1, 0)] \<rparr>]"

lemma demo_sb_simps [simp]:
  "sb_chunk_root demo_sb = 0" "sb_nodesize demo_sb = 206" "boot_map demo_sb = demo_map"
  by (simp_all add: demo_sb_def boot_map_def entry_of_sys_def demo_map_def)

lemma wf_demo_geom: "wf_chunk demo_geom"
  by (simp add: wf_chunk_def demo_geom_def wf_stripe_def)

lemma length_encode_demo_geom [simp]: "length (encode_chunk (replicate 12 0) demo_geom) = 80"
  by (simp add: encode_chunk_def demo_geom_def encode_stripe_def)

lemma length_demo_image [simp]: "length demo_image = 206"
  by (simp add: demo_image_def encode_leaf_def encode_item_header_def)

lemma fits_demo_image: "fits_memory demo_image"
  by (simp add: fits_memory_def)

lemma demo_lookup: "map_l2p demo_map 0 = Some (1, 0)"
  by (simp add: demo_map_def u64_checked_add_def)

lemma demo_node:
  obtains n where "node_parse crc demo_image = Inr n" and "is_leaf n" and "leaf_entries [n] = demo_map"
proof -
  let ?its = "[(\<lparr>k_objectid = 256, k_type = 228, k_offset = 0\<rparr>, encode_chunk (replicate 12 0) demo_geom)]"
  obtain n where n: "node_parse crc demo_image = Inr n"
    using node_parse_ok_iff [of crc demo_image] by auto
  have "wf_leaf (demo_header 3 0 1) [] ?its"
    by (simp add: wf_leaf_def)
  note leaf = encode_leaf_items [OF this n [unfolded demo_image_def]]
  have "leaf_entries [n] = demo_map"
    by (simp add: chunk_items_def leaf CHUNK_ITEM_KEY_def chunk_parse_encode wf_demo_geom
        entry_of_chunk_def demo_map_def) (simp add: demo_geom_def)
  with n leaf(3) that show thesis by blast
qed

lemma demo_subtree:
  assumes "node_parse crc demo_image = Inr n" and "is_leaf n"
  shows "subtree (boot_loc crc demo_image demo_sb) 1 0 = Some (1, [n])"
  using assms by (simp add: boot_loc_def node_at_def demo_lookup get_range_def sat_add_def usize_max_def)

lemma demo_agrees: "agrees loc demo_map (take j demo_map)"
  by (cases j) (auto simp: agrees_def demo_map_def split: option.splits)

lemma demo_walk: "walk crc demo_image demo_sb = Inr demo_map"
proof -
  obtain n where n: "node_parse crc demo_image = Inr n" "is_leaf n" "leaf_entries [n] = demo_map"
    by (rule demo_node)
  show ?thesis
    using walk_subtree [OF demo_subtree [OF n(1,2), unfolded boot_loc_def], of 4096 "[]" "[]" False]
      demo_agrees n(3)
    by (simp add: walk_def)
qed

definition demo_entry :: "u64 \<Rightarrow> map_entry" where
  "demo_entry s = \<lparr> me_start = s, me_length = 0x100, me_stripes = [(1, s + 0x1000)] \<rparr>"

section \<open>Properties\<close>

text \<open>
  Claim C38. \<open>ChunkMap::logical_to_physical\<close>, exactly: it answers when the first entry that
  either covers the address or has a wrapping span covers it, does not wrap, and has a stripe
  whose displaced address stays within 64 bits; the answer is that stripe's device and address.
  So one entry with a wrapping span hides every entry behind it.
\<close>

theorem chunk_map_lookup_exact:
  "(map_l2p m l = Some (d, p) \<longleftrightarrow>
     (\<exists>es e es' b ss. m = es @ e # es' \<and>
        (\<forall>x\<in>set (es @ [e]). unat (me_start x) + unat (me_length x) < 2 ^ 64) \<and>
        (\<forall>x\<in>set es. \<not> covers x l) \<and> covers e l \<and> me_stripes e = (d, b) # ss \<and>
        unat p = unat b + (unat l - unat (me_start e)))) \<and>
   (2 ^ 64 \<le> unat (me_start w) + unat (me_length w) \<and> (\<forall>x\<in>set es. \<not> covers x l)
      \<longrightarrow> map_l2p (es @ w # es') l = None)"
proof
  show "map_l2p m l = Some (d, p) \<longleftrightarrow>
     (\<exists>es e es' b ss. m = es @ e # es' \<and>
        (\<forall>x\<in>set (es @ [e]). unat (me_start x) + unat (me_length x) < 2 ^ 64) \<and>
        (\<forall>x\<in>set es. \<not> covers x l) \<and> covers e l \<and> me_stripes e = (d, b) # ss \<and>
        unat p = unat b + (unat l - unat (me_start e)))" (is "_ = ?R")
  proof
    assume "map_l2p m l = Some (d, p)"
    then obtain es e es' b ss where "m = es @ e # es'" "\<forall>x\<in>set es. span_ok x \<and> \<not> covers x l"
      "covers e l" "me_stripes e = (d, b) # ss" "entry_l2p e l = Some p"
      by (auto simp: map_l2p_Some_iff)
    then show ?R
      by (intro exI [of _ es] exI [of _ e] exI [of _ es'] exI [of _ b] exI [of _ ss])
        (auto simp: entry.translate_iff entry_base_def span_ok_def)
  next
    assume ?R
    then obtain es e es' b ss where m: "m = es @ e # es'" "covers e l" "me_stripes e = (d, b) # ss"
      and ok: "\<forall>x\<in>set (es @ [e]). unat (me_start x) + unat (me_length x) < 2 ^ 64"
        "\<forall>x\<in>set es. \<not> covers x l" and p: "unat p = unat b + (unat l - unat (me_start e))"
      by blast
    have "entry_l2p e l = Some p"
      using m ok p by (simp add: entry.translate_iff entry_base_def covers_def)
    with m ok show "map_l2p m l = Some (d, p)"
      unfolding map_l2p_Some_iff
      by (intro exI [of _ es] exI [of _ e] exI [of _ es']) (simp add: span_ok_def)
  qed
  show "2 ^ 64 \<le> unat (me_start w) + unat (me_length w) \<and> (\<forall>x\<in>set es. \<not> covers x l)
      \<longrightarrow> map_l2p (es @ w # es') l = None"
    by (induction es) (auto simp: map_l2p_Cons span_ok_def simp del: map_l2p.simps(2))
qed

theorem chunk_map_lookup_exact_witness:
  "map_l2p [demo_entry 0, demo_entry 0x100] 0x120 = Some (1, 0x1120) \<and>
   map_l2p ([] @ \<lparr> me_start = 0xFFFFFFFFFFFFFFFF, me_length = 1, me_stripes = [(1, 0)] \<rparr> # demo_map) 0x120 = None"
proof
  show "map_l2p [demo_entry 0, demo_entry 0x100] 0x120 = Some (1, 0x1120)"
    unfolding chunk_map_lookup_exact [THEN conjunct1]
    by (intro exI [of _ "[demo_entry 0]"] exI [of _ "demo_entry 0x100"] exI [of _ "[]"]
        exI [of _ "0x1100"] exI [of _ "[]"]) (simp add: demo_entry_def covers_def)
  show "map_l2p ([] @ \<lparr> me_start = 0xFFFFFFFFFFFFFFFF, me_length = 1, me_stripes = [(1, 0)] \<rparr> # demo_map) 0x120 = None"
    by (rule chunk_map_lookup_exact [THEN conjunct2, rule_format]) simp
qed

text \<open>
  On entries whose spans neither wrap nor overlap, the map is a function of the set
  of entries: the order in which the chunk tree was read and repeated entries do not matter,
  and an address is translated by the entry that covers it.
\<close>

theorem chunk_map_order_irrelevant:
  assumes "disjoint_spans m" and "set m' = set m"
  shows "map_l2p m' l = map_l2p m l \<and>
    (\<forall>e\<in>set m. covers e l \<longrightarrow> map_l2p m l = map_l2p [e] l) \<and>
    ((\<forall>e\<in>set m. \<not> covers e l) \<longrightarrow> map_l2p m l = None)"
  using assms map_l2p_set map_l2p_disjoint map_l2p_uncovered by blast

theorem chunk_map_order_irrelevant_witness:
  "map_l2p [demo_entry 0x100, demo_entry 0, demo_entry 0x100] 0x20 = Some (1, 0x1020)"
proof -
  have "disjoint_spans [demo_entry 0, demo_entry 0x100]"
    by (auto simp: disjoint_spans_def span_ok_def covers_def demo_entry_def)
  from chunk_map_order_irrelevant [OF this, of "[demo_entry 0x100, demo_entry 0, demo_entry 0x100]" "0x20"]
  show ?thesis by (auto simp: demo_entry_def covers_def u64_checked_add_def Let_def)
qed

text \<open>
  Claim C17. \<open>ChunkMap::walk\<close> is complete: if the bootstrap map reaches a chunk tree of at most
  4096 nodes, and no chunk item read on the way relocates a node of the tree, the walk succeeds
  and its map holds exactly the chunk items of the tree's leaves, in the order of its
  right-to-left traversal.
\<close>

theorem walk_complete:
  assumes "subtree (boot_loc crc img sb) d (sb_chunk_root sb) = Some (n, lvs)" and "n \<le> 4096"
    and "\<And>j. agrees (boot_loc crc img sb) (boot_map sb) (take j (leaf_entries (rev lvs)))"
  shows "walk crc img sb = Inr (leaf_entries (rev lvs))"
  using walk_subtree [OF assms(1,2) [unfolded boot_loc_def], of "[]" "[]" False] assms(3)
  by (simp add: walk_def boot_loc_def)

theorem walk_complete_witness: "walk crc32c_ref demo_image demo_sb = Inr demo_map"
proof -
  obtain n where n: "node_parse crc32c_ref demo_image = Inr n" "is_leaf n" "leaf_entries [n] = demo_map"
    by (rule demo_node)
  show ?thesis
    using walk_complete [of crc32c_ref demo_image demo_sb 1 1 "[n]"] demo_subtree [OF n(1,2)] demo_agrees n(3)
    by simp
qed

text \<open>
  Claim C18. \<open>ChunkMap::walk\<close> is sound: every entry of its map is a chunk item of a leaf that
  lies inside the image.
\<close>

theorem walk_sound:
  assumes "walk crc img sb = Inr m" and "e \<in> set m"
  shows "\<exists>p block node logical c. get_range img p (sat_add p (unat (sb_nodesize sb))) = Some block \<and>
    node_parse crc block = Inr node \<and> is_leaf node \<and> (logical, c) \<in> set (chunk_items node) \<and>
    e = \<lparr> me_start = logical, me_length = ck_length c,
          me_stripes = map (\<lambda>s. (s_devid s, s_offset s)) (ck_stripes c) \<rparr>"
proof -
  have "from_leaves crc img (unat (sb_nodesize sb)) m"
    using assms(1) walk_loop_sound by (auto simp: walk_def from_leaves_def)
  with assms(2) obtain node lc where node: "leaf_in_image crc img (unat (sb_nodesize sb)) node"
    and lc: "lc \<in> set (chunk_items node)" "e = entry_of_chunk lc"
    unfolding from_leaves_def by blast
  obtain logical c where "lc = (logical, c)" by fastforce
  with lc have "(logical, c) \<in> set (chunk_items node)" and "e = entry_of_chunk (logical, c)"
    by simp_all
  with node show ?thesis
    unfolding leaf_in_image_def entry_of_chunk_def by auto
qed

theorem walk_sound_witness:
  "\<exists>node logical c. node_parse crc32c_ref demo_image = Inr node \<and> (logical, c) \<in> set (chunk_items node) \<and>
     logical = 0 \<and> ck_length c = 0x1000"
proof -
  obtain p block node logical c where
    r: "get_range demo_image p (sat_add p (unat (sb_nodesize demo_sb))) = Some block"
      "node_parse crc32c_ref block = Inr node" "(logical, c) \<in> set (chunk_items node)"
    and e: "hd demo_map = \<lparr> me_start = logical, me_length = ck_length c,
          me_stripes = map (\<lambda>s. (s_devid s, s_offset s)) (ck_stripes c) \<rparr>"
    using walk_sound [OF demo_walk, of "hd demo_map" crc32c_ref] by (auto simp: demo_map_def)
  from r(1) have "p = 0" "block = demo_image"
    by (auto simp: get_range_sat_add [OF fits_demo_image] split: if_splits)
  with r e show ?thesis by (auto simp: demo_map_def)
qed

text \<open>
  The errors of \<open>ChunkMap::walk\<close>: a chunk root the bootstrap array does not translate
  always fails, loudly, with that address; a chunk root translated outside the image fails with
  the needed and the available length; there is no other kind of failure.
\<close>

theorem walk_errors:
  assumes "fits_memory img"
  shows "(map_l2p (boot_map sb) (sb_chunk_root sb) = None \<longleftrightarrow>
      walk crc img sb = Inl (Truncated ''chunk_root logical (sys_chunk_array bootstrap)''
        (unat (sb_chunk_root sb)) 0)) \<and>
    (\<forall>d p. map_l2p (boot_map sb) (sb_chunk_root sb) = Some (d, p) \<and>
       length img < unat p + unat (sb_nodesize sb) \<longrightarrow>
       walk crc img sb = Inl (Truncated ''chunk_root node (out of image)''
         (sat_add (unat p) (unat (sb_nodesize sb))) (length img))) \<and>
    (\<forall>e. walk crc img sb = Inl e \<longrightarrow>
       e = Truncated ''chunk_root logical (sys_chunk_array bootstrap)'' (unat (sb_chunk_root sb)) 0 \<or>
       (\<exists>p. length img < p + unat (sb_nodesize sb) \<and>
          e = Truncated ''chunk_root node (out of image)'' (sat_add p (unat (sb_nodesize sb))) (length img)))"
proof -
  let ?A = "Truncated ''chunk_root logical (sys_chunk_array bootstrap)'' (unat (sb_chunk_root sb)) 0"
  have outside: "get_range img p (sat_add p k) = None \<Longrightarrow> length img < p + k" for p k
    using assms by (simp add: get_range_sat_add split: if_splits)
  have err: "e = ?A \<and> map_l2p (boot_map sb) (sb_chunk_root sb) = None \<or>
      (\<exists>p. length img < p + unat (sb_nodesize sb) \<and>
          e = Truncated ''chunk_root node (out of image)'' (sat_add p (unat (sb_nodesize sb))) (length img))"
    if "walk crc img sb = Inl e" for e
    using walk_loop_error [OF that [unfolded walk_def]] outside by auto
  show ?thesis
    using err walk_boot_fails [of sb crc img] walk_root_outside [OF _ assms, of sb _ _ crc] by blast
qed

theorem walk_errors_witness:
  "walk crc32c_ref [1, 2, 3] demo_sb = Inl (Truncated ''chunk_root node (out of image)'' 206 3)"
  using walk_errors [of "[1, 2, 3]" demo_sb crc32c_ref] demo_lookup
  by (simp add: fits_memory_def sat_add_def usize_max_def)

text \<open>
  Every outcome of \<open>read_node\<close>: no translation, a block outside the image, a node
  size below the header, or the node parsed from exactly the \<open>nodesize\<close> bytes at the translated
  address.
\<close>

theorem read_node_outcomes:
  assumes "fits_memory img"
  shows "read_node crc img sb m l =
    (case node_phys sb m l of
       None \<Rightarrow> Inl (Truncated ''logical address (no chunk mapping)'' (unat l) 0)
     | Some (_, p) \<Rightarrow>
         if length img < unat p + unat (sb_nodesize sb) then
           Inl (Truncated ''node block (out of image)'' (sat_add (unat p) (unat (sb_nodesize sb))) (length img))
         else if unat (sb_nodesize sb) < 101 then
           Inl (Truncated ''btrfs_header'' 101 (unat (sb_nodesize sb)))
         else node_parse crc (take (unat (sb_nodesize sb)) (drop (unat p) img)))"
  using assms
  by (auto simp: read_node_def Let_def get_range_sat_add node_parse_Inl_iff split: option.splits prod.splits)

theorem read_node_outcomes_witness:
  "read_node crc32c_ref demo_image demo_sb [] 0x800
     = Inl (Truncated ''node block (out of image)'' 0x8ce 206)"
proof -
  have "node_phys demo_sb [] 0x800 = Some (0, 0x800)"
    by (simp add: node_phys_def demo_sb_def sys_chunk_l2p_def u64_checked_add_def Let_def)
  then show ?thesis
    using read_node_outcomes [OF fits_demo_image, of crc32c_ref demo_sb "[]" "0x800"]
    by (simp add: sat_add_def usize_max_def)
qed

text \<open>
  Claim C16. Walking and reading fit together: with the map a walk of a sound chunk tree
  builds, reading any address that a chunk of the tree covers parses the bytes at the chunk's
  displaced physical address; and before any walk, \<open>read_node\<close> reaches every address that
  the walk's bootstrap map reaches, at the same place.
\<close>

theorem walk_then_read:
  assumes "fits_memory img"
    and "subtree (boot_loc crc img sb) d (sb_chunk_root sb) = Some (n, lvs)" and "n \<le> 4096"
    and "\<And>j. agrees (boot_loc crc img sb) (boot_map sb) (take j (leaf_entries (rev lvs)))"
    and "disjoint_spans (leaf_entries lvs)" and "e \<in> set (leaf_entries lvs)"
    and "covers e l" and "me_stripes e = (dev, b) # ss"
    and "unat b + (unat l - unat (me_start e)) + unat (sb_nodesize sb) \<le> length img"
    and "101 \<le> unat (sb_nodesize sb)"
  shows "\<exists>m. walk crc img sb = Inr m \<and>
    read_node crc img sb m l =
      node_parse crc (take (unat (sb_nodesize sb)) (drop (unat b + (unat l - unat (me_start e))) img))"
proof -
  let ?m = "leaf_entries (rev lvs)"
  have walk: "walk crc img sb = Inr ?m"
    using walk_subtree [OF assms(2,3) [unfolded boot_loc_def], of "[]" "[]" False] assms(4)
    by (simp add: walk_def boot_loc_def)
  have sets: "set ?m = set (leaf_entries lvs)"
    by (auto simp: leaf_entries_def)
  define q where "q = unat b + (unat l - unat (me_start e))"
  have "q < 2 ^ 64"
    using assms(1,9) by (simp add: q_def fits_memory_def)
  then have q: "unat (of_nat q :: u64) = q" by (simp add: unat_of_nat)
  have "entry_l2p e l = Some (of_nat q)"
    using assms(5-8) q unfolding entry.translate_iff disjoint_spans_def
    by (auto simp: entry_base_def covers_def span_ok_def q_def)
  then have "map_l2p [e] l = Some (dev, of_nat q)"
    using assms(8) by (simp only: map_l2p_single_Some) simp
  then have "map_l2p ?m l = Some (dev, of_nat q)"
    using map_l2p_set [OF assms(5) sets, of l] map_l2p_disjoint [OF assms(5-7)] by simp
  then have "read_node crc img sb ?m l = node_parse crc (take (unat (sb_nodesize sb)) (drop q img))"
    using assms(1,9) q
    by (simp add: read_node_def node_phys_def Let_def get_range_sat_add q_def)
  with walk show ?thesis by (auto simp: q_def)
qed

theorem walk_then_read_witness:
  "\<exists>m. walk crc32c_ref demo_image demo_sb = Inr m \<and>
     read_node crc32c_ref demo_image demo_sb m 0 = node_parse crc32c_ref demo_image"
proof -
  obtain n where n: "node_parse crc32c_ref demo_image = Inr n" "is_leaf n" "leaf_entries [n] = demo_map"
    by (rule demo_node)
  have "disjoint_spans (leaf_entries [n])"
    unfolding n(3) by (auto simp: disjoint_spans_def demo_map_def span_ok_def covers_def)
  moreover have "hd demo_map \<in> set (leaf_entries [n])" "covers (hd demo_map) 0"
    "me_stripes (hd demo_map) = [(1, 0)]"
    unfolding n(3) by (simp_all add: demo_map_def covers_def)
  moreover have "subtree (boot_loc crc32c_ref demo_image demo_sb) 1 (sb_chunk_root demo_sb) = Some (1, [n])"
    using demo_subtree [OF n(1,2)] by simp
  moreover have "agrees (boot_loc crc32c_ref demo_image demo_sb) (boot_map demo_sb)
      (take j (leaf_entries (rev [n])))" for j
    using demo_agrees n(3) by simp
  ultimately show ?thesis
    using walk_then_read [OF fits_demo_image, of crc32c_ref demo_sb 1 1 "[n]" "hd demo_map" 0 1 0 "[]"]
    by (simp add: demo_map_def)
qed

end
