(* ===== verification/Records.thy ===== *)
theory Records
  imports Node
begin

text \<open>
  Packed records: \<open>list_xattrs\<close> and \<open>list_inode_refs\<close> of \<open>core/src/fstree.rs\<close> walk an item body
  that holds records one after the other, with no terminator. Both contain the same loop over a
  record parser; here is that loop, the two parsers, and the locale \<open>packed_records\<close> with the
  contract between them, interpreted on both parsers.
\<close>

section \<open>The loop\<close>

text \<open>
  \<open>while let Some(rest) = data.get(off..)\<close>: stop at the first record that does not parse, and
  after a record that consumes nothing.
\<close>

function packed_walk :: "(bytes \<Rightarrow> ('r \<times> nat) option) \<Rightarrow> bytes \<Rightarrow> nat \<Rightarrow> 'r list" where
  "packed_walk parse data off =
     (case get_from data off of
        None \<Rightarrow> []
      | Some rest \<Rightarrow>
          (case parse rest of
             None \<Rightarrow> []
           | Some (x, consumed) \<Rightarrow>
               x # (if consumed = 0 then [] else packed_walk parse data (off + consumed))))"
  by pat_completeness auto
termination
  by (relation "measure (\<lambda>(parse, data, off). Suc (length data) - off)")
    (auto simp: get_from_def split: if_splits)

declare packed_walk.simps [simp del]

lemma packed_walk_shift:
  "data = drop k d \<Longrightarrow> k \<le> length d \<Longrightarrow> packed_walk parse d (k + off) = packed_walk parse data off"
proof (induction parse data off arbitrary: d k rule: packed_walk.induct)
  case (1 p data off)
  have g: "get_from d (k + off) = get_from data off"
    using "1.prems" by (auto simp: get_from_def ac_simps)
  show ?case
    unfolding packed_walk.simps [of p d "k + off"] packed_walk.simps [of p data off] g
    using "1.IH" [OF _ _ refl _ "1.prems"] by (auto split: option.splits simp: add.assoc)
qed

lemma packed_walk_None: "parse d = None \<Longrightarrow> packed_walk parse d 0 = []"
  by (simp add: packed_walk.simps [of parse d] get_from_def)

lemma packed_walk_Some:
  "parse d = Some (r, c) \<Longrightarrow> 0 < c \<Longrightarrow> c \<le> length d \<Longrightarrow>
     packed_walk parse d 0 = r # packed_walk parse (drop c d) 0"
  using packed_walk_shift [of "drop c d" c d parse 0]
  by (simp add: packed_walk.simps [of parse d 0] get_from_def)

section \<open>The contract of a record parser\<close>

text \<open>
  A record \<open>r\<close> as it is written may have fields the parser does not read; \<open>decoded r\<close> is what is read of it.
\<close>

locale packed_records =
  fixes parse :: "bytes \<Rightarrow> ('d \<times> nat) option"
    and encode :: "'r \<Rightarrow> bytes" and decoded :: "'r \<Rightarrow> 'd" and wf :: "'r \<Rightarrow> bool"
  assumes consumed: "parse d = Some (x, c) \<Longrightarrow> 0 < c \<and> c \<le> length d"
    and own_bytes: "parse d = Some (x, c) \<Longrightarrow> parse (take c d @ rest) = Some (x, c)"
    and parse_encode: "wf r \<Longrightarrow> parse (encode r @ rest) = Some (decoded r, length (encode r))"
    and incomplete: "wf r \<Longrightarrow> k < length (encode r) \<Longrightarrow> parse (take k (encode r)) = None"
begin

lemma walk_Some: "parse d = Some (r, c) \<Longrightarrow> packed_walk parse d 0 = r # packed_walk parse (drop c d) 0"
  using consumed by (intro packed_walk_Some) blast+

lemma walk_empty [simp]: "packed_walk parse [] 0 = []"
  using consumed [of "[]"] by (intro packed_walk_None) (cases "parse []", auto)

text \<open>Records written one after the other are read back in order; then the rest is walked.\<close>

lemma walk_encode:
  "\<forall>r\<in>set rs. wf r \<Longrightarrow>
     packed_walk parse (concat (map encode rs) @ rest) 0 = map decoded rs @ packed_walk parse rest 0"
proof (induction rs)
  case (Cons r rs)
  then have "parse (encode r @ (concat (map encode rs) @ rest)) = Some (decoded r, length (encode r))"
    by (simp add: parse_encode)
  from walk_Some [OF this] Cons show ?case by simp
qed simp

text \<open>Bytes behind the records never change the records found so far.\<close>

lemma walk_append: "\<exists>rs. packed_walk parse (d @ rest) 0 = packed_walk parse d 0 @ rs"
proof (induction "length d" arbitrary: d rule: less_induct)
  case less
  show ?case
  proof (cases "parse d")
    case None
    then show ?thesis by (simp add: packed_walk_None)
  next
    case (Some rc)
    obtain r c where rc: "rc = (r, c)" by fastforce
    have d: "parse d = Some (r, c)" using Some rc by simp
    have c: "0 < c" "c \<le> length d" using consumed [OF d] by simp_all
    have "parse (d @ rest) = Some (r, c)"
      using own_bytes [OF d, of "drop c d @ rest"] by (simp flip: append_assoc)
    then have "packed_walk parse (d @ rest) 0 = r # packed_walk parse (drop c d @ rest) 0"
      using c by (simp add: walk_Some)
    moreover have "length (drop c d) < length d" using c by simp
    from less [OF this] obtain rs
      where "packed_walk parse (drop c d @ rest) 0 = packed_walk parse (drop c d) 0 @ rs"
      by blast
    ultimately show ?thesis
      by (simp add: walk_Some [OF d])
  qed
qed

text \<open>A truncated item yields the records it still holds completely, and nothing made up.\<close>

lemma walk_truncated:
  "\<forall>r\<in>set rs. wf r \<Longrightarrow> \<exists>n. packed_walk parse (take k (concat (map encode rs))) 0 = take n (map decoded rs)"
proof (induction rs arbitrary: k)
  case (Cons r rs)
  show ?case
  proof (cases "k < length (encode r)")
    case True
    then have "packed_walk parse (take k (concat (map encode (r # rs)))) 0 = []"
      using Cons.prems by (intro packed_walk_None) (simp add: incomplete)
    then show ?thesis by (intro exI [of _ 0]) simp
  next
    case False
    then have "take k (concat (map encode (r # rs))) =
        concat (map encode [r]) @ take (k - length (encode r)) (concat (map encode rs))"
      by simp
    moreover obtain n where
      "packed_walk parse (take (k - length (encode r)) (concat (map encode rs))) 0 = take n (map decoded rs)"
      using Cons by fastforce
    ultimately have "packed_walk parse (take k (concat (map encode (r # rs)))) 0 =
        take (Suc n) (map decoded (r # rs))"
      using walk_encode [of "[r]"] Cons.prems by simp
    then show ?thesis by blast
  qed
qed simp

lemma length_walk: "length (packed_walk parse d 0) \<le> length d"
proof (induction "length d" arbitrary: d rule: less_induct)
  case less
  show ?case
  proof (cases "parse d")
    case None
    then show ?thesis by (simp add: packed_walk_None)
  next
    case (Some rc)
    obtain r c where rc: "rc = (r, c)" by fastforce
    have d: "parse d = Some (r, c)" using Some rc by simp
    have "0 < c" "c \<le> length d" using consumed [OF d] by simp_all
    then have "length (packed_walk parse (drop c d) 0) \<le> length d - c" "length d - c < length d"
      using less [of "drop c d"] by simp_all
    then show ?thesis by (simp add: walk_Some [OF d])
  qed
qed

end

section \<open>Extended attributes\<close>

record xattr =
  xa_name :: rstring
  xa_value :: bytes

text \<open>The prefix of a \<open>btrfs_dir_item\<close>: location key, transaction id, lengths, type.\<close>

definition DIR_DATA_LEN :: nat where "DIR_DATA_LEN = 25"
definition DIR_NAME_LEN :: nat where "DIR_NAME_LEN = 27"
definition DIR_TYPE :: nat where "DIR_TYPE = 29"
definition DIR_NAME :: nat where "DIR_NAME = 30"

lemmas dir_offsets = DIR_DATA_LEN_def DIR_NAME_LEN_def DIR_TYPE_def DIR_NAME_def

definition parse_xattr_item :: "bytes \<Rightarrow> (xattr \<times> nat) option" where
  "parse_xattr_item data =
     (if length data < DIR_NAME then None
      else
        let data_len = unat (le_u16 data DIR_DATA_LEN);
            name_len = unat (le_u16 data DIR_NAME_LEN) in
        if name_len = 0 then None
        else
          Option.bind (usize_checked_add DIR_NAME name_len) (\<lambda>name_end.
          Option.bind (usize_checked_add name_end data_len) (\<lambda>value_end.
          Option.bind (get_range data DIR_NAME name_end) (\<lambda>name.
          Option.bind (get_range data name_end value_end) (\<lambda>value.
            Some (\<lparr> xa_name = from_utf8_lossy name, xa_value = value \<rparr>, value_end))))))"

lemma parse_xattr_item_iff:
  "parse_xattr_item data = Some (x, c) \<longleftrightarrow>
     30 \<le> length data \<and> 0 < unat (le_u16 data 27) \<and>
     c = 30 + unat (le_u16 data 27) + unat (le_u16 data 25) \<and> c \<le> length data \<and>
     x = \<lparr> xa_name = from_utf8_lossy (take (unat (le_u16 data 27)) (drop 30 data)),
           xa_value = take (unat (le_u16 data 25)) (drop (30 + unat (le_u16 data 27)) data) \<rparr>"
  using unat_u16_le [of "le_u16 data 27"] unat_u16_le [of "le_u16 data 25"]
  by (auto simp: parse_xattr_item_def Let_def dir_offsets usize_checked_add_def usize_max_def
      bind_eq_Some_conv get_range_def)

text \<open>The 25 bytes of location key and transaction id, which the parser skips, are the prefix \<open>loc\<close>.\<close>

definition encode_xattr :: "bytes \<Rightarrow> xattr \<Rightarrow> bytes" where
  "encode_xattr loc x =
     loc @ to_le_bytes (of_nat (length (xa_value x)) :: u16)
     @ to_le_bytes (of_nat (length (xa_name x)) :: u16) @ [8] @ xa_name x @ xa_value x"

definition wf_xattr :: "xattr \<Rightarrow> bool" where
  "wf_xattr x \<longleftrightarrow>
     xa_name x \<noteq> [] \<and> valid_utf8 (xa_name x) \<and> length (xa_name x) < 2 ^ 16 \<and> length (xa_value x) < 2 ^ 16"

lemma unat_of_nat_u16: "n < 2 ^ 16 \<Longrightarrow> unat (of_nat n :: u16) = n"
  by (simp add: unat_of_nat)

lemma le_u16_take: "k + 2 \<le> n \<Longrightarrow> le_u16 (take n xs) k = le_u16 xs k"
  by (simp add: le_u16_def get_range_take)

lemma encode_xattr_reads:
  assumes "length loc = 25" and "wf_xattr x"
  shows "unat (le_u16 (encode_xattr loc x @ rest) 25) = length (xa_value x)"
    and "unat (le_u16 (encode_xattr loc x @ rest) 27) = length (xa_name x)"
  using assms unat_of_nat_u16 [of "length (xa_value x)"] unat_of_nat_u16 [of "length (xa_name x)"]
  by (simp_all add: encode_xattr_def read_simps wf_xattr_def)

lemma length_encode_xattr:
  "length (encode_xattr loc x) = length loc + 5 + length (xa_name x) + length (xa_value x)"
  by (simp add: encode_xattr_def)

text \<open>A record with its own prefix.\<close>

definition encode_xattr_at :: "bytes \<times> xattr \<Rightarrow> bytes" where
  "encode_xattr_at = (\<lambda>(loc, x). encode_xattr loc x)"

definition wf_xattr_at :: "bytes \<times> xattr \<Rightarrow> bool" where
  "wf_xattr_at = (\<lambda>(loc, x). length loc = 25 \<and> wf_xattr x)"

lemma xattr_at_simps [simp]:
  "encode_xattr_at (loc, x) = encode_xattr loc x"
  "wf_xattr_at (loc, x) \<longleftrightarrow> length loc = 25 \<and> wf_xattr x"
  by (simp_all add: encode_xattr_at_def wf_xattr_at_def)

interpretation xattrs: packed_records parse_xattr_item encode_xattr_at snd wf_xattr_at
proof
  fix d rest :: bytes and y :: xattr and c k :: nat and r :: "bytes \<times> xattr"
  obtain loc x where r: "r = (loc, x)" by fastforce
  show "parse_xattr_item d = Some (y, c) \<Longrightarrow> 0 < c \<and> c \<le> length d"
    by (simp add: parse_xattr_item_iff)
  show "parse_xattr_item (take c d @ rest) = Some (y, c)" if "parse_xattr_item d = Some (y, c)"
    using that unfolding parse_xattr_item_iff
    by (auto simp: readers_append le_u16_take drop_take min_def)
  show "parse_xattr_item (encode_xattr_at r @ rest) = Some (snd r, length (encode_xattr_at r))"
    if "wf_xattr_at r"
    using that encode_xattr_reads [of loc x rest]
    unfolding parse_xattr_item_iff r
    by (auto simp: encode_xattr_def wf_xattr_def from_utf8_lossy_valid)
  show "parse_xattr_item (take k (encode_xattr_at r)) = None"
    if "wf_xattr_at r" "k < length (encode_xattr_at r)"
  proof (cases "k < 30")
    case True
    then show ?thesis by (simp add: parse_xattr_item_def DIR_NAME_def min_def)
  next
    case False
    with that encode_xattr_reads [of loc x "[]"] show ?thesis
      by (cases "parse_xattr_item (take k (encode_xattr_at r))")
        (auto simp: r parse_xattr_item_iff le_u16_take length_encode_xattr)
  qed
qed

section \<open>Back references of an inode\<close>

record inode_ref =
  ir_parent :: u64
  ir_index :: u64
  ir_name :: rstring

definition IREF_INDEX :: nat where "IREF_INDEX = 0"
definition IREF_NAME_LEN :: nat where "IREF_NAME_LEN = 8"
definition IREF_NAME :: nat where "IREF_NAME = 10"

lemmas iref_offsets = IREF_INDEX_def IREF_NAME_LEN_def IREF_NAME_def

definition parse_inode_ref :: "u64 \<Rightarrow> bytes \<Rightarrow> (inode_ref \<times> nat) option" where
  "parse_inode_ref parent data =
     (if length data < IREF_NAME then None
      else
        let index = le_u64 data IREF_INDEX;
            name_len = unat (le_u16 data IREF_NAME_LEN) in
        if name_len = 0 then None
        else
          Option.bind (usize_checked_add IREF_NAME name_len) (\<lambda>name_end.
          Option.bind (get_range data IREF_NAME name_end) (\<lambda>name.
            Some (\<lparr> ir_parent = parent, ir_index = index, ir_name = from_utf8_lossy name \<rparr>, name_end))))"

lemma parse_inode_ref_iff:
  "parse_inode_ref parent data = Some (r, c) \<longleftrightarrow>
     10 \<le> length data \<and> 0 < unat (le_u16 data 8) \<and> c = 10 + unat (le_u16 data 8) \<and> c \<le> length data \<and>
     r = \<lparr> ir_parent = parent, ir_index = le_u64 data 0,
           ir_name = from_utf8_lossy (take (unat (le_u16 data 8)) (drop 10 data)) \<rparr>"
  using unat_u16_le [of "le_u16 data 8"]
  by (auto simp: parse_inode_ref_def Let_def iref_offsets usize_checked_add_def usize_max_def
      bind_eq_Some_conv get_range_def)

definition encode_inode_ref :: "inode_ref \<Rightarrow> bytes" where
  "encode_inode_ref r =
     to_le_bytes (ir_index r) @ to_le_bytes (of_nat (length (ir_name r)) :: u16) @ ir_name r"

definition wf_inode_ref :: "u64 \<Rightarrow> inode_ref \<Rightarrow> bool" where
  "wf_inode_ref parent r \<longleftrightarrow>
     ir_parent r = parent \<and> ir_name r \<noteq> [] \<and> valid_utf8 (ir_name r) \<and> length (ir_name r) < 2 ^ 16"

lemma length_encode_inode_ref: "length (encode_inode_ref r) = 10 + length (ir_name r)"
  by (simp add: encode_inode_ref_def)

lemma le_u64_take: "k + 8 \<le> n \<Longrightarrow> le_u64 (take n xs) k = le_u64 xs k"
  by (simp add: le_u64_def get_range_take)

lemma encode_inode_ref_reads:
  assumes "wf_inode_ref parent r"
  shows "unat (le_u16 (encode_inode_ref r @ rest) 8) = length (ir_name r)"
    and "le_u64 (encode_inode_ref r @ rest) 0 = ir_index r"
  using assms unat_of_nat_u16 [of "length (ir_name r)"]
  by (simp_all add: encode_inode_ref_def read_simps wf_inode_ref_def)

interpretation irefs: packed_records "parse_inode_ref parent" encode_inode_ref "\<lambda>r. r" "wf_inode_ref parent"
  for parent
proof
  fix d rest :: bytes and r :: inode_ref and c k :: nat
  show "parse_inode_ref parent d = Some (r, c) \<Longrightarrow> 0 < c \<and> c \<le> length d"
    by (simp add: parse_inode_ref_iff)
  show "parse_inode_ref parent (take c d @ rest) = Some (r, c)" if "parse_inode_ref parent d = Some (r, c)"
    using that unfolding parse_inode_ref_iff
    by (auto simp: readers_append le_u16_take le_u64_take drop_take min_def)
  show "parse_inode_ref parent (encode_inode_ref r @ rest) = Some (r, length (encode_inode_ref r))"
    if "wf_inode_ref parent r"
    using that encode_inode_ref_reads [OF that, of rest]
    unfolding parse_inode_ref_iff
    by (auto simp: encode_inode_ref_def wf_inode_ref_def from_utf8_lossy_valid)
  show "parse_inode_ref parent (take k (encode_inode_ref r)) = None"
    if "wf_inode_ref parent r" "k < length (encode_inode_ref r)"
  proof (cases "k < 10")
    case True
    then show ?thesis by (simp add: parse_inode_ref_def IREF_NAME_def min_def)
  next
    case False
    with that encode_inode_ref_reads [OF that(1), of "[]"] show ?thesis
      by (cases "parse_inode_ref parent (take k (encode_inode_ref r))")
        (auto simp: parse_inode_ref_iff le_u16_take length_encode_inode_ref)
  qed
qed

end
