(* ===== verification/FsTree.thy ===== *)
theory FsTree
  imports ChunkMap Records
begin

text \<open>
  \<open>core/src/fstree.rs\<close>: the root of the FS tree, inodes, directories, extended attributes, back
  references and path resolution, all on one leaf. Paths are lists of UTF-8 bytes; \<open>path_to\<close> is
  the relation path resolution refines.
\<close>

section \<open>Constants\<close>

definition FS_TREE_OBJECTID :: u64 where "FS_TREE_OBJECTID = 5"
definition FS_TREE_ROOT_DIR_OBJECTID :: u64 where "FS_TREE_ROOT_DIR_OBJECTID = 256"
definition INODE_ITEM_KEY :: u8 where "INODE_ITEM_KEY = 1"
definition INODE_REF_KEY :: u8 where "INODE_REF_KEY = 12"
definition XATTR_ITEM_KEY :: u8 where "XATTR_ITEM_KEY = 24"
definition DIR_ITEM_KEY :: u8 where "DIR_ITEM_KEY = 84"
definition DIR_INDEX_KEY :: u8 where "DIR_INDEX_KEY = 96"
definition ROOT_ITEM_KEY :: u8 where "ROOT_ITEM_KEY = 132"
definition INODE_SIZE_OFFSET :: nat where "INODE_SIZE_OFFSET = 16"

lemmas fs_consts = FS_TREE_OBJECTID_def FS_TREE_ROOT_DIR_OBJECTID_def INODE_ITEM_KEY_def
  INODE_REF_KEY_def XATTR_ITEM_KEY_def DIR_ITEM_KEY_def DIR_INDEX_KEY_def ROOT_ITEM_KEY_def
  INODE_SIZE_OFFSET_def

section \<open>Inodes\<close>

record timestamp =
  t_sec :: u64
  t_nsec :: u32

definition timestamp_parse :: "bytes \<Rightarrow> nat \<Rightarrow> timestamp" where
  "timestamp_parse data off = \<lparr> t_sec = le_u64 data off, t_nsec = le_u32 data (off + 8) \<rparr>"

record inode =
  i_objectid :: u64
  i_generation :: u64
  i_transid :: u64
  i_size :: u64
  i_nbytes :: u64
  i_nlink :: u32
  i_uid :: u32
  i_gid :: u32
  i_mode :: u32
  i_flags :: u64
  i_atime :: timestamp
  i_ctime :: timestamp
  i_mtime :: timestamp
  i_otime :: timestamp

definition S_IFMT :: u32 where "S_IFMT = 0xF000"
definition S_IFDIR :: u32 where "S_IFDIR = 0x4000"
definition S_IFREG :: u32 where "S_IFREG = 0x8000"

text \<open>The offsets of \<open>inode_off\<close>.\<close>

definition INO_GENERATION :: nat where [simp]: "INO_GENERATION = 0"
definition INO_TRANSID :: nat where [simp]: "INO_TRANSID = 8"
definition INO_SIZE :: nat where [simp]: "INO_SIZE = 16"
definition INO_NBYTES :: nat where [simp]: "INO_NBYTES = 24"
definition INO_NLINK :: nat where [simp]: "INO_NLINK = 40"
definition INO_UID :: nat where [simp]: "INO_UID = 44"
definition INO_GID :: nat where [simp]: "INO_GID = 48"
definition INO_MODE :: nat where [simp]: "INO_MODE = 52"
definition INO_FLAGS :: nat where [simp]: "INO_FLAGS = 64"
definition INO_ATIME :: nat where [simp]: "INO_ATIME = 112"
definition INO_CTIME :: nat where [simp]: "INO_CTIME = 124"
definition INO_MTIME :: nat where [simp]: "INO_MTIME = 136"
definition INO_OTIME :: nat where [simp]: "INO_OTIME = 148"

definition inode_parse :: "u64 \<Rightarrow> bytes \<Rightarrow> inode" where
  "inode_parse objectid data =
     \<lparr> i_objectid = objectid,
       i_generation = le_u64 data INO_GENERATION,
       i_transid = le_u64 data INO_TRANSID,
       i_size = le_u64 data INO_SIZE,
       i_nbytes = le_u64 data INO_NBYTES,
       i_nlink = le_u32 data INO_NLINK,
       i_uid = le_u32 data INO_UID,
       i_gid = le_u32 data INO_GID,
       i_mode = le_u32 data INO_MODE,
       i_flags = le_u64 data INO_FLAGS,
       i_atime = timestamp_parse data INO_ATIME,
       i_ctime = timestamp_parse data INO_CTIME,
       i_mtime = timestamp_parse data INO_MTIME,
       i_otime = timestamp_parse data INO_OTIME \<rparr>"

definition is_dir :: "inode \<Rightarrow> bool" where
  "is_dir i \<longleftrightarrow> i_mode i AND S_IFMT = S_IFDIR"

definition is_file :: "inode \<Rightarrow> bool" where
  "is_file i \<longleftrightarrow> i_mode i AND S_IFMT = S_IFREG"

definition read_inode :: "node \<Rightarrow> u64 \<Rightarrow> inode option" where
  "read_inode leaf objectid =
     map_option (\<lambda>(_, data). inode_parse objectid data)
       (find (\<lambda>(key, _). k_objectid key = objectid \<and> k_type key = INODE_ITEM_KEY) (leaf_items leaf))"

section \<open>Directories\<close>

datatype dir_item_type = FileItem | DirItem | SymlinkItem | OtherItem u8

definition dir_item_type_from_byte :: "u8 \<Rightarrow> dir_item_type" where
  "dir_item_type_from_byte b =
     (if b = 1 then FileItem else if b = 2 then DirItem else if b = 7 then SymlinkItem
      else OtherItem b)"

record dir_entry =
  de_name :: rstring
  de_child :: u64
  de_type :: dir_item_type

definition parse_dir_item :: "bytes \<Rightarrow> dir_entry option" where
  "parse_dir_item data =
     (if length data < DIR_NAME then None
      else
        let child = le_u64 data 0;
            type_byte = u8_at data DIR_TYPE;
            name_len = unat (le_u16 data DIR_NAME_LEN);
            name_start = DIR_NAME;
            avail = length data - name_start;
            n = min name_len avail;
            name_bytes = unwrap_or (get_range data name_start (name_start + n)) [] in
        Some \<lparr> de_name = from_utf8_lossy name_bytes, de_child = child,
               de_type = dir_item_type_from_byte type_byte \<rparr>)"

definition is_dir_key :: "u64 \<Rightarrow> disk_key \<Rightarrow> bool" where
  "is_dir_key dir key \<longleftrightarrow>
     \<not> (k_objectid key \<noteq> dir \<or> (k_type key \<noteq> DIR_ITEM_KEY \<and> k_type key \<noteq> DIR_INDEX_KEY))"

text \<open>The body of the loop of \<open>list_dir\<close>.\<close>

definition list_dir_step :: "u64 \<Rightarrow> dir_entry list \<Rightarrow> disk_key \<times> bytes \<Rightarrow> dir_entry list" where
  "list_dir_step dir out item =
     (case item of (key, data) \<Rightarrow>
        if \<not> is_dir_key dir key then out
        else
          (case parse_dir_item data of
             None \<Rightarrow> out
           | Some entry \<Rightarrow>
               if list_ex (\<lambda>e. de_name e = de_name entry \<and> de_child e = de_child entry) out then out
               else out @ [entry]))"

definition list_dir :: "node \<Rightarrow> u64 \<Rightarrow> dir_entry list" where
  "list_dir leaf dir = foldl (list_dir_step dir) [] (leaf_items leaf)"

section \<open>Attributes and names of an inode\<close>

definition list_xattrs :: "node \<Rightarrow> u64 \<Rightarrow> xattr list" where
  "list_xattrs leaf objectid =
     concat (map (\<lambda>(key, data).
       if k_objectid key \<noteq> objectid \<or> k_type key \<noteq> XATTR_ITEM_KEY then []
       else packed_walk parse_xattr_item data 0) (leaf_items leaf))"

definition list_inode_refs :: "node \<Rightarrow> u64 \<Rightarrow> inode_ref list" where
  "list_inode_refs leaf objectid =
     concat (map (\<lambda>(key, data).
       if k_objectid key \<noteq> objectid \<or> k_type key \<noteq> INODE_REF_KEY then []
       else packed_walk (parse_inode_ref (k_offset key)) data 0) (leaf_items leaf))"

section \<open>The root of the FS tree\<close>

record fs_root =
  fr_bytenr :: u64
  fr_level :: u8
  fr_root_dirid :: u64
  fr_generation :: u64

text \<open>The offsets of \<open>root_off\<close>.\<close>

definition ROOT_GENERATION :: nat where [simp]: "ROOT_GENERATION = 160"
definition ROOT_ROOT_DIRID :: nat where [simp]: "ROOT_ROOT_DIRID = 168"
definition ROOT_BYTENR :: nat where [simp]: "ROOT_BYTENR = 176"
definition ROOT_LEVEL :: nat where [simp]: "ROOT_LEVEL = 238"

definition fs_root_parse :: "bytes \<Rightarrow> fs_root" where
  "fs_root_parse data =
     \<lparr> fr_bytenr = le_u64 data ROOT_BYTENR, fr_level = u8_at data ROOT_LEVEL,
       fr_root_dirid = le_u64 data ROOT_ROOT_DIRID, fr_generation = le_u64 data ROOT_GENERATION \<rparr>"

definition fs_tree_root ::
    "(bytes \<Rightarrow> u32) \<Rightarrow> bytes \<Rightarrow> superblock \<Rightarrow> chunk_map \<Rightarrow> btrfs_error + fs_root" where
  "fs_tree_root crc img sb m =
     try_res (read_node crc img sb m (sb_root sb)) (\<lambda>node.
       (case find (\<lambda>(key, _). k_objectid key = FS_TREE_OBJECTID \<and> k_type key = ROOT_ITEM_KEY)
               (leaf_items node) of
          Some (_, data) \<Rightarrow> Inr (fs_root_parse data)
        | None \<Rightarrow> Inl (Truncated ''FS_TREE ROOT_ITEM (objectid 5) in root tree''
            (unat FS_TREE_OBJECTID) (unat (h_nritems (n_header node))))))"

section \<open>Paths\<close>

text \<open>\<open>path.split('/')\<close>, and the filter that drops empty components.\<close>

fun split_on :: "u8 \<Rightarrow> rstring \<Rightarrow> rstring list" where
  "split_on c [] = [[]]"
| "split_on c (x # xs) =
     (if x = c then [] # split_on c xs
      else case split_on c xs of [] \<Rightarrow> [[x]] | s # ss \<Rightarrow> (x # s) # ss)"

definition components :: "rstring \<Rightarrow> rstring list" where
  "components path = filter (\<lambda>c. c \<noteq> []) (split_on 47 path)"

fun resolve :: "node \<Rightarrow> u64 \<Rightarrow> inode \<Rightarrow> rstring list \<Rightarrow> (u64 \<times> inode) option" where
  "resolve leaf current inode [] = Some (current, inode)"
| "resolve leaf current inode (component # rest) =
     (if \<not> is_dir inode then None
      else
        Option.bind (find (\<lambda>e. de_name e = component) (list_dir leaf current)) (\<lambda>entry.
        Option.bind (read_inode leaf (de_child entry)) (\<lambda>inode'.
          resolve leaf (de_child entry) inode' rest)))"

definition read_by_path :: "node \<Rightarrow> rstring \<Rightarrow> (u64 \<times> inode) option" where
  "read_by_path leaf path =
     Option.bind (read_inode leaf FS_TREE_ROOT_DIR_OBJECTID) (\<lambda>inode.
       resolve leaf FS_TREE_ROOT_DIR_OBJECTID inode (components path))"

section \<open>Facts about directory listings\<close>

definition name_child :: "dir_entry \<Rightarrow> rstring \<times> u64" where
  "name_child e = (de_name e, de_child e)"

text \<open>The entries of the directory's items, in leaf order, before deduplication.\<close>

definition dir_item_entries :: "u64 \<Rightarrow> (disk_key \<times> bytes) list \<Rightarrow> dir_entry list" where
  "dir_item_entries dir items =
     List.map_filter (\<lambda>(key, data). if is_dir_key dir key then parse_dir_item data else None) items"

fun first_by :: "('a \<Rightarrow> 'k) \<Rightarrow> 'k set \<Rightarrow> 'a list \<Rightarrow> 'a list" where
  "first_by f seen [] = []"
| "first_by f seen (x # xs) =
     (if f x \<in> seen then first_by f seen xs else x # first_by f (insert (f x) seen) xs)"

lemma first_by_distinct: "distinct (map f (first_by f seen xs)) \<and> f ` set (first_by f seen xs) \<inter> seen = {}"
  by (induction f seen xs rule: first_by.induct) auto

lemma first_by_image: "f ` set (first_by f seen xs) = f ` set xs - seen"
  by (induction f seen xs rule: first_by.induct) auto

lemma first_by_subset: "set (first_by f seen xs) \<subseteq> set xs"
  by (induction f seen xs rule: first_by.induct) auto

lemma first_by_first:
  "x \<in> set (first_by f seen xs) \<Longrightarrow> \<exists>as bs. xs = as @ x # bs \<and> f x \<notin> f ` set as"
proof (induction f seen xs rule: first_by.induct)
  case (2 f seen y ys)
  show ?case
  proof (cases "x = y \<and> f y \<notin> seen")
    case True
    then show ?thesis by (intro exI [of _ "[]"] exI [of _ ys]) auto
  next
    case False
    show ?thesis
    proof (cases "f y \<in> seen")
      case True
      with 2 obtain as bs where "ys = as @ x # bs" "f x \<notin> f ` set as" by auto
      moreover have "f x \<notin> seen"
        using 2(3) first_by_distinct [of f seen "y # ys"] by auto
      ultimately show ?thesis
        using True by (intro exI [of _ "y # as"] exI [of _ bs]) auto
    next
      case notin: False
      with False 2(3) have x: "x \<in> set (first_by f (insert (f y) seen) ys)" by auto
      with 2(2) notin obtain as bs where "ys = as @ x # bs" "f x \<notin> f ` set as" by auto
      moreover have "f x \<noteq> f y"
        using imageI [OF x, of f] first_by_distinct [of f "insert (f y) seen" ys] by auto
      ultimately show ?thesis
        by (intro exI [of _ "y # as"] exI [of _ bs]) auto
    qed
  qed
qed simp

lemma list_ex_name_child:
  "list_ex (\<lambda>e. de_name e = de_name x \<and> de_child e = de_child x) out \<longleftrightarrow> name_child x \<in> name_child ` set out"
  unfolding list_ex_iff name_child_def image_iff prod.inject by (rule bex_cong) auto

lemma foldl_list_dir_step:
  "foldl (list_dir_step dir) out items =
     out @ first_by name_child (name_child ` set out) (dir_item_entries dir items)"
proof (induction items arbitrary: out)
  case (Cons it items)
  obtain key data where it: "it = (key, data)" by fastforce
  show ?case
  proof (cases "is_dir_key dir key \<and> parse_dir_item data \<noteq> None")
    case True
    then obtain e where "parse_dir_item data = Some e" by auto
    with True Cons.IH [of out] Cons.IH [of "out @ [e]"] show ?thesis
      by (auto simp: it list_dir_step_def dir_item_entries_def list_ex_name_child List.map_filter_simps)
  next
    case False
    then have "list_dir_step dir out it = out"
      by (auto simp: it list_dir_step_def split: option.split)
    with False Cons.IH [of out] show ?thesis
      by (auto simp: it dir_item_entries_def List.map_filter_simps)
  qed
qed (simp add: dir_item_entries_def List.map_filter_simps)

lemma list_dir_eq:
  "list_dir leaf dir = first_by name_child {} (dir_item_entries dir (leaf_items leaf))"
  by (simp add: list_dir_def foldl_list_dir_step)

section \<open>Facts about paths\<close>

lemma split_on_append:
  "split_on c (xs @ ys) = butlast (split_on c xs) @
     (last (split_on c xs) @ hd (split_on c ys)) # tl (split_on c ys)"
proof (induction xs)
  case Nil
  have "split_on c ys \<noteq> []" by (induction ys) (auto split: list.split)
  then show ?case by simp
next
  case (Cons x xs)
  have "split_on c xs \<noteq> []" by (induction xs) (auto split: list.split)
  with Cons show ?case by (auto split: list.split)
qed

lemma split_on_not_Nil [simp]: "split_on c xs \<noteq> []"
  by (induction xs) (auto split: list.split)

lemma components_slash: "components (p @ [47] @ q) = components p @ components q"
proof -
  have "split_on 47 (p @ [47] @ q) = split_on 47 p @ split_on 47 q"
    using split_on_append [of 47 p "[47] @ q"] by (simp flip: append_assoc)
  then show ?thesis by (simp add: components_def)
qed

lemma components_Nil [simp]: "components [] = []"
  by (simp add: components_def)

lemma components_trim [simp]:
  "components (47 # p) = components p"
  "components (p @ [47]) = components p"
  using components_slash [of "[]" p] components_slash [of p "[]"] by simp_all

lemma components_ok: "c \<in> set (components p) \<Longrightarrow> c \<noteq> [] \<and> 47 \<notin> set c"
proof -
  have "47 \<notin> set d" if "d \<in> set (split_on 47 p)" for d
    using that by (induction p arbitrary: d) (auto split: list.splits if_splits)
  then show "c \<in> set (components p) \<Longrightarrow> c \<noteq> [] \<and> 47 \<notin> set c"
    by (auto simp: components_def)
qed

lemma components_single: "c \<noteq> [] \<Longrightarrow> 47 \<notin> set c \<Longrightarrow> components c = [c]"
proof -
  have "split_on 47 c = [c]" if "47 \<notin> set c"
    using that by (induction c) auto
  then show "c \<noteq> [] \<Longrightarrow> 47 \<notin> set c \<Longrightarrow> components c = [c]"
    by (simp add: components_def)
qed

lemma resolve_append:
  "resolve leaf cur i (cs @ cs') =
     Option.bind (resolve leaf cur i cs) (\<lambda>(cur', i'). resolve leaf cur' i' cs')"
  by (induction leaf cur i cs rule: resolve.induct)
    (auto split: Option.bind_splits)

text \<open>The relation between a list of names and the inode it leads to.\<close>

inductive path_to :: "node \<Rightarrow> rstring list \<Rightarrow> u64 \<Rightarrow> inode \<Rightarrow> bool" for leaf where
  root: "read_inode leaf FS_TREE_ROOT_DIR_OBJECTID = Some i \<Longrightarrow>
           path_to leaf [] FS_TREE_ROOT_DIR_OBJECTID i"
| step: "path_to leaf cs cur i \<Longrightarrow> is_dir i \<Longrightarrow>
           find (\<lambda>e. de_name e = c) (list_dir leaf cur) = Some entry \<Longrightarrow>
           read_inode leaf (de_child entry) = Some i' \<Longrightarrow>
           path_to leaf (cs @ [c]) (de_child entry) i'"

inductive_cases path_to_NilE: "path_to leaf [] cur i"
inductive_cases path_to_snocE: "path_to leaf (cs @ [c]) cur i"

lemma path_to_resolve:
  "path_to leaf cs cur i \<Longrightarrow>
     \<exists>i0. read_inode leaf FS_TREE_ROOT_DIR_OBJECTID = Some i0 \<and>
       resolve leaf FS_TREE_ROOT_DIR_OBJECTID i0 cs = Some (cur, i)"
  by (induction rule: path_to.induct) (auto simp: resolve_append)

lemma resolve_path_to:
  "read_inode leaf FS_TREE_ROOT_DIR_OBJECTID = Some i0 \<Longrightarrow>
     resolve leaf FS_TREE_ROOT_DIR_OBJECTID i0 cs = Some (cur, i) \<Longrightarrow> path_to leaf cs cur i"
proof (induction cs arbitrary: cur i rule: rev_induct)
  case Nil
  then show ?case by (auto intro: path_to.root)
next
  case (snoc c cs)
  from snoc.prems(2) obtain cur' i' where r: "resolve leaf FS_TREE_ROOT_DIR_OBJECTID i0 cs = Some (cur', i')"
    and s: "resolve leaf cur' i' [c] = Some (cur, i)"
    by (auto simp: resolve_append bind_eq_Some_conv)
  from snoc.IH [OF snoc.prems(1) r] s show ?case
    by (auto simp: bind_eq_Some_conv split: if_splits intro: path_to.step)
qed

lemma read_inode_objectid: "read_inode leaf oid = Some i \<Longrightarrow> i_objectid i = oid"
  by (auto simp: read_inode_def inode_parse_def)

lemma path_to_objectid: "path_to leaf cs cur i \<Longrightarrow> i_objectid i = cur"
  by (induction rule: path_to.induct) (auto dest: read_inode_objectid)

section \<open>Writing items\<close>

definition encode_timestamp :: "timestamp \<Rightarrow> bytes" where
  "encode_timestamp t = to_le_bytes (t_sec t) @ to_le_bytes (t_nsec t)"

text \<open>
  The 160 bytes of a \<open>btrfs_inode_item\<close>. The fields the reader skips are arguments: block group, device
  number and sequence; \<open>encode_inode\<close> has zeros there.
\<close>

definition inode_item_bytes :: "u64 \<Rightarrow> u64 \<Rightarrow> u64 \<Rightarrow> inode \<Rightarrow> bytes" where
  "inode_item_bytes block_group rdev sequence i =
     to_le_bytes (i_generation i) @ to_le_bytes (i_transid i) @ to_le_bytes (i_size i)
     @ to_le_bytes (i_nbytes i) @ to_le_bytes block_group @ to_le_bytes (i_nlink i) @ to_le_bytes (i_uid i)
     @ to_le_bytes (i_gid i) @ to_le_bytes (i_mode i) @ to_le_bytes rdev @ to_le_bytes (i_flags i)
     @ to_le_bytes sequence @ zeros 32 @ encode_timestamp (i_atime i) @ encode_timestamp (i_ctime i)
     @ encode_timestamp (i_mtime i) @ encode_timestamp (i_otime i)"

definition encode_inode :: "inode \<Rightarrow> bytes" where
  "encode_inode i =
     to_le_bytes (i_generation i) @ to_le_bytes (i_transid i) @ to_le_bytes (i_size i)
     @ to_le_bytes (i_nbytes i) @ zeros 8 @ to_le_bytes (i_nlink i) @ to_le_bytes (i_uid i)
     @ to_le_bytes (i_gid i) @ to_le_bytes (i_mode i) @ zeros 8 @ to_le_bytes (i_flags i)
     @ zeros 40 @ encode_timestamp (i_atime i) @ encode_timestamp (i_ctime i)
     @ encode_timestamp (i_mtime i) @ encode_timestamp (i_otime i)"

lemma length_encode_timestamp [simp]: "length (encode_timestamp t) = 12"
  by (simp add: encode_timestamp_def)

lemma length_encode_inode [simp]: "length (encode_inode i) = 160"
  by (simp add: encode_inode_def)

lemma timestamp_parse_drop:
  "k \<le> length xs \<Longrightarrow> timestamp_parse (drop k xs) off = timestamp_parse xs (k + off)"
  by (simp add: timestamp_parse_def le_u64_drop le_u32_drop add.assoc)

lemma timestamp_parse_skip [read_simps]:
  "length xs \<le> k \<Longrightarrow> timestamp_parse (xs @ ys) k = timestamp_parse ys (k - length xs)"
  using timestamp_parse_drop [of "length xs" "xs @ ys" "k - length xs"] by simp

lemma timestamp_parse_encode [read_simps]:
  "timestamp_parse (encode_timestamp t @ ys) 0 = t"
  "timestamp_parse (encode_timestamp t) 0 = t"
  by (simp_all add: timestamp_parse_def encode_timestamp_def read_simps)

lemma inode_parse_encode: "inode_parse (i_objectid i) (encode_inode i) = i"
  by (simp add: inode_parse_def encode_inode_def read_simps)

lemma to_le_bytes_zero: "to_le_bytes (0 :: 'a::len word) = zeros (LENGTH('a) div 8)"
proof -
  have "nat_le k 0 = replicate k 0" for k by (induction k) simp_all
  then show ?thesis by (simp add: to_le_bytes_def zeros_def)
qed

lemma encode_inode_zeros: "encode_inode i = inode_item_bytes 0 0 0 i"
proof -
  have "zeros 40 = zeros 8 @ zeros 32"
    by (simp add: zeros_def flip: replicate_add)
  then show ?thesis
    by (simp add: encode_inode_def inode_item_bytes_def to_le_bytes_zero)
qed

lemma inode_parse_item_bytes: "inode_parse (i_objectid i) (inode_item_bytes bg rdev sq i) = i"
  by (simp add: inode_parse_def inode_item_bytes_def read_simps)

lemma length_inode_item_bytes [simp]: "length (inode_item_bytes bg rdev sq i) = 160"
  by (simp add: inode_item_bytes_def)

fun dir_type_code :: "dir_item_type \<Rightarrow> u8" where
  "dir_type_code FileItem = 1"
| "dir_type_code DirItem = 2"
| "dir_type_code SymlinkItem = 7"
| "dir_type_code (OtherItem b) = b"

text \<open>
  A \<open>btrfs_dir_item\<close>: of the location only the objectid is read; its key type and offset and the
  transaction id are arguments, which \<open>encode_dir_item\<close> sets to zero.
\<close>

definition dir_item_bytes :: "u8 \<Rightarrow> u64 \<Rightarrow> u64 \<Rightarrow> dir_entry \<Rightarrow> bytes" where
  "dir_item_bytes loc_type loc_offset transid e =
     to_le_bytes (de_child e) @ [loc_type] @ to_le_bytes loc_offset @ to_le_bytes transid @ to_le_bytes (0 :: u16)
     @ to_le_bytes (of_nat (length (de_name e)) :: u16) @ [dir_type_code (de_type e)] @ de_name e"

definition encode_dir_item :: "dir_entry \<Rightarrow> bytes" where
  "encode_dir_item e =
     to_le_bytes (de_child e) @ zeros 17 @ to_le_bytes (0 :: u16)
     @ to_le_bytes (of_nat (length (de_name e)) :: u16) @ [dir_type_code (de_type e)] @ de_name e"

lemma encode_dir_item_zeros: "encode_dir_item e = dir_item_bytes 0 0 0 e"
proof -
  have "zeros 17 = [0] @ zeros 8 @ zeros 8"
    by (simp add: zeros_def flip: replicate_add replicate_Suc)
  then show ?thesis
    by (simp add: encode_dir_item_def dir_item_bytes_def to_le_bytes_zero)
qed

definition wf_dir_entry :: "dir_entry \<Rightarrow> bool" where
  "wf_dir_entry e \<longleftrightarrow>
     length (de_name e) < 2 ^ 16 \<and> valid_utf8 (de_name e) \<and>
     (case de_type e of OtherItem b \<Rightarrow> b \<notin> {1, 2, 7} | _ \<Rightarrow> True)"

lemma parse_dir_item_bytes:
  assumes "wf_dir_entry e"
  shows "parse_dir_item (dir_item_bytes ty off transid e) = Some e"
proof -
  let ?d = "dir_item_bytes ty off transid e"
  have "le_u64 ?d 0 = de_child e" "u8_at ?d 29 = dir_type_code (de_type e)"
    "unat (le_u16 ?d 27) = length (de_name e)" "get_range ?d 30 (30 + length (de_name e)) = Some (de_name e)"
    "length ?d = 30 + length (de_name e)"
    using assms unat_of_nat_u16 [of "length (de_name e)"]
    by (simp_all add: dir_item_bytes_def wf_dir_entry_def read_simps get_range_def)
  moreover have "dir_item_type_from_byte (dir_type_code (de_type e)) = de_type e"
    using assms by (cases "de_type e") (auto simp: dir_item_type_from_byte_def wf_dir_entry_def)
  ultimately show ?thesis
    using assms by (simp add: parse_dir_item_def dir_offsets Let_def wf_dir_entry_def from_utf8_lossy_valid)
qed

lemma parse_dir_item_encode: "wf_dir_entry e \<Longrightarrow> parse_dir_item (encode_dir_item e) = Some e"
  unfolding encode_dir_item_zeros by (rule parse_dir_item_bytes)

lemma list_records_eq:
  assumes "\<forall>(key, data)\<in>set items. P key \<longrightarrow> packed_walk (p key) data 0 = f key"
  shows "concat (map (\<lambda>(key, data). if \<not> P key then [] else packed_walk (p key) data 0) items) =
    concat (map (\<lambda>(key, data). if P key then f key else []) items)"
  using assms by (induction items) auto

text \<open>A \<open>btrfs_root_item\<close> up to its level byte, with an all-zero embedded inode.\<close>

definition encode_root_item :: "fs_root \<Rightarrow> bytes" where
  "encode_root_item r =
     zeros 160 @ to_le_bytes (fr_generation r) @ to_le_bytes (fr_root_dirid r)
     @ to_le_bytes (fr_bytenr r) @ zeros 54 @ [fr_level r]"

lemma fs_root_parse_encode: "fs_root_parse (encode_root_item r) = r"
  by (simp add: fs_root_parse_def encode_root_item_def read_simps)

lemma length_encode_root_item [simp]: "length (encode_root_item r) = 239"
  by (simp add: encode_root_item_def)

section \<open>Properties\<close>

text \<open>
  Claim C25. \<open>list_dir\<close> keeps, in leaf order, the first of the directory's entries with each pair
  of name and child: no pair is listed twice and none is lost. The names themselves are
  distinct exactly when no name leads to two children.
\<close>

theorem list_dir_exact:
  "list_dir leaf dir = first_by name_child {} (dir_item_entries dir (leaf_items leaf)) \<and>
   distinct (map name_child (list_dir leaf dir)) \<and>
   name_child ` set (list_dir leaf dir) = name_child ` set (dir_item_entries dir (leaf_items leaf)) \<and>
   (distinct (map de_name (list_dir leaf dir)) \<longleftrightarrow>
      inj_on fst (name_child ` set (dir_item_entries dir (leaf_items leaf))))"
proof (intro conjI)
  let ?E = "dir_item_entries dir (leaf_items leaf)"
  show eq: "list_dir leaf dir = first_by name_child {} ?E" by (rule list_dir_eq)
  show d: "distinct (map name_child (list_dir leaf dir))"
    unfolding eq using first_by_distinct by blast
  show im: "name_child ` set (list_dir leaf dir) = name_child ` set ?E"
    unfolding eq by (simp add: first_by_image)
  have "map de_name (list_dir leaf dir) = map fst (map name_child (list_dir leaf dir))"
    by (simp add: name_child_def)
  then have "distinct (map de_name (list_dir leaf dir)) \<longleftrightarrow>
      inj_on fst (set (map name_child (list_dir leaf dir)))"
    using d by (simp only: distinct_map) simp
  with im show "distinct (map de_name (list_dir leaf dir)) \<longleftrightarrow> inj_on fst (name_child ` set ?E)"
    by simp
qed

text \<open>
  A directory written the way btrfs does it, every child once as \<open>DIR_ITEM\<close> and once
  as \<open>DIR_INDEX\<close>, in a leaf with other items in between, is listed with every child once, in
  order, with its name, inode number and type.
\<close>

theorem list_dir_roundtrip:
  assumes "leaf_items leaf = os @ map (\<lambda>e. (k e, encode_dir_item e)) es @ os' @
      map (\<lambda>e. (k' e, encode_dir_item e)) es @ os''"
    and "\<forall>e\<in>set es. wf_dir_entry e \<and> is_dir_key dir (k e) \<and> is_dir_key dir (k' e)"
    and "\<forall>it\<in>set (os @ os' @ os''). \<not> is_dir_key dir (fst it)"
    and "distinct (map name_child es)"
  shows "list_dir leaf dir = es"
proof -
  have other: "List.map_filter (\<lambda>(key, data). if is_dir_key dir key then parse_dir_item data else None) xs = []"
    if "\<forall>it\<in>set xs. \<not> is_dir_key dir (fst it)" for xs
    using that by (induction xs) (auto simp: List.map_filter_simps)
  have mine: "List.map_filter (\<lambda>(key, data). if is_dir_key dir key then parse_dir_item data else None)
      (map (\<lambda>e. (q e, encode_dir_item e)) xs) = xs"
    if "\<forall>e\<in>set xs. wf_dir_entry e \<and> is_dir_key dir (q e)" for q xs
    using that by (induction xs) (auto simp: List.map_filter_simps parse_dir_item_encode)
  have mf_append: "List.map_filter f (xs @ ys) = List.map_filter f xs @ List.map_filter f ys" for f xs ys
    by (simp add: List.map_filter_def)
  have "dir_item_entries dir (leaf_items leaf) = es @ es"
    unfolding dir_item_entries_def assms(1) mf_append
    using assms(2,3) by (simp add: mine other)
  moreover have "first_by name_child seen (xs @ ys) = xs"
    if "distinct (map name_child xs)" "name_child ` set xs \<inter> seen = {}"
      "name_child ` set ys \<subseteq> seen \<union> name_child ` set xs" for seen xs ys
    using that
  proof (induction xs arbitrary: seen)
    case Nil
    then show ?case by (induction ys) auto
  next
    case (Cons x xs)
    then show ?case by auto
  qed
  ultimately show ?thesis
    using assms(4) by (simp add: list_dir_eq)
qed

definition demo_entries :: "dir_entry list" where
  "demo_entries =
     [\<lparr> de_name = str ''etc'', de_child = 257, de_type = DirItem \<rparr>,
      \<lparr> de_name = str ''passwd'', de_child = 258, de_type = FileItem \<rparr>]"

definition demo_key :: "u64 \<Rightarrow> u8 \<Rightarrow> dir_entry \<Rightarrow> disk_key" where
  "demo_key dir ty e = \<lparr> k_objectid = dir, k_type = ty, k_offset = de_child e \<rparr>"

definition demo_dir_items :: "(disk_key \<times> bytes) list" where
  "demo_dir_items =
     map (\<lambda>e. (demo_key 256 84 e, encode_dir_item e)) demo_entries @
     map (\<lambda>e. (demo_key 256 96 e, encode_dir_item e)) demo_entries"

lemma demo_dir_leaf:
  obtains leaf where "node_parse crc (encode_leaf (demo_header 5 0 4) [] demo_dir_items) = Inr leaf"
    and "leaf_items leaf = demo_dir_items"
proof -
  have "wf_leaf (demo_header 5 0 4) [] demo_dir_items"
    by (simp add: wf_leaf_def demo_dir_items_def demo_entries_def encode_dir_item_def str_def)
  moreover obtain leaf where leaf: "node_parse crc (encode_leaf (demo_header 5 0 4) [] demo_dir_items) = Inr leaf"
    using node_parse_ok_iff [of crc "encode_leaf (demo_header 5 0 4) [] demo_dir_items"]
    by (auto simp: encode_leaf_def)
  ultimately show thesis using encode_leaf_items(2) that by blast
qed

theorem list_dir_roundtrip_witness:
  "\<exists>leaf. node_parse crc32c_ref (encode_leaf (demo_header 5 0 4) [] demo_dir_items) = Inr leaf \<and>
     list_dir leaf 256 = demo_entries"
proof -
  obtain leaf where leaf: "node_parse crc32c_ref (encode_leaf (demo_header 5 0 4) [] demo_dir_items) = Inr leaf"
    and its: "leaf_items leaf = demo_dir_items"
    by (rule demo_dir_leaf)
  have "list_dir leaf 256 = demo_entries"
    by (rule list_dir_roundtrip [where os = "[]" and os' = "[]" and os'' = "[]" and
          k = "demo_key 256 84" and k' = "demo_key 256 96"])
      (auto simp: its demo_dir_items_def demo_entries_def wf_dir_entry_def is_dir_key_def demo_key_def
        fs_consts str_def name_child_def valid_utf8_ascii)
  with leaf show ?thesis by blast
qed

text \<open>
  \<open>read_inode\<close> reads back every field of an inode item laid out in a leaf, the four
  timestamps included, when it is the first inode item of its object.
\<close>

theorem read_inode_roundtrip:
  assumes "wf_leaf h gap (before @ (\<lparr>k_objectid = i_objectid i, k_type = 1, k_offset = off\<rparr>, encode_inode i) # after)"
    and "\<forall>(key, data)\<in>set before. k_objectid key \<noteq> i_objectid i \<or> k_type key \<noteq> 1"
  shows "\<exists>n. node_parse crc (encode_leaf h gap
      (before @ (\<lparr>k_objectid = i_objectid i, k_type = 1, k_offset = off\<rparr>, encode_inode i) # after)) = Inr n \<and>
    read_inode n (i_objectid i) = Some i"
proof -
  let ?its = "before @ (\<lparr>k_objectid = i_objectid i, k_type = 1, k_offset = off\<rparr>, encode_inode i) # after"
  obtain n where n: "node_parse crc (encode_leaf h gap ?its) = Inr n"
    using node_parse_ok_iff [of crc "encode_leaf h gap ?its"] assms(1)
    by (auto simp: encode_leaf_def wf_leaf_def)
  have "find (\<lambda>(key, _). k_objectid key = i_objectid i \<and> k_type key = INODE_ITEM_KEY) ?its =
      Some (\<lparr>k_objectid = i_objectid i, k_type = 1, k_offset = off\<rparr>, encode_inode i)"
    using assms(2) by (intro find_append_first) (auto simp: INODE_ITEM_KEY_def)
  then have "read_inode n (i_objectid i) = Some i"
    by (simp add: read_inode_def encode_leaf_items(2) [OF assms(1) n] inode_parse_encode)
  with n show ?thesis by blast
qed

definition demo_inode :: "u64 \<Rightarrow> u32 \<Rightarrow> inode" where
  "demo_inode oid mode =
     \<lparr> i_objectid = oid, i_generation = 9, i_transid = 10, i_size = 5, i_nbytes = 5, i_nlink = 2, i_uid = 1000,
       i_gid = 1001, i_mode = mode, i_flags = 0, i_atime = \<lparr> t_sec = 111, t_nsec = 1 \<rparr>,
       i_ctime = \<lparr> t_sec = 222, t_nsec = 2 \<rparr>, i_mtime = \<lparr> t_sec = 333, t_nsec = 3 \<rparr>,
       i_otime = \<lparr> t_sec = 444, t_nsec = 4 \<rparr> \<rparr>"

lemma demo_inode_simps [simp]: "i_objectid (demo_inode oid mode) = oid" "i_mode (demo_inode oid mode) = mode"
  by (simp_all add: demo_inode_def)

theorem read_inode_roundtrip_witness:
  "\<exists>n. node_parse crc32c_ref (encode_leaf (demo_header 5 0 1) [] ([] @
      (\<lparr>k_objectid = i_objectid (demo_inode 257 0x81A4), k_type = 1, k_offset = 0\<rparr>,
       encode_inode (demo_inode 257 0x81A4)) # [])) = Inr n \<and>
    read_inode n (i_objectid (demo_inode 257 0x81A4)) = Some (demo_inode 257 0x81A4)"
  by (rule read_inode_roundtrip) (simp_all add: wf_leaf_def)

text \<open>
  Claim C26. \<open>read_by_path\<close> implements path resolution: it answers with an inode exactly when the
  non-empty components of the path lead to it from the root directory, each step through a
  directory inode and the first listed entry of that name; the inode is the one of the number.
\<close>

theorem read_by_path_refines:
  "(read_by_path leaf path = Some (oid, i) \<longleftrightarrow> path_to leaf (components path) oid i) \<and>
   \<not> (read_by_path leaf path = Some (oid, i) \<and> i_objectid i \<noteq> oid)"
proof (intro conjI)
  show iff: "read_by_path leaf path = Some (oid, i) \<longleftrightarrow> path_to leaf (components path) oid i"
    using path_to_resolve [of leaf "components path" oid i] resolve_path_to
    by (fastforce simp: read_by_path_def bind_eq_Some_conv)
  then show "\<not> (read_by_path leaf path = Some (oid, i) \<and> i_objectid i \<noteq> oid)"
    using path_to_objectid by blast
qed

text \<open>
  Paths compose: resolving \<open>p/q\<close> is resolving \<open>p\<close> and going on with the components of
  \<open>q\<close>; leading, trailing and doubled slashes do not matter, and the empty path is the root.
\<close>

theorem read_by_path_composes:
  "read_by_path leaf (p @ [47] @ q) =
     Option.bind (read_by_path leaf p) (\<lambda>(oid, i). resolve leaf oid i (components q)) \<and>
   read_by_path leaf (47 # p) = read_by_path leaf p \<and>
   read_by_path leaf (p @ [47]) = read_by_path leaf p \<and>
   read_by_path leaf (p @ [47] @ [47] @ q) = read_by_path leaf (p @ [47] @ q) \<and>
   read_by_path leaf [] = map_option (Pair 256) (read_inode leaf 256)"
proof (intro conjI)
  show "read_by_path leaf (p @ [47] @ q) =
     Option.bind (read_by_path leaf p) (\<lambda>(oid, i). resolve leaf oid i (components q))"
    unfolding read_by_path_def components_slash
    by (cases "read_inode leaf FS_TREE_ROOT_DIR_OBJECTID") (simp_all add: resolve_append)
  show "read_by_path leaf (47 # p) = read_by_path leaf p"
    and "read_by_path leaf (p @ [47]) = read_by_path leaf p"
    by (simp_all add: read_by_path_def)
  show "read_by_path leaf (p @ [47] @ [47] @ q) = read_by_path leaf (p @ [47] @ q)"
    unfolding read_by_path_def components_slash by simp
  show "read_by_path leaf [] = map_option (Pair 256) (read_inode leaf 256)"
    by (cases "read_inode leaf 256") (simp_all add: read_by_path_def fs_consts)
qed

text \<open>
  Claim C27. Attributes and names are read completely and from the right inode: when every item
  keyed to the inode holds records laid out one after the other, \<open>list_xattrs\<close> and
  \<open>list_inode_refs\<close> return exactly those records in leaf order, chained records included, and
  nothing of any other inode. Each attribute record has its own location key and transaction id,
  whatever they are.
\<close>

theorem records_of_inode:
  assumes "\<forall>(key, data)\<in>set (leaf_items leaf). k_objectid key = oid \<and> k_type key = 24 \<longrightarrow>
      data = concat (map (\<lambda>(loc, x). encode_xattr loc x) (fx key)) \<and>
      (\<forall>(loc, x)\<in>set (fx key). length loc = 25 \<and> wf_xattr x)"
    and "\<forall>(key, data)\<in>set (leaf_items leaf). k_objectid key = oid \<and> k_type key = 12 \<longrightarrow>
      data = concat (map encode_inode_ref (fr key)) \<and> (\<forall>r\<in>set (fr key). wf_inode_ref (k_offset key) r)"
  shows "list_xattrs leaf oid = concat (map (\<lambda>(key, _).
      if k_objectid key = oid \<and> k_type key = 24 then map snd (fx key) else []) (leaf_items leaf)) \<and>
    list_inode_refs leaf oid = concat (map (\<lambda>(key, _).
      if k_objectid key = oid \<and> k_type key = 12 then fr key else []) (leaf_items leaf))"
proof
  let ?X = "\<lambda>key :: disk_key. k_objectid key = oid \<and> k_type key = 24"
  let ?R = "\<lambda>key :: disk_key. k_objectid key = oid \<and> k_type key = 12"
  have "packed_walk parse_xattr_item (concat (map (\<lambda>(loc, x). encode_xattr loc x) rs)) 0 = map snd rs"
    if "\<forall>(loc, x)\<in>set rs. length loc = 25 \<and> wf_xattr x" for rs
    using xattrs.walk_encode [of rs "[]"] that by (simp add: encode_xattr_at_def wf_xattr_at_def)
  with assms(1) have "\<forall>(key, data)\<in>set (leaf_items leaf). ?X key \<longrightarrow>
      packed_walk parse_xattr_item data 0 = map snd (fx key)"
    by fast
  from list_records_eq [of _ ?X "\<lambda>_. parse_xattr_item" "\<lambda>key. map snd (fx key)", OF this]
  show "list_xattrs leaf oid = concat (map (\<lambda>(key, _). if ?X key then map snd (fx key) else []) (leaf_items leaf))"
    by (simp add: list_xattrs_def XATTR_ITEM_KEY_def)
  have "\<forall>(key, data)\<in>set (leaf_items leaf). ?R key \<longrightarrow>
      packed_walk (parse_inode_ref (k_offset key)) data 0 = fr key"
    using assms(2) irefs.walk_encode [where rest = "[]"] by fastforce
  from list_records_eq [of _ ?R "\<lambda>key. parse_inode_ref (k_offset key)" fr, OF this]
  show "list_inode_refs leaf oid = concat (map (\<lambda>(key, _). if ?R key then fr key else []) (leaf_items leaf))"
    by (simp add: list_inode_refs_def INODE_REF_KEY_def)
qed

theorem records_of_inode_witness:
  "\<exists>leaf. node_parse crc32c_ref (encode_leaf (demo_header 5 0 3) []
       [(\<lparr>k_objectid = 257, k_type = 12, k_offset = 256\<rparr>, concat (map encode_inode_ref
          [\<lparr>ir_parent = 256, ir_index = 2, ir_name = str ''a''\<rparr>, \<lparr>ir_parent = 256, ir_index = 3, ir_name = str ''b''\<rparr>])),
        (\<lparr>k_objectid = 257, k_type = 24, k_offset = 5\<rparr>,
          encode_xattr (zeros 17 @ to_le_bytes (7 :: u64)) \<lparr>xa_name = str ''user.a'', xa_value = [1]\<rparr> @
          encode_xattr (zeros 17 @ to_le_bytes (9 :: u64)) \<lparr>xa_name = str ''user.b'', xa_value = [2, 3]\<rparr>),
        (\<lparr>k_objectid = 258, k_type = 12, k_offset = 256\<rparr>, [])]) = Inr leaf \<and>
     map ir_name (list_inode_refs leaf 257) = [str ''a'', str ''b''] \<and>
     list_xattrs leaf 257 =
       [\<lparr>xa_name = str ''user.a'', xa_value = [1]\<rparr>, \<lparr>xa_name = str ''user.b'', xa_value = [2, 3]\<rparr>]"
proof -
  define refs where "refs = [\<lparr>ir_parent = 256, ir_index = 2, ir_name = str ''a''\<rparr>,
    \<lparr>ir_parent = 256, ir_index = 3, ir_name = str ''b''\<rparr>]"
  define xs where "xs = [(zeros 17 @ to_le_bytes (7 :: u64), \<lparr>xa_name = str ''user.a'', xa_value = [1]\<rparr>),
    (zeros 17 @ to_le_bytes (9 :: u64), \<lparr>xa_name = str ''user.b'', xa_value = [2, 3]\<rparr>)]"
  define its where "its = [(\<lparr>k_objectid = 257, k_type = 12, k_offset = 256\<rparr>, concat (map encode_inode_ref refs)),
    (\<lparr>k_objectid = 257, k_type = 24, k_offset = 5\<rparr>, concat (map (\<lambda>(loc, x). encode_xattr loc x) xs)),
    (\<lparr>k_objectid = 258, k_type = 12, k_offset = 256\<rparr>, [])]"
  have wf: "wf_leaf (demo_header 5 0 3) [] its"
    by (simp add: wf_leaf_def its_def refs_def xs_def length_encode_inode_ref length_encode_xattr str_def)
  obtain leaf where leaf: "node_parse crc32c_ref (encode_leaf (demo_header 5 0 3) [] its) = Inr leaf"
    using node_parse_ok_iff [of crc32c_ref "encode_leaf (demo_header 5 0 3) [] its"]
    by (auto simp: encode_leaf_def)
  have li: "leaf_items leaf = its" by (rule encode_leaf_items(2) [OF wf leaf])
  have "\<forall>r\<in>set refs. wf_inode_ref 256 r"
    by (simp add: refs_def wf_inode_ref_def str_def valid_utf8_ascii)
  moreover have "\<forall>(loc, x)\<in>set xs. length loc = 25 \<and> wf_xattr x"
    by (simp add: xs_def wf_xattr_def str_def valid_utf8_ascii)
  ultimately have "list_xattrs leaf 257 = map snd xs \<and> list_inode_refs leaf 257 = refs"
    using records_of_inode [of leaf 257 "\<lambda>_. xs" "\<lambda>_. refs"] by (simp add: li its_def)
  then show ?thesis
    using leaf by (intro exI [of _ leaf]) (simp add: its_def xs_def refs_def)
qed

text \<open>
  A truncated item never makes up an attribute or a name: cut anywhere, the records
  still held completely are returned, and nothing else.
\<close>

theorem truncated_records:
  assumes "\<forall>x\<in>set xs. wf_xattr_at x" and "\<forall>r\<in>set rs. wf_inode_ref parent r"
  shows "(\<exists>n. packed_walk parse_xattr_item (take k (concat (map encode_xattr_at xs))) 0 = take n (map snd xs)) \<and>
    (\<exists>n. packed_walk (parse_inode_ref parent) (take k (concat (map encode_inode_ref rs))) 0 = take n rs)"
  using xattrs.walk_truncated [OF assms(1)] irefs.walk_truncated [OF assms(2)] by simp

theorem truncated_records_witness:
  "\<exists>n. packed_walk parse_xattr_item (take 40 (concat (map encode_xattr_at
       [(zeros 25, \<lparr>xa_name = str ''user.a'', xa_value = [1]\<rparr>), (zeros 25, \<lparr>xa_name = str ''user.b'', xa_value = [2]\<rparr>)]))) 0 =
     take n (map snd
       [(zeros 25, \<lparr>xa_name = str ''user.a'', xa_value = [1]\<rparr>), (zeros 25, \<lparr>xa_name = str ''user.b'', xa_value = [2]\<rparr>)])"
  by (rule truncated_records [where rs = "[]" and parent = 0, THEN conjunct1])
    (auto simp: wf_xattr_def str_def valid_utf8_ascii)

text \<open>
  \<open>fs_tree_root\<close> fails exactly when the root-tree node cannot be read, or holds no
  \<open>ROOT_ITEM\<close> of the FS tree; the second failure reports the node's declared item count. In
  particular an interior root-tree node always fails.
\<close>

theorem fs_tree_root_errors:
  "fs_tree_root crc img sb m = Inl e \<longleftrightarrow>
     read_node crc img sb m (sb_root sb) = Inl e \<or>
     (\<exists>node. read_node crc img sb m (sb_root sb) = Inr node \<and>
        \<not> (\<exists>key data. (key, data) \<in> set (leaf_items node) \<and> k_objectid key = 5 \<and> k_type key = 132) \<and>
        e = Truncated ''FS_TREE ROOT_ITEM (objectid 5) in root tree'' 5 (unat (h_nritems (n_header node))))"
proof (cases "read_node crc img sb m (sb_root sb)")
  case (Inr node)
  let ?P = "\<lambda>(key :: disk_key, _ :: bytes). k_objectid key = FS_TREE_OBJECTID \<and> k_type key = ROOT_ITEM_KEY"
  have "find ?P (leaf_items node) = None \<longleftrightarrow>
      \<not> (\<exists>key data. (key, data) \<in> set (leaf_items node) \<and> k_objectid key = 5 \<and> k_type key = 132)"
    by (auto simp: find_None_iff fs_consts)
  then show ?thesis
    using Inr by (auto simp: fs_tree_root_def FS_TREE_OBJECTID_def split: option.split)
qed (simp add: fs_tree_root_def)

text \<open>
  \<open>fs_tree_root\<close> reads back the location of the FS tree from a root-tree leaf laid out
  on disk at the translated address of the superblock's root.
\<close>

theorem fs_tree_root_roundtrip:
  assumes "fits_memory img" and "node_phys sb m (sb_root sb) = Some (d, p)"
    and "img = pre @ encode_leaf h gap its @ post" and "length pre = unat p"
    and "unat (sb_nodesize sb) = length (encode_leaf h gap its)" and "wf_leaf h gap its"
    and "its = before @ (\<lparr>k_objectid = 5, k_type = 132, k_offset = off\<rparr>, encode_root_item r) # after"
    and "\<forall>it\<in>set before. k_objectid (fst it) \<noteq> 5 \<or> k_type (fst it) \<noteq> 132"
  shows "fs_tree_root crc img sb m = Inr r"
proof -
  obtain n where n: "node_parse crc (encode_leaf h gap its) = Inr n"
    using node_parse_ok_iff [of crc "encode_leaf h gap its"] assms(6)
    by (auto simp: encode_leaf_def wf_leaf_def)
  have "read_node crc img sb m (sb_root sb) = Inr n"
    using assms(1-5) n by (auto simp: read_node_Inr_iff)
  moreover have "find (\<lambda>(key, _). k_objectid key = FS_TREE_OBJECTID \<and> k_type key = ROOT_ITEM_KEY) its =
      Some (\<lparr>k_objectid = 5, k_type = 132, k_offset = off\<rparr>, encode_root_item r)"
    unfolding assms(7) using assms(8) by (intro find_append_first) (auto simp: fs_consts)
  ultimately show ?thesis
    by (simp add: fs_tree_root_def encode_leaf_items(2) [OF assms(6) n] fs_root_parse_encode)
qed

theorem fs_tree_root_roundtrip_witness:
  "fs_tree_root crc32c_ref
     (encode_leaf (demo_header 1 0 1) []
        [(\<lparr>k_objectid = 5, k_type = 132, k_offset = 0\<rparr>,
          encode_root_item \<lparr>fr_bytenr = 0x1d00000, fr_level = 0, fr_root_dirid = 256, fr_generation = 9\<rparr>)])
     (demo_sb\<lparr>sb_root := 0, sb_nodesize := 365\<rparr>) demo_map =
   Inr \<lparr>fr_bytenr = 0x1d00000, fr_level = 0, fr_root_dirid = 256, fr_generation = 9\<rparr>"
proof -
  let ?its = "[(\<lparr>k_objectid = 5, k_type = 132, k_offset = 0\<rparr>,
      encode_root_item \<lparr>fr_bytenr = 0x1d00000, fr_level = 0, fr_root_dirid = 256, fr_generation = 9\<rparr>)]"
  have len: "length (encode_leaf (demo_header 1 0 1) [] ?its) = 365"
    by (simp add: encode_leaf_def encode_item_header_def)
  then show ?thesis
    by (intro fs_tree_root_roundtrip [where d = 1 and p = 0 and pre = "[]" and post = "[]" and
          h = "demo_header 1 0 1" and gap = "[]" and its = ?its and before = "[]" and after = "[]" and off = 0])
      (simp_all add: fits_memory_def node_phys_def demo_lookup wf_leaf_def)
qed

end
