(* ===== verification/Extent.thy ===== *)
theory Extent
  imports FsTree
begin

text \<open>
  \<open>core/src/extent.rs\<close>: from \<open>EXTENT_DATA\<close> items to the content of a file. The three codecs are
  third-party crates and are a parameter (record \<open>codecs\<close>): what the zlib and zstd decoders
  deliver, and what one LZO block decodes to. The capping of their output, the LZO framing,
  the allocation guards and the assembly are the code's and are modelled in full.
\<close>

section \<open>Constants\<close>

definition EXTENT_DATA_KEY :: u8 where "EXTENT_DATA_KEY = 108"
definition EXTENT_HEADER_LEN :: nat where "EXTENT_HEADER_LEN = 21"
definition EXT_RAM_BYTES :: nat where "EXT_RAM_BYTES = 8"
definition EXT_COMPRESSION :: nat where "EXT_COMPRESSION = 16"
definition EXT_TYPE :: nat where "EXT_TYPE = 20"
definition EXT_DISK_BYTENR :: nat where "EXT_DISK_BYTENR = 21"
definition EXT_OFFSET :: nat where "EXT_OFFSET = 37"
definition EXT_NUM_BYTES :: nat where "EXT_NUM_BYTES = 45"
definition EXTENT_TYPE_INLINE :: u8 where "EXTENT_TYPE_INLINE = 0"
definition EXTENT_TYPE_REG :: u8 where "EXTENT_TYPE_REG = 1"
definition EXTENT_TYPE_PREALLOC :: u8 where "EXTENT_TYPE_PREALLOC = 2"
definition LOGICAL_ALLOC_FLOOR :: u64 where "LOGICAL_ALLOC_FLOOR = 64 * 1024 * 1024"

lemmas ext_consts = EXTENT_DATA_KEY_def EXTENT_HEADER_LEN_def EXT_RAM_BYTES_def EXT_COMPRESSION_def
  EXT_TYPE_def EXT_DISK_BYTENR_def EXT_OFFSET_def EXT_NUM_BYTES_def EXTENT_TYPE_INLINE_def
  EXTENT_TYPE_REG_def EXTENT_TYPE_PREALLOC_def

datatype compression = NoCompression | Zlib | Lzo | Zstd | OtherCompression u8

definition compression_from_byte :: "u8 \<Rightarrow> compression" where
  "compression_from_byte b =
     (if b = 0 then NoCompression else if b = 1 then Zlib else if b = 2 then Lzo
      else if b = 3 then Zstd else OtherCompression b)"

section \<open>The codecs\<close>

text \<open>
  \<open>zlib_stream src\<close>: the bytes the decoder delivers when read to its end, and whether it ends
  without an error. \<open>zstd_stream\<close> likewise, \<open>None\<close> for a bad frame header. \<open>lzo_block seg n\<close>: the
  bytes one LZO1X block decodes to in a buffer of \<open>n\<close> bytes.
\<close>

record codecs =
  zlib_stream :: "bytes \<Rightarrow> bytes \<times> bool"
  zstd_stream :: "bytes \<Rightarrow> (bytes \<times> bool) option"
  lzo_block :: "bytes \<Rightarrow> nat \<Rightarrow> bytes option"

text \<open>
  \<open>dec.take(cap).read_to_end(&mut out)\<close>: reading stops at \<open>cap\<close> bytes, before a later error of
  the decoder shows. The error carries the bytes read so far.
\<close>

definition read_capped :: "bytes \<times> bool \<Rightarrow> nat \<Rightarrow> nat + bytes" where
  "read_capped s cap =
     (case s of (delivered, ok) \<Rightarrow>
        if cap \<le> length delivered then Inr (take cap delivered)
        else if ok then Inr delivered else Inl (length delivered))"

definition decompress_zlib :: "codecs \<Rightarrow> bytes \<Rightarrow> nat \<Rightarrow> btrfs_error + bytes" where
  "decompress_zlib c src cap =
     (case read_capped (zlib_stream c src) cap of
        Inr out \<Rightarrow> Inr out
      | Inl n \<Rightarrow> Inl (Truncated ''zlib extent stream (decompression failed)'' cap n))"

definition decompress_zstd :: "codecs \<Rightarrow> bytes \<Rightarrow> nat \<Rightarrow> btrfs_error + bytes" where
  "decompress_zstd c src cap =
     (case zstd_stream c src of
        None \<Rightarrow> Inl (Truncated ''zstd extent frame (bad frame header)'' cap 0)
      | Some s \<Rightarrow>
          (case read_capped s cap of
             Inr out \<Rightarrow> Inr out
           | Inl n \<Rightarrow> Inl (Truncated ''zstd extent frame (decompression failed)'' cap n)))"

section \<open>LZO framing\<close>

definition le32_padded :: "bytes \<Rightarrow> nat \<Rightarrow> bytes" where
  "le32_padded src off =
     (case get_range src off (off + 4) of None \<Rightarrow> replicate 8 0 | Some s \<Rightarrow> s @ replicate 4 0)"

text \<open>Where the next segment header is: here, or at the next sector if it would cross it.\<close>

definition lzo_align :: "nat \<Rightarrow> nat \<Rightarrow> nat \<Rightarrow> nat" where
  "lzo_align sectorsize len_all cur =
     (if cur mod sectorsize + 4 > sectorsize
      then unwrap_or (usize_checked_add cur (sectorsize - cur mod sectorsize)) len_all
      else cur)"

text \<open>
  The segment loop. The position grows with every turn (lemma \<open>lzo_loop_unfold\<close>); the test
  \<open>cur < cur'\<close> makes that visible to the termination proof.
\<close>

function lzo_loop :: "(bytes \<Rightarrow> nat \<Rightarrow> bytes option) \<Rightarrow> bytes \<Rightarrow> nat \<Rightarrow> nat \<Rightarrow> nat \<Rightarrow> nat \<Rightarrow>
    nat \<Rightarrow> bytes \<Rightarrow> btrfs_error + bytes" where
  "lzo_loop dec src cap sectorsize seg_out_cap len_all cur out =
     (if \<not> (cur < len_all \<and> length out < cap) then Inr out
      else
        let pos = lzo_align sectorsize len_all cur in
        if len_all \<le> pos then Inr out
        else
          (case get_range src pos (pos + 4) of
             None \<Rightarrow> Inr out
           | Some h \<Rightarrow>
               let seg_len = unat (from_le_bytes h :: u32); body = pos + 4 in
               if seg_len = 0 then Inr out
               else
                 (case get_range src body (min (sat_add body seg_len) (length src)) of
                    None \<Rightarrow> Inr out
                  | Some seg \<Rightarrow>
                      let cur' = sat_add body seg_len in
                      (case dec seg seg_out_cap of
                         None \<Rightarrow> Inl (Truncated ''LZO extent segment (decompression failed)''
                                   seg_len (length out))
                       | Some d \<Rightarrow>
                           let want = min (cap - length out) (length d);
                               out' = out @ take want d in
                           if cur < cur' then lzo_loop dec src cap sectorsize seg_out_cap len_all cur' out'
                           else Inr out'))))"
  by pat_completeness auto
termination
  by (relation "measure (\<lambda>(dec, src, cap, ss, sc, len_all, cur, out). len_all - cur)") auto

declare lzo_loop.simps [simp del]

definition decompress_lzo_btrfs :: "codecs \<Rightarrow> bytes \<Rightarrow> nat \<Rightarrow> u32 \<Rightarrow> btrfs_error + bytes" where
  "decompress_lzo_btrfs c src cap sectorsize =
     (let ss = max (unat sectorsize) 1;
          declared = unat (le_u64 (le32_padded src 0) 0);
          len_all = max (min declared (length src)) 4;
          seg_out_cap = sat_add (sat_add ss (ss div 16)) 64 in
      try_res (lzo_loop (lzo_block c) src cap ss seg_out_cap len_all 4 []) (\<lambda>out. Inr (take cap out)))"

section \<open>Decompression\<close>

definition guard_alloc :: "string \<Rightarrow> u64 \<Rightarrow> u64 \<Rightarrow> btrfs_error + unit" where
  "guard_alloc field claimed bound =
     (if bound < claimed then Inl (AllocationBomb field claimed bound) else Inr ())"

definition unsupported_codec_byte :: "compression \<Rightarrow> u8" where
  "unsupported_codec_byte algo = (case algo of OtherCompression b \<Rightarrow> b | _ \<Rightarrow> 0)"

definition decompress_extent ::
    "codecs \<Rightarrow> compression \<Rightarrow> bytes \<Rightarrow> u64 \<Rightarrow> u32 \<Rightarrow> btrfs_error + bytes" where
  "decompress_extent c algo src ram_bytes sectorsize =
     (if algo = NoCompression then
        let n = min (unat ram_bytes) (length src) in
        Inr (unwrap_or (get_range src 0 n) src)
      else
        let bound = u64_sat_add (u64_sat_mul (of_nat (length src)) 1024) (push_bit 20 1) in
        try_res (guard_alloc ''compressed ram_bytes'' ram_bytes bound) (\<lambda>_.
          let cap = unat ram_bytes in
          (case algo of
             Zlib \<Rightarrow> decompress_zlib c src cap
           | Zstd \<Rightarrow> decompress_zstd c src cap
           | Lzo \<Rightarrow> decompress_lzo_btrfs c src cap sectorsize
           | other \<Rightarrow> Inl (Truncated ''extent compression algorithm (unsupported codec)''
                        (unat (unsupported_codec_byte other)) 0))))"

section \<open>Regular extents\<close>

definition read_regular_extent :: "codecs \<Rightarrow> bytes \<Rightarrow> chunk_map \<Rightarrow> u32 \<Rightarrow> compression \<Rightarrow>
    u64 \<Rightarrow> u64 \<Rightarrow> u64 \<Rightarrow> u64 \<Rightarrow> btrfs_error + bytes" where
  "read_regular_extent c img m sectorsize compression disk_bytenr ext_offset num_bytes ram_bytes =
     (let image_len = of_nat (length img) :: u64 in
      try_res (guard_alloc ''extent num_bytes'' num_bytes image_len) (\<lambda>_.
      try_res (ok_or (map_l2p m disk_bytenr)
          (Truncated ''extent disk_bytenr (no chunk mapping)'' (unat disk_bytenr) 0)) (\<lambda>(_, phys).
        if compression = NoCompression then
          let start = unat (u64_sat_add phys ext_offset);
              lim = sat_add start (unat num_bytes) in
          ok_or (get_range img start lim)
            (Truncated ''regular extent data (out of image)'' lim (length img))
        else
          let start = unat phys in
          try_res (ok_or (get_from img start)
              (Truncated ''compressed extent source (out of image)'' start (length img))) (\<lambda>src.
          try_res (decompress_extent c compression src ram_bytes sectorsize) (\<lambda>whole.
            let win_start = unat ext_offset;
                win_end = sat_add win_start (unat num_bytes) in
            Inr (unwrap_or (get_range whole win_start (min win_end (length whole))) []))))))"

section \<open>Assembling a file\<close>

text \<open>The bytes one \<open>EXTENT_DATA\<close> item appends.\<close>

definition extent_bytes ::
    "codecs \<Rightarrow> bytes \<Rightarrow> chunk_map \<Rightarrow> u32 \<Rightarrow> u64 \<Rightarrow> bytes \<Rightarrow> btrfs_error + bytes" where
  "extent_bytes c img m sectorsize logical_bound data =
     (let etype = u8_at data EXT_TYPE;
          ram_bytes = le_u64 data EXT_RAM_BYTES;
          compression = compression_from_byte (u8_at data EXT_COMPRESSION) in
      if etype = EXTENT_TYPE_INLINE then
        let payload = unwrap_or (get_from data EXTENT_HEADER_LEN) [] in
        decompress_extent c compression payload ram_bytes sectorsize
      else if etype = EXTENT_TYPE_REG \<or> etype = EXTENT_TYPE_PREALLOC then
        let disk_bytenr = le_u64 data EXT_DISK_BYTENR;
            ext_offset = le_u64 data EXT_OFFSET;
            num_bytes = le_u64 data EXT_NUM_BYTES in
        if disk_bytenr = 0 then
          try_res (guard_alloc ''hole num_bytes'' num_bytes logical_bound) (\<lambda>_.
            Inr (replicate (unat num_bytes) 0))
        else
          read_regular_extent c img m sectorsize compression disk_bytenr ext_offset num_bytes ram_bytes
      else
        Inl (Truncated ''btrfs_file_extent_item type (unknown extent type)'' (unat etype) 0))"

fun assemble :: "codecs \<Rightarrow> bytes \<Rightarrow> chunk_map \<Rightarrow> u32 \<Rightarrow> u64 \<Rightarrow> (u64 \<times> bytes) list \<Rightarrow> bytes \<Rightarrow>
    btrfs_error + bytes" where
  "assemble c img m sectorsize bound [] out = Inr out"
| "assemble c img m sectorsize bound ((file_off, data) # rest) out =
     try_res (extent_bytes c img m sectorsize bound data) (\<lambda>bs.
       assemble c img m sectorsize bound rest (out @ bs))"

text \<open>The file's \<open>EXTENT_DATA\<close> items, stably sorted by file offset.\<close>

definition file_extents :: "node \<Rightarrow> u64 \<Rightarrow> (u64 \<times> bytes) list" where
  "file_extents leaf ino =
     sort_key fst (map (\<lambda>(k, data). (k_offset k, data))
       (filter (\<lambda>(k, _). k_objectid k = ino \<and> k_type k = EXTENT_DATA_KEY) (leaf_items leaf)))"

definition file_size :: "node \<Rightarrow> u64 \<Rightarrow> u64 option" where
  "file_size leaf ino =
     map_option (\<lambda>(_, data). le_u64 data INODE_SIZE_OFFSET)
       (find (\<lambda>(k, _). k_objectid k = ino \<and> k_type k = INODE_ITEM_KEY) (leaf_items leaf))"

definition read_file_from_leaf ::
    "codecs \<Rightarrow> node \<Rightarrow> bytes \<Rightarrow> chunk_map \<Rightarrow> u32 \<Rightarrow> u64 \<Rightarrow> btrfs_error + bytes" where
  "read_file_from_leaf c leaf img m sectorsize ino =
     try_res (ok_or (file_size leaf ino)
         (Truncated ''INODE_ITEM for the requested objectid (read_file)'' (unat ino) 0)) (\<lambda>size.
       let extents = file_extents leaf ino;
           image_len = of_nat (length img) :: u64;
           logical_bound = max image_len LOGICAL_ALLOC_FLOOR in
       try_res (guard_alloc ''inode size'' size logical_bound) (\<lambda>_.
       try_res (assemble c img m sectorsize logical_bound extents []) (\<lambda>out.
         let n = unat size in
         Inr (if n < length out then take n out
              else if length out < n then out @ replicate (n - length out) 0
              else out))))"

section \<open>Reading by inode and by path\<close>

definition fs_tree_leaf ::
    "(bytes \<Rightarrow> u32) \<Rightarrow> bytes \<Rightarrow> superblock \<Rightarrow> chunk_map \<Rightarrow> btrfs_error + node" where
  "fs_tree_leaf crc img sb m =
     try_res (fs_tree_root crc img sb m) (\<lambda>root. read_node crc img sb m (fr_bytenr root))"

definition read_file :: "(bytes \<Rightarrow> u32) \<Rightarrow> codecs \<Rightarrow> bytes \<Rightarrow> superblock \<Rightarrow> chunk_map \<Rightarrow> u64 \<Rightarrow>
    btrfs_error + bytes" where
  "read_file crc c img sb m ino =
     try_res (fs_tree_leaf crc img sb m) (\<lambda>leaf.
       read_file_from_leaf c leaf img m (sb_sectorsize sb) ino)"

definition read_by_path_content :: "(bytes \<Rightarrow> u32) \<Rightarrow> codecs \<Rightarrow> bytes \<Rightarrow> superblock \<Rightarrow> chunk_map \<Rightarrow>
    rstring \<Rightarrow> btrfs_error + bytes" where
  "read_by_path_content crc c img sb m path =
     try_res (fs_tree_leaf crc img sb m) (\<lambda>leaf.
     try_res (ok_or (read_by_path leaf path)
         (Truncated ''path (unresolved in FS_TREE)'' (length path) 0)) (\<lambda>(ino, _).
       read_file_from_leaf c leaf img m (sb_sectorsize sb) ino))"

section \<open>Bounds of decompression\<close>

lemma guard_alloc_Inr_iff [simp]: "guard_alloc f a b = Inr u \<longleftrightarrow> a \<le> b"
  by (auto simp: guard_alloc_def not_less)

lemma guard_alloc_Inl_iff: "guard_alloc f a b = Inl e \<longleftrightarrow> b < a \<and> e = AllocationBomb f a b"
  by (auto simp: guard_alloc_def)

lemma read_capped_length: "read_capped s cap = Inr out \<Longrightarrow> length out \<le> cap"
  by (auto simp: read_capped_def split: prod.splits if_splits)

lemma lzo_loop_length:
  "lzo_loop dec src cap ss sc len_all cur out = Inr res \<Longrightarrow> length out \<le> cap \<Longrightarrow> length res \<le> cap"
proof (induction dec src cap ss sc len_all cur out rule: lzo_loop.induct)
  case (1 dec src cap ss sc len_all cur out)
  show ?case
    using "1.prems" "1.IH" unfolding lzo_loop.simps [of dec src cap ss sc len_all cur out]
    by (auto simp: Let_def split: if_splits option.splits)
qed

lemma decompress_extent_length:
  "decompress_extent c algo src ram ss = Inr out \<Longrightarrow> length out \<le> unat ram"
  by (auto simp: decompress_extent_def decompress_zlib_def decompress_zstd_def decompress_lzo_btrfs_def
      Let_def get_range_def try_res_Inr_iff
      split: if_splits compression.splits sum.splits option.splits dest: read_capped_length)

lemma lzo_align_ge: "cur < len_all \<Longrightarrow> cur \<le> lzo_align ss len_all cur"
  by (auto simp: lzo_align_def usize_checked_add_def)

text \<open>The loop as the source has it, without the progress test.\<close>

lemma lzo_loop_unfold:
  assumes "fits_memory src"
  shows "lzo_loop dec src cap ss sc len_all cur out =
    (if \<not> (cur < len_all \<and> length out < cap) then Inr out
     else
       let pos = lzo_align ss len_all cur in
       if len_all \<le> pos then Inr out
       else
         (case get_range src pos (pos + 4) of
            None \<Rightarrow> Inr out
          | Some h \<Rightarrow>
              let seg_len = unat (from_le_bytes h :: u32); body = pos + 4 in
              if seg_len = 0 then Inr out
              else
                (case get_range src body (min (body + seg_len) (length src)) of
                   None \<Rightarrow> Inr out
                 | Some seg \<Rightarrow>
                     (case dec seg sc of
                        None \<Rightarrow> Inl (Truncated ''LZO extent segment (decompression failed)''
                                  seg_len (length out))
                      | Some d \<Rightarrow>
                          lzo_loop dec src cap ss sc len_all (body + seg_len)
                            (out @ take (min (cap - length out) (length d)) d)))))"
proof -
  have sat: "sat_add (pos + 4) (unat (x :: u32)) = pos + 4 + unat x"
    if "get_range src pos (pos + 4) = Some h" for pos h x
    using that assms unat_u32_le [of x]
    by (intro sat_add_exact) (auto simp: get_range_Some_iff fits_memory_def usize_max_def)
  show ?thesis
    unfolding lzo_loop.simps [of dec src cap ss sc len_all cur out] Let_def
    using lzo_align_ge [of cur len_all ss]
    by (auto simp: sat split: option.splits)
qed

section \<open>Writing LZO frames\<close>

text \<open>
  The framing of the kernel's \<open>fs/btrfs/lzo.c\<close> as the source describes it: segments behind a
  four-byte total, each with a four-byte length that never crosses a sector boundary.
\<close>

definition lzo_pad :: "nat \<Rightarrow> nat \<Rightarrow> nat" where
  "lzo_pad ss pos = (if pos mod ss + 4 > ss then ss - pos mod ss else 0)"

fun lzo_body :: "nat \<Rightarrow> nat \<Rightarrow> bytes list \<Rightarrow> bytes" where
  "lzo_body ss pos [] = []"
| "lzo_body ss pos (seg # segs) =
     zeros (lzo_pad ss pos) @ to_le_bytes (of_nat (length seg) :: u32) @ seg
     @ lzo_body ss (pos + lzo_pad ss pos + 4 + length seg) segs"

definition lzo_frame :: "nat \<Rightarrow> bytes list \<Rightarrow> bytes" where
  "lzo_frame ss segs =
     to_le_bytes (of_nat (4 + length (lzo_body ss 4 segs)) :: u32) @ lzo_body ss 4 segs"

lemma lzo_align_pad:
  "cur + ss \<le> usize_max \<Longrightarrow> lzo_align ss n cur = cur + lzo_pad ss cur"
  by (auto simp: lzo_align_def lzo_pad_def usize_checked_add_def)

lemma lzo_loop_segment:
  fixes ss pre seg
  defines "pad \<equiv> lzo_pad ss (length pre)" and "hdr \<equiv> to_le_bytes (of_nat (length seg) :: u32)"
  assumes src: "src = pre @ zeros pad @ hdr @ seg @ tail" and "fits_memory src" and "ss < 2 ^ 32"
    and seg: "seg \<noteq> []" "length seg < 2 ^ 32" and "dec seg sc = Some p"
    and "length pre + pad + 4 + length seg \<le> n" and "length out < cap" and "length out + length p \<le> cap"
  shows "lzo_loop dec src cap ss sc n (length pre) out =
    lzo_loop dec src cap ss sc n (length pre + pad + 4 + length seg) (out @ p)"
proof -
  let ?pos = "length pre + pad"
  have align: "lzo_align ss n (length pre) = ?pos"
    using assms(4,5) src unfolding pad_def by (intro lzo_align_pad) (simp add: fits_memory_def usize_max_def)
  have hdr: "get_range src ?pos (?pos + 4) = Some hdr"
    unfolding src by (simp add: get_range_def hdr_def)
  have len: "unat (from_le_bytes hdr :: u32) = length seg"
    using seg by (simp add: hdr_def from_to_le_bytes unat_of_nat_u32)
  have sg: "get_range src (?pos + 4) (min (?pos + 4 + length seg) (length src)) = Some seg"
    unfolding src by (simp add: get_range_def hdr_def)
  have "length pre < n" "?pos < n" "take (min (cap - length out) (length p)) p = p"
    using assms(9,11) seg(1) by auto
  then show ?thesis
    unfolding lzo_loop_unfold [OF assms(4), of dec cap ss sc n "length pre" out]
    using assms(8,10) seg(1) by (simp add: Let_def align hdr len sg)
qed

lemma lzo_loop_frame:
  assumes "src = pre @ lzo_body ss (length pre) segs @ rest" and "fits_memory src" and "ss < 2 ^ 32"
    and "\<forall>seg\<in>set segs. seg \<noteq> [] \<and> length seg < 2 ^ 32"
    and "list_all2 (\<lambda>seg plain. dec seg sc = Some plain \<and> plain \<noteq> []) segs plains"
    and "n = length pre + length (lzo_body ss (length pre) segs)"
    and "cap = length out + length (concat plains)"
  shows "lzo_loop dec src cap ss sc n (length pre) out = Inr (out @ concat plains)"
  using assms
proof (induction segs arbitrary: pre out plains)
  case Nil
  then show ?case by (simp add: lzo_loop.simps)
next
  case (Cons seg segs)
  from Cons.prems(5) obtain p ps where plains: "plains = p # ps" "dec seg sc = Some p" "p \<noteq> []"
    and ps: "list_all2 (\<lambda>seg plain. dec seg sc = Some plain \<and> plain \<noteq> []) segs ps"
    by (auto simp: list_all2_Cons1)
  let ?pad = "lzo_pad ss (length pre)" and ?hdr = "to_le_bytes (of_nat (length seg) :: u32)"
  let ?pre' = "pre @ zeros ?pad @ ?hdr @ seg"
  have pre': "length ?pre' = length pre + ?pad + 4 + length seg" by simp
  have "lzo_loop dec src cap ss sc n (length pre) out = lzo_loop dec src cap ss sc n (length ?pre') (out @ p)"
    unfolding pre' using Cons.prems plains by (intro lzo_loop_segment) auto
  also have "\<dots> = Inr ((out @ p) @ concat ps)"
  proof (rule Cons.IH)
    show "src = ?pre' @ lzo_body ss (length ?pre') segs @ rest"
      unfolding pre' using Cons.prems(1) by simp
    show "n = length ?pre' + length (lzo_body ss (length ?pre') segs)"
      unfolding pre' using Cons.prems(6) by simp
  qed (use Cons.prems ps plains in auto)
  finally show ?case by (simp add: plains)
qed

lemma le32_padded_value:
  "n < 2 ^ 32 \<Longrightarrow> unat (le_u64 (le32_padded (to_le_bytes (of_nat n :: u32) @ rest) 0) 0) = n"
proof -
  assume n: "n < 2 ^ 32"
  have "le32_padded (to_le_bytes (of_nat n :: u32) @ rest) 0 = nat_le 4 n @ replicate 4 0"
    using n by (simp add: le32_padded_def get_range_def to_le_bytes_def unat_of_nat_u32)
  then have "le_u64 (le32_padded (to_le_bytes (of_nat n :: u32) @ rest) 0) 0 = of_nat n"
    using n le_nat_nat_le [of n 4]
    by (simp add: le_u64_in_range from_le_bytes_def le_nat_append)
  then show ?thesis using n by (simp add: unat_of_nat)
qed

section \<open>Assembly\<close>

text \<open>The pieces of a file: what each extent contributes.\<close>

definition pieces_of :: "codecs \<Rightarrow> bytes \<Rightarrow> chunk_map \<Rightarrow> u32 \<Rightarrow> u64 \<Rightarrow> (u64 \<times> bytes) list \<Rightarrow> bytes list \<Rightarrow> bool" where
  "pieces_of c img m ss bound exts ps \<longleftrightarrow>
     list_all2 (\<lambda>e p. extent_bytes c img m ss bound (snd e) = Inr p) exts ps"

lemma assemble_Inr_iff:
  "assemble c img m ss bound exts out = Inr res \<longleftrightarrow>
     (\<exists>ps. pieces_of c img m ss bound exts ps \<and> res = out @ concat ps)"
proof (induction exts arbitrary: out)
  case (Cons e exts)
  obtain off data where e: "e = (off, data)" by fastforce
  have "(\<exists>p. extent_bytes c img m ss bound data = Inr p \<and>
      (\<exists>ps. pieces_of c img m ss bound exts ps \<and> res = (out @ p) @ concat ps)) \<longleftrightarrow>
    (\<exists>ps. pieces_of c img m ss bound (e # exts) ps \<and> res = out @ concat ps)"
  proof
    assume "\<exists>p. extent_bytes c img m ss bound data = Inr p \<and>
      (\<exists>ps. pieces_of c img m ss bound exts ps \<and> res = (out @ p) @ concat ps)"
    then obtain p ps where "extent_bytes c img m ss bound data = Inr p"
      "pieces_of c img m ss bound exts ps" "res = (out @ p) @ concat ps" by blast
    then show "\<exists>ps. pieces_of c img m ss bound (e # exts) ps \<and> res = out @ concat ps"
      by (intro exI [of _ "p # ps"]) (simp add: pieces_of_def e)
  qed (auto simp: pieces_of_def e list_all2_Cons1)
  then show ?case
    by (simp add: e try_res_Inr_iff Cons)
qed (auto simp: pieces_of_def)

definition logical_bound :: "bytes \<Rightarrow> u64" where
  "logical_bound img = max (of_nat (length img)) LOGICAL_ALLOC_FLOOR"

lemma read_file_from_leaf_Inr_iff:
  "read_file_from_leaf c leaf img m ss ino = Inr out \<longleftrightarrow>
     (\<exists>size ps. file_size leaf ino = Some size \<and> size \<le> logical_bound img \<and>
        pieces_of c img m ss (logical_bound img) (file_extents leaf ino) ps \<and>
        out = take (unat size) (concat ps) @ replicate (unat size - length (concat ps)) 0)"
proof -
  have fit: "(if n < length xs then take n xs else if length xs < n then xs @ replicate (n - length xs) 0 else xs)
      = take n xs @ replicate (n - length xs) (0 :: u8)" for n and xs :: bytes
    by auto
  show ?thesis
    unfolding read_file_from_leaf_def Let_def fit try_res_Inr_iff ok_or_Inr_iff guard_alloc_Inr_iff
      assemble_Inr_iff logical_bound_def
    by auto
qed

lemma file_extents_set:
  "(off, data) \<in> set (file_extents leaf ino) \<longleftrightarrow>
     (\<exists>k. (k, data) \<in> set (leaf_items leaf) \<and> k_objectid k = ino \<and> k_type k = 108 \<and> k_offset k = off)"
  by (auto simp: file_extents_def EXTENT_DATA_KEY_def image_iff)

lemma sorted_file_extents: "sorted (map fst (file_extents leaf ino))"
  by (simp add: file_extents_def)

lemma read_pieces:
  assumes "read_file_from_leaf c leaf img m ss ino = Inr out"
    and "pieces_of c img m ss (max (of_nat (length img)) 0x4000000) (file_extents leaf ino) ps"
  shows "\<exists>size. out = take size (concat ps) @ replicate (size - length (concat ps)) 0"
proof -
  have "pieces_of c img m ss (logical_bound img) (file_extents leaf ino) ps"
    using assms(2) by (simp add: logical_bound_def LOGICAL_ALLOC_FLOOR_def)
  moreover from assms(1) obtain size :: u64 and qs
    where qs: "pieces_of c img m ss (logical_bound img) (file_extents leaf ino) qs"
    and out: "out = take (unat size) (concat qs) @ replicate (unat size - length (concat qs)) 0"
    unfolding read_file_from_leaf_Inr_iff by blast
  ultimately have "qs = ps"
    unfolding pieces_of_def
    by (intro nth_equalityI) (auto simp: list_all2_conv_all_nth intro: Inr_inject)
  with out show ?thesis by blast
qed

section \<open>Writing extents\<close>

text \<open>
  An uncompressed inline extent: the generation, \<open>ram_bytes\<close>, four bytes of encodings and the type, all
  zero, and the content. \<open>encode_inline\<close> has generation zero.
\<close>

definition inline_bytes :: "u64 \<Rightarrow> bytes \<Rightarrow> bytes" where
  "inline_bytes generation payload =
     to_le_bytes generation @ to_le_bytes (of_nat (length payload) :: u64) @ zeros 5 @ payload"

definition encode_inline :: "bytes \<Rightarrow> bytes" where
  "encode_inline payload =
     zeros 8 @ to_le_bytes (of_nat (length payload) :: u64) @ zeros 5 @ payload"

definition encode_regular :: "u64 \<Rightarrow> u64 \<Rightarrow> u64 \<Rightarrow> u64 \<Rightarrow> bytes" where
  "encode_regular disk_bytenr disk_num_bytes off num_bytes =
     zeros 8 @ to_le_bytes num_bytes @ zeros 4 @ [1] @ to_le_bytes disk_bytenr
     @ to_le_bytes disk_num_bytes @ to_le_bytes off @ to_le_bytes num_bytes"

lemma encode_inline_zero: "encode_inline payload = inline_bytes 0 payload"
  by (simp add: encode_inline_def inline_bytes_def to_le_bytes_zero)

lemma extent_bytes_inline_bytes:
  assumes "length payload < 2 ^ 63"
  shows "extent_bytes c img m ss bound (inline_bytes gen payload) = Inr payload"
proof -
  have "u8_at (inline_bytes gen payload) 20 = 0" "u8_at (inline_bytes gen payload) 16 = 0"
    "le_u64 (inline_bytes gen payload) 8 = of_nat (length payload)"
    by (simp_all add: inline_bytes_def read_simps zeros_def)
  moreover have "get_from (inline_bytes gen payload) 21 = Some payload"
    by (simp add: inline_bytes_def get_from_def)
  ultimately show ?thesis
    using assms by (simp add: extent_bytes_def ext_consts compression_from_byte_def Let_def
        decompress_extent_def get_range_def unat_of_nat)
qed

lemma extent_bytes_inline:
  "length payload < 2 ^ 63 \<Longrightarrow> extent_bytes c img m ss bound (encode_inline payload) = Inr payload"
  unfolding encode_inline_zero by (rule extent_bytes_inline_bytes)

lemma read_inline_bytes:
  assumes "find (\<lambda>(k, _). k_objectid k = ino \<and> k_type k = 1) (leaf_items leaf) =
      Some (key, inode_item_bytes bg rdev sq i)"
    and "filter (\<lambda>(k, _). k_objectid k = ino \<and> k_type k = 108) (leaf_items leaf) = [(key', inline_bytes gen payload)]"
    and "unat (i_size i) = length payload" and "length payload \<le> 0x4000000"
  shows "read_file_from_leaf c leaf img m ss ino = Inr payload"
proof -
  have "file_size leaf ino = Some (i_size i)"
    using assms(1) by (simp add: file_size_def fs_consts inode_item_bytes_def read_simps)
  moreover have "pieces_of c img m ss (logical_bound img) (file_extents leaf ino) [payload]"
    using assms(2,4) by (simp add: file_extents_def EXTENT_DATA_KEY_def pieces_of_def extent_bytes_inline_bytes)
  moreover have "i_size i \<le> 0x4000000"
    using assms(3,4) by (simp add: word_le_nat_alt)
  then have "i_size i \<le> logical_bound img"
    by (simp add: logical_bound_def LOGICAL_ALLOC_FLOOR_def le_max_iff_disj)
  ultimately show ?thesis
    unfolding read_file_from_leaf_Inr_iff using assms(3)
    by (intro exI [of _ "i_size i"] exI [of _ "[payload]"]) simp
qed

lemma read_inline_file:
  assumes "find (\<lambda>(k, _). k_objectid k = ino \<and> k_type k = 1) (leaf_items leaf) = Some (key, encode_inode i)"
    and "filter (\<lambda>(k, _). k_objectid k = ino \<and> k_type k = 108) (leaf_items leaf) = [(key', encode_inline payload)]"
    and "unat (i_size i) = length payload" and "length payload \<le> 0x4000000"
  shows "read_file_from_leaf c leaf img m ss ino = Inr payload"
  using assms unfolding encode_inode_zeros encode_inline_zero by (rule read_inline_bytes)

section \<open>Where the bytes belong\<close>

text \<open>
  The content of a sparse file: the byte at position \<open>k\<close> is that of the extent that covers \<open>k\<close>, and zero
  where none does. An extent is its file offset with its bytes.
\<close>

definition sparse_byte :: "(u64 \<times> bytes) list \<Rightarrow> nat \<Rightarrow> u8" where
  "sparse_byte exts k =
     (case find (\<lambda>(off, p). unat off \<le> k \<and> k < unat off + length p) exts of
        None \<Rightarrow> 0
      | Some (off, p) \<Rightarrow> p ! (k - unat off))"

definition sparse_content :: "nat \<Rightarrow> (u64 \<times> bytes) list \<Rightarrow> bytes" where
  "sparse_content n exts = map (sparse_byte exts) [0..<n]"

text \<open>Extents without a gap from position \<open>n\<close> on, and an extent that ends before another begins.\<close>

fun contiguous :: "nat \<Rightarrow> (u64 \<times> bytes) list \<Rightarrow> bool" where
  "contiguous n [] = True"
| "contiguous n ((off, p) # exts) = (unat off = n \<and> contiguous (n + length p) exts)"

definition ends_before :: "u64 \<times> bytes \<Rightarrow> u64 \<times> bytes \<Rightarrow> bool" where
  "ends_before = (\<lambda>(off, p) (off', _). unat off + length p \<le> unat off')"

lemma contiguous_end:
  "contiguous n exts \<Longrightarrow> (off, p) \<in> set exts \<Longrightarrow> unat off + length p \<le> n + length (concat (map snd exts))"
  by (induction n exts rule: contiguous.induct) fastforce+

lemma contiguous_byte:
  "contiguous n exts \<Longrightarrow> n \<le> k \<Longrightarrow> sparse_byte exts k =
     (if k - n < length (concat (map snd exts)) then concat (map snd exts) ! (k - n) else 0)"
proof (induction n exts rule: contiguous.induct)
  case (2 n off p exts)
  show ?case
  proof (cases "k < n + length p")
    case True
    with "2.prems" have "k - n < length p" by simp
    with "2.prems" True show ?thesis by (simp add: sparse_byte_def nth_append)
  next
    case False
    with 2 have "sparse_byte exts k =
        (if k - (n + length p) < length (concat (map snd exts))
         then concat (map snd exts) ! (k - (n + length p)) else 0)"
      by simp
    moreover have "sparse_byte ((off, p) # exts) k = sparse_byte exts k"
      using 2 False by (simp add: sparse_byte_def)
    ultimately show ?thesis
      using 2 False by (auto simp: nth_append)
  qed
qed (simp add: sparse_byte_def)

lemma contiguous_content:
  assumes "contiguous 0 exts"
  shows "sparse_content n exts =
    take n (concat (map snd exts)) @ replicate (n - length (concat (map snd exts))) 0"
  by (rule nth_equalityI) (auto simp: sparse_content_def contiguous_byte [OF assms] nth_append)

lemma gap_byte:
  assumes "sorted_wrt ends_before (before @ (off, p) # after)" and "contiguous 0 before"
    and "length (concat (map snd before)) \<le> k" and "k < unat off"
  shows "sparse_byte (before @ (off, p) # after) k = 0"
proof -
  have "\<not> (unat o' \<le> k \<and> k < unat o' + length q)" if "(o', q) \<in> set (before @ (off, p) # after)" for o' q
    using that assms contiguous_end [OF assms(2), of o' q]
    by (fastforce simp: sorted_wrt_append ends_before_def)
  then have "find (\<lambda>(o', q). unat o' \<le> k \<and> k < unat o' + length q) (before @ (off, p) # after) = None"
    by (force simp: find_None_iff)
  then show ?thesis by (simp add: sparse_byte_def)
qed

text \<open>A file of two inline extents, to evaluate the reader on.\<close>

definition demo_codecs :: codecs where
  "demo_codecs = \<lparr> zlib_stream = (\<lambda>s. (s, True)), zstd_stream = (\<lambda>s. Some (s, True)),
     lzo_block = (\<lambda>s n. if length s \<le> n then Some s else None) \<rparr>"

definition demo_file :: "u64 \<Rightarrow> u64 \<Rightarrow> (disk_key \<times> bytes) list" where
  "demo_file sz off =
     [(\<lparr>k_objectid = 257, k_type = 1, k_offset = 0\<rparr>, encode_inode (demo_inode 257 0x81A4\<lparr>i_size := sz\<rparr>)),
      (\<lparr>k_objectid = 257, k_type = 108, k_offset = off\<rparr>, encode_inline [4, 5]),
      (\<lparr>k_objectid = 257, k_type = 108, k_offset = 0\<rparr>, encode_inline [1, 2, 3])]"

definition demo_file_leaf :: "u64 \<Rightarrow> u64 \<Rightarrow> bytes" where
  "demo_file_leaf sz off = encode_leaf (demo_header 5 0 3) [] (demo_file sz off)"

lemma demo_file_node:
  obtains leaf where "node_parse crc (demo_file_leaf sz off) = Inr leaf"
    and "leaf_items leaf = demo_file sz off"
proof -
  have "wf_leaf (demo_header 5 0 3) [] (demo_file sz off)"
    by (simp add: wf_leaf_def demo_file_def encode_inline_def)
  moreover obtain leaf where leaf: "node_parse crc (demo_file_leaf sz off) = Inr leaf"
    using node_parse_ok_iff [of crc "demo_file_leaf sz off"]
    by (auto simp: demo_file_leaf_def encode_leaf_def)
  ultimately show thesis
    using encode_leaf_items(2) that unfolding demo_file_leaf_def by blast
qed

lemma demo_file_facts:
  assumes "leaf_items leaf = demo_file sz off" and "0 < off"
  shows "file_size leaf 257 = Some sz"
    and "file_extents leaf 257 = [(0, encode_inline [1, 2, 3]), (off, encode_inline [4, 5])]"
    and "pieces_of c img m ss bound (file_extents leaf 257) [[1, 2, 3], [4, 5]]"
proof -
  show "file_size leaf 257 = Some sz"
    by (simp add: file_size_def assms(1) demo_file_def fs_consts encode_inode_def read_simps)
  show e: "file_extents leaf 257 = [(0, encode_inline [1, 2, 3]), (off, encode_inline [4, 5])]"
    using assms(2) by (simp add: file_extents_def assms(1) demo_file_def EXTENT_DATA_KEY_def word_gt_0)
  show "pieces_of c img m ss bound (file_extents leaf 257) [[1, 2, 3], [4, 5]]"
    by (simp add: e pieces_of_def extent_bytes_inline)
qed

lemma demo_read:
  assumes "leaf_items leaf = demo_file sz off" and "0 < off" and "5 \<le> unat sz" and "sz \<le> 0x4000000"
  shows "read_file_from_leaf c leaf [] m ss 257 = Inr ([1, 2, 3, 4, 5] @ replicate (unat sz - 5) 0)"
  unfolding read_file_from_leaf_Inr_iff
  using demo_file_facts [OF assms(1,2)] assms(3,4)
  by (intro exI [of _ sz] exI [of _ "[[1, 2, 3], [4, 5]]"])
    (simp add: logical_bound_def LOGICAL_ALLOC_FLOOR_def)

section \<open>Properties\<close>

text \<open>
  Claim C22. Decompressed content never exceeds the extent's \<open>ram_bytes\<close>, whatever the codec
  delivers, and a claim above 1024 times the source plus one MiB never reaches a codec: it is
  rejected with the claim and the bound. An unknown codec is an error naming its byte.
\<close>

theorem decompress_extent_bounded:
  "\<not> (\<exists>out. decompress_extent c algo src ram ss = Inr out \<and>
        (unat ram < length out \<or>
         algo \<noteq> NoCompression \<and> u64_sat_add (u64_sat_mul (of_nat (length src)) 1024) 0x100000 < ram)) \<and>
   (algo = NoCompression \<or> ram \<le> u64_sat_add (u64_sat_mul (of_nat (length src)) 1024) 0x100000 \<or>
      decompress_extent c algo src ram ss = Inl (AllocationBomb ''compressed ram_bytes'' ram
        (u64_sat_add (u64_sat_mul (of_nat (length src)) 1024) 0x100000))) \<and>
   \<not> is_ok (decompress_extent c (OtherCompression b) src ram ss) \<and>
   decompress_extent c NoCompression src ram ss = Inr (take (unat ram) src)"
proof (intro conjI)
  show "\<not> (\<exists>out. decompress_extent c algo src ram ss = Inr out \<and>
        (unat ram < length out \<or>
         algo \<noteq> NoCompression \<and> u64_sat_add (u64_sat_mul (of_nat (length src)) 1024) 0x100000 < ram))"
  proof clarify
    fix out assume out: "decompress_extent c algo src ram ss = Inr out"
      and bad: "unat ram < length out \<or>
         algo \<noteq> NoCompression \<and> u64_sat_add (u64_sat_mul (of_nat (length src)) 1024) 0x100000 < ram"
    have "algo \<noteq> NoCompression \<and> u64_sat_add (u64_sat_mul (of_nat (length src)) 1024) 0x100000 < ram"
      using bad decompress_extent_length [OF out] by simp
    with out show False
      by (simp add: decompress_extent_def Let_def try_res_Inr_iff not_less [symmetric])
  qed
  show "algo = NoCompression \<or> ram \<le> u64_sat_add (u64_sat_mul (of_nat (length src)) 1024) 0x100000 \<or>
      decompress_extent c algo src ram ss = Inl (AllocationBomb ''compressed ram_bytes'' ram
        (u64_sat_add (u64_sat_mul (of_nat (length src)) 1024) 0x100000))"
    by (auto simp: decompress_extent_def guard_alloc_def Let_def not_less)
  show "\<not> is_ok (decompress_extent c (OtherCompression b) src ram ss)"
    by (auto simp: decompress_extent_def guard_alloc_def Let_def)
  show "decompress_extent c NoCompression src ram ss = Inr (take (unat ram) src)"
    by (simp add: decompress_extent_def Let_def get_range_def min_def)
qed

text \<open>
  Claim C24. The LZO decoder undoes btrfs's framing: segments laid out with padding at sector
  boundaries, followed by anything up to the end of the image, decode to the concatenation of
  what the LZO1X decoder makes of each segment.
\<close>

theorem lzo_frame_roundtrip:
  assumes "list_all2 (\<lambda>seg plain. lzo_block c seg (ss + ss div 16 + 64) = Some plain \<and> plain \<noteq> []) segs plains"
    and "\<forall>seg\<in>set segs. seg \<noteq> [] \<and> length seg < 2 ^ 32"
    and "0 < ss" and "ss < 2 ^ 32" and "unat sectorsize = ss"
    and "4 + length (lzo_body ss 4 segs) < 2 ^ 32" and "fits_memory (lzo_frame ss segs @ rest)"
  shows "decompress_lzo_btrfs c (lzo_frame ss segs @ rest) (length (concat plains)) sectorsize =
    Inr (concat plains)"
proof -
  let ?src = "lzo_frame ss segs @ rest" and ?n = "4 + length (lzo_body ss 4 segs)"
  let ?tot = "to_le_bytes (of_nat ?n :: u32)"
  have src: "?src = ?tot @ lzo_body ss (length ?tot) segs @ rest"
    by (simp add: lzo_frame_def)
  have "unat (le_u64 (le32_padded ?src 0) 0) = ?n"
    unfolding src using assms(6) le32_padded_value [of ?n "lzo_body ss 4 segs @ rest"] by simp
  then have n: "max (min (unat (le_u64 (le32_padded ?src 0) 0)) (length ?src)) 4 = ?n"
    by (simp add: lzo_frame_def)
  have cap: "sat_add (sat_add ss (ss div 16)) 64 = ss + ss div 16 + 64"
    using assms(4) by (simp add: sat_add_def usize_max_def)
  have "lzo_loop (lzo_block c) ?src (length (concat plains)) ss (ss + ss div 16 + 64) ?n (length ?tot) [] =
      Inr ([] @ concat plains)"
    using assms by (intro lzo_loop_frame [OF src]) simp_all
  then show ?thesis
    using assms(3,5) n cap by (simp add: decompress_lzo_btrfs_def Let_def)
qed

theorem lzo_frame_roundtrip_witness:
  "decompress_lzo_btrfs demo_codecs (lzo_frame 16 [[1, 2, 3, 4, 5], [6, 7]] @ [99])
     (length [1, 2, 3, 4, 5, 6, 7 :: u8]) 16 =
     Inr [1, 2, 3, 4, 5, 6, 7]"
  using lzo_frame_roundtrip [of demo_codecs 16 "[[1, 2, 3, 4, 5], [6, 7]]" "[[1, 2, 3, 4, 5], [6, 7]]" 16 "[99]"]
  by (simp add: demo_codecs_def lzo_pad_def lzo_frame_def fits_memory_def)

text \<open>
  Claim C20. \<open>read_file_from_leaf\<close>, exactly: it succeeds when the inode item exists, its size is
  within the allocation bound and every extent can be read; the content is the concatenation of
  the extents in file-offset order, cut or zero-filled to exactly the inode's size.
\<close>

theorem read_file_exact:
  "(read_file_from_leaf c leaf img m ss ino = Inr out \<longleftrightarrow>
     (\<exists>size ps. file_size leaf ino = Some size \<and> size \<le> max (of_nat (length img)) 0x4000000 \<and>
        pieces_of c img m ss (max (of_nat (length img)) 0x4000000) (file_extents leaf ino) ps \<and>
        out = take (unat size) (concat ps) @ replicate (unat size - length (concat ps)) 0)) \<and>
   sorted (map fst (file_extents leaf ino)) \<and>
   \<not> (read_file_from_leaf c leaf img m ss ino = Inr out \<and> Some (length out) \<noteq> map_option unat (file_size leaf ino)) \<and>
   (file_size leaf ino \<noteq> None \<or> read_file_from_leaf c leaf img m ss ino =
      Inl (Truncated ''INODE_ITEM for the requested objectid (read_file)'' (unat ino) 0))"
  using read_file_from_leaf_Inr_iff [of c leaf img m ss ino out] sorted_file_extents [of leaf ino]
  by (auto simp: logical_bound_def LOGICAL_ALLOC_FLOOR_def read_file_from_leaf_def split: option.splits)

theorem read_file_exact_witness:
  "\<exists>leaf. node_parse crc32c_ref (demo_file_leaf 6 3) = Inr leaf \<and>
     read_file_from_leaf demo_codecs leaf [] [] 4096 257 = Inr [1, 2, 3, 4, 5, 0]"
proof -
  obtain leaf where leaf: "node_parse crc32c_ref (demo_file_leaf 6 3) = Inr leaf"
    and its: "leaf_items leaf = demo_file 6 3"
    by (rule demo_file_node)
  have "read_file_from_leaf demo_codecs leaf [] [] 4096 257 = Inr [1, 2, 3, 4, 5, 0]"
    using read_file_exact [of demo_codecs leaf "[]" "[]" 4096 257 "[1, 2, 3, 4, 5, 0]"]
      demo_file_facts [OF its] by (auto intro!: exI [of _ "[[1, 2, 3], [4, 5]]"])
  with leaf show ?thesis by blast
qed

text \<open>
  Where the bytes of an extent land: behind the bytes of the extents with smaller file
  offsets. So every byte lands at its file offset when the extents are contiguous from offset
  zero, and the reader is right exactly on such files.
\<close>

theorem extent_placement:
  assumes "read_file_from_leaf c leaf img m ss ino = Inr out"
    and "file_extents leaf ino = es @ (off, data) # es'"
    and "pieces_of c img m ss (max (of_nat (length img)) 0x4000000) es ps"
    and "extent_bytes c img m ss (max (of_nat (length img)) 0x4000000) data = Inr p"
    and "j < length p" and "length (concat ps) + j < length out"
  shows "out ! (length (concat ps) + j) = p ! j \<and>
    (unat off = length (concat ps) \<longrightarrow> out ! (unat off + j) = p ! j)"
proof -
  have b: "logical_bound img = max (of_nat (length img)) 0x4000000"
    by (simp add: logical_bound_def LOGICAL_ALLOC_FLOOR_def)
  obtain sz :: u64 and qs where qs: "pieces_of c img m ss (max (of_nat (length img)) 0x4000000) (file_extents leaf ino) qs"
    and out: "out = take (unat sz) (concat qs) @ replicate (unat sz - length (concat qs)) 0"
    using assms(1) unfolding read_file_from_leaf_Inr_iff b by blast
  from qs obtain qs1 q qs2 where split: "qs = qs1 @ q # qs2"
    and r: "pieces_of c img m ss (max (of_nat (length img)) 0x4000000) es qs1"
      "extent_bytes c img m ss (max (of_nat (length img)) 0x4000000) data = Inr q"
    unfolding assms(2) pieces_of_def by (auto simp: list_all2_append1 list_all2_Cons1)
  have "qs1 = ps"
  proof (rule list_all2_antisym)
    show "list_all2 (=) qs1 ps"
      using r(1) assms(3) unfolding pieces_of_def
      by (auto simp: list_all2_conv_all_nth intro: Inr_inject)
    show "list_all2 (=) ps qs1"
      using r(1) assms(3) unfolding pieces_of_def
      by (auto simp: list_all2_conv_all_nth)
  qed auto
  moreover have "q = p" using r(2) assms(4) by simp
  ultimately have cq: "concat qs = concat ps @ p @ concat qs2"
    by (simp add: split)
  have "length (concat ps) + j < unat sz"
    using assms(6) by (simp add: out)
  moreover from this have "j < unat sz - length (concat ps)" by simp
  ultimately have "out ! (length (concat ps) + j) = p ! j"
    using assms(5) by (simp add: out cq nth_append)
  then show ?thesis by simp
qed

theorem extent_placement_witness:
  "\<exists>leaf out. node_parse crc32c_ref (demo_file_leaf 5 3) = Inr leaf \<and>
     read_file_from_leaf demo_codecs leaf [] [] 4096 257 = Inr out \<and> out ! (3 + 1) = 5"
proof -
  obtain leaf where leaf: "node_parse crc32c_ref (demo_file_leaf 5 3) = Inr leaf"
    and its: "leaf_items leaf = demo_file 5 3"
    by (rule demo_file_node)
  have rd: "read_file_from_leaf demo_codecs leaf [] [] 4096 257 = Inr [1, 2, 3, 4, 5]"
    using demo_read [OF its, of demo_codecs "[]" 4096] by simp
  have "file_extents leaf 257 = [(0, encode_inline [1, 2, 3])] @ (3, encode_inline [4, 5]) # []"
    using demo_file_facts(2) [OF its] by simp
  note place = extent_placement [OF rd this, of "[[1, 2, 3]]" "[4, 5]" 1]
  have "[1, 2, 3, 4, 5] ! (3 + 1) = [4, 5 :: u8] ! 1"
    using place by (simp add: pieces_of_def extent_bytes_inline)
  with leaf rd show ?thesis
    by (intro exI [of _ leaf] exI [of _ "[1, 2, 3, 4, 5]"] conjI) simp_all
qed

text \<open>
  A small file round-trips: a leaf that holds its inode item and one inline extent
  gives back exactly the payload, for any image, map and codec.
\<close>

theorem inline_file_roundtrip:
  assumes "find (\<lambda>(k, _). k_objectid k = ino \<and> k_type k = 1) (leaf_items leaf) = Some (key, encode_inode i)"
    and "filter (\<lambda>(k, _). k_objectid k = ino \<and> k_type k = 108) (leaf_items leaf) = [(key', encode_inline payload)]"
    and "unat (i_size i) = length payload" and "length payload \<le> 0x4000000"
  shows "read_file_from_leaf c leaf img m ss ino = Inr payload"
  using assms by (rule read_inline_file)

theorem inline_file_roundtrip_witness:
  "\<exists>leaf. leaf_items leaf =
       [(\<lparr>k_objectid = 257, k_type = 1, k_offset = 0\<rparr>, encode_inode (demo_inode 257 0x81A4)),
        (\<lparr>k_objectid = 257, k_type = 108, k_offset = 0\<rparr>, encode_inline (str ''hello''))] \<and>
     read_file_from_leaf demo_codecs leaf [] [] 4096 257 = Inr (str ''hello'')"
proof -
  define its where "its = [(\<lparr>k_objectid = 257, k_type = 1, k_offset = 0\<rparr>, encode_inode (demo_inode 257 0x81A4)),
        (\<lparr>k_objectid = 257, k_type = 108, k_offset = 0\<rparr>, encode_inline (str ''hello''))]"
  have wf: "wf_leaf (demo_header 5 0 2) [] its"
    by (simp add: wf_leaf_def its_def encode_inline_def str_def)
  obtain leaf where leaf: "node_parse crc32c_ref (encode_leaf (demo_header 5 0 2) [] its) = Inr leaf"
    using node_parse_ok_iff [of crc32c_ref "encode_leaf (demo_header 5 0 2) [] its"]
    by (auto simp: encode_leaf_def)
  have li: "leaf_items leaf = its" by (rule encode_leaf_items(2) [OF wf leaf])
  have "read_file_from_leaf demo_codecs leaf [] [] 4096 257 = Inr (str ''hello'')"
    by (rule inline_file_roundtrip [of 257 leaf _ "demo_inode 257 0x81A4"])
      (simp_all add: li its_def demo_inode_def str_def)
  with li show ?thesis unfolding its_def by blast
qed

text \<open>
  A regular uncompressed extent: the guard, the translation and the window. It yields
  exactly \<open>num_bytes\<close> bytes at the physical address plus the extent offset, and the saturating
  64-bit addition never turns an offset past the image into a read inside it.
\<close>

theorem regular_extent_exact:
  assumes "fits_memory img" and "disk \<noteq> 0"
  shows "extent_bytes c img m ss bound (encode_regular disk dn off num) = 
    (if length img < unat num then Inl (AllocationBomb ''extent num_bytes'' num (of_nat (length img)))
     else case map_l2p m disk of
       None \<Rightarrow> Inl (Truncated ''extent disk_bytenr (no chunk mapping)'' (unat disk) 0)
     | Some (_, p) \<Rightarrow>
         if unat p + unat off + unat num \<le> length img
         then Inr (take (unat num) (drop (unat p + unat off) img))
         else Inl (Truncated ''regular extent data (out of image)''
           (sat_add (unat (u64_sat_add p off)) (unat num)) (length img)))"
proof -
  have len: "unat (of_nat (length img) :: u64) = length img"
    using assms(1) by (simp add: unat_of_nat fits_memory_def)
  have guard: "(of_nat (length img) :: u64) < num \<longleftrightarrow> length img < unat num"
    by (simp add: word_less_nat_alt len)
  have big: "length img < unat (u64_sat_add p off) + unat num" 
    if "2 ^ 64 \<le> unat p + unat off" for p
    using that assms(1) by (simp add: u64_sat_add_def fits_memory_def unsigned_minus_1_eq_mask mask_eq_exp_minus_1)
  have exact: "unat (u64_sat_add p off) = unat p + unat off" if "unat p + unat off < 2 ^ 64" for p
    using that by (simp add: u64_sat_add_def unat_add_u64)
  have fields: "u8_at (encode_regular disk dn off num) 20 = 1" "u8_at (encode_regular disk dn off num) 16 = 0"
    "le_u64 (encode_regular disk dn off num) 21 = disk" "le_u64 (encode_regular disk dn off num) 37 = off"
    "le_u64 (encode_regular disk dn off num) 45 = num"
    by (simp_all add: encode_regular_def read_simps zeros_def)
  have "ok_or (get_range img (unat (u64_sat_add p off)) (sat_add (unat (u64_sat_add p off)) (unat num))) e =
      (if unat p + unat off + unat num \<le> length img
       then Inr (take (unat num) (drop (unat p + unat off) img)) else Inl e)" for p and e :: btrfs_error
    using exact [of p] big [of p] assms(1)
    by (cases "unat p + unat off < 2 ^ 64") (auto simp: get_range_sat_add fits_memory_def)
  then show ?thesis
    using assms(2)
    by (simp add: extent_bytes_def ext_consts fields compression_from_byte_def Let_def
        read_regular_extent_def guard_alloc_def guard split: option.split prod.split)
qed

theorem regular_extent_exact_witness:
  "extent_bytes demo_codecs [10, 11, 12, 13, 14, 15] [\<lparr> me_start = 0x1000, me_length = 0x1000, me_stripes = [(1, 1)] \<rparr>]
     4096 0 (encode_regular 0x1000 4 2 3) = Inr [13, 14, 15]"
  using regular_extent_exact [of "[10, 11, 12, 13, 14, 15]" "0x1000" demo_codecs
      "[\<lparr> me_start = 0x1000, me_length = 0x1000, me_stripes = [(1, 1)] \<rparr>]" 4096 0 4 2 3]
  by (simp add: fits_memory_def u64_checked_add_def)

text \<open>
  Reading by path is path resolution followed by reading by inode number; an
  unresolved path is an error that names it, never an empty file.
\<close>

theorem read_by_path_content_composes:
  "read_by_path_content crc c img sb m path =
     (case fs_tree_leaf crc img sb m of
        Inl e \<Rightarrow> Inl e
      | Inr leaf \<Rightarrow>
          if \<exists>ino i. path_to leaf (components path) ino i
          then read_file crc c img sb m (THE ino. \<exists>i. path_to leaf (components path) ino i)
          else Inl (Truncated ''path (unresolved in FS_TREE)'' (length path) 0))"
proof (cases "fs_tree_leaf crc img sb m")
  case (Inr leaf)
  have iff: "read_by_path leaf path = Some (oid, i) \<longleftrightarrow> path_to leaf (components path) oid i" for oid i
    using path_to_resolve [of leaf "components path" oid i] resolve_path_to
    by (fastforce simp: read_by_path_def bind_eq_Some_conv)
  show ?thesis
  proof (cases "read_by_path leaf path")
    case None
    then have "\<not> (\<exists>ino i. path_to leaf (components path) ino i)"
      using iff by simp
    then show ?thesis
      by (auto simp: read_by_path_content_def Inr None)
  next
    case (Some r)
    obtain ino i where r: "r = (ino, i)" by fastforce
    have p: "path_to leaf (components path) oid j \<longleftrightarrow> oid = ino \<and> j = i" for oid j
      using iff [of oid j] Some r by auto
    then have the: "(THE ino. \<exists>i. path_to leaf (components path) ino i) = ino"
      by (intro the_equality) auto
    have "\<exists>ino i. path_to leaf (components path) ino i" using p by blast
    then show ?thesis
      by (simp add: read_by_path_content_def read_file_def Inr Some r the)
  qed
qed (simp add: read_by_path_content_def)
text \<open>
  Claim C21. What \<open>read_file_from_leaf\<close> makes of a sparse file, for any extents that lie apart. Without
  a gap in front of an extent the result is the content of the file. At the first gap, as a NO_HOLES
  filesystem leaves it, the bytes of the extent behind it are put at the start of the gap, not at their
  file offset, while the file has zeros there; so the result is wrong wherever such a byte is not zero.
\<close>

theorem no_holes_gap_shifts_data:
  assumes "read_file_from_leaf c leaf img m ss ino = Inr out"
    and "pieces_of c img m ss (max (of_nat (length img)) 0x4000000) (file_extents leaf ino) ps"
    and placed: "placed = zip (map fst (file_extents leaf ino)) ps" and apart: "sorted_wrt ends_before placed"
  shows "(contiguous 0 placed \<longrightarrow> out = sparse_content (length out) placed) \<and>
    (\<forall>before off p after j start. placed = before @ (off, p) # after \<and> contiguous 0 before \<and>
       start = length (concat (map snd before)) \<and> start < unat off \<and> j < length p \<and> start + j < length out \<longrightarrow>
         out ! (start + j) = p ! j \<and>
         (start + j < unat off \<longrightarrow> sparse_content (length out) placed ! (start + j) = 0))"
proof -
  obtain size where out: "out = take size (concat ps) @ replicate (size - length (concat ps)) 0"
    using read_pieces [OF assms(1,2)] by blast
  have ps: "map snd placed = ps"
    using assms(2) by (simp add: placed pieces_of_def list_all2_lengthD)
  have "length out = size" by (simp add: out)
  then have "out = sparse_content (length out) placed" if "contiguous 0 placed"
    unfolding contiguous_content [OF that] ps using out by simp
  moreover have "out ! (start + j) = p ! j \<and>
      (start + j < unat off \<longrightarrow> sparse_content (length out) placed ! (start + j) = 0)"
    if split: "placed = before @ (off, p) # after" and "contiguous 0 before"
      and start: "start = length (concat (map snd before))" and "j < length p" "start + j < length out"
    for before off p after j start
  proof
    have "concat ps = concat (map snd before) @ p @ concat (map snd after)"
      by (simp add: split flip: ps)
    with that show "out ! (start + j) = p ! j"
      by (auto simp: out nth_append)
    show "start + j < unat off \<longrightarrow> sparse_content (length out) placed ! (start + j) = 0"
      using that gap_byte [of before off p after "start + j"] apart
      by (simp add: sparse_content_def)
  qed
  ultimately show ?thesis by blast
qed

text \<open>A file of two blocks with a gap of one block between them, on a map that shifts addresses down.\<close>

definition gap_items :: "(disk_key \<times> bytes) list" where
  "gap_items =
     [(\<lparr>k_objectid = 257, k_type = 1, k_offset = 0\<rparr>, encode_inode (demo_inode 257 0x81A4\<lparr>i_size := 12288\<rparr>)),
      (\<lparr>k_objectid = 257, k_type = 108, k_offset = 0\<rparr>, encode_regular 0x100000 4096 0 4096),
      (\<lparr>k_objectid = 257, k_type = 108, k_offset = 8192\<rparr>, encode_regular 0x101000 4096 0 4096)]"

definition gap_image :: bytes where
  "gap_image = replicate 4096 1 @ replicate 4096 2"

definition gap_map :: chunk_map where
  "gap_map = [\<lparr> me_start = 0x100000, me_length = 0x2000, me_stripes = [(1, 0)] \<rparr>]"

lemma gap_extents: "leaf_items leaf = gap_items \<Longrightarrow>
    file_extents leaf 257 = [(0, encode_regular 0x100000 4096 0 4096), (8192, encode_regular 0x101000 4096 0 4096)]"
  by (simp add: file_extents_def gap_items_def EXTENT_DATA_KEY_def)

lemma gap_pieces:
  assumes "leaf_items leaf = gap_items"
  shows "pieces_of c gap_image gap_map ss bound (file_extents leaf 257) [replicate 4096 1, replicate 4096 2]"
proof -
  have fits: "fits_memory gap_image" by (simp add: gap_image_def fits_memory_def)
  have "extent_bytes c gap_image gap_map ss bound (encode_regular 0x100000 4096 0 4096) = Inr (replicate 4096 1)"
    "extent_bytes c gap_image gap_map ss bound (encode_regular 0x101000 4096 0 4096) = Inr (replicate 4096 2)"
    using regular_extent_exact [OF fits, of "0x100000" c gap_map ss bound 4096 0 4096]
      regular_extent_exact [OF fits, of "0x101000" c gap_map ss bound 4096 0 4096]
    by (simp_all add: gap_image_def gap_map_def u64_checked_add_def)
  then show ?thesis by (simp add: gap_extents [OF assms] pieces_of_def)
qed

theorem no_holes_gap_shifts_data_witness:
  "\<exists>leaf out. node_parse crc32c_ref (encode_leaf (demo_header 5 0 3) [] gap_items) = Inr leaf \<and>
     read_file_from_leaf demo_codecs leaf gap_image gap_map 4096 257 = Inr out \<and> length out = 12288 \<and>
     out ! 4096 = 2 \<and>
     sparse_content 12288 [(0, replicate 4096 1), (8192, replicate 4096 2)] ! 4096 = 0"
proof -
  have wf: "wf_leaf (demo_header 5 0 3) [] gap_items"
    by (simp add: wf_leaf_def gap_items_def encode_regular_def)
  obtain leaf where leaf: "node_parse crc32c_ref (encode_leaf (demo_header 5 0 3) [] gap_items) = Inr leaf"
    using node_parse_ok_iff [of crc32c_ref "encode_leaf (demo_header 5 0 3) [] gap_items"]
    by (auto simp: encode_leaf_def)
  have li: "leaf_items leaf = gap_items" by (rule encode_leaf_items(2) [OF wf leaf])
  let ?placed = "[(0, replicate 4096 1), (8192 :: u64, replicate 4096 (2 :: u8))]"
  have size: "file_size leaf 257 = Some 12288"
    by (simp add: file_size_def li gap_items_def fs_consts encode_inode_def read_simps)
  then have "\<exists>out. read_file_from_leaf demo_codecs leaf gap_image gap_map 4096 257 = Inr out \<and> length out = 12288"
    unfolding read_file_from_leaf_Inr_iff using gap_pieces [OF li]
    by (force simp: logical_bound_def LOGICAL_ALLOC_FLOOR_def le_max_iff_disj)
  then obtain out where out: "read_file_from_leaf demo_codecs leaf gap_image gap_map 4096 257 = Inr out" "length out = 12288"
    by blast
  have "?placed = zip (map fst (file_extents leaf 257)) [replicate 4096 1, replicate 4096 2]"
    by (simp add: gap_extents [OF li])
  moreover have "sorted_wrt ends_before ?placed"
    by (simp add: ends_before_def)
  ultimately have "out ! (4096 + 0) = replicate 4096 2 ! 0 \<and>
      (4096 + 0 < unat (8192 :: u64) \<longrightarrow> sparse_content (length out) ?placed ! (4096 + 0) = 0)"
    by (intro no_holes_gap_shifts_data [OF out(1) gap_pieces [OF li], THEN conjunct2, rule_format,
          where before = "[(0, replicate 4096 1)]" and after = "[]"]) (simp_all add: out(2))
  with leaf out show ?thesis by (intro exI [of _ leaf] exI [of _ out]) simp
qed


end
