(* ===== verification/Vfs.thy ===== *)
theory Vfs
  imports Extent
begin

text \<open>
  \<open>core/src/vfs.rs\<close>: the \<open>FileSystem\<close> adapter. The types of the \<open>forensic-vfs\<close> crate are
  modelled as far as the adapter constructs or matches them: the identity domains and stream
  kinds it does not name are the type parameters \<open>'o\<close> and \<open>'s\<close>, their \<open>Debug\<close> text is the parameter
  \<open>dbg\<close>, and an image source is given by its length and its \<open>read_at\<close>. The locale
  \<open>image_source\<close> is the contract of \<open>read_at\<close>; it is interpreted on the in-memory source of the
  repository's tests.
\<close>

section \<open>Types of the interface\<close>

datatype 'e vfs_error =
    Unsupported string rstring            \<comment> \<open>\<open>layer\<close>, \<open>scheme\<close>\<close>
  | OutOfRange string u64 u64 u64         \<comment> \<open>\<open>what\<close>, \<open>offset\<close>, \<open>len\<close>, \<open>bound\<close>\<close>
  | Decode string u64 rstring bytes       \<comment> \<open>\<open>layer\<close>, \<open>offset\<close>, \<open>detail\<close>, \<open>bytes\<close>\<close>
  | SourceError 'e                        \<comment> \<open>an error of the image source, handed through\<close>

datatype 'o file_id = Opaque u64 | OtherId 'o
datatype 's stream_id = DefaultStream | XattrStream u16 | OtherStream 's
datatype node_kind = KFile | KDir | KSymlink | KDevice | KOther
datatype residency = NonResident | Resident u32
datatype stream_kind = DataStream | XattrKind
datatype 'k fs_kind = FsBtrfs | OtherFs 'k
datatype 'z time_zone_policy = Utc | OtherZone 'z

record 'o vfs_dir_entry =
  vd_name :: bytes
  vd_id :: "'o file_id"
  vd_kind :: node_kind

record 'o hard_link =
  hl_parent :: "'o file_id"
  hl_name :: bytes

record 's stream_info =
  si_id :: "'s stream_id"
  si_name :: "bytes option"
  si_size :: u64
  si_residency :: residency
  si_kind :: stream_kind

text \<open>Of the sources and resolutions of a time and of the allocation states, those that the adapter names.\<close>

datatype time_source = InodeTable
datatype time_resolution = Nanos
datatype allocation = Allocated

record time_stamp =
  ts_unix_nanos :: int
  ts_source :: time_source
  ts_resolution :: time_resolution

record macb_times =
  mt_modified :: "time_stamp option"
  mt_accessed :: "time_stamp option"
  mt_changed :: "time_stamp option"
  mt_born :: "time_stamp option"

record 's fs_meta =
  fm_ino :: u64
  fm_kind :: node_kind
  fm_allocated :: allocation
  fm_size :: u64
  fm_nlink :: u32
  fm_uid :: "u32 option"
  fm_gid :: "u32 option"
  fm_mode :: "u32 option"
  fm_times :: macb_times
  fm_streams :: "'s stream_info list"
  fm_residency :: residency
  fm_link_target :: "bytes option"

text \<open>
  A source: its length, and \<open>read_at\<close>, which gets the buffer and returns the number of bytes read
  and the buffer after the call.
\<close>

record 'e source =
  src_len :: u64
  src_read_at :: "u64 \<Rightarrow> bytes \<Rightarrow> 'e + (nat \<times> bytes)"

record btrfs_fs =
  fs_image :: bytes
  fs_sb :: superblock
  fs_map :: chunk_map
  fs_leaf :: node
  fs_root_dirid :: u64

section \<open>Helpers of the adapter\<close>

definition oid_of :: "('o file_id \<Rightarrow> rstring) \<Rightarrow> 'o file_id \<Rightarrow> 'e vfs_error + u64" where
  "oid_of dbg fid =
     (case fid of Opaque oid \<Rightarrow> Inr oid | other \<Rightarrow> Inl (Unsupported ''btrfs file-id'' (dbg other)))"

definition require_default_stream ::
    "('s stream_id \<Rightarrow> rstring) \<Rightarrow> 's stream_id \<Rightarrow> 'e vfs_error + unit" where
  "require_default_stream dbg stream =
     (case stream of DefaultStream \<Rightarrow> Inr () | other \<Rightarrow> Inl (Unsupported ''btrfs stream'' (dbg other)))"

text \<open>
  \<open>fill\<close>: read until the buffer is full or the source is at its end. A slice keeps its length
  across the call, so the rest of the buffer is always shorter; the test makes that visible to
  the termination proof.
\<close>

function fill :: "'e source \<Rightarrow> u64 \<Rightarrow> bytes \<Rightarrow> 'e vfs_error + bytes" where
  "fill src off buf =
     (if buf = [] then Inr []
      else
        (case src_read_at src off buf of
           Inl e \<Rightarrow> Inl (SourceError e)
         | Inr (n, buf') \<Rightarrow>
             if n = 0 then Inr buf'
             else
               (case get_from buf' n of
                  None \<Rightarrow> Inr buf'
                | Some rest \<Rightarrow>
                    if length rest < length buf then
                      try_res (fill src (u64_sat_add off (of_nat n)) rest) (\<lambda>r. Inr (take n buf' @ r))
                    else Inr buf')))"
  by pat_completeness auto
termination
  by (relation "measure (\<lambda>(src, off, buf). length buf)") auto

declare fill.simps [simp del]

definition dirent_kind :: "dir_item_type \<Rightarrow> node_kind" where
  "dirent_kind t =
     (case t of FileItem \<Rightarrow> KFile | DirItem \<Rightarrow> KDir | SymlinkItem \<Rightarrow> KSymlink | OtherItem _ \<Rightarrow> KOther)"

definition S_IFLNK :: u32 where "S_IFLNK = 0xA000"
definition S_IFCHR :: u32 where "S_IFCHR = 0x2000"
definition S_IFBLK :: u32 where "S_IFBLK = 0x6000"

definition inode_kind :: "inode \<Rightarrow> node_kind" where
  "inode_kind i =
     (let t = i_mode i AND S_IFMT in
      if t = S_IFREG then KFile
      else if t = S_IFDIR then KDir
      else if t = S_IFLNK then KSymlink
      else if t = S_IFCHR \<or> t = S_IFBLK then KDevice
      else KOther)"

text \<open>Nanoseconds since the epoch; the product of a 64-bit count stays far inside \<open>i128\<close>.\<close>

definition stamp :: "timestamp \<Rightarrow> time_stamp" where
  "stamp t =
     \<lparr> ts_unix_nanos = uint (t_sec t) * 1000000000 + uint (t_nsec t),
       ts_source = InodeTable, ts_resolution = Nanos \<rparr>"

definition map_btrfs_err :: "btrfs_error \<Rightarrow> 'e vfs_error" where
  "map_btrfs_err e = Decode ''btrfs'' 0 (display e) []"

definition map_err :: "('e \<Rightarrow> 'f) \<Rightarrow> 'e + 'a \<Rightarrow> 'f + 'a" where
  "map_err f r = (case r of Inl e \<Rightarrow> Inl (f e) | Inr x \<Rightarrow> Inr x)"

section \<open>Opening an image\<close>

definition open_fs :: "(bytes \<Rightarrow> u32) \<Rightarrow> 'e source \<Rightarrow> 'e vfs_error + btrfs_fs" where
  "open_fs crc source =
     (let len = src_len source in
      try_res (fill source 0 (replicate (unat len) 0)) (\<lambda>img.
      try_res (ok_or (get_from img BTRFS_SUPER_INFO_OFFSET)
          (OutOfRange ''btrfs superblock offset'' (of_nat BTRFS_SUPER_INFO_OFFSET) 1 len)) (\<lambda>sb_slice.
      try_res (map_err map_btrfs_err (superblock_parse crc sb_slice)) (\<lambda>sb.
      try_res (map_err map_btrfs_err (walk crc img sb)) (\<lambda>m.
      try_res (map_err map_btrfs_err (fs_tree_root crc img sb m)) (\<lambda>root.
      try_res (map_err map_btrfs_err (read_node crc img sb m (fr_bytenr root))) (\<lambda>leaf.
        Inr \<lparr> fs_image = img, fs_sb = sb, fs_map = m, fs_leaf = leaf,
              fs_root_dirid = fr_root_dirid root \<rparr>)))))))"

section \<open>The operations\<close>

definition vfs_root :: "btrfs_fs \<Rightarrow> 'o file_id" where
  "vfs_root fs = Opaque (fs_root_dirid fs)"

definition vfs_sector_sizes :: "btrfs_fs \<Rightarrow> u32 \<times> u32 \<times> u32" where
  "vfs_sector_sizes fs = (512, 512, sb_sectorsize (fs_sb fs))"

definition vfs_read_dir ::
    "('o file_id \<Rightarrow> rstring) \<Rightarrow> btrfs_fs \<Rightarrow> 'o file_id \<Rightarrow> 'e vfs_error + 'o vfs_dir_entry list" where
  "vfs_read_dir dbg fs ino =
     try_res (oid_of dbg ino) (\<lambda>dir_oid.
       Inr (map (\<lambda>e. \<lparr> vd_name = de_name e, vd_id = Opaque (de_child e), vd_kind = dirent_kind (de_type e) \<rparr>)
              (list_dir (fs_leaf fs) dir_oid)))"

definition vfs_lookup ::
    "('o file_id \<Rightarrow> rstring) \<Rightarrow> btrfs_fs \<Rightarrow> 'o file_id \<Rightarrow> bytes \<Rightarrow> 'e vfs_error + 'o file_id option" where
  "vfs_lookup dbg fs parent name =
     try_res (oid_of dbg parent) (\<lambda>dir_oid.
       Inr (map_option (\<lambda>e. Opaque (de_child e))
              (find (\<lambda>e. de_name e = name) (list_dir (fs_leaf fs) dir_oid))))"

definition vfs_meta ::
    "('o file_id \<Rightarrow> rstring) \<Rightarrow> btrfs_fs \<Rightarrow> 'o file_id \<Rightarrow> 'e vfs_error + 's fs_meta" where
  "vfs_meta dbg fs ino =
     try_res (oid_of dbg ino) (\<lambda>oid.
     try_res (ok_or (read_inode (fs_leaf fs) oid)
         (OutOfRange ''btrfs inode (not in FS-tree root leaf)'' oid 1 0)) (\<lambda>inode.
       let born = (if t_sec (i_otime inode) \<noteq> 0 then Some (stamp (i_otime inode)) else None) in
       Inr \<lparr> fm_ino = i_objectid inode, fm_kind = inode_kind inode, fm_allocated = Allocated,
             fm_size = i_size inode, fm_nlink = i_nlink inode, fm_uid = Some (i_uid inode), fm_gid = Some (i_gid inode),
             fm_mode = Some (i_mode inode),
             fm_times = \<lparr> mt_modified = Some (stamp (i_mtime inode)),
                          mt_accessed = Some (stamp (i_atime inode)),
                          mt_changed = Some (stamp (i_ctime inode)), mt_born = born \<rparr>,
             fm_streams = [], fm_residency = NonResident, fm_link_target = None \<rparr>))"

definition vfs_hardlinks ::
    "('o file_id \<Rightarrow> rstring) \<Rightarrow> btrfs_fs \<Rightarrow> 'o file_id \<Rightarrow> 'e vfs_error + 'o hard_link list" where
  "vfs_hardlinks dbg fs ino =
     try_res (oid_of dbg ino) (\<lambda>oid.
       Inr (map (\<lambda>r. \<lparr> hl_parent = Opaque (ir_parent r), hl_name = ir_name r \<rparr>)
              (list_inode_refs (fs_leaf fs) oid)))"

text \<open>\<open>u16::try_from(i).unwrap_or(u16::MAX)\<close> and the like.\<close>

definition clamp_u16 :: "nat \<Rightarrow> u16" where
  "clamp_u16 n = (if n < 2 ^ 16 then of_nat n else - 1)"

definition clamp_u32 :: "nat \<Rightarrow> u32" where
  "clamp_u32 n = (if n < 2 ^ 32 then of_nat n else - 1)"

definition vfs_data_streams ::
    "('o file_id \<Rightarrow> rstring) \<Rightarrow> btrfs_fs \<Rightarrow> 'o file_id \<Rightarrow> 'e vfs_error + 's stream_info list" where
  "vfs_data_streams dbg fs ino =
     try_res (oid_of dbg ino) (\<lambda>oid.
       let sz = (case read_inode (fs_leaf fs) oid of None \<Rightarrow> 0 | Some i \<Rightarrow> i_size i) in
       Inr (\<lparr> si_id = DefaultStream, si_name = None, si_size = sz, si_residency = NonResident,
              si_kind = DataStream \<rparr>
            # map (\<lambda>(i, x).
                \<lparr> si_id = XattrStream (clamp_u16 i), si_name = Some (xa_name x),
                  si_size = of_nat (length (xa_value x)),
                  si_residency = Resident (clamp_u32 (length (xa_value x))),
                  si_kind = XattrKind \<rparr>)
              (List.enumerate 0 (list_xattrs (fs_leaf fs) oid))))"

text \<open>
  \<open>read_at\<close> returns the number of bytes and the buffer after the call. The two fall-through
  returns on slices that are in range by construction are kept.
\<close>

definition vfs_read_at :: "(bytes \<Rightarrow> u32) \<Rightarrow> codecs \<Rightarrow> ('o file_id \<Rightarrow> rstring) \<Rightarrow>
    ('s stream_id \<Rightarrow> rstring) \<Rightarrow> btrfs_fs \<Rightarrow> 'o file_id \<Rightarrow> 's stream_id \<Rightarrow> u64 \<Rightarrow> bytes \<Rightarrow>
    'e vfs_error + (nat \<times> bytes)" where
  "vfs_read_at crc c dbg dbg_s fs ino stream off buf =
     try_res (oid_of dbg ino) (\<lambda>oid.
       case stream of
         XattrStream idx \<Rightarrow>
           let allx = list_xattrs (fs_leaf fs) oid in
           if unat idx < length allx then
             let x = allx ! unat idx; start = unat off in
             (case get_from (xa_value x) start of
                None \<Rightarrow> Inr (0, buf)
              | Some avail \<Rightarrow>
                  let n = min (length avail) (length buf) in
                  Inr (n, take n avail @ drop n buf))
           else
             Inl (Unsupported ''btrfs xattr index''
               (str ''attribute '' @ dec_nat (unat idx) @ str '' of '' @ dec_nat (length allx)))
       | _ \<Rightarrow>
           try_res (require_default_stream dbg_s stream) (\<lambda>_.
           try_res (map_err map_btrfs_err (read_file crc c (fs_image fs) (fs_sb fs) (fs_map fs) oid)) (\<lambda>data.
             let start = unat (min off (of_nat (length data))) in
             (case get_from data start of
                None \<Rightarrow> Inr (0, buf)
              | Some avail \<Rightarrow>
                  let n = min (length avail) (length buf) in
                  Inr (n, take n avail @ drop n buf)))))"

definition vfs_read_link :: "(bytes \<Rightarrow> u32) \<Rightarrow> codecs \<Rightarrow> ('o file_id \<Rightarrow> rstring) \<Rightarrow> btrfs_fs \<Rightarrow>
    'o file_id \<Rightarrow> nat \<Rightarrow> 'e vfs_error + bytes" where
  "vfs_read_link crc c dbg fs ino cap =
     try_res (oid_of dbg ino) (\<lambda>oid.
       case read_inode (fs_leaf fs) oid of
         None \<Rightarrow> Inr []
       | Some inode \<Rightarrow>
           if inode_kind inode \<noteq> KSymlink then Inr []
           else
             try_res (map_err map_btrfs_err (read_file crc c (fs_image fs) (fs_sb fs) (fs_map fs) oid))
               (\<lambda>target. Inr (take cap target)))"

text \<open>The operations that answer without reading: the streams are empty.\<close>

definition vfs_kind :: "btrfs_fs \<Rightarrow> 'k fs_kind" where
  "vfs_kind fs = FsBtrfs"

definition vfs_timestamp_zone :: "btrfs_fs \<Rightarrow> 'z time_zone_policy" where
  "vfs_timestamp_zone fs = Utc"

definition vfs_extents :: "btrfs_fs \<Rightarrow> 'o file_id \<Rightarrow> 's stream_id \<Rightarrow> 'e vfs_error + 'x list" where
  "vfs_extents fs ino stream = Inr []"

definition vfs_deleted :: "btrfs_fs \<Rightarrow> 'e vfs_error + 'n list" where
  "vfs_deleted fs = Inr []"

definition vfs_unallocated :: "btrfs_fs \<Rightarrow> 'e vfs_error + 'x list" where
  "vfs_unallocated fs = Inr []"

section \<open>The contract of an image source\<close>

text \<open>
  A source delivers a fixed content: a call fills a prefix of the buffer with the bytes at the
  offset, at least one byte before the end, and leaves the rest of the buffer alone.
\<close>

locale image_source =
  fixes src :: "'e source" and content :: bytes
  assumes len: "fits_memory content \<Longrightarrow> unat (src_len src) = length content"
    and read: "\<exists>n. src_read_at src off buf =
        Inr (n, take n (drop (unat off) content) @ drop n buf) \<and> n \<le> length buf \<and>
        unat off + n \<le> max (unat off) (length content)"
    and progress: "src_read_at src off buf = Inr (0, buf') \<Longrightarrow>
        buf = [] \<or> length content \<le> unat off"
begin

lemma fill_content:
  "unat off + length buf \<le> length content \<Longrightarrow> length content < 2 ^ 64 \<Longrightarrow>
     fill src off buf = Inr (take (length buf) (drop (unat off) content))"
proof (induction "length buf" arbitrary: off buf rule: less_induct)
  case less
  show ?case
  proof (cases "buf = []")
    case True
    then show ?thesis by (simp add: fill.simps)
  next
    case False
    obtain n where n: "src_read_at src off buf = Inr (n, take n (drop (unat off) content) @ drop n buf)"
      "n \<le> length buf"
      using read by blast
    have "n \<noteq> 0"
    proof
      assume "n = 0"
      with n False have "length content \<le> unat off"
        using progress [of off buf] by auto
      with less.prems False show False by (cases buf) auto
    qed
    let ?d = "take n (drop (unat off) content)"
    have d: "length ?d = n" using less.prems n by simp
    have off': "unat (u64_sat_add off (of_nat n)) = unat off + n"
      using less.prems n by (simp add: u64_sat_add_def unat_of_nat unat_add_u64)
    have "fill src (u64_sat_add off (of_nat n)) (drop n buf) =
        Inr (take (length (drop n buf)) (drop (unat (u64_sat_add off (of_nat n))) content))"
      using less.prems n \<open>n \<noteq> 0\<close> False by (intro less.hyps) (auto simp: off')
    then have "fill src off buf = Inr (?d @ take (length buf - n) (drop (unat off + n) content))"
      using n \<open>n \<noteq> 0\<close> False d by (simp add: fill.simps [of src off buf] get_from_def off')
    also have "?d @ take (length buf - n) (drop (unat off + n) content) =
        take (length buf) (drop (unat off) content)"
      using n(2) take_add [of n "length buf - n" "drop (unat off) content"] by (simp add: add.commute)
    finally show ?thesis .
  qed
qed

lemma fill_all: "fits_memory content \<Longrightarrow> fill src 0 (replicate (unat (src_len src)) 0) = Inr content"
  using fill_content [of 0 "replicate (unat (src_len src)) 0"] len by (simp add: fits_memory_def)

end

text \<open>The source the repository's tests mount: a vector read with clamping.\<close>

definition mem_source :: "bytes \<Rightarrow> 'e source" where
  "mem_source d =
     \<lparr> src_len = of_nat (length d),
       src_read_at = (\<lambda>off buf.
         let start = min (unat off) (length d);
             avail = drop start d;
             n = min (length avail) (length buf) in
         Inr (n, take n avail @ drop n buf)) \<rparr>"

interpretation mem: image_source "mem_source d" d for d
proof
  show "fits_memory d \<Longrightarrow> unat (src_len (mem_source d)) = length d"
    by (simp add: mem_source_def unat_of_nat fits_memory_def)
  fix off :: u64 and buf buf' :: bytes
  show "\<exists>n. src_read_at (mem_source d) off buf =
      Inr (n, take n (drop (unat off) d) @ drop n buf) \<and> n \<le> length buf \<and>
      unat off + n \<le> max (unat off) (length d)"
    by (intro exI [of _ "min (length (drop (min (unat off) (length d)) d)) (length buf)"])
      (auto simp: mem_source_def Let_def min_def)
  show "src_read_at (mem_source d) off buf = Inr (0, buf') \<Longrightarrow> buf = [] \<or> length d \<le> unat off"
    by (auto simp: mem_source_def Let_def min_def split: if_splits)
qed

section \<open>Facts about the operations\<close>

lemma map_err_Inr_iff [simp]: "map_err f r = Inr x \<longleftrightarrow> r = Inr x"
  by (cases r) (auto simp: map_err_def)

lemma map_err_simps [simp]: "map_err f (Inl e) = Inl (f e)" "map_err f (Inr x) = Inr x"
  by (simp_all add: map_err_def)

lemma read_file_length: "read_file crc c img sb m ino = Inr data \<Longrightarrow> length data < 2 ^ 64"
proof -
  assume "read_file crc c img sb m ino = Inr data"
  then obtain sz :: u64 and ps where
    data: "data = take (unat sz) (concat ps) @ replicate (unat sz - length (concat ps)) 0"
    by (auto simp: read_file_def try_res_Inr_iff read_file_from_leaf_Inr_iff)
  have "length data = unat sz" unfolding data by simp
  then show "length data < 2 ^ 64" using unat_less_exp [of sz] by simp
qed

lemma open_fs_iff:
  assumes "image_source src content" and "fits_memory content"
  shows "open_fs crc src = Inr fs \<longleftrightarrow>
    fs_image fs = content \<and> 65536 \<le> length content \<and>
    superblock_parse crc (drop 65536 content) = Inr (fs_sb fs) \<and>
    walk crc content (fs_sb fs) = Inr (fs_map fs) \<and>
    (\<exists>root. fs_tree_root crc content (fs_sb fs) (fs_map fs) = Inr root \<and>
       read_node crc content (fs_sb fs) (fs_map fs) (fr_bytenr root) = Inr (fs_leaf fs) \<and>
       fs_root_dirid fs = fr_root_dirid root)"
proof -
  have "fill src 0 (replicate (unat (src_len src)) 0) = Inr content"
    using assms by (rule image_source.fill_all)
  then show ?thesis
    by (cases fs) (auto simp: open_fs_def Let_def try_res_Inr_iff get_from_Some_iff BTRFS_SUPER_INFO_OFFSET_def)
qed

lemma inode_kind_iff: "inode_kind i = KDir \<longleftrightarrow> is_dir i" "inode_kind i = KFile \<longleftrightarrow> is_file i"
  by (auto simp: inode_kind_def is_dir_def is_file_def Let_def S_IFMT_def S_IFDIR_def S_IFREG_def
      S_IFLNK_def S_IFCHR_def S_IFBLK_def)

lemma read_at_default:
  "vfs_read_at crc c dbg dbg_s fs (Opaque oid) DefaultStream off buf =
     (case read_file crc c (fs_image fs) (fs_sb fs) (fs_map fs) oid of
        Inl e \<Rightarrow> Inl (map_btrfs_err e)
      | Inr data \<Rightarrow>
          let n = min (length data - unat off) (length buf) in
          Inr (n, take n (drop (unat off) data) @ drop n buf))"
proof (cases "read_file crc c (fs_image fs) (fs_sb fs) (fs_map fs) oid")
  case (Inr data)
  note len = read_file_length [OF Inr]
  then have u: "unat (of_nat (length data) :: u64) = length data"
    by (simp add: unat_of_nat)
  have start: "unat (min off (of_nat (length data))) = min (unat off) (length data)"
    using u by (simp add: min_def word_le_nat_alt)
  show ?thesis
    unfolding vfs_read_at_def
    by (cases "unat off \<le> length data")
      (simp_all add: oid_of_def require_default_stream_def Inr start get_from_def Let_def)
qed (simp add: vfs_read_at_def oid_of_def require_default_stream_def)

lemma concat_windows:
  "concat (map (\<lambda>i. take k (drop (i * k) xs)) [0..<m]) = take (m * k) xs"
proof (induction m)
  case (Suc m)
  then show ?case
    by (simp add: take_add [symmetric] add.commute)
qed simp

section \<open>A small file system image\<close>

text \<open>A root-tree leaf and an FS-tree leaf, 400 bytes each, mapped to themselves.\<close>

definition demo_root_items :: "(disk_key \<times> bytes) list" where
  "demo_root_items = [(\<lparr>k_objectid = 5, k_type = 132, k_offset = 0\<rparr>,
     encode_root_item \<lparr>fr_bytenr = 400, fr_level = 0, fr_root_dirid = 256, fr_generation = 9\<rparr>)]"

definition demo_root_block :: bytes where
  "demo_root_block = encode_leaf (demo_header 1 0 1) (zeros 35) demo_root_items"

definition demo_file_block :: bytes where
  "demo_file_block = encode_leaf (demo_header 5 0 3) (zeros 17) (demo_file 5 3)"

definition demo_fs_image :: bytes where
  "demo_fs_image = demo_root_block @ demo_file_block"

definition demo_fs_sb :: superblock where
  "demo_fs_sb = demo_sb\<lparr>sb_root := 0, sb_nodesize := 400\<rparr>"

lemma demo_fs_sb_simps [simp]: "sb_root demo_fs_sb = 0" "sb_nodesize demo_fs_sb = 400"
  by (simp_all add: demo_fs_sb_def)

lemma demo_fs_lengths:
  "length demo_root_block = 400"
  "length demo_file_block = 400"
  by (simp_all add: demo_root_block_def demo_file_block_def encode_leaf_def demo_root_items_def demo_file_def encode_item_header_def
      encode_inline_def)

lemma demo_fs_wf:
  "wf_leaf (demo_header 1 0 1) (zeros 35) demo_root_items"
  "wf_leaf (demo_header 5 0 3) (zeros 17) (demo_file 5 3)"
  by (simp_all add: wf_leaf_def demo_root_items_def demo_file_def encode_inline_def)

lemma demo_fs_leaf:
  obtains leaf where "fs_tree_leaf crc demo_fs_image demo_fs_sb demo_map = Inr leaf"
    and "leaf_items leaf = demo_file 5 3"
proof -
  have fits: "fits_memory demo_fs_image"
    by (simp add: fits_memory_def demo_fs_image_def demo_fs_lengths)
  have "fs_tree_root crc demo_fs_image demo_fs_sb demo_map =
      Inr \<lparr>fr_bytenr = 400, fr_level = 0, fr_root_dirid = 256, fr_generation = 9\<rparr>"
  proof -
    obtain n where n: "node_parse crc demo_root_block = Inr n"
      using node_parse_ok_iff [of crc demo_root_block] by (auto simp: demo_fs_lengths)
    have "read_node crc demo_fs_image demo_fs_sb demo_map 0 = Inr n"
      unfolding read_node_Inr_iff [OF fits] using n
      by (simp add: node_phys_def demo_lookup demo_fs_image_def demo_fs_lengths)
    then show ?thesis
      using encode_leaf_items(2) [OF demo_fs_wf(1) n [unfolded demo_root_block_def]]
      by (simp add: fs_tree_root_def demo_root_items_def fs_consts fs_root_parse_encode)
  qed
  moreover obtain leaf where leaf: "node_parse crc demo_file_block = Inr leaf"
    using node_parse_ok_iff [of crc demo_file_block] by (auto simp: demo_fs_lengths)
  have "map_l2p demo_map 400 = Some (1, 400)"
    by (simp add: demo_map_def u64_checked_add_def)
  then have "read_node crc demo_fs_image demo_fs_sb demo_map 400 = Inr leaf"
    unfolding read_node_Inr_iff [OF fits] using leaf
    by (simp add: node_phys_def demo_fs_image_def demo_fs_lengths)
  ultimately have "fs_tree_leaf crc demo_fs_image demo_fs_sb demo_map = Inr leaf"
    by (simp add: fs_tree_leaf_def)
  with encode_leaf_items(2) [OF demo_fs_wf(2) leaf [unfolded demo_file_block_def]] that show thesis by blast
qed

lemma demo_read_file: "read_file crc c demo_fs_image demo_fs_sb demo_map 257 = Inr [1, 2, 3, 4, 5]"
proof -
  obtain leaf where leaf: "fs_tree_leaf crc demo_fs_image demo_fs_sb demo_map = Inr leaf"
    and its: "leaf_items leaf = demo_file 5 3"
    by (rule demo_fs_leaf)
  have b: "5 \<le> logical_bound demo_fs_image"
    by (simp add: logical_bound_def LOGICAL_ALLOC_FLOOR_def le_max_iff_disj)
  have "read_file_from_leaf c leaf demo_fs_image demo_map (sb_sectorsize demo_fs_sb) 257 = Inr [1, 2, 3, 4, 5]"
    unfolding read_file_from_leaf_Inr_iff
    using demo_file_facts [OF its] b
    by (intro exI [of _ 5] exI [of _ "[[1, 2, 3], [4, 5]]"]) simp
  then show ?thesis by (simp add: read_file_def leaf)
qed

definition demo_fs :: btrfs_fs where
  "demo_fs = \<lparr> fs_image = demo_fs_image, fs_sb = demo_fs_sb, fs_map = demo_map,
     fs_leaf = \<lparr> n_header = demo_header 5 0 0, n_crc_valid = None, n_body = Leaf [], n_block = [] \<rparr>,
     fs_root_dirid = 256 \<rparr>"

section \<open>Properties\<close>

text \<open>
  Claim C30. Reading a file in pieces gives the file: consecutive reads of \<open>k\<close> bytes, the last
  ones short or empty, concatenate to the content \<open>read_file\<close> returns.
\<close>

theorem chunked_reads_reassemble:
  assumes "read_file crc c (fs_image fs) (fs_sb fs) (fs_map fs) oid = Inr data" and "m * k < 2 ^ 64"
  shows "concat (map (\<lambda>i. case vfs_read_at crc c dbg dbg_s fs (Opaque oid) DefaultStream
        (of_nat (i * k)) (replicate k 0) of Inl e \<Rightarrow> [] | Inr (n, buf) \<Rightarrow> take n buf) [0..<m]) =
    take (m * k) data"
proof -
  have "(case vfs_read_at crc c dbg dbg_s fs (Opaque oid) DefaultStream
        (of_nat (i * k)) (replicate k 0) of Inl e \<Rightarrow> [] | Inr (n, buf) \<Rightarrow> take n buf) =
      take k (drop (i * k) data)" if "i < m" for i
  proof -
    have "i * k \<le> m * k" using that by (intro mult_le_mono1) simp
    then have "i * k < 2 ^ 64" using assms(2) by (rule le_less_trans)
    then have "unat (of_nat (i * k) :: u64) = i * k"
      by (simp only: unat_of_nat) simp
    then show ?thesis
      unfolding read_at_default assms(1) by (simp add: Let_def min_def)
  qed
  note window = this
  show ?thesis
    unfolding concat_windows [symmetric]
    by (rule arg_cong [where f = concat], rule map_cong [OF refl], rule window) simp
qed

theorem chunked_reads_reassemble_witness:
  "concat (map (\<lambda>i. case vfs_read_at crc32c_ref demo_codecs (\<lambda>_ :: unit file_id. []) (\<lambda>_ :: unit stream_id. [])
        demo_fs (Opaque 257) DefaultStream (of_nat (i * 2)) (replicate 2 0) :: unit vfs_error + nat \<times> bytes of
        Inl e \<Rightarrow> [] | Inr (n, buf) \<Rightarrow> take n buf) [0..<4]) = [1, 2, 3, 4, 5]"
proof -
  have "read_file crc32c_ref demo_codecs (fs_image demo_fs) (fs_sb demo_fs) (fs_map demo_fs) 257 =
      Inr [1, 2, 3, 4, 5]"
    by (simp add: demo_fs_def demo_read_file)
  from chunked_reads_reassemble [OF this, of 4 2 "\<lambda>_ :: unit file_id. []" "\<lambda>_ :: unit stream_id. []"]
  show ?thesis by simp
qed

text \<open>
  One read of the default stream, at any offset and for any buffer: exactly the window
  of the file that starts at the offset, as far as file and buffer reach; past the end nothing,
  and the rest of the buffer is left alone. An error of the reader is passed on with its text.
\<close>

theorem read_at_window:
  "vfs_read_at crc c dbg dbg_s fs (Opaque oid) DefaultStream off buf =
     (case read_file crc c (fs_image fs) (fs_sb fs) (fs_map fs) oid of
        Inl e \<Rightarrow> Inl (Decode ''btrfs'' 0 (display e) [])
      | Inr data \<Rightarrow>
          let n = min (length data - unat off) (length buf) in
          Inr (n, take n (drop (unat off) data) @ drop n buf))"
  unfolding read_at_default map_btrfs_err_def ..

text \<open>
  Claim C31. The attribute streams of \<open>data_streams\<close> are the ones \<open>read_at\<close> serves: stream \<open>i + 1\<close>
  carries the identifier of attribute \<open>i\<close> and its exact size, and reading it into a buffer of
  that size returns the attribute's value. The identifier is 16 bits wide, so this holds for
  the first 65536 attributes.
\<close>

theorem xattr_streams_readable:
  assumes "vfs_data_streams dbg fs (Opaque oid) = (Inr infos :: 'e vfs_error + 's stream_info list)"
    and "i < length (list_xattrs (fs_leaf fs) oid)" and "i < 2 ^ 16"
    and "length buf = length (xa_value (list_xattrs (fs_leaf fs) oid ! i))"
  shows "vfs_read_at crc c dbg dbg_s fs (Opaque oid) (si_id (infos ! Suc i)) 0 buf =
      (Inr (length buf, xa_value (list_xattrs (fs_leaf fs) oid ! i)) :: 'e vfs_error + nat \<times> bytes) \<and>
    si_size (infos ! Suc i) = of_nat (length buf) \<and>
    si_name (infos ! Suc i) = Some (xa_name (list_xattrs (fs_leaf fs) oid ! i))"
proof -
  have "unat (of_nat i :: u16) = i"
    using assms(3) by (rule unat_of_nat_u16)
  with assms show ?thesis
    by (auto simp: vfs_data_streams_def vfs_read_at_def oid_of_def nth_enumerate_eq clamp_u16_def Let_def
        get_from_def)
qed

theorem xattr_streams_readable_witness:
  "\<exists>leaf infos. list_xattrs leaf 257 = [\<lparr>xa_name = str ''user.a'', xa_value = [7, 8]\<rparr>] \<and>
     vfs_data_streams (\<lambda>_ :: unit file_id. []) (demo_fs\<lparr>fs_leaf := leaf\<rparr>) (Opaque 257) =
       (Inr infos :: unit vfs_error + unit stream_info list) \<and>
     vfs_read_at crc32c_ref demo_codecs (\<lambda>_ :: unit file_id. []) (\<lambda>_ :: unit stream_id. [])
       (demo_fs\<lparr>fs_leaf := leaf\<rparr>) (Opaque 257) (si_id (infos ! 1)) 0 [0, 0] =
       (Inr (2, [7, 8]) :: unit vfs_error + nat \<times> bytes)"
proof -
  define x where "x = \<lparr>xa_name = str ''user.a'', xa_value = [7, 8]\<rparr>"
  define its where "its = [(\<lparr>k_objectid = 257, k_type = 24, k_offset = 0\<rparr>, encode_xattr (zeros 25) x)]"
  have wf: "wf_leaf (demo_header 5 0 1) [] its"
    by (simp add: wf_leaf_def its_def length_encode_xattr x_def str_def)
  obtain leaf where leaf: "node_parse crc32c_ref (encode_leaf (demo_header 5 0 1) [] its) = Inr leaf"
    using node_parse_ok_iff [of crc32c_ref "encode_leaf (demo_header 5 0 1) [] its"]
    by (auto simp: encode_leaf_def)
  have "wf_xattr x"
    by (simp add: x_def wf_xattr_def str_def valid_utf8_ascii)
  then have "packed_walk parse_xattr_item (encode_xattr (zeros 25) x) 0 = [x]"
    using xattrs.walk_encode [of "[(zeros 25, x)]" "[]"] by simp
  then have xs: "list_xattrs leaf 257 = [x]"
    by (simp add: list_xattrs_def encode_leaf_items(2) [OF wf leaf] its_def XATTR_ITEM_KEY_def)
  obtain infos where infos: "vfs_data_streams (\<lambda>_ :: unit file_id. []) (demo_fs\<lparr>fs_leaf := leaf\<rparr>) (Opaque 257) =
      (Inr infos :: unit vfs_error + unit stream_info list)"
    by (simp add: vfs_data_streams_def oid_of_def Let_def)
  have "length [0 :: u8, 0] = length (xa_value (list_xattrs (fs_leaf (demo_fs\<lparr>fs_leaf := leaf\<rparr>)) 257 ! 0))"
    by (simp add: xs x_def)
  from xattr_streams_readable [OF infos _ _ this, of crc32c_ref demo_codecs "\<lambda>_. []"] xs infos
  show ?thesis
    by (intro exI [of _ leaf] exI [of _ infos]) (simp add: x_def numeral_2_eq_2)
qed

text \<open>
  \<open>lookup\<close> is \<open>read_dir\<close> followed by a search for the exact bytes of the name, errors
  included; every kind \<open>read_dir\<close> and \<open>meta\<close> report follows the directory item and the mode, and
  \<open>meta\<close> says directory or file exactly when path resolution and the reader do.
\<close>

theorem lookup_agrees_with_read_dir:
  "vfs_lookup dbg fs parent name =
     (case vfs_read_dir dbg fs parent of
        Inl e \<Rightarrow> Inl e
      | Inr es \<Rightarrow> Inr (map_option vd_id (find (\<lambda>e. vd_name e = name) es))) \<and>
   (inode_kind i = KDir \<longleftrightarrow> is_dir i) \<and> (inode_kind i = KFile \<longleftrightarrow> is_file i)"
proof (intro conjI inode_kind_iff)
  have find_map_list: "find P (map f xs) = map_option f (find (P \<circ> f) xs)" for P f and xs :: "dir_entry list"
    by (induction xs) auto
  show "vfs_lookup dbg fs parent name =
     (case vfs_read_dir dbg fs parent of
        Inl e \<Rightarrow> Inl e
      | Inr es \<Rightarrow> Inr (map_option vd_id (find (\<lambda>e. vd_name e = name) es)))"
    by (cases parent)
      (simp_all add: vfs_lookup_def vfs_read_dir_def oid_of_def find_map_list o_def option.map_comp)
qed

end
