(* ===== verification/Worklist.thy ===== *)
theory Worklist
  imports Prelude
begin

text \<open>
  A search with a stack, a list of seen elements and a budget that every pop consumes, as the
  checksum sweep of the auditor runs it. \<open>visit_order\<close> is the sequence of first visits; the
  locale \<open>worklist\<close> says when a loop is such a search, and its facts are: what the loop
  computes is a fold over that sequence, no element is visited twice, only reachable elements
  are visited, and when the budget covers the pushes, every reachable element is.
\<close>

section \<open>Reachability and the order of the visits\<close>

inductive reach :: "('a \<Rightarrow> 'a list) \<Rightarrow> 'a set \<Rightarrow> 'a \<Rightarrow> bool" for nx :: "'a \<Rightarrow> 'a list" and S :: "'a set" where
  seed: "x \<in> S \<Longrightarrow> reach nx S x"
| step: "reach nx S x \<Longrightarrow> y \<in> set (nx x) \<Longrightarrow> reach nx S y"

text \<open>The top of the stack is the head of the list; \<open>nx x\<close> is in the order of the pushes.\<close>

fun visit_order :: "('a \<Rightarrow> 'a list) \<Rightarrow> nat \<Rightarrow> 'a list \<Rightarrow> 'a list \<Rightarrow> 'a list" where
  "visit_order nx k seen [] = []"
| "visit_order nx 0 seen (x # st) = []"
| "visit_order nx (Suc k) seen (x # st) =
     (if x \<in> set seen then visit_order nx k seen st
      else x # visit_order nx k (seen @ [x]) (rev (nx x) @ st))"

lemma visit_order_distinct:
  "distinct (visit_order nx k seen st) \<and> set (visit_order nx k seen st) \<inter> set seen = {}"
  by (induction nx k seen st rule: visit_order.induct) auto

lemma length_visit_order: "length (visit_order nx k seen st) \<le> k"
  by (induction nx k seen st rule: visit_order.induct) auto

lemma reach_mono: "reach nx S x \<Longrightarrow> (\<And>s. s \<in> S \<Longrightarrow> reach nx T s) \<Longrightarrow> reach nx T x"
  by (induction rule: reach.induct) (auto intro: reach.step)

lemma visit_order_reach: "x \<in> set (visit_order nx k seen st) \<Longrightarrow> reach nx (set st) x"
proof (induction nx k seen st arbitrary: x rule: visit_order.induct)
  case (3 nx k seen y st)
  show ?case
  proof (cases "y \<in> set seen")
    case True
    with 3 have "reach nx (set st) x" by auto
    then show ?thesis by (rule reach_mono) (auto intro: reach.seed)
  next
    case False
    with 3(3) consider "x = y" | "x \<in> set (visit_order nx k (seen @ [y]) (rev (nx y) @ st))" by auto
    then show ?thesis
    proof cases
      case 2
      with 3(2) False have "reach nx (set (rev (nx y) @ st)) x" by auto
      then show ?thesis
        by (rule reach_mono) (auto intro: reach.seed reach.step [OF reach.seed])
    qed (auto intro: reach.seed)
  qed
qed auto

text \<open>
  Invariant of the search: the successors of a seen element are seen or on the stack. With a
  finite closed set \<open>R\<close> around the stack, every pop is paid by the stack or by the pushes of
  an element of \<open>R\<close> not seen before.
\<close>

lemma visit_order_closed:
  assumes "finite R" and "\<And>x. x \<in> R \<Longrightarrow> set (nx x) \<subseteq> R" and "set st \<subseteq> R"
    and "\<And>x. x \<in> set seen \<Longrightarrow> set (nx x) \<subseteq> set seen \<union> set st"
    and "length st + (\<Sum>x\<in>R - set seen. length (nx x)) \<le> k"
  defines "V \<equiv> set seen \<union> set (visit_order nx k seen st)"
  shows "set st \<subseteq> V \<and> (\<forall>x\<in>V. set (nx x) \<subseteq> V)"
  unfolding V_def using assms(1-5)
proof (induction nx k seen st rule: visit_order.induct)
  case (3 nx k seen y st)
  show ?case
  proof (cases "y \<in> set seen")
    case True
    have "set st \<subseteq> set seen \<union> set (visit_order nx k seen st) \<and>
      (\<forall>x\<in>set seen \<union> set (visit_order nx k seen st).
         set (nx x) \<subseteq> set seen \<union> set (visit_order nx k seen st))"
    proof (rule 3(1) [OF True 3(3)])
      show "set (nx x) \<subseteq> set seen \<union> set st" if "x \<in> set seen" for x
        using 3(6) [OF that] True by auto
    qed (use 3(4,5,7) in auto)
    with True show ?thesis by simp
  next
    case False
    have y: "y \<in> R" using 3(5) by simp
    have R: "R - set seen = insert y (R - set (seen @ [y]))" using y False by auto
    have sum: "(\<Sum>x\<in>R - set seen. length (nx x)) = length (nx y) + (\<Sum>x\<in>R - set (seen @ [y]). length (nx x))"
      unfolding R by (rule sum.insert) (use 3(3) in auto)
    have inv: "set (nx x) \<subseteq> set (seen @ [y]) \<union> set (rev (nx y) @ st)" if "x \<in> set (seen @ [y])" for x
      using that 3(6) [of x] by auto
    have "set (rev (nx y) @ st) \<subseteq> set (seen @ [y]) \<union> set (visit_order nx k (seen @ [y]) (rev (nx y) @ st)) \<and>
      (\<forall>x\<in>set (seen @ [y]) \<union> set (visit_order nx k (seen @ [y]) (rev (nx y) @ st)).
         set (nx x) \<subseteq> set (seen @ [y]) \<union> set (visit_order nx k (seen @ [y]) (rev (nx y) @ st)))"
    proof (rule 3(2) [OF False 3(3)])
      show "length (rev (nx y) @ st) + (\<Sum>x\<in>R - set (seen @ [y]). length (nx x)) \<le> k"
        using 3(7) sum by simp
    qed (use 3(4,5) y inv in auto)
    with False show ?thesis by auto
  qed
qed auto

lemma visit_order_complete:
  assumes "finite R" and "\<And>x. x \<in> R \<Longrightarrow> set (nx x) \<subseteq> R" and "set st \<subseteq> R"
    and "length st + (\<Sum>x\<in>R. length (nx x)) \<le> k" and "reach nx (set st) x"
  shows "x \<in> set (visit_order nx k [] st)"
proof -
  have closed: "set st \<subseteq> set (visit_order nx k [] st)"
      "\<forall>x\<in>set (visit_order nx k [] st). set (nx x) \<subseteq> set (visit_order nx k [] st)"
    using visit_order_closed [of R nx st "[]" k] assms(1-4) by auto
  from assms(5) show ?thesis
    by (induction rule: reach.induct) (use closed in auto)
qed

section \<open>Loops that search\<close>

locale worklist =
  fixes nx :: "'a \<Rightarrow> 'a list"
    and visit :: "'a \<Rightarrow> 'r \<Rightarrow> 'r"
    and loop :: "nat \<Rightarrow> 'a list \<Rightarrow> 'a list \<Rightarrow> 'r \<Rightarrow> 'r"
  assumes loop_empty: "loop k seen [] r = r"
    and loop_spent: "loop 0 seen (x # st) r = r"
    and loop_again: "x \<in> set seen \<Longrightarrow> loop (Suc k) seen (x # st) r = loop k seen st r"
    and loop_first: "x \<notin> set seen \<Longrightarrow>
      loop (Suc k) seen (x # st) r = loop k (seen @ [x]) (rev (nx x) @ st) (visit x r)"
begin

lemma loop_fold: "loop k seen st r = fold visit (visit_order nx k seen st) r"
proof (induction k arbitrary: seen st r)
  case 0
  show ?case by (cases st) (simp_all add: loop_empty loop_spent)
next
  case (Suc k)
  show ?case by (cases st) (auto simp: loop_empty loop_again loop_first Suc)
qed

end

text \<open>A search whose visits append what they find collects the findings in visit order.\<close>

locale collecting = worklist nx "\<lambda>x out. out @ found x" loop
  for nx :: "'a \<Rightarrow> 'a list" and found :: "'a \<Rightarrow> 'b list"
    and loop :: "nat \<Rightarrow> 'a list \<Rightarrow> 'a list \<Rightarrow> 'b list \<Rightarrow> 'b list"
begin

lemma collect: "loop k seen st out = out @ concat (map found (visit_order nx k seen st))"
proof -
  have "fold (\<lambda>x out. out @ found x) xs out = out @ concat (map found xs)" for xs
    by (induction xs arbitrary: out) simp_all
  then show ?thesis by (simp add: loop_fold)
qed

lemma found_reachable:
  "y \<in> set (loop k seen st []) \<Longrightarrow> \<exists>x. reach nx (set st) x \<and> y \<in> set (found x)"
  by (auto simp: collect dest: visit_order_reach)

lemma found_complete:
  assumes "finite R" and "\<And>x. x \<in> R \<Longrightarrow> set (nx x) \<subseteq> R" and "set st \<subseteq> R"
    and "length st + (\<Sum>x\<in>R. length (nx x)) \<le> k"
  shows "y \<in> set (loop k [] st []) \<longleftrightarrow> (\<exists>x. reach nx (set st) x \<and> y \<in> set (found x))"
  using visit_order_complete [of R nx st k] assms by (auto simp: collect dest: visit_order_reach)

end

end
