(* ===== verification/Anomaly.thy ===== *)
theory Anomaly
  imports Errors
begin

text \<open>
  The anomaly kinds of the auditor, \<open>forensic/src/lib.rs\<close>: their evidence, the severity, code
  and note derived from the kind, and \<open>Anomaly::new\<close>. The report types (\<open>Severity\<close>,
  \<open>Evidence\<close>, \<open>Location\<close>, \<open>Source\<close>) belong to the \<open>forensicnomicon\<close> crate; the
  constructors and fields the auditor fills are written out here.
\<close>

section \<open>Report types\<close>

datatype severity = High | Medium

datatype location = ByteOffset u64 | OtherLocation rstring u64

record evidence =
  ev_field :: rstring
  ev_value :: rstring
  ev_location :: "location option"

record report_source =
  rs_analyzer :: rstring
  rs_scope :: rstring
  rs_version :: "rstring option"

section \<open>Anomaly kinds\<close>

datatype anomaly_kind =
    SuperblockCrcMismatch u64          \<comment> \<open>\<open>offset\<close>\<close>
  | NodeCrcMismatch u64 u64            \<comment> \<open>\<open>bytenr\<close>, \<open>offset\<close>\<close>
  | BackupRootDivergence nat string u64 u64
      \<comment> \<open>\<open>slot\<close>, \<open>reason\<close>, \<open>backup_gen\<close>, \<open>current_gen\<close>\<close>
  | OrphanedInode u64                  \<comment> \<open>\<open>inode\<close>\<close>
  | ImpossibleGeometry string u64 u64  \<comment> \<open>\<open>field\<close>, \<open>value\<close>, \<open>limit\<close>\<close>

fun kind_severity :: "anomaly_kind \<Rightarrow> severity" where
  "kind_severity (SuperblockCrcMismatch _) = High"
| "kind_severity (NodeCrcMismatch _ _) = High"
| "kind_severity (BackupRootDivergence _ _ _ _) = High"
| "kind_severity (ImpossibleGeometry _ _ _) = High"
| "kind_severity (OrphanedInode _) = Medium"

fun kind_code :: "anomaly_kind \<Rightarrow> string" where
  "kind_code (SuperblockCrcMismatch _) = ''BTRFS-SUPERBLOCK-CRC-MISMATCH''"
| "kind_code (NodeCrcMismatch _ _) = ''BTRFS-CRC-MISMATCH''"
| "kind_code (BackupRootDivergence _ _ _ _) = ''BTRFS-BACKUP-ROOT-DIVERGENCE''"
| "kind_code (OrphanedInode _) = ''BTRFS-ORPHANED-INODE''"
| "kind_code (ImpossibleGeometry _ _ _) = ''BTRFS-IMPOSSIBLE-GEOMETRY''"

text \<open>The em dash of the messages, in UTF-8.\<close>

definition em_dash :: rstring where
  "em_dash = [0xE2, 0x80, 0x94]"

fun kind_note :: "anomaly_kind \<Rightarrow> rstring" where
  "kind_note (SuperblockCrcMismatch off) =
     str ''superblock at byte '' @ dec_u64 off @ str '': stored crc32c does not verify '' @ em_dash
     @ str '' consistent with corruption or post-write tampering''"
| "kind_note (NodeCrcMismatch bytenr off) =
     str ''metadata node at logical '' @ dec_u64 bytenr @ str '' (byte '' @ dec_u64 off
     @ str ''): stored crc32c does not verify '' @ em_dash
     @ str '' consistent with corruption or post-write tampering''"
| "kind_note (BackupRootDivergence slot reason backup_gen current_gen) =
     str ''btrfs_root_backup['' @ dec_nat slot @ str '']: '' @ str reason
     @ str '' (backup generation '' @ dec_u64 backup_gen @ str '' vs current '' @ dec_u64 current_gen
     @ str '') '' @ em_dash @ str '' consistent with rollback or a tampered backup-roots array''"
| "kind_note (OrphanedInode inode) =
     str ''FS_TREE ORPHAN_ITEM for inode '' @ dec_u64 inode @ str '' '' @ em_dash
     @ str '' an inode unlinked while still open or pending cleanup, a recovery lead''"
| "kind_note (ImpossibleGeometry field val limit) =
     str ''geometry field '' @ str field @ str '' = '' @ dec_u64 val
     @ str '' exceeds the sane bound '' @ dec_u64 limit @ str '' for this image '' @ em_dash
     @ str '' consistent with corruption or an allocation-bomb''"

fun kind_evidence :: "anomaly_kind \<Rightarrow> evidence list" where
  "kind_evidence (SuperblockCrcMismatch off) =
     [\<lparr> ev_field = str ''superblock'', ev_value = str ''crc32c mismatch'',
        ev_location = Some (ByteOffset off) \<rparr>]"
| "kind_evidence (NodeCrcMismatch bytenr off) =
     [\<lparr> ev_field = str ''node'', ev_value = str ''logical '' @ dec_u64 bytenr,
        ev_location = Some (ByteOffset off) \<rparr>]"
| "kind_evidence (BackupRootDivergence slot reason backup_gen current_gen) =
     [\<lparr> ev_field = str ''btrfs_root_backup'',
        ev_value = str ''slot '' @ dec_nat slot @ str '': '' @ str reason @ str '' gen='' @ dec_u64 backup_gen
          @ str '' current='' @ dec_u64 current_gen,
        ev_location = Some (OtherLocation (str ''btrfs:backup_root'') (of_nat slot)) \<rparr>]"
| "kind_evidence (OrphanedInode inode) =
     [\<lparr> ev_field = str ''orphan_item'', ev_value = str ''inode '' @ dec_u64 inode,
        ev_location = Some (OtherLocation (str ''btrfs:inode'') inode) \<rparr>]"
| "kind_evidence (ImpossibleGeometry field val limit) =
     [\<lparr> ev_field = str field, ev_value = dec_u64 val @ str '' (limit '' @ dec_u64 limit @ str '')'',
        ev_location = None \<rparr>]"

section \<open>Anomalies\<close>

record anomaly =
  an_severity :: severity
  an_code :: string
  an_kind :: anomaly_kind
  an_note :: rstring

definition anomaly_new :: "anomaly_kind \<Rightarrow> anomaly" where
  "anomaly_new kind =
     \<lparr> an_severity = kind_severity kind, an_code = kind_code kind, an_kind = kind,
       an_note = kind_note kind \<rparr>"

text \<open>The \<open>Observation\<close> instance.\<close>

definition obs_severity :: "anomaly \<Rightarrow> severity option" where
  "obs_severity a = Some (an_severity a)"

definition obs_code :: "anomaly \<Rightarrow> string" where
  "obs_code a = an_code a"

definition obs_note :: "anomaly \<Rightarrow> rstring" where
  "obs_note a = an_note a"

definition obs_evidence :: "anomaly \<Rightarrow> evidence list" where
  "obs_evidence a = kind_evidence (an_kind a)"

lemma an_kind_new [simp]: "an_kind (anomaly_new k) = k"
  by (simp add: anomaly_new_def)

lemma anomaly_new_inj [simp]: "anomaly_new k = anomaly_new k' \<longleftrightarrow> k = k'"
  by (auto simp: anomaly_new_def)

section \<open>What the evidence determines\<close>

text \<open>The kinds the auditor builds: its fixed field names and reasons, four backup slots.\<close>

definition backup_reasons :: "string set" where
  "backup_reasons =
     {''tree_root generation newer than the current committed generation'',
      ''fs_root generation newer than the current committed generation'',
      ''tree_root logical address lies past the end of the image''}"

fun reported_kind :: "anomaly_kind \<Rightarrow> bool" where
  "reported_kind (BackupRootDivergence slot reason _ _) \<longleftrightarrow> slot < 4 \<and> reason \<in> backup_reasons"
| "reported_kind (ImpossibleGeometry field _ _) \<longleftrightarrow> field \<in> {''root'', ''chunk_root''}"
| "reported_kind _ \<longleftrightarrow> True"

text \<open>A decimal number ends at the first byte that is not a digit.\<close>

definition is_digit :: "u8 \<Rightarrow> bool" where
  "is_digit c \<longleftrightarrow> 48 \<le> c \<and> c \<le> 57"

lemma is_digit_of_nat: "n < 10 \<Longrightarrow> is_digit (48 + of_nat n)"
proof -
  assume "n < 10"
  then have "n \<in> set [0..<10]" by simp
  then show ?thesis by (auto simp: upt_rec is_digit_def)
qed

lemma dec_nat_digits: "\<forall>c\<in>set (dec_nat n). is_digit c"
proof (induction n rule: dec_nat.induct)
  case (1 n)
  then show ?case
    by (simp add: dec_nat.simps [of n] is_digit_of_nat)
qed

lemma digits_split:
  assumes "\<forall>x\<in>set xs. is_digit x" and "\<forall>y\<in>set ys. is_digit y" and "\<not> is_digit c"
    and "xs @ c # r = ys @ c # r'"
  shows "xs = ys" and "r = r'"
proof -
  have "takeWhile is_digit (xs @ c # r) = takeWhile is_digit (ys @ c # r')" using assms(4) by simp
  then show "xs = ys" using assms(1-3) by simp
  then show "r = r'" using assms(4) by simp
qed

lemma dec_u64_split:
  assumes "\<not> is_digit c" and "dec_u64 a @ c # r = dec_u64 b @ c # r'"
  shows "a = b \<and> r = r'"
  using digits_split [OF _ _ assms(1), of "dec_u64 a" "dec_u64 b" r r'] assms(2) dec_nat_digits
  by (simp add: dec_u64_def) (simp add: dec_u64_inj flip: dec_u64_def)

lemma str_Nil [simp]: "str [] = []"
  by (simp add: str_def)

lemma str_Cons [simp]: "str (c # cs) = of_char c # str cs"
  by (simp add: str_def)

lemma geometry_evidence:
  "kind_evidence (ImpossibleGeometry f v l) = kind_evidence (ImpossibleGeometry f' v' l') \<Longrightarrow>
     f \<in> {''root'', ''chunk_root''} \<Longrightarrow> f' \<in> {''root'', ''chunk_root''} \<Longrightarrow> f = f' \<and> v = v' \<and> l = l'"
proof -
  assume ev: "kind_evidence (ImpossibleGeometry f v l) = kind_evidence (ImpossibleGeometry f' v' l')"
    and f: "f \<in> {''root'', ''chunk_root''}" "f' \<in> {''root'', ''chunk_root''}"
  have eq: "dec_u64 v @ 32 # str ''(limit '' @ dec_u64 l @ [41] = dec_u64 v' @ 32 # str ''(limit '' @ dec_u64 l' @ [41]"
    using ev by simp
  have "v = v'" "str ''(limit '' @ dec_u64 l @ [41] = str ''(limit '' @ dec_u64 l' @ [41]"
    using dec_u64_split [OF _ eq] by (auto simp: is_digit_def)
  then show ?thesis
    using f ev by (auto simp: dec_u64_inj)
qed

lemma backup_evidence:
  assumes "kind_evidence (BackupRootDivergence s r g c) = kind_evidence (BackupRootDivergence s' r' g' c')"
    and "s < 4" and "s' < 4" and "r \<in> backup_reasons" and "r' \<in> backup_reasons"
  shows "s = s' \<and> r = r' \<and> g = g' \<and> c = c'"
proof -
  have "(of_nat s :: u64) = of_nat s'" using assms(1) by simp
  then have "unat (of_nat s :: u64) = unat (of_nat s' :: u64)" by simp
  then have s: "s = s'" using assms(2,3) by (simp add: unat_of_nat)
  have eq: "str r @ str '' gen='' @ dec_u64 g @ 32 # str ''current='' @ dec_u64 c =
      str r' @ str '' gen='' @ dec_u64 g' @ 32 # str ''current='' @ dec_u64 c'"
    using assms(1) s by simp
  have r: "r = r'"
  proof -
    have "take 17 (str r) = take 17 (str r @ x)" if "r \<in> backup_reasons" for r x
      using that by (auto simp: backup_reasons_def)
    then have t: "take 17 (str r) = take 17 (str r')"
      using eq assms(4,5) by metis
    from t assms(4,5) show ?thesis
      unfolding backup_reasons_def insert_iff empty_iff by (elim disjE) simp_all
  qed
  have "str '' gen='' @ dec_u64 g @ 32 # str ''current='' @ dec_u64 c =
      str '' gen='' @ dec_u64 g' @ 32 # str ''current='' @ dec_u64 c'"
    using eq unfolding r same_append_eq .
  then have "dec_u64 g @ 32 # str ''current='' @ dec_u64 c = dec_u64 g' @ 32 # str ''current='' @ dec_u64 c'"
    unfolding same_append_eq .
  then have "g = g' \<and> str ''current='' @ dec_u64 c = str ''current='' @ dec_u64 c'"
    by (rule dec_u64_split [rotated]) (simp add: is_digit_def)
  then show ?thesis using s r by (simp add: dec_u64_inj)
qed

lemma evidence_determines_kind:
  assumes "reported_kind k" and "reported_kind k'" and "kind_code k = kind_code k'"
    and "kind_evidence k = kind_evidence k'"
  shows "k = k'"
proof (cases k)
  case (SuperblockCrcMismatch off)
  with assms(3,4) show ?thesis by (cases k') auto
next
  case (NodeCrcMismatch b off)
  with assms(3,4) show ?thesis by (cases k') (auto simp: dec_u64_inj)
next
  case k: (BackupRootDivergence s r g c)
  from assms(3) obtain s' r' g' c' where k': "k' = BackupRootDivergence s' r' g' c'"
    unfolding k by (cases k') auto
  show ?thesis
    using backup_evidence [OF assms(4) [unfolded k k']] assms(1,2) unfolding k k' by simp
next
  case (OrphanedInode i)
  with assms(3,4) show ?thesis by (cases k') auto
next
  case k: (ImpossibleGeometry f v l)
  from assms(3) obtain f' v' l' where k': "k' = ImpossibleGeometry f' v' l'"
    unfolding k by (cases k') auto
  show ?thesis
    using geometry_evidence [OF assms(4) [unfolded k k']] assms(1,2) unfolding k k' by simp
qed

end
