(* ===== verification/Integrity.thy ===== *)
theory Integrity
  imports FsTree Worklist Anomaly
begin

text \<open>
  The image auditor of \<open>forensic/src/lib.rs\<close>: the backup roots of the superblock, the check
  that the roots resolve, the checksum sweep over the reachable tree nodes, the orphan scan and
  \<open>audit_image\<close>, which runs them in the order of the code. Functions that push onto
  \<open>out: &mut Vec<Anomaly>\<close> take and return that list.

  The sweep is an instance of the budgeted search of \<open>Worklist\<close>; the lemmas characterise what
  each check adds, and with them when an audit is empty.
\<close>

section \<open>Constants\<close>

definition ORPHAN_OBJECTID :: u64 where "ORPHAN_OBJECTID = - 1 - 4"
definition ORPHAN_ITEM_KEY :: u8 where "ORPHAN_ITEM_KEY = 48"
definition BACKUP_ROOTS_OFFSET :: nat where "BACKUP_ROOTS_OFFSET = 0xb2b"
definition ROOT_BACKUP_SIZE :: nat where "ROOT_BACKUP_SIZE = 168"
definition NUM_BACKUP_ROOTS :: nat where "NUM_BACKUP_ROOTS = 4"
definition BK_TREE_ROOT :: nat where "BK_TREE_ROOT = 0"
definition BK_TREE_ROOT_GEN :: nat where "BK_TREE_ROOT_GEN = 8"
definition BK_FS_ROOT :: nat where "BK_FS_ROOT = 48"
definition BK_FS_ROOT_GEN :: nat where "BK_FS_ROOT_GEN = 56"

lemmas backup_consts = BACKUP_ROOTS_OFFSET_def ROOT_BACKUP_SIZE_def NUM_BACKUP_ROOTS_def
  BK_TREE_ROOT_def BK_TREE_ROOT_GEN_def BK_FS_ROOT_def BK_FS_ROOT_GEN_def

section \<open>The backup roots\<close>

record root_backup =
  rb_tree_root :: u64
  rb_tree_root_gen :: u64
  rb_fs_root :: u64
  rb_fs_root_gen :: u64

definition root_backup_parse :: "bytes \<Rightarrow> root_backup" where
  "root_backup_parse entry =
     \<lparr> rb_tree_root = f_le_u64 entry BK_TREE_ROOT,
       rb_tree_root_gen = f_le_u64 entry BK_TREE_ROOT_GEN,
       rb_fs_root = f_le_u64 entry BK_FS_ROOT,
       rb_fs_root_gen = f_le_u64 entry BK_FS_ROOT_GEN \<rparr>"

text \<open>The loop \<open>for slot in 0..NUM_BACKUP_ROOTS\<close>, left at the first entry that is cut off.\<close>

fun backup_roots_from :: "bytes \<Rightarrow> nat list \<Rightarrow> root_backup list" where
  "backup_roots_from sb_block [] = []"
| "backup_roots_from sb_block (slot # slots) =
     (let base = BACKUP_ROOTS_OFFSET + slot * ROOT_BACKUP_SIZE in
      case get_range sb_block base (sat_add base ROOT_BACKUP_SIZE) of
        None \<Rightarrow> []
      | Some entry \<Rightarrow> root_backup_parse entry # backup_roots_from sb_block slots)"

definition parse_backup_roots :: "bytes \<Rightarrow> root_backup list" where
  "parse_backup_roots sb_block = backup_roots_from sb_block [0..<NUM_BACKUP_ROOTS]"

text \<open>The checks of one slot, in the order of the branches.\<close>

definition check_backup_root :: "u64 \<Rightarrow> u64 \<Rightarrow> nat \<times> root_backup \<Rightarrow> anomaly list" where
  "check_backup_root current_gen image_len = (\<lambda>(slot, b).
     if rb_tree_root_gen b > current_gen then
       [anomaly_new (BackupRootDivergence slot
          ''tree_root generation newer than the current committed generation''
          (rb_tree_root_gen b) current_gen)]
     else if rb_fs_root_gen b > current_gen then
       [anomaly_new (BackupRootDivergence slot
          ''fs_root generation newer than the current committed generation''
          (rb_fs_root_gen b) current_gen)]
     else if rb_tree_root b \<noteq> 0 \<and> rb_tree_root b \<ge> image_len then
       [anomaly_new (BackupRootDivergence slot
          ''tree_root logical address lies past the end of the image''
          (rb_tree_root_gen b) current_gen)]
     else [])"

definition check_backup_roots :: "anomaly list \<Rightarrow> bytes \<Rightarrow> u64 \<Rightarrow> u64 \<Rightarrow> anomaly list" where
  "check_backup_roots out sb_block current_gen image_len =
     foldl (\<lambda>out sb. out @ check_backup_root current_gen image_len sb) out
       (List.enumerate 0 (parse_backup_roots sb_block))"

section \<open>Roots that do not resolve\<close>

definition check_root_reachable ::
    "(bytes \<Rightarrow> u32) \<Rightarrow> anomaly list \<Rightarrow> bytes \<Rightarrow> superblock \<Rightarrow> chunk_map \<Rightarrow> string \<Rightarrow> u64 \<Rightarrow> anomaly list" where
  "check_root_reachable crc out img sb m field logical =
     (if logical = 0 then out
      else if \<not> is_ok (read_node crc img sb m logical) then
        out @ [anomaly_new (ImpossibleGeometry field logical (of_nat (length img)))]
      else out)"

section \<open>The checksum sweep\<close>

fun sweep_loop :: "(bytes \<Rightarrow> u32) \<Rightarrow> bytes \<Rightarrow> superblock \<Rightarrow> chunk_map \<Rightarrow>
    nat \<Rightarrow> u64 list \<Rightarrow> u64 list \<Rightarrow> anomaly list \<Rightarrow> anomaly list" where
  "sweep_loop crc img sb m budget seen [] out = out"
| "sweep_loop crc img sb m 0 seen (logical # st) out = out"
| "sweep_loop crc img sb m (Suc budget) seen (logical # st) out =
     (if logical \<in> set seen then sweep_loop crc img sb m budget seen st out
      else
        let seen = seen @ [logical] in
        case read_node crc img sb m logical of
          Inl _ \<Rightarrow> sweep_loop crc img sb m budget seen st out
        | Inr node \<Rightarrow>
            if h_bytenr (n_header node) \<noteq> logical \<or> h_fsid (n_header node) \<noteq> sb_fsid sb then
              sweep_loop crc img sb m budget seen st out
            else
              let offset = (case map_l2p m logical of None \<Rightarrow> logical | Some (_, phys) \<Rightarrow> phys);
                  out = (if n_crc_valid node = Some False then
                           out @ [anomaly_new (NodeCrcMismatch (h_bytenr (n_header node)) offset)]
                         else out);
                  st = (if \<not> is_leaf node then
                          rev (filter (\<lambda>p. p \<noteq> 0) (map kp_blockptr (key_ptrs node))) @ st
                        else st)
              in sweep_loop crc img sb m budget seen st out)"

text \<open>The seeds in the order they are pushed; the last one is on top of the stack.\<close>

definition sweep_seeds :: "bytes \<Rightarrow> superblock \<Rightarrow> u64 list" where
  "sweep_seeds img sb =
     (let roots = filter (\<lambda>l. l \<noteq> 0) [sb_root sb, sb_chunk_root sb] in
      case get_range img BTRFS_SUPER_INFO_OFFSET (sat_add BTRFS_SUPER_INFO_OFFSET BTRFS_SUPER_INFO_SIZE) of
        None \<Rightarrow> roots
      | Some sb_block \<Rightarrow>
          roots @ concat (map (\<lambda>b. filter (\<lambda>l. l \<noteq> 0) [rb_tree_root b, rb_fs_root b])
            (parse_backup_roots sb_block)))"

definition sweep_node_crcs ::
    "(bytes \<Rightarrow> u32) \<Rightarrow> anomaly list \<Rightarrow> bytes \<Rightarrow> superblock \<Rightarrow> chunk_map \<Rightarrow> anomaly list" where
  "sweep_node_crcs crc out img sb m =
     sweep_loop crc img sb m 8192 [] (rev (sweep_seeds img sb)) out"

section \<open>The orphan scan\<close>

text \<open>\<open>if b.fs_root != 0 && !fs_roots.contains(&b.fs_root) { fs_roots.push(b.fs_root) }\<close>\<close>

definition add_fs_root :: "u64 list \<Rightarrow> root_backup \<Rightarrow> u64 list" where
  "add_fs_root fs_roots b =
     (if rb_fs_root b \<noteq> 0 \<and> rb_fs_root b \<notin> set fs_roots then fs_roots @ [rb_fs_root b] else fs_roots)"

definition orphan_fs_roots :: "(bytes \<Rightarrow> u32) \<Rightarrow> bytes \<Rightarrow> superblock \<Rightarrow> chunk_map \<Rightarrow> u64 list" where
  "orphan_fs_roots crc img sb m =
     (let fs_roots = (case fs_tree_root crc img sb m of Inl _ \<Rightarrow> [] | Inr root_item \<Rightarrow> [fr_bytenr root_item]) in
      case get_range img BTRFS_SUPER_INFO_OFFSET (sat_add BTRFS_SUPER_INFO_OFFSET BTRFS_SUPER_INFO_SIZE) of
        None \<Rightarrow> fs_roots
      | Some sb_block \<Rightarrow> foldl add_fs_root fs_roots (parse_backup_roots sb_block))"

text \<open>One item of a leaf: the inodes already seen and the list of anomalies are threaded.\<close>

definition orphan_item :: "u64 list \<times> anomaly list \<Rightarrow> disk_key \<times> bytes \<Rightarrow> u64 list \<times> anomaly list" where
  "orphan_item = (\<lambda>(seen_inodes, out) (key, data).
     if k_objectid key = ORPHAN_OBJECTID \<and> k_type key = ORPHAN_ITEM_KEY \<and> k_offset key \<notin> set seen_inodes
     then (seen_inodes @ [k_offset key], out @ [anomaly_new (OrphanedInode (k_offset key))])
     else (seen_inodes, out))"

definition orphan_root :: "(bytes \<Rightarrow> u32) \<Rightarrow> bytes \<Rightarrow> superblock \<Rightarrow> chunk_map \<Rightarrow>
    u64 list \<times> anomaly list \<Rightarrow> u64 \<Rightarrow> u64 list \<times> anomaly list" where
  "orphan_root crc img sb m acc logical =
     (case read_node crc img sb m logical of
        Inl _ \<Rightarrow> acc
      | Inr leaf \<Rightarrow>
          if h_owner (n_header leaf) \<noteq> FS_TREE_OBJECTID then acc
          else foldl orphan_item acc (leaf_items leaf))"

definition scan_orphans ::
    "(bytes \<Rightarrow> u32) \<Rightarrow> anomaly list \<Rightarrow> bytes \<Rightarrow> superblock \<Rightarrow> chunk_map \<Rightarrow> anomaly list" where
  "scan_orphans crc out img sb m =
     snd (foldl (orphan_root crc img sb m) ([], out) (orphan_fs_roots crc img sb m))"

section \<open>The audit\<close>

text \<open>\<open>r.unwrap_or_default()\<close> on a chunk map.\<close>

definition walk_or_default :: "(bytes \<Rightarrow> u32) \<Rightarrow> bytes \<Rightarrow> superblock \<Rightarrow> chunk_map" where
  "walk_or_default crc img sb = (case walk crc img sb of Inl _ \<Rightarrow> [] | Inr m \<Rightarrow> m)"

definition audit_image :: "(bytes \<Rightarrow> u32) \<Rightarrow> bytes \<Rightarrow> anomaly list" where
  "audit_image crc img =
     (let out = [] in
      case get_range img BTRFS_SUPER_INFO_OFFSET (sat_add BTRFS_SUPER_INFO_OFFSET BTRFS_SUPER_INFO_SIZE) of
        None \<Rightarrow> out
      | Some sb_block \<Rightarrow>
          (case superblock_parse crc sb_block of
             Inl _ \<Rightarrow> out
           | Inr sb \<Rightarrow>
               let out = (if sb_crc_valid sb = Some False then
                            out @ [anomaly_new (SuperblockCrcMismatch (of_nat BTRFS_SUPER_INFO_OFFSET))]
                          else out);
                   image_len = of_nat (length img) :: u64;
                   m = walk_or_default crc img sb;
                   out = check_root_reachable crc out img sb m ''root'' (sb_root sb);
                   out = check_root_reachable crc out img sb m ''chunk_root'' (sb_chunk_root sb);
                   out = sweep_node_crcs crc out img sb m;
                   out = check_backup_roots out sb_block (sb_generation sb) image_len;
                   out = scan_orphans crc out img sb m
               in out))"

text \<open>\<open>to_finding\<close> is a default method of the \<open>forensicnomicon\<close> crate: a parameter.\<close>

definition audit_findings ::
    "(bytes \<Rightarrow> u32) \<Rightarrow> (anomaly \<Rightarrow> report_source \<Rightarrow> 'f) \<Rightarrow> bytes \<Rightarrow> rstring \<Rightarrow> 'f list" where
  "audit_findings crc to_finding img scope =
     (let source = \<lparr> rs_analyzer = str ''btrfs-forensic'', rs_scope = scope, rs_version = None \<rparr> in
      map (\<lambda>a. to_finding a source) (audit_image crc img))"

section \<open>The backup array\<close>

lemma takeWhile_upt_less: "takeWhile (\<lambda>s. s < q) [0..<n] = [0..<min n q]"
proof (induction n)
  case (Suc n)
  have "takeWhile (\<lambda>s. s < q) [0..<n] = [0..<n] \<longleftrightarrow> n \<le> q"
    unfolding takeWhile_eq_all_conv by force
  then show ?case
    using Suc by (cases "n < q") (auto simp: takeWhile_append min_def less_imp_le_nat)
qed simp

lemma backup_roots_from_takeWhile:
  assumes "fits_memory blk"
  shows "backup_roots_from blk slots =
    map (\<lambda>s. root_backup_parse (take 168 (drop (0xb2b + s * 168) blk)))
      (takeWhile (\<lambda>s. s < (length blk - 0xb2b) div 168) slots)"
proof (induction slots)
  case (Cons s slots)
  have "0xb2b + s * 168 + 168 \<le> length blk \<longleftrightarrow> Suc s * 168 \<le> length blk - 0xb2b"
    by auto
  also have "\<dots> \<longleftrightarrow> s < (length blk - 0xb2b) div 168"
    by (simp add: less_eq_div_iff_mult_less_eq Suc_le_eq [symmetric] del: mult_Suc)
  finally show ?case
    using Cons by (simp add: Let_def get_range_sat_add [OF assms] backup_consts)
qed simp

lemma le_u64_window:
  assumes "k + 8 \<le> n" and "b + n \<le> length blk"
  shows "le_u64 (take n (drop b blk)) k = le_u64 blk (b + k)"
proof -
  have "le_u64 (take n (drop b blk)) k = le_u64 (take n (drop b blk) @ drop n (drop b blk)) k"
    using assms by (intro le_u64_append [symmetric]) simp
  also have "\<dots> = le_u64 blk (b + k)"
    unfolding append_take_drop_id using assms by (simp add: le_u64_drop)
  finally show ?thesis .
qed

definition backup_at :: "bytes \<Rightarrow> nat \<Rightarrow> root_backup" where
  "backup_at blk s =
     (let base = 0xb2b + s * 168 in
      \<lparr> rb_tree_root = le_u64 blk base, rb_tree_root_gen = le_u64 blk (base + 8),
        rb_fs_root = le_u64 blk (base + 48), rb_fs_root_gen = le_u64 blk (base + 56) \<rparr>)"

lemma parse_backup_roots_eq:
  assumes "fits_memory blk"
  shows "parse_backup_roots blk = map (backup_at blk) [0..<min 4 ((length blk - 0xb2b) div 168)]"
proof -
  have "root_backup_parse (take 168 (drop (0xb2b + s * 168) blk)) = backup_at blk s"
    if "s < (length blk - 0xb2b) div 168" for s
  proof -
    have "Suc s * 168 \<le> length blk - 0xb2b"
      using that by (simp add: less_eq_div_iff_mult_less_eq Suc_le_eq [symmetric] del: mult_Suc)
    then have "0xb2b + s * 168 + 168 \<le> length blk" by auto
    moreover have "fits_memory (take 168 (drop (0xb2b + s * 168) blk))"
      using assms by (simp add: fits_memory_def)
    ultimately show ?thesis
      by (simp add: root_backup_parse_def backup_at_def backup_consts f_readers_eq le_u64_window Let_def)
  qed
  then show ?thesis
    unfolding parse_backup_roots_def backup_roots_from_takeWhile [OF assms]
    by (simp add: takeWhile_upt_less backup_consts)
qed

lemma check_backup_roots_eq:
  "check_backup_roots out blk g len =
     out @ concat (map (check_backup_root g len) (List.enumerate 0 (parse_backup_roots blk)))"
proof -
  have "foldl (\<lambda>out sb. out @ check_backup_root g len sb) out bs =
      out @ concat (map (check_backup_root g len) bs)" for bs
    by (induction bs arbitrary: out) simp_all
  then show ?thesis by (simp add: check_backup_roots_def)
qed

definition backup_sane :: "u64 \<Rightarrow> u64 \<Rightarrow> root_backup \<Rightarrow> bool" where
  "backup_sane g len b \<longleftrightarrow> rb_tree_root_gen b \<le> g \<and> rb_fs_root_gen b \<le> g \<and>
     (rb_tree_root b = 0 \<or> rb_tree_root b < len)"

lemma check_backup_root_Nil_iff: "check_backup_root g len (slot, b) = [] \<longleftrightarrow> backup_sane g len b"
  by (auto simp: check_backup_root_def backup_sane_def not_le)

section \<open>What the sweep sees\<close>

text \<open>A node the sweep takes for genuine: readable, self-referencing, of this file system.\<close>

definition sweep_view :: "(bytes \<Rightarrow> u32) \<Rightarrow> bytes \<Rightarrow> superblock \<Rightarrow> chunk_map \<Rightarrow> u64 \<Rightarrow> node option" where
  "sweep_view crc img sb m l =
     (case read_node crc img sb m l of
        Inl _ \<Rightarrow> None
      | Inr n \<Rightarrow> if h_bytenr (n_header n) = l \<and> h_fsid (n_header n) = sb_fsid sb then Some n else None)"

definition sweep_children :: "(bytes \<Rightarrow> u32) \<Rightarrow> bytes \<Rightarrow> superblock \<Rightarrow> chunk_map \<Rightarrow> u64 \<Rightarrow> u64 list" where
  "sweep_children crc img sb m l =
     (case sweep_view crc img sb m l of
        None \<Rightarrow> []
      | Some n \<Rightarrow> filter (\<lambda>p. p \<noteq> 0) (map kp_blockptr (key_ptrs n)))"

definition node_offset :: "chunk_map \<Rightarrow> u64 \<Rightarrow> u64" where
  "node_offset m l = (case map_l2p m l of None \<Rightarrow> l | Some (_, phys) \<Rightarrow> phys)"

definition sweep_found :: "(bytes \<Rightarrow> u32) \<Rightarrow> bytes \<Rightarrow> superblock \<Rightarrow> chunk_map \<Rightarrow> u64 \<Rightarrow> anomaly list" where
  "sweep_found crc img sb m l =
     (case sweep_view crc img sb m l of
        None \<Rightarrow> []
      | Some n \<Rightarrow>
          if n_crc_valid n = Some False then [anomaly_new (NodeCrcMismatch l (node_offset m l))] else [])"

interpretation sweep: collecting "sweep_children crc img sb m" "sweep_found crc img sb m" "sweep_loop crc img sb m"
  for crc img sb m
proof unfold_locales
  fix l :: u64 and seen k st out
  assume "l \<notin> set seen"
  then show "sweep_loop crc img sb m (Suc k) seen (l # st) out =
      sweep_loop crc img sb m k (seen @ [l]) (rev (sweep_children crc img sb m l) @ st)
        (out @ sweep_found crc img sb m l)"
    by (auto simp: sweep_children_def sweep_found_def sweep_view_def node_offset_def Let_def key_ptrs_leaf
        split: sum.splits)
qed simp_all

definition sweep_reach :: "(bytes \<Rightarrow> u32) \<Rightarrow> bytes \<Rightarrow> superblock \<Rightarrow> chunk_map \<Rightarrow> u64 \<Rightarrow> bool" where
  "sweep_reach crc img sb m = reach (sweep_children crc img sb m) (set (sweep_seeds img sb))"

lemma sweep_node_crcs_eq:
  "sweep_node_crcs crc out img sb m =
     out @ concat (map (sweep_found crc img sb m)
       (visit_order (sweep_children crc img sb m) 8192 [] (rev (sweep_seeds img sb))))"
  by (simp add: sweep_node_crcs_def sweep.collect)

lemma sweep_found_iff:
  "a \<in> set (sweep_found crc img sb m l) \<longleftrightarrow>
     (\<exists>n. sweep_view crc img sb m l = Some n \<and> n_crc_valid n = Some False \<and>
          a = anomaly_new (NodeCrcMismatch l (node_offset m l)))"
  by (cases "sweep_view crc img sb m l") (auto simp: sweep_found_def)

lemma distinct_sweep_found:
  "distinct xs \<Longrightarrow> distinct (concat (map (sweep_found crc img sb m) xs))"
proof (induction xs)
  case (Cons x xs)
  have "distinct (sweep_found crc img sb m x)"
    by (simp add: sweep_found_def split: option.splits)
  with Cons show ?case by (auto simp: sweep_found_iff)
qed simp

section \<open>What the orphan scan sees\<close>

lemma first_by_append:
  "first_by f S (xs @ ys) = first_by f S xs @ first_by f (S \<union> f ` set xs) ys"
  by (induction f S xs rule: first_by.induct) (auto simp: insert_absorb)

definition orphan_inodes :: "(disk_key \<times> bytes) list \<Rightarrow> u64 list" where
  "orphan_inodes items =
     map (k_offset \<circ> fst)
       (filter (\<lambda>it. k_objectid (fst it) = ORPHAN_OBJECTID \<and> k_type (fst it) = ORPHAN_ITEM_KEY) items)"

lemma orphan_inodes_iff:
  "i \<in> set (orphan_inodes its) \<longleftrightarrow>
     (\<exists>data. (\<lparr>k_objectid = ORPHAN_OBJECTID, k_type = 48, k_offset = i\<rparr>, data) \<in> set its)"
proof
  assume "i \<in> set (orphan_inodes its)"
  then obtain k data where it: "(k, data) \<in> set its" and "k_objectid k = ORPHAN_OBJECTID"
    and "k_type k = 48" and "k_offset k = i"
    by (auto simp: orphan_inodes_def ORPHAN_ITEM_KEY_def)
  then have "k = \<lparr>k_objectid = ORPHAN_OBJECTID, k_type = 48, k_offset = i\<rparr>"
    by (cases k) simp
  with it show "\<exists>data. (\<lparr>k_objectid = ORPHAN_OBJECTID, k_type = 48, k_offset = i\<rparr>, data) \<in> set its"
    by (intro exI [of _ data]) simp
next
  assume "\<exists>data. (\<lparr>k_objectid = ORPHAN_OBJECTID, k_type = 48, k_offset = i\<rparr>, data) \<in> set its"
  then obtain data where it: "(\<lparr>k_objectid = ORPHAN_OBJECTID, k_type = 48, k_offset = i\<rparr>, data) \<in> set its" ..
  then show "i \<in> set (orphan_inodes its)"
    unfolding orphan_inodes_def set_map set_filter
    by (intro image_eqI [where x = "(\<lparr>k_objectid = ORPHAN_OBJECTID, k_type = 48, k_offset = i\<rparr>, data)"])
      (simp_all add: ORPHAN_ITEM_KEY_def)
qed

definition orphans_of :: "u64 list \<Rightarrow> anomaly list" where
  "orphans_of = map (anomaly_new \<circ> OrphanedInode)"

lemma foldl_orphan_item:
  "foldl orphan_item (seen, out) items =
     (seen @ first_by (\<lambda>i. i) (set seen) (orphan_inodes items),
      out @ orphans_of (first_by (\<lambda>i. i) (set seen) (orphan_inodes items)))"
proof (induction items arbitrary: seen out)
  case (Cons it items)
  obtain key data where "it = (key, data)" by fastforce
  then show ?case
    using Cons by (auto simp: orphan_item_def orphan_inodes_def orphans_of_def)
qed (simp add: orphan_inodes_def orphans_of_def)

text \<open>The orphan items of a root the scan accepts.\<close>

definition root_orphans :: "(bytes \<Rightarrow> u32) \<Rightarrow> bytes \<Rightarrow> superblock \<Rightarrow> chunk_map \<Rightarrow> u64 \<Rightarrow> u64 list" where
  "root_orphans crc img sb m l =
     (case read_node crc img sb m l of
        Inl _ \<Rightarrow> []
      | Inr leaf \<Rightarrow> if h_owner (n_header leaf) = 5 then orphan_inodes (leaf_items leaf) else [])"

lemma foldl_orphan_root:
  "foldl (orphan_root crc img sb m) (seen, out) roots =
     (seen @ first_by (\<lambda>i. i) (set seen) (concat (map (root_orphans crc img sb m) roots)),
      out @ orphans_of (first_by (\<lambda>i. i) (set seen) (concat (map (root_orphans crc img sb m) roots))))"
proof (induction roots arbitrary: seen out)
  case (Cons l roots)
  have "orphan_root crc img sb m (seen, out) l =
      (seen @ first_by (\<lambda>i. i) (set seen) (root_orphans crc img sb m l),
       out @ orphans_of (first_by (\<lambda>i. i) (set seen) (root_orphans crc img sb m l)))"
    by (auto simp: orphan_root_def root_orphans_def foldl_orphan_item fs_consts orphans_of_def split: sum.splits)
  moreover have "set (first_by (\<lambda>i. i) (set seen) (root_orphans crc img sb m l)) \<union> set seen =
      set seen \<union> set (root_orphans crc img sb m l)"
    using first_by_image [of "\<lambda>i. i" "set seen" "root_orphans crc img sb m l"] by auto
  ultimately show ?case
    using Cons by (simp add: first_by_append orphans_of_def Un_commute)
qed (simp add: orphans_of_def)

lemma scan_orphans_eq:
  "scan_orphans crc out img sb m =
     out @ orphans_of (first_by (\<lambda>i. i) {} (concat (map (root_orphans crc img sb m) (orphan_fs_roots crc img sb m))))"
  by (simp add: scan_orphans_def foldl_orphan_root)

lemma foldl_add_fs_root_set:
  "set (foldl add_fs_root rs bs) = set rs \<union> (rb_fs_root ` set bs - {0})"
  by (induction bs arbitrary: rs) (auto simp: add_fs_root_def)

section \<open>The audit as the sum of its checks\<close>

text \<open>The superblock block of an image and what it parses to.\<close>

definition audit_super :: "(bytes \<Rightarrow> u32) \<Rightarrow> bytes \<Rightarrow> (bytes \<times> superblock) option" where
  "audit_super crc img =
     (if 65536 + 4096 \<le> length img then
        (let blk = take 4096 (drop 65536 img) in
         case superblock_parse crc blk of Inl _ \<Rightarrow> None | Inr sb \<Rightarrow> Some (blk, sb))
      else None)"

definition root_unreadable ::
    "(bytes \<Rightarrow> u32) \<Rightarrow> bytes \<Rightarrow> superblock \<Rightarrow> chunk_map \<Rightarrow> string \<Rightarrow> u64 \<Rightarrow> anomaly list" where
  "root_unreadable crc img sb m field l =
     (if l \<noteq> 0 \<and> \<not> is_ok (read_node crc img sb m l)
      then [anomaly_new (ImpossibleGeometry field l (of_nat (length img)))] else [])"

lemma check_root_reachable_eq:
  "check_root_reachable crc out img sb m field l = out @ root_unreadable crc img sb m field l"
  by (simp add: check_root_reachable_def root_unreadable_def)

lemma super_block_range:
  "get_range img BTRFS_SUPER_INFO_OFFSET (sat_add BTRFS_SUPER_INFO_OFFSET BTRFS_SUPER_INFO_SIZE) =
     (if 65536 + 4096 \<le> length img then Some (take 4096 (drop 65536 img)) else None)"
  by (simp add: get_range_def super_consts sat_add_def usize_max_def)

lemma audit_super_Some:
  "audit_super crc img = Some (blk, sb) \<longleftrightarrow>
     65536 + 4096 \<le> length img \<and> blk = take 4096 (drop 65536 img) \<and> superblock_parse crc blk = Inr sb"
  by (auto simp: audit_super_def Let_def split: sum.splits)

definition sweep_order :: "(bytes \<Rightarrow> u32) \<Rightarrow> bytes \<Rightarrow> superblock \<Rightarrow> chunk_map \<Rightarrow> u64 list" where
  "sweep_order crc img sb m =
     visit_order (sweep_children crc img sb m) 8192 [] (rev (sweep_seeds img sb))"

lemma audit_image_parts:
  "audit_image crc img =
     (case audit_super crc img of
        None \<Rightarrow> []
      | Some (blk, sb) \<Rightarrow>
          let m = walk_or_default crc img sb in
          (if sb_crc_valid sb = Some False then [anomaly_new (SuperblockCrcMismatch 65536)] else []) @
          root_unreadable crc img sb m ''root'' (sb_root sb) @
          root_unreadable crc img sb m ''chunk_root'' (sb_chunk_root sb) @
          concat (map (sweep_found crc img sb m) (sweep_order crc img sb m)) @
          concat (map (check_backup_root (sb_generation sb) (of_nat (length img)))
            (List.enumerate 0 (parse_backup_roots blk))) @
          orphans_of (first_by (\<lambda>i. i) {}
            (concat (map (root_orphans crc img sb m) (orphan_fs_roots crc img sb m)))))"
  unfolding audit_image_def super_block_range audit_super_def check_root_reachable_eq sweep_node_crcs_eq
    check_backup_roots_eq scan_orphans_eq sweep_order_def
  by (simp add: Let_def BTRFS_SUPER_INFO_OFFSET_def split: sum.splits)

lemma sweep_order_reach: "l \<in> set (sweep_order crc img sb m) \<Longrightarrow> sweep_reach crc img sb m l"
  using visit_order_reach by (fastforce simp: sweep_order_def sweep_reach_def)

text \<open>
  The budget covers the sweep when the seeds and the child pointers of a finite set of addresses
  closed under descent come to at most 8192 pushes.
\<close>

definition sweep_covered :: "(bytes \<Rightarrow> u32) \<Rightarrow> bytes \<Rightarrow> superblock \<Rightarrow> chunk_map \<Rightarrow> u64 set \<Rightarrow> bool" where
  "sweep_covered crc img sb m R \<longleftrightarrow>
     set (sweep_seeds img sb) \<subseteq> R \<and> (\<forall>l\<in>R. set (sweep_children crc img sb m l) \<subseteq> R) \<and>
     length (sweep_seeds img sb) + (\<Sum>l\<in>R. length (sweep_children crc img sb m l)) \<le> 8192"

lemma sweep_order_complete:
  assumes "sweep_covered crc img sb m R"
  shows "l \<in> set (sweep_order crc img sb m) \<longleftrightarrow> sweep_reach crc img sb m l"
proof
  assume "sweep_reach crc img sb m l"
  then show "l \<in> set (sweep_order crc img sb m)"
    using assms unfolding sweep_order_def sweep_reach_def sweep_covered_def
    by (intro visit_order_complete [of R]) auto
qed (rule sweep_order_reach)

section \<open>Properties\<close>

text \<open>
  Claim C2. Soundness of the checksum sweep: whatever the image, a mismatch is only reported for
  an address reached from the superblock's roots or the backup roots through child pointers,
  whose block parses, names that address and this file system's id in its header, and fails its
  checksum; the byte offset reported is the translated one. No node is reported twice, and what
  earlier checks found is kept.
\<close>

theorem sweep_sound:
  "set (sweep_node_crcs crc [] img sb m) \<subseteq>
     {anomaly_new (NodeCrcMismatch l (node_offset m l)) | l n.
        sweep_reach crc img sb m l \<and> read_node crc img sb m l = Inr n \<and>
        h_bytenr (n_header n) = l \<and> h_fsid (n_header n) = sb_fsid sb \<and> n_crc_valid n = Some False} \<and>
   distinct (sweep_node_crcs crc [] img sb m) \<and>
   sweep_node_crcs crc out img sb m = out @ sweep_node_crcs crc [] img sb m"
proof (intro conjI subsetI)
  fix a assume "a \<in> set (sweep_node_crcs crc [] img sb m)"
  then obtain l where l: "l \<in> set (sweep_order crc img sb m)" and a: "a \<in> set (sweep_found crc img sb m l)"
    by (auto simp: sweep_node_crcs_eq sweep_order_def)
  then show "a \<in> {anomaly_new (NodeCrcMismatch l (node_offset m l)) | l n.
        sweep_reach crc img sb m l \<and> read_node crc img sb m l = Inr n \<and>
        h_bytenr (n_header n) = l \<and> h_fsid (n_header n) = sb_fsid sb \<and> n_crc_valid n = Some False}"
    using sweep_order_reach [OF l]
    by (auto simp: sweep_found_iff sweep_view_def split: sum.splits if_splits)
next
  show "distinct (sweep_node_crcs crc [] img sb m)"
    by (simp add: sweep_node_crcs_eq distinct_sweep_found visit_order_distinct)
qed (simp add: sweep_node_crcs_eq)

text \<open>
  Claim C32. The orphan scan reports each inode once, and exactly the inodes of the orphan items
  of the readable FS-tree leaves among the current FS-tree root (when the root tree can be read)
  and the nonzero FS-tree roots of the backup array.
\<close>

theorem orphans_exact:
  "distinct (scan_orphans crc [] img sb m) \<and>
   set (scan_orphans crc [] img sb m) =
     {anomaly_new (OrphanedInode i) | i l leaf data.
        l \<in> set (orphan_fs_roots crc img sb m) \<and> read_node crc img sb m l = Inr leaf \<and>
        h_owner (n_header leaf) = 5 \<and>
        (\<lparr>k_objectid = ORPHAN_OBJECTID, k_type = 48, k_offset = i\<rparr>, data) \<in> set (leaf_items leaf)} \<and>
   set (orphan_fs_roots crc img sb m) =
     (case fs_tree_root crc img sb m of Inl _ \<Rightarrow> {} | Inr r \<Rightarrow> {fr_bytenr r}) \<union>
     (if 69632 \<le> length img
      then rb_fs_root ` set (parse_backup_roots (take 4096 (drop 65536 img))) - {0} else {})"
proof (intro conjI)
  let ?inos = "concat (map (root_orphans crc img sb m) (orphan_fs_roots crc img sb m))"
  have "distinct (first_by (\<lambda>i. i) {} ?inos)"
    using first_by_distinct [of "\<lambda>i. i" "{}" ?inos] by simp
  then show "distinct (scan_orphans crc [] img sb m)"
    by (simp add: scan_orphans_eq orphans_of_def distinct_map inj_on_def)
  have "set (first_by (\<lambda>i. i) {} ?inos) = set ?inos"
    using first_by_image [of "\<lambda>i. i" "{}" ?inos] by simp
  moreover have "i \<in> set (root_orphans crc img sb m l) \<longleftrightarrow>
      (\<exists>leaf data. read_node crc img sb m l = Inr leaf \<and> h_owner (n_header leaf) = 5 \<and>
        (\<lparr>k_objectid = ORPHAN_OBJECTID, k_type = 48, k_offset = i\<rparr>, data) \<in> set (leaf_items leaf))" for i l
    by (cases "read_node crc img sb m l") (auto simp: root_orphans_def orphan_inodes_iff)
  ultimately have mem: "i \<in> set (first_by (\<lambda>i. i) {} ?inos) \<longleftrightarrow>
      (\<exists>l leaf data. l \<in> set (orphan_fs_roots crc img sb m) \<and> read_node crc img sb m l = Inr leaf \<and>
        h_owner (n_header leaf) = 5 \<and>
        (\<lparr>k_objectid = ORPHAN_OBJECTID, k_type = 48, k_offset = i\<rparr>, data) \<in> set (leaf_items leaf))" for i
    by simp blast
  show "set (scan_orphans crc [] img sb m) =
     {anomaly_new (OrphanedInode i) | i l leaf data.
        l \<in> set (orphan_fs_roots crc img sb m) \<and> read_node crc img sb m l = Inr leaf \<and>
        h_owner (n_header leaf) = 5 \<and>
        (\<lparr>k_objectid = ORPHAN_OBJECTID, k_type = 48, k_offset = i\<rparr>, data) \<in> set (leaf_items leaf)}"
    unfolding scan_orphans_eq orphans_of_def append_Nil set_map comp_def
    by (intro set_eqI, simp only: image_iff mem_Collect_eq Bex_def mem) blast
  show "set (orphan_fs_roots crc img sb m) =
     (case fs_tree_root crc img sb m of Inl _ \<Rightarrow> {} | Inr r \<Rightarrow> {fr_bytenr r}) \<union>
     (if 69632 \<le> length img
      then rb_fs_root ` set (parse_backup_roots (take 4096 (drop 65536 img))) - {0} else {})"
    by (auto simp: orphan_fs_roots_def super_block_range foldl_add_fs_root_set Let_def split: sum.splits)
qed

text \<open>
  Claim C33. The backup array of a block is read slot by slot from \<open>0xb2b\<close>: the whole entries
  that fit, four at most, each field at its offset. A slot is reported exactly when one of its
  generations is newer than the committed one or its tree root lies past the image, at most
  once, with the first of these reasons that applies.
\<close>

theorem backup_roots_exact:
  assumes "fits_memory blk"
  shows "parse_backup_roots blk = map (backup_at blk) [0..<min 4 ((length blk - 0xb2b) div 168)] \<and>
    check_backup_roots out blk g len =
      out @ concat (map (\<lambda>slot. let b = backup_at blk slot in
        if g < rb_tree_root_gen b then
          [anomaly_new (BackupRootDivergence slot
             ''tree_root generation newer than the current committed generation'' (rb_tree_root_gen b) g)]
        else if g < rb_fs_root_gen b then
          [anomaly_new (BackupRootDivergence slot
             ''fs_root generation newer than the current committed generation'' (rb_fs_root_gen b) g)]
        else if rb_tree_root b \<noteq> 0 \<and> len \<le> rb_tree_root b then
          [anomaly_new (BackupRootDivergence slot
             ''tree_root logical address lies past the end of the image'' (rb_tree_root_gen b) g)]
        else []) [0..<min 4 ((length blk - 0xb2b) div 168)])"
proof -
  have "List.enumerate 0 (map f [0..<n]) = map (\<lambda>i. (i, f i)) [0..<n]" for f :: "nat \<Rightarrow> root_backup" and n
    by (induction n) (simp_all add: enumerate_append_eq)
  then show ?thesis
    unfolding check_backup_roots_eq parse_backup_roots_eq [OF assms]
    by (simp add: check_backup_root_def comp_def Let_def)
qed

theorem backup_roots_exact_witness:
  "parse_backup_roots (replicate 0xb2b 0 @ to_le_bytes (12345 :: u64) @ replicate 200 0) =
     [\<lparr>rb_tree_root = 12345, rb_tree_root_gen = 0, rb_fs_root = 0, rb_fs_root_gen = 0\<rparr>]"
proof -
  let ?b = "replicate 0xb2b 0 @ to_le_bytes (12345 :: u64) @ replicate 200 0"
  have "fits_memory ?b" by (simp add: fits_memory_def)
  note backup_roots_exact [OF this]
  then show ?thesis
    by (simp add: backup_at_def read_simps Let_def)
qed

end
