(* ===== verification/SmallDisk.thy ===== *)
theory SmallDisk
  imports Integrity
begin

text \<open>
  A small disk to evaluate the auditor and the carver on: 64 KiB of zeros, a superblock block
  whose bootstrap chunk maps the first mebibyte to itself, and tree blocks behind it from 69632
  on. Its chunk root is the zero block at 0, a leaf without items, so the walked map is empty and
  every address is translated by the superblock's own chunk array.
\<close>

definition small_sb :: "u32 \<Rightarrow> superblock" where
  "small_sb ns = demo_superblock
     \<lparr> sb_fsid := replicate 16 1, sb_root := 69632, sb_chunk_root := 0, sb_nodesize := ns,
       sb_sys_chunk_array_size := 97,
       sb_sys_chunks :=
         [\<lparr> sc_key = \<lparr>k_objectid = 256, k_type = 228, k_offset = 0\<rparr>, sc_length = 0x100000, sc_owner = 2,
            sc_stripe_len = 0x10000, sc_type = 34, sc_num_stripes = 1, sc_sub_stripes = 1,
            sc_stripes = [\<lparr> s_devid = 1, s_offset = 0, s_uuid = replicate 16 7 \<rparr>] \<rparr>] \<rparr>"

definition small_block :: "u32 \<Rightarrow> bytes \<Rightarrow> bytes" where
  "small_block ns rest = encode_superblock (small_sb ns) rest"

definition small_disk :: "u32 \<Rightarrow> bytes \<Rightarrow> bytes \<Rightarrow> bytes" where
  "small_disk ns rest body = zeros 65536 @ small_block ns rest @ body"

lemma small_sb_simps [simp]:
  "sb_fsid (small_sb ns) = replicate 16 1" "sb_root (small_sb ns) = 69632" "sb_chunk_root (small_sb ns) = 0"
  "sb_nodesize (small_sb ns) = ns" "sb_crc_valid (small_sb ns) = None" "sb_generation (small_sb ns) = 9"
  "sb_sectorsize (small_sb ns) = 4096"
  by (simp_all add: small_sb_def demo_superblock_def)

lemma wf_small_sb: "wf_superblock (small_sb ns)"
  by (simp add: wf_superblock_def small_sb_def demo_superblock_def wf_csum_type_def str_def valid_utf8_ascii
      wf_sys_chunk_def wf_stripe_def sys_chunk_size_def)

lemma small_block_split:
  obtains pre where "small_block ns rest = pre @ rest" and "length pre = 908"
proof -
  let ?pre = "take 908 (small_block ns rest)"
  have "length (sb_label (small_sb ns)) \<le> 256" using wf_small_sb [of ns] by (simp add: wf_superblock_def)
  moreover have "length (concat (map (encode_sys_chunk (zeros 12)) (sb_sys_chunks (small_sb ns)))) = 97"
    using wf_small_sb [of ns] by (simp add: length_concat_sys_chunks wf_superblock_def)
      (simp add: small_sb_def sys_chunk_size_def)
  moreover have "length (sb_csum (small_sb ns)) = 4" by (simp add: small_sb_def demo_superblock_def)
  ultimately show thesis
    by (intro that [of ?pre]) (auto simp: small_block_def encode_superblock_def)
qed

lemma length_small_block [simp]: "length (small_block ns rest) = 908 + length rest"
proof -
  obtain pre where pre: "small_block ns rest = pre @ rest" "length pre = 908"
    by (rule small_block_split)
  show ?thesis by (simp add: pre)
qed

lemma length_small_disk [simp]: "length (small_disk ns rest body) = 66444 + length rest + length body"
  by (simp add: small_disk_def)

lemma small_block_parse: "superblock_parse crc (small_block ns rest) = Inr (small_sb ns)"
proof -
  have "superblock_parse crc (small_block ns rest) = Inr (small_sb ns\<lparr>sb_crc_valid := None\<rparr>)"
    unfolding small_block_def superblock_parse_encode [OF wf_small_sb]
    by (simp add: small_sb_def demo_superblock_def superblock_crc_status_def)
  also have "small_sb ns\<lparr>sb_crc_valid := None\<rparr> = small_sb ns"
    by (simp add: small_sb_def demo_superblock_def)
  finally show ?thesis .
qed

lemma small_block_append: "small_block ns rest @ body = small_block ns (rest @ body)"
  by (simp add: small_block_def encode_superblock_def)

lemma small_disk_super:
  "length rest = 3188 \<Longrightarrow> audit_super crc (small_disk ns rest body) = Some (small_block ns rest, small_sb ns)"
  by (simp add: audit_super_Some small_disk_def small_block_parse)

lemma small_disk_phys: "l < 0x100000 \<Longrightarrow> node_phys (small_sb ns) [] l = Some (0, l)"
  using unat_less_exp [of l]
  by (simp add: node_phys_def small_sb_def sys_chunk_l2p_def u64_checked_add_def not_le)

lemma small_disk_boot: "map_l2p (boot_map (small_sb ns)) 0 = Some (1, 0)"
  by (simp add: small_sb_def u64_checked_add_def boot_map_def entry_of_sys_def)

lemma small_disk_walk:
  assumes "101 \<le> unat ns" and "unat ns \<le> 65536"
  shows "walk crc (small_disk ns rest body) (small_sb ns) = Inr []"
proof -
  obtain n where n: "node_parse crc (zeros (unat ns)) = Inr n"
    using node_parse_ok_iff [of crc "zeros (unat ns)"] assms by auto
  then have "is_leaf n" "leaf_items n = []"
    using assms by (auto simp: node_parse_Inr_iff is_leaf_def leaf_items_def parse_items_def header_parse_fields
        zeros_def read_simps)
  then have "chunk_items n = []" by (simp add: chunk_items_def)
  moreover have "take (unat ns) (small_disk ns rest body) = zeros (unat ns)"
    using assms by (simp add: small_disk_def zeros_def)
  moreover have "unat ns \<le> length (small_disk ns rest body)" using assms by simp
  ultimately have "walk_loop crc (small_disk ns rest body) (unat ns) (boot_map (small_sb ns)) (Suc 4095) [] [0] False = Inr []"
    using n \<open>is_leaf n\<close> small_disk_boot [of ns] unat_u32_le [of ns] unfolding walk_loop.simps(3)
    by (simp add: get_range_def sat_add_def usize_max_def add_from_node_def)
  then show ?thesis by (simp add: walk_def)
qed

lemma small_disk_map:
  assumes "101 \<le> unat ns" and "unat ns \<le> 65536"
  shows "walk_or_default crc (small_disk ns rest body) (small_sb ns) = []"
  using small_disk_walk [OF assms] by (simp add: walk_or_default_def)

lemma small_disk_read:
  assumes "length rest = 3188" and "length blk = unat ns" and "unat l = 69632 + length pre" and "l < 0x100000"
  shows "read_node crc (small_disk ns rest (pre @ blk @ post)) (small_sb ns) [] l = node_parse crc blk"
  using assms small_disk_phys [OF assms(4), of ns] unat_u32_le [of ns] unat_mono [OF assms(4)]
  by (simp add: read_node_def get_range_def sat_add_def usize_max_def small_disk_def Let_def)

section \<open>A disk with one leaf and no backups\<close>

abbreviation audit_sb :: superblock where
  "audit_sb \<equiv> small_sb 102"

abbreviation audit_disk :: "bytes \<Rightarrow> bytes" where
  "audit_disk leaf \<equiv> small_disk 102 (zeros 3188) leaf"

abbreviation audit_sb_block :: bytes where
  "audit_sb_block \<equiv> small_block 102 (zeros 3188)"

lemma fits_audit_disk: "length leaf = 102 \<Longrightarrow> fits_memory (audit_disk leaf)"
  by (simp add: fits_memory_def)

lemma audit_disk_super: "audit_super crc (audit_disk leaf) = Some (audit_sb_block, audit_sb)"
  by (rule small_disk_super) simp

lemma audit_disk_block: "take 4096 (drop 65536 (audit_disk leaf)) = audit_sb_block"
  by (simp add: small_disk_def)

definition no_backup :: root_backup where
  "no_backup = \<lparr>rb_tree_root = 0, rb_tree_root_gen = 0, rb_fs_root = 0, rb_fs_root_gen = 0\<rparr>"

lemma no_backup_simps [simp]:
  "rb_tree_root no_backup = 0" "rb_tree_root_gen no_backup = 0"
  "rb_fs_root no_backup = 0" "rb_fs_root_gen no_backup = 0"
  by (simp_all add: no_backup_def)

lemma audit_disk_backups: "parse_backup_roots audit_sb_block = [no_backup, no_backup, no_backup, no_backup]"
proof -
  obtain pre where pre: "audit_sb_block = pre @ zeros 3188" "length pre = 908"
    by (rule small_block_split)
  have "fits_memory audit_sb_block" by (simp add: fits_memory_def)
  note eq = parse_backup_roots_eq [OF this]
  have "le_u64 audit_sb_block k = 0" if "908 \<le> k" for k
    unfolding pre(1) using that pre(2) by (simp add: le_u64_skip) (simp add: zeros_def read_simps)
  then have "backup_at audit_sb_block s = no_backup" for s
    by (simp add: no_backup_def backup_at_def Let_def)
  then have "parse_backup_roots audit_sb_block = map (\<lambda>s. no_backup) [0..<4]"
    unfolding eq by (intro map_cong) auto
  then show ?thesis by (simp add: upt_rec)
qed

lemma audit_disk_map: "walk_or_default crc (audit_disk leaf) audit_sb = []"
  by (rule small_disk_map) simp_all

lemma audit_disk_read:
  "length leaf = 102 \<Longrightarrow> read_node crc (audit_disk leaf) audit_sb [] 69632 = node_parse crc leaf"
  using small_disk_read [of "zeros 3188" leaf 102 69632 "[]" crc "[]"] by simp

lemma audit_disk_seeds: "sweep_seeds (audit_disk leaf) audit_sb = [69632]"
  by (simp add: sweep_seeds_def super_block_range audit_disk_block audit_disk_backups Let_def)

lemma audit_disk_fs_roots:
  assumes "node_parse crc leaf = Inr n" and "leaf_items n = []" and "length leaf = 102"
  shows "orphan_fs_roots crc (audit_disk leaf) audit_sb [] = []"
  using audit_disk_read [OF assms(3)] assms
  by (simp add: orphan_fs_roots_def super_block_range fs_tree_root_def audit_disk_block audit_disk_backups
      add_fs_root_def)

end
