(* ===== verification/Mount.thy ===== *)
theory Mount
  imports Vfs SmallDisk
begin

text \<open>
  The adapter over a whole image, from the source to the bytes of a file: the tree walk of a client
  of the \<open>FileSystem\<close> trait, its agreement with the reader's own path resolution, and a disk
  to mount.
\<close>

section \<open>Looking up a path name by name\<close>

fun vfs_walk :: "('o file_id \<Rightarrow> rstring) \<Rightarrow> btrfs_fs \<Rightarrow> 'o file_id \<Rightarrow> bytes list \<Rightarrow>
    'e vfs_error + 'o file_id option" where
  "vfs_walk dbg fs fid [] = Inr (Some fid)"
| "vfs_walk dbg fs fid (name # names) =
     try_res (vfs_lookup dbg fs fid name) (\<lambda>r.
       case r of None \<Rightarrow> Inr None | Some fid' \<Rightarrow> vfs_walk dbg fs fid' names)"

lemma vfs_walk_resolve:
  "resolve (fs_leaf fs) cur inode names = Some (oid, i) \<Longrightarrow>
     vfs_walk dbg fs (Opaque cur) names = Inr (Some (Opaque oid))"
  by (induction names arbitrary: cur inode)
    (auto simp: vfs_lookup_def oid_of_def bind_eq_Some_conv split: if_splits)

lemma resolve_inode:
  "resolve leaf cur inode names = Some (oid, i) \<Longrightarrow> read_inode leaf cur = Some inode \<Longrightarrow>
     read_inode leaf oid = Some i"
  by (induction names arbitrary: cur inode) (auto simp: bind_eq_Some_conv split: if_splits)

lemma file_size_inode: "file_size leaf oid = map_option i_size (read_inode leaf oid)"
  by (cases "find (\<lambda>(k, _). k_objectid k = oid \<and> k_type k = 1) (leaf_items leaf)")
    (auto simp: file_size_def read_inode_def inode_parse_def fs_consts)

lemma read_file_size:
  "read_file_from_leaf c leaf img m ss oid = Inr data \<Longrightarrow> read_inode leaf oid = Some i \<Longrightarrow>
     unat (i_size i) = length data"
  by (auto simp: read_file_from_leaf_Inr_iff file_size_inode)

lemma open_fs_leaf:
  assumes "image_source src content" and "fits_memory content" and "open_fs crc src = Inr fs"
  shows "fs_image fs = content" and "fs_tree_leaf crc content (fs_sb fs) (fs_map fs) = Inr (fs_leaf fs)"
proof -
  have "fill src 0 (replicate (unat (src_len src)) 0) = Inr content"
    using assms(1,2) by (rule image_source.fill_all)
  with assms(3) show "fs_image fs = content" "fs_tree_leaf crc content (fs_sb fs) (fs_map fs) = Inr (fs_leaf fs)"
    by (auto simp: open_fs_def Let_def try_res_Inr_iff fs_tree_leaf_def)
qed

section \<open>A disk to mount\<close>

text \<open>The root tree at 69632 and an FS tree at 70656, with the file \<open>hello\<close> in the root directory.\<close>

definition mount_root :: fs_root where
  "mount_root = \<lparr>fr_bytenr = 70656, fr_level = 0, fr_root_dirid = 256, fr_generation = 9\<rparr>"

definition mount_root_leaf :: bytes where
  "mount_root_leaf = encode_leaf (demo_header 1 0 1) (zeros 659)
     [(\<lparr>k_objectid = 5, k_type = 132, k_offset = 0\<rparr>, encode_root_item mount_root)]"

definition hello_entry :: dir_entry where
  "hello_entry = \<lparr> de_name = str ''hello'', de_child = 257, de_type = FileItem \<rparr>"

lemma hello_entry_simps [simp]:
  "de_name hello_entry = str ''hello''" "de_child hello_entry = 257" "de_type hello_entry = FileItem"
  "parse_dir_item (encode_dir_item hello_entry) = Some hello_entry"
  by (auto intro!: parse_dir_item_encode simp: hello_entry_def wf_dir_entry_def str_def valid_utf8_ascii)

definition mount_items :: "(disk_key \<times> bytes) list" where
  "mount_items =
     [(\<lparr>k_objectid = 256, k_type = 1, k_offset = 0\<rparr>, encode_inode (demo_inode 256 0x41ED)),
      (\<lparr>k_objectid = 256, k_type = 84, k_offset = 7\<rparr>,
        encode_dir_item hello_entry),
      (\<lparr>k_objectid = 257, k_type = 1, k_offset = 0\<rparr>, encode_inode (demo_inode 257 0x81A4)),
      (\<lparr>k_objectid = 257, k_type = 108, k_offset = 0\<rparr>, encode_inline (str ''world''))]"

definition mount_file_leaf :: bytes where
  "mount_file_leaf = encode_leaf (demo_header 5 0 4) (zeros 442) mount_items"

definition mount_disk :: bytes where
  "mount_disk = small_disk 1024 (zeros 3188) (mount_root_leaf @ mount_file_leaf)"

lemma mount_lengths [simp]: "length mount_root_leaf = 1024" "length mount_file_leaf = 1024"
  by (simp_all add: mount_root_leaf_def mount_file_leaf_def encode_leaf_def encode_item_header_def
      mount_items_def encode_dir_item_def encode_inline_def str_def)

lemma mount_nodes:
  obtains root leaf where "node_parse crc mount_root_leaf = Inr root" "node_parse crc mount_file_leaf = Inr leaf"
    "leaf_items root = [(\<lparr>k_objectid = 5, k_type = 132, k_offset = 0\<rparr>, encode_root_item mount_root)]"
    "leaf_items leaf = mount_items"
proof -
  have wf: "wf_leaf (demo_header 1 0 1) (zeros 659)
      [(\<lparr>k_objectid = 5, k_type = 132, k_offset = 0\<rparr>, encode_root_item mount_root)]"
    "wf_leaf (demo_header 5 0 4) (zeros 442) mount_items"
    by (simp_all add: wf_leaf_def mount_items_def encode_dir_item_def encode_inline_def str_def)
  obtain root leaf where n: "node_parse crc mount_root_leaf = Inr root" "node_parse crc mount_file_leaf = Inr leaf"
    using node_parse_ok_iff [of crc mount_root_leaf] node_parse_ok_iff [of crc mount_file_leaf] by auto
  show thesis
    using n wf encode_leaf_items(2)
    by (intro that [OF n]) (auto simp: mount_root_leaf_def mount_file_leaf_def)
qed

lemma mount_reads:
  "read_node crc mount_disk (small_sb 1024) [] 69632 = node_parse crc mount_root_leaf"
  "read_node crc mount_disk (small_sb 1024) [] 70656 = node_parse crc mount_file_leaf"
  using small_disk_read [of "zeros 3188" mount_root_leaf 1024 69632 "[]" crc mount_file_leaf]
    small_disk_read [of "zeros 3188" mount_file_leaf 1024 70656 mount_root_leaf crc "[]"]
  by (simp_all add: mount_disk_def)

lemma mount_tree_root: "fs_tree_root crc mount_disk (small_sb 1024) [] = Inr mount_root"
proof -
  obtain root leaf where "node_parse crc mount_root_leaf = Inr root"
    "leaf_items root = [(\<lparr>k_objectid = 5, k_type = 132, k_offset = 0\<rparr>, encode_root_item mount_root)]"
    by (rule mount_nodes)
  then show ?thesis
    by (simp add: fs_tree_root_def mount_reads fs_consts fs_root_parse_encode)
qed

definition mounted :: "node \<Rightarrow> btrfs_fs" where
  "mounted leaf = \<lparr> fs_image = mount_disk, fs_sb = small_sb 1024, fs_map = [], fs_leaf = leaf, fs_root_dirid = 256 \<rparr>"

lemma mount_super: "superblock_parse crc (drop 65536 mount_disk) = Inr (small_sb 1024)"
  by (simp add: mount_disk_def small_disk_def small_block_append small_block_parse)

lemma mount_walk: "walk crc mount_disk (small_sb 1024) = Inr []"
  by (simp add: mount_disk_def small_disk_walk)

lemma fits_mount_disk: "fits_memory mount_disk"
  by (simp add: mount_disk_def fits_memory_def)

lemma open_mount_disk:
  "node_parse crc mount_file_leaf = Inr leaf \<Longrightarrow> open_fs crc (mem_source mount_disk) = Inr (mounted leaf)"
  unfolding open_fs_iff [OF mem.image_source_axioms fits_mount_disk]
  by (simp add: mounted_def mount_super mount_walk mount_tree_root mount_root_def mount_reads)
    (simp add: mount_disk_def)

lemma mounted_simps [simp]:
  "fs_leaf (mounted leaf) = leaf" "fs_sb (mounted leaf) = small_sb 1024" "fs_map (mounted leaf) = []"
  "fs_root_dirid (mounted leaf) = 256"
  by (simp_all add: mounted_def)

lemma mount_path:
  assumes "leaf_items leaf = mount_items"
  shows "read_by_path leaf (str ''/hello'') = Some (257, demo_inode 257 0x81A4)"
proof -
  have "list_dir leaf 256 = [hello_entry]"
    by (simp add: list_dir_eq assms mount_items_def dir_item_entries_def List.map_filter_simps is_dir_key_def
        fs_consts)
  moreover have "read_inode leaf 256 = Some (demo_inode 256 0x41ED)" "read_inode leaf 257 = Some (demo_inode 257 0x81A4)"
    using inode_parse_encode [of "demo_inode 256 0x41ED"] inode_parse_encode [of "demo_inode 257 0x81A4"]
    by (simp_all add: read_inode_def assms mount_items_def INODE_ITEM_KEY_def)
  moreover have "components (str ''/hello'') = [str ''hello'']"
    by (simp add: components_def str_def)
  ultimately show ?thesis
    by (simp add: read_by_path_def FS_TREE_ROOT_DIR_OBJECTID_def is_dir_def S_IFMT_def S_IFDIR_def)
qed

lemma mount_content:
  assumes "node_parse crc mount_file_leaf = Inr leaf" and "leaf_items leaf = mount_items"
  shows "read_by_path_content crc c mount_disk (small_sb 1024) [] (str ''/hello'') = Inr (str ''world'')"
proof -
  have "read_file_from_leaf c leaf img m ss 257 = Inr (str ''world'')" for img m ss
    by (rule read_inline_file [where i = "demo_inode 257 0x81A4"])
      (simp_all add: assms mount_items_def demo_inode_def str_def)
  then show ?thesis
    using assms(1) by (simp add: read_by_path_content_def fs_tree_leaf_def mount_tree_root mount_reads mount_root_def
        mount_path [OF assms(2)] del: str_Cons)
qed

section \<open>Properties\<close>

text \<open>
  Claim C28. Mounting: whatever the source's reads deliver per call, \<open>open\<close> succeeds exactly when
  the superblock, the chunk map, the FS-tree root and its leaf can be read from the source's
  content, and the mounted state holds exactly those.
\<close>

theorem open_fs_exact:
  assumes "image_source src content" and "fits_memory content"
  shows "open_fs crc src = Inr fs \<longleftrightarrow>
    fs_image fs = content \<and> 65536 \<le> length content \<and>
    superblock_parse crc (drop 65536 content) = Inr (fs_sb fs) \<and>
    walk crc content (fs_sb fs) = Inr (fs_map fs) \<and>
    (\<exists>root. fs_tree_root crc content (fs_sb fs) (fs_map fs) = Inr root \<and>
       read_node crc content (fs_sb fs) (fs_map fs) (fr_bytenr root) = Inr (fs_leaf fs) \<and>
       fs_root_dirid fs = fr_root_dirid root)"
  using assms by (rule open_fs_iff)

theorem open_fs_exact_witness:
  "\<exists>leaf. leaf_items leaf = mount_items \<and>
     open_fs crc32c_ref (mem_source mount_disk :: unit source) = Inr (mounted leaf)"
proof -
  obtain root leaf where n: "node_parse crc32c_ref mount_file_leaf = Inr leaf" "leaf_items leaf = mount_items"
    by (rule mount_nodes)
  have "open_fs crc32c_ref (mem_source mount_disk :: unit source) = Inr (mounted leaf)"
    unfolding open_fs_exact [OF mem.image_source_axioms fits_mount_disk]
    using n(1) by (simp add: mount_super mount_walk mount_tree_root mount_root_def mount_reads)
      (simp add: mounted_def mount_disk_def)
  with n show ?thesis by blast
qed

text \<open>
  Claim C15. The adapter and the reader agree on files by path: on a mounted image whose FS tree
  has its root directory at 256, where \<open>read_by_path_content\<close> yields the content of a path, looking up the
  path's names one by one from \<open>root\<close> arrives at a file whose \<open>meta\<close> states the content's length
  and of which \<open>read_at\<close> delivers, at any offset and for any buffer, the window of that content.
\<close>

theorem mounted_path_read:
  assumes "image_source src content" and "fits_memory content" and "open_fs crc src = Inr fs"
    and "fs_root_dirid fs = 256"
    and "read_by_path_content crc c content (fs_sb fs) (fs_map fs) path = Inr data"
  shows "\<exists>oid meta. vfs_walk dbg fs (vfs_root fs) (components path) = Inr (Some (Opaque oid)) \<and>
    vfs_meta dbg fs (Opaque oid) = Inr meta \<and> unat (fm_size meta) = length data \<and>
    vfs_read_at crc c dbg dbg_s fs (Opaque oid) DefaultStream off buf =
      (let n = min (length data - unat off) (length buf) in
       Inr (n, take n (drop (unat off) data) @ drop n buf))"
proof -
  note leaf = open_fs_leaf [OF assms(1-3)]
  from assms(5) obtain oid i where path: "read_by_path (fs_leaf fs) path = Some (oid, i)"
    and data: "read_file_from_leaf c (fs_leaf fs) content (fs_map fs) (sb_sectorsize (fs_sb fs)) oid = Inr data"
    by (auto simp: read_by_path_content_def try_res_Inr_iff leaf ok_or_def split: option.splits)
  from path obtain inode where root: "read_inode (fs_leaf fs) 256 = Some inode"
    and res: "resolve (fs_leaf fs) 256 inode (components path) = Some (oid, i)"
    by (auto simp: read_by_path_def bind_eq_Some_conv FS_TREE_ROOT_DIR_OBJECTID_def)
  have inode: "read_inode (fs_leaf fs) oid = Some i"
    by (rule resolve_inode [OF res root])
  have "read_file crc c (fs_image fs) (fs_sb fs) (fs_map fs) oid = Inr data"
    by (simp add: read_file_def leaf data)
  then show ?thesis
    using vfs_walk_resolve [OF res, of dbg] read_file_size [OF data inode] inode assms(4)
    by (auto simp: vfs_root_def read_at_default vfs_meta_def oid_of_def Let_def)
qed

theorem mounted_path_read_witness:
  "\<exists>fs oid. open_fs crc32c_ref (mem_source mount_disk :: unit source) = Inr fs \<and>
     vfs_walk (\<lambda>_ :: unit file_id. []) fs (vfs_root fs) [str ''hello''] =
       (Inr (Some (Opaque oid)) :: unit vfs_error + unit file_id option) \<and>
     vfs_read_at crc32c_ref demo_codecs (\<lambda>_ :: unit file_id. []) (\<lambda>_ :: unit stream_id. []) fs (Opaque oid)
       DefaultStream 1 [0, 0, 0] = (Inr (3, str ''orl'') :: unit vfs_error + nat \<times> bytes)"
proof -
  obtain root leaf where n: "node_parse crc32c_ref mount_file_leaf = Inr leaf" "leaf_items leaf = mount_items"
    by (rule mount_nodes)
  note fs = open_mount_disk [OF n(1)]
  have "components (str ''/hello'') = [str ''hello'']"
    by (simp add: components_def str_def)
  note comps = this
  have "read_by_path_content crc32c_ref demo_codecs mount_disk (fs_sb (mounted leaf)) (fs_map (mounted leaf))
      (str ''/hello'') = Inr (str ''world'')"
    using mount_content [OF n] by simp
  note read = mounted_path_read [OF mem.image_source_axioms fits_mount_disk fs mounted_simps(4) this,
      of "\<lambda>_ :: unit file_id. []" "\<lambda>_ :: unit stream_id. []" 1 "[0, 0, 0]", unfolded comps]
  obtain oid where "vfs_walk (\<lambda>_ :: unit file_id. []) (mounted leaf) (vfs_root (mounted leaf)) [str ''hello''] =
       (Inr (Some (Opaque oid)) :: unit vfs_error + unit file_id option)"
    "vfs_read_at crc32c_ref demo_codecs (\<lambda>_ :: unit file_id. []) (\<lambda>_ :: unit stream_id. []) (mounted leaf)
       (Opaque oid) DefaultStream 1 [0, 0, 0] = (Inr (3, str ''orl'') :: unit vfs_error + nat \<times> bytes)"
    using read by (auto simp: numeral_3_eq_3)
  with fs show ?thesis by blast
qed

end
