(* ===== verification/ImageAudit.thy ===== *)
theory ImageAudit
  imports SmallDisk
begin

text \<open>
  Properties of the whole audit, over an image: when it is silent, that it reports a tampered
  node, that the sweep misses no reachable corrupted node within its budget, and that the
  evidence of a reported anomaly determines it. They are evaluated on the small disk with one leaf,
  once intact and once with a byte of the leaf changed.
\<close>

section \<open>Edits of a tree block\<close>

lemma reads_overwrite:
  assumes "off + length e \<le> length b" and "off + length e \<le> k \<or> k + n \<le> off"
  shows "get_range (overwrite b off e) k (k + n) = get_range b k (k + n)"
  using assms by (auto intro: get_range_overwrite_before get_range_overwrite_after)

lemma header_ids_overwrite:
  assumes "off + length e \<le> length b" and "off + length e \<le> 32 \<or> 56 \<le> off" and "56 \<le> length b"
  shows "le_u64 (overwrite b off e) 0x30 = le_u64 b 0x30"
    and "bytes_at (overwrite b off e) 0x20 16 = bytes_at b 0x20 16"
proof -
  have "get_range (overwrite b off e) 48 (48 + 8) = get_range b 48 (48 + 8)"
    using assms by (intro reads_overwrite) auto
  then show "le_u64 (overwrite b off e) 0x30 = le_u64 b 0x30" by (simp add: le_u64_def)
  have "get_range (overwrite b off e) 32 (32 + 16) = get_range b 32 (32 + 16)"
    using assms by (intro reads_overwrite) auto
  then show "bytes_at (overwrite b off e) 0x20 16 = bytes_at b 0x20 16"
    using assms by (simp add: bytes_at_in_range get_range_def)
qed

text \<open>An edit outside the identifying fields leaves a genuine node that fails its checksum.\<close>

lemma edited_node:
  assumes "checksum crc" and "verify_superblock_crc32c crc good (length good)" and "101 \<le> length good"
    and "off + length e \<le> 4 \<or> 56 \<le> off \<and> off + length e \<le> length good \<and> length e \<le> 4"
    and "overwrite good off e \<noteq> good"
  obtains n where "node_parse crc (overwrite good off e) = Inr n"
    and "n_crc_valid n = Some False" and "h_bytenr (n_header n) = le_u64 good 0x30"
    and "h_fsid (n_header n) = bytes_at good 0x20 16"
proof -
  have fit: "off + length e \<le> length good" using assms(3,4) by auto
  then obtain n where n: "node_parse crc (overwrite good off e) = Inr n"
    using node_parse_ok_iff [of crc "overwrite good off e"] assms(3) by auto
  have "\<not> verify_superblock_crc32c crc (overwrite good off e) (length good)"
    using assms(4) by (intro checksum.edit_detected [OF assms(1,2) _ assms(5)]) auto
  with n fit have "n_crc_valid n = Some False"
    by (simp add: node_parse_Inr_iff)
  moreover have "header_parse (overwrite good off e) = Some (n_header n)"
    using n by (simp add: node_parse_Inr_iff)
  note fields = header_parse_fields [OF this]
  ultimately show thesis
    using n fit assms(3,4) by (intro that [of n]) (auto simp: fields header_ids_overwrite)
qed

section \<open>The demonstration leaves\<close>

definition audit_leaf :: bytes where
  "audit_leaf = seal crc32c_ref (encode_leaf (demo_header 5 0 0\<lparr>h_bytenr := 69632\<rparr>) [0] [])"

definition bad_leaf :: bytes where
  "bad_leaf = overwrite audit_leaf 101 [1]"

lemma length_audit_leaf [simp]: "length audit_leaf = 102"
  by (simp add: audit_leaf_def encode_leaf_def wf_header_def demo_header_def)

lemma audit_leaf_reads:
  "le_u64 audit_leaf 0x30 = 69632" "bytes_at audit_leaf 0x20 16 = replicate 16 1"
  "drop 101 audit_leaf = [0]" "verify_superblock_crc32c crc32c_ref audit_leaf 102"
proof -
  let ?l = "encode_leaf (demo_header 5 0 0\<lparr>h_bytenr := 69632\<rparr>) [0] []"
  have len: "length ?l = 102"
    by (simp add: encode_leaf_def wf_header_def demo_header_def)
  have d: "drop 32 audit_leaf = drop 32 ?l"
    using len by (simp add: audit_leaf_def drop_seal)
  have "le_u64 audit_leaf 0x30 = le_u64 (drop 32 audit_leaf) 16"
    by (simp add: le_u64_drop)
  also have "\<dots> = le_u64 ?l 0x30"
    unfolding d using len by (simp add: le_u64_drop)
  also have "\<dots> = 69632"
    by (simp add: encode_leaf_def encode_header_def demo_header_def read_simps)
  finally show "le_u64 audit_leaf 0x30 = 69632" .
  have "bytes_at audit_leaf 0x20 16 = bytes_at (drop 32 audit_leaf) 0 16"
    by (simp add: bytes_at_drop)
  also have "\<dots> = bytes_at ?l 0x20 16"
    unfolding d using len by (simp add: bytes_at_drop)
  also have "\<dots> = replicate 16 1"
    by (simp add: encode_leaf_def encode_header_def demo_header_def read_simps zeros_def)
  finally show "bytes_at audit_leaf 0x20 16 = replicate 16 1" .
  show "drop 101 audit_leaf = [0]"
    using len by (simp add: audit_leaf_def drop_seal)
      (simp add: encode_leaf_def wf_header_def demo_header_def)
  show "verify_superblock_crc32c crc32c_ref audit_leaf 102"
    using verify_seal [of ?l crc32c_ref] len by (simp add: audit_leaf_def)
qed

lemma bad_leaf_differs: "bad_leaf \<noteq> audit_leaf" and length_bad_leaf [simp]: "length bad_leaf = 102"
proof -
  have "drop 101 bad_leaf = [1]" by (simp add: bad_leaf_def overwrite_def)
  then show "bad_leaf \<noteq> audit_leaf" using audit_leaf_reads(3) by auto
qed (simp add: bad_leaf_def)

lemma audit_leaf_node:
  obtains n where "node_parse crc32c_ref audit_leaf = Inr n" and "n_crc_valid n = Some True"
    and "is_leaf n" and "leaf_items n = []" and "key_ptrs n = []"
    and "h_bytenr (n_header n) = 69632" and "h_fsid (n_header n) = replicate 16 1"
proof -
  obtain n where n: "node_parse crc32c_ref audit_leaf = Inr n"
    using node_parse_ok_iff [of crc32c_ref audit_leaf] by auto
  then have "header_parse audit_leaf = Some (n_header n)" by (simp add: node_parse_Inr_iff)
  note fields = header_parse_fields [OF this]
  let ?l = "encode_leaf (demo_header 5 0 0\<lparr>h_bytenr := 69632\<rparr>) [0] []"
  have len: "length ?l = 102" by (simp add: encode_leaf_def wf_header_def demo_header_def)
  have d: "drop 32 audit_leaf = drop 32 ?l" using len by (simp add: audit_leaf_def drop_seal)
  have "le_u32 audit_leaf 0x60 = le_u32 (drop 32 audit_leaf) 64" "u8_at audit_leaf 0x64 = u8_at (drop 32 audit_leaf) 68"
    by (simp_all add: le_u32_drop u8_at_drop)
  then have "le_u32 audit_leaf 0x60 = 0" "u8_at audit_leaf 0x64 = 0"
    unfolding d using len
    by (simp_all add: le_u32_drop u8_at_drop)
      (simp_all add: encode_leaf_def encode_header_def demo_header_def read_simps)
  then have "leaf_items n = []" "is_leaf n"
    using n by (auto simp: node_parse_Inr_iff fields leaf_items_def is_leaf_def parse_items_def)
  then show thesis
    using n audit_leaf_reads by (intro that [OF n]) (auto simp: node_parse_Inr_iff fields key_ptrs_leaf)
qed

lemma bad_leaf_node:
  obtains n where "node_parse crc32c_ref bad_leaf = Inr n" and "n_crc_valid n = Some False"
    and "h_bytenr (n_header n) = 69632" and "h_fsid (n_header n) = replicate 16 1"
  using edited_node [OF ref.checksum_axioms, of audit_leaf 101 "[1]"] audit_leaf_reads bad_leaf_differs
  by (auto simp: bad_leaf_def)

lemma bad_leaf_header: "header_parse bad_leaf = header_parse audit_leaf"
proof -
  have t: "take 101 bad_leaf = take 101 audit_leaf"
    by (simp add: bad_leaf_def take_overwrite_before)
  have r8: "le_u64 (take 101 b) k = le_u64 b k" if "k + 8 \<le> 101" "length b = 102" for b k
    using that le_u64_append [of k "take 101 b" "drop 101 b"] by simp
  have r4: "le_u32 (take 101 b) k = le_u32 b k" if "k + 4 \<le> 101" "length b = 102" for b k
    using that le_u32_append [of k "take 101 b" "drop 101 b"] by simp
  have u: "u8_at (take 101 b) 100 = u8_at b 100" if "length b = 102" for b
    using that by (simp add: u8_at_def)
  have w: "bytes_at (take 101 b) k m = bytes_at b k m" if "k + m \<le> 101" "length b = 102" for b k m
    using that by (simp add: bytes_at_in_range drop_take min_def)
  have "le_u64 bad_leaf k = le_u64 audit_leaf k" if "k + 8 \<le> 101" for k
    using r8 [OF that, of bad_leaf] r8 [OF that, of audit_leaf] t by simp
  moreover have "le_u32 bad_leaf k = le_u32 audit_leaf k" if "k + 4 \<le> 101" for k
    using r4 [OF that, of bad_leaf] r4 [OF that, of audit_leaf] t by simp
  moreover have "u8_at bad_leaf 100 = u8_at audit_leaf 100"
    using u [of bad_leaf] u [of audit_leaf] t by simp
  moreover have "bytes_at bad_leaf k m = bytes_at audit_leaf k m" if "k + m \<le> 101" for k m
    using w [OF that, of bad_leaf] w [OF that, of audit_leaf] t by simp
  ultimately show ?thesis
    by (simp add: header_parse_def BTRFS_HEADER_SIZE_def)
qed

lemma bad_leaf_items:
  assumes "node_parse crc32c_ref bad_leaf = Inr n"
  shows "is_leaf n" and "leaf_items n = []"
proof -
  obtain n' where n': "node_parse crc32c_ref audit_leaf = Inr n'" "is_leaf n'" "leaf_items n' = []"
    by (rule audit_leaf_node)
  have h: "n_header n = n_header n'"
    using assms n'(1) bad_leaf_header by (simp add: node_parse_Inr_iff)
  then show leaf: "is_leaf n"
    using assms n'(1,2) by (simp add: is_leaf_iff)
  have "length (leaf_items n) = length (leaf_items n')"
    using assms n' leaf h length_bad_leaf length_audit_leaf
    by (simp add: node_parse_Inr_iff is_leaf_def leaf_items_def parse_items_def Let_def split: if_splits)
  then show "leaf_items n = []" using n'(3) by simp
qed

lemma audit_disk_view:
  assumes "node_parse crc leaf = Inr n" and "length leaf = 102"
    and "h_bytenr (n_header n) = 69632" and "h_fsid (n_header n) = replicate 16 1"
  shows "sweep_view crc (audit_disk leaf) audit_sb [] 69632 = Some n"
  using audit_disk_read [OF assms(2)] assms by (simp add: sweep_view_def)

lemma audit_disk_covered:
  assumes "sweep_view crc (audit_disk leaf) audit_sb [] 69632 = Some n" and "is_leaf n" and "length leaf = 102"
  shows "sweep_covered crc (audit_disk leaf) audit_sb [] {69632}"
  using assms by (simp add: sweep_covered_def audit_disk_seeds sweep_children_def key_ptrs_leaf)

lemma tampered_node_reported:
  assumes "checksum crc" and "fits_memory img" and "audit_super crc img = Some (blk, sb)"
    and m: "m = walk_or_default crc img sb"
    and "sweep_covered crc img sb m R" and "sweep_reach crc img sb m l"
    and "node_phys sb m l = Some (d, p)" and "unat p + unat (sb_nodesize sb) \<le> length img"
    and block: "take (unat (sb_nodesize sb)) (drop (unat p) img) = overwrite good off e"
    and "verify_superblock_crc32c crc good (length good)" and "101 \<le> length good"
    and "le_u64 good 0x30 = l" and "bytes_at good 0x20 16 = sb_fsid sb"
    and "off + length e \<le> 4 \<or> 56 \<le> off \<and> off + length e \<le> length good \<and> length e \<le> 4"
    and "overwrite good off e \<noteq> good"
  shows "anomaly_new (NodeCrcMismatch l (node_offset m l)) \<in> set (audit_image crc img)"
proof -
  obtain n where n: "node_parse crc (overwrite good off e) = Inr n" "n_crc_valid n = Some False"
      "h_bytenr (n_header n) = l" "h_fsid (n_header n) = sb_fsid sb"
    using edited_node [OF assms(1,10,11,14,15)] assms(12,13) by auto
  have "read_node crc img sb m l = Inr n"
    unfolding read_node_Inr_iff [OF assms(2)] using assms(7,8) n(1)
    by (intro exI [of _ d] exI [of _ p]) (simp add: block)
  then have "anomaly_new (NodeCrcMismatch l (node_offset m l)) \<in> set (sweep_found crc img sb m l)"
    using n by (simp add: sweep_found_iff sweep_view_def)
  moreover have "l \<in> set (sweep_order crc img sb m)"
    using sweep_order_complete [OF assms(5)] assms(6) by blast
  ultimately show ?thesis
    unfolding audit_image_parts assms(3) by (auto simp: m Let_def)
qed

lemma bad_disk_node:
  "sweep_covered crc32c_ref (audit_disk bad_leaf) audit_sb [] {69632}"
  "sweep_reach crc32c_ref (audit_disk bad_leaf) audit_sb [] 69632"
proof -
  obtain n where n: "node_parse crc32c_ref bad_leaf = Inr n" "n_crc_valid n = Some False"
      "h_bytenr (n_header n) = 69632" "h_fsid (n_header n) = replicate 16 1"
    by (rule bad_leaf_node)
  have view: "sweep_view crc32c_ref (audit_disk bad_leaf) audit_sb [] 69632 = Some n"
    using n by (intro audit_disk_view) auto
  show "sweep_covered crc32c_ref (audit_disk bad_leaf) audit_sb [] {69632}"
    by (rule audit_disk_covered [OF view bad_leaf_items(1) [OF n(1)] length_bad_leaf])
  show "sweep_reach crc32c_ref (audit_disk bad_leaf) audit_sb [] 69632"
    by (auto simp: sweep_reach_def audit_disk_seeds intro: reach.seed)
qed

lemma bad_disk_block: "take 102 (drop 69632 (audit_disk bad_leaf)) = bad_leaf"
  by (simp add: small_disk_def)

lemma bad_disk_reported:
  "anomaly_new (NodeCrcMismatch 69632 (node_offset [] 69632)) \<in> set (audit_image crc32c_ref (audit_disk bad_leaf))"
  using bad_disk_node bad_disk_block audit_leaf_reads bad_leaf_differs
  by (intro tampered_node_reported [OF ref.checksum_axioms fits_audit_disk audit_disk_super _ bad_disk_node(1),
        where good = audit_leaf and off = 101 and e = "[1]" and p = 69632 and d = 0])
    (simp_all add: audit_disk_map small_disk_phys bad_leaf_def [symmetric])

lemma audit_kinds:
  assumes "a \<in> set (audit_image crc img)"
  shows "a = anomaly_new (an_kind a) \<and> reported_kind (an_kind a)"
proof -
  obtain blk sb where sb: "audit_super crc img = Some (blk, sb)"
    using assms by (cases "audit_super crc img") (auto simp: audit_image_parts)
  define m where "m = walk_or_default crc img sb"
  have "fits_memory blk" using sb by (auto simp: audit_super_Some fits_memory_def)
  then have slots: "length (parse_backup_roots blk) \<le> 4" by (simp add: parse_backup_roots_eq)
  have "a = anomaly_new (an_kind a) \<and> reported_kind (an_kind a)"
    if "a \<in> set (check_backup_root g len (slot, b))" "(slot, b) \<in> set (List.enumerate 0 (parse_backup_roots blk))"
    for g len slot b
  proof -
    have "slot < 4" using that(2) slots by (auto simp: in_set_enumerate_eq)
    with that(1) show ?thesis
      by (auto simp: check_backup_root_def backup_reasons_def split: if_splits)
  qed
  moreover have "a = anomaly_new (an_kind a) \<and> reported_kind (an_kind a)"
    if "a \<in> set (root_unreadable crc img sb m f l)" "f \<in> {''root'', ''chunk_root''}" for f l
    using that by (auto simp: root_unreadable_def split: if_splits)
  moreover have "a = anomaly_new (an_kind a) \<and> reported_kind (an_kind a)"
    if "a \<in> set (sweep_found crc img sb m l)" for l
    using that by (auto simp: sweep_found_iff)
  moreover have "a = anomaly_new (an_kind a) \<and> reported_kind (an_kind a)" if "a \<in> set (orphans_of is)" for "is"
    using that by (auto simp: orphans_of_def)
  moreover have "a = anomaly_new (an_kind a) \<and> reported_kind (an_kind a)"
    if "a \<in> set (if c then [anomaly_new (SuperblockCrcMismatch 65536)] else [])" for c
    using that by (auto split: if_splits)
  ultimately show ?thesis
    using assms unfolding audit_image_parts sb option.case prod.case Let_def m_def [symmetric] set_append
    by (auto simp del: reported_kind.simps)
qed

section \<open>When a check has nothing to say\<close>

lemma root_unreadable_Nil:
  "root_unreadable crc img sb m f l = [] \<longleftrightarrow> l = 0 \<or> is_ok (read_node crc img sb m l)"
  by (simp add: root_unreadable_def)

lemma sweep_Nil:
  "(\<forall>l\<in>set ls. sweep_found crc img sb m l = []) \<longleftrightarrow>
     \<not> (\<exists>l n. l \<in> set ls \<and> read_node crc img sb m l = Inr n \<and> h_bytenr (n_header n) = l \<and>
          h_fsid (n_header n) = sb_fsid sb \<and> n_crc_valid n = Some False)"
proof -
  have "sweep_found crc img sb m l = [] \<longleftrightarrow>
      \<not> (\<exists>n. read_node crc img sb m l = Inr n \<and> h_bytenr (n_header n) = l \<and>
           h_fsid (n_header n) = sb_fsid sb \<and> n_crc_valid n = Some False)" for l
    by (cases "read_node crc img sb m l") (auto simp: sweep_found_def sweep_view_def)
  then show ?thesis by auto
qed

lemma backups_Nil:
  "(\<forall>sb\<in>set (List.enumerate k bs). check_backup_root g len sb = []) \<longleftrightarrow> list_all (backup_sane g len) bs"
  by (induction bs arbitrary: k) (simp_all add: check_backup_root_Nil_iff)

lemma orphans_Nil:
  "orphans_of (first_by (\<lambda>i. i) {} (concat (map (root_orphans crc img sb m) ls))) = [] \<longleftrightarrow>
     \<not> (\<exists>l leaf i data. l \<in> set ls \<and> read_node crc img sb m l = Inr leaf \<and> h_owner (n_header leaf) = 5 \<and>
          (\<lparr>k_objectid = ORPHAN_OBJECTID, k_type = 48, k_offset = i\<rparr>, data) \<in> set (leaf_items leaf))"
proof -
  have "first_by (\<lambda>i. i) {} xs = [] \<longleftrightarrow> xs = []" for xs :: "u64 list"
    by (cases xs) simp_all
  moreover have "root_orphans crc img sb m l = [] \<longleftrightarrow>
      \<not> (\<exists>leaf i data. read_node crc img sb m l = Inr leaf \<and> h_owner (n_header leaf) = 5 \<and>
           (\<lparr>k_objectid = ORPHAN_OBJECTID, k_type = 48, k_offset = i\<rparr>, data) \<in> set (leaf_items leaf))" for l
  proof (cases "read_node crc img sb m l")
    case (Inr leaf)
    have "orphan_inodes its = [] \<longleftrightarrow> \<not> (\<exists>i. i \<in> set (orphan_inodes its))" for its
      by (cases "orphan_inodes its") auto
    with Inr show ?thesis by (simp add: root_orphans_def orphan_inodes_iff)
  qed (simp add: root_orphans_def)
  ultimately show ?thesis by (simp add: orphans_of_def) blast
qed

section \<open>Properties\<close>

text \<open>
  Claim C3. Completeness of the checksum sweep: when the pushes over the reachable nodes stay
  within the budget of 8192 pops, the mismatches reported are exactly the reachable nodes that
  parse, name their address and this file system's id, and fail their checksum.
\<close>

theorem sweep_complete:
  assumes "sweep_covered crc img sb m R"
  shows "set (sweep_node_crcs crc [] img sb m) =
     {anomaly_new (NodeCrcMismatch l (node_offset m l)) | l n.
        sweep_reach crc img sb m l \<and> read_node crc img sb m l = Inr n \<and>
        h_bytenr (n_header n) = l \<and> h_fsid (n_header n) = sb_fsid sb \<and> n_crc_valid n = Some False}"
proof -
  have "a \<in> set (sweep_node_crcs crc [] img sb m) \<longleftrightarrow>
      (\<exists>l. sweep_reach crc img sb m l \<and> a \<in> set (sweep_found crc img sb m l))" for a
    using sweep_order_complete [OF assms] by (auto simp: sweep_node_crcs_eq sweep_order_def)
  moreover have "a \<in> set (sweep_found crc img sb m l) \<longleftrightarrow>
      (\<exists>n. a = anomaly_new (NodeCrcMismatch l (node_offset m l)) \<and> read_node crc img sb m l = Inr n \<and>
        h_bytenr (n_header n) = l \<and> h_fsid (n_header n) = sb_fsid sb \<and> n_crc_valid n = Some False)" for a l
    by (cases "read_node crc img sb m l") (auto simp: sweep_found_iff sweep_view_def)
  ultimately show ?thesis by blast
qed

theorem sweep_complete_witness:
  "set (sweep_node_crcs crc32c_ref [] (audit_disk bad_leaf) audit_sb []) = {anomaly_new (NodeCrcMismatch 69632 69632)}"
proof -
  obtain n where n: "node_parse crc32c_ref bad_leaf = Inr n" "n_crc_valid n = Some False"
      "h_bytenr (n_header n) = 69632" "h_fsid (n_header n) = replicate 16 1"
    by (rule bad_leaf_node)
  have view: "sweep_view crc32c_ref (audit_disk bad_leaf) audit_sb [] 69632 = Some n"
    using n by (intro audit_disk_view) auto
  note cov = audit_disk_covered [OF this bad_leaf_items(1) [OF n(1)] length_bad_leaf]
  have "sweep_reach crc32c_ref (audit_disk bad_leaf) audit_sb [] l \<longleftrightarrow> l = 69632" for l
  proof
    assume "sweep_reach crc32c_ref (audit_disk bad_leaf) audit_sb [] l"
    then show "l = 69632"
      unfolding sweep_reach_def
      by (induction rule: reach.induct)
        (use view bad_leaf_items(1) [OF n(1)] in \<open>auto simp: audit_disk_seeds sweep_children_def key_ptrs_leaf\<close>)
  qed (auto simp: sweep_reach_def audit_disk_seeds intro: reach.seed)
  moreover have "read_node crc32c_ref (audit_disk bad_leaf) audit_sb [] 69632 = Inr n"
    using n audit_disk_read by simp
  ultimately show ?thesis
    using n sweep_complete [OF cov] by (auto simp: node_offset_def)
qed

text \<open>
  Claim C1. Tampering with a tree node does not go unnoticed: let a block of the image differ
  from a genuine node, one that verified and names its address and file system, by an edit of at
  most four bytes in the stored digest or behind the identifying fields. If the node is reachable
  and the budget covers the sweep, \<open>audit_image\<close> reports a checksum mismatch for its address.
\<close>

theorem audit_reports_tampered_node:
  assumes "checksum crc" and "fits_memory img" and "audit_super crc img = Some (blk, sb)"
    and m: "m = walk_or_default crc img sb"
    and "sweep_covered crc img sb m R" and "sweep_reach crc img sb m l"
    and "node_phys sb m l = Some (d, p)" and "unat p + unat (sb_nodesize sb) \<le> length img"
    and block: "take (unat (sb_nodesize sb)) (drop (unat p) img) = overwrite good off e"
    and "verify_superblock_crc32c crc good (length good)" and "101 \<le> length good"
    and "le_u64 good 0x30 = l" and "bytes_at good 0x20 16 = sb_fsid sb"
    and "off + length e \<le> 4 \<or> 56 \<le> off \<and> off + length e \<le> length good \<and> length e \<le> 4"
    and "overwrite good off e \<noteq> good"
  shows "anomaly_new (NodeCrcMismatch l (node_offset m l)) \<in> set (audit_image crc img)"
  using assms by (rule tampered_node_reported)

theorem audit_reports_tampered_node_witness:
  "anomaly_new (NodeCrcMismatch 69632 (node_offset [] 69632)) \<in> set (audit_image crc32c_ref (audit_disk bad_leaf))"
  using bad_disk_node bad_disk_block audit_leaf_reads bad_leaf_differs
  by (intro audit_reports_tampered_node [OF ref.checksum_axioms fits_audit_disk audit_disk_super _ bad_disk_node(1),
        where good = audit_leaf and off = 101 and e = "[1]" and p = 69632 and d = 0])
    (simp_all add: audit_disk_map small_disk_phys bad_leaf_def [symmetric])

text \<open>
  Claim C4. The audit is silent exactly on an image without a superblock, and on one whose
  superblock does not fail its checksum, whose nonzero roots can be read, on which the sweep
  meets no genuine node that fails its checksum, whose backup roots are neither newer than the
  committed generation nor past the image, and whose scanned FS-tree leaves hold no orphan.
\<close>

theorem clean_image_silent:
  "audit_image crc img = [] \<longleftrightarrow>
     (case audit_super crc img of
        None \<Rightarrow> True
      | Some (blk, sb) \<Rightarrow>
          let m = walk_or_default crc img sb in
          sb_crc_valid sb \<noteq> Some False \<and>
          (sb_root sb = 0 \<or> is_ok (read_node crc img sb m (sb_root sb))) \<and>
          (sb_chunk_root sb = 0 \<or> is_ok (read_node crc img sb m (sb_chunk_root sb))) \<and>
          \<not> (\<exists>l n. l \<in> set (sweep_order crc img sb m) \<and> read_node crc img sb m l = Inr n \<and>
               h_bytenr (n_header n) = l \<and> h_fsid (n_header n) = sb_fsid sb \<and> n_crc_valid n = Some False) \<and>
          list_all (backup_sane (sb_generation sb) (of_nat (length img))) (parse_backup_roots blk) \<and>
          \<not> (\<exists>l leaf i data. l \<in> set (orphan_fs_roots crc img sb m) \<and> read_node crc img sb m l = Inr leaf \<and>
               h_owner (n_header leaf) = 5 \<and>
               (\<lparr>k_objectid = ORPHAN_OBJECTID, k_type = 48, k_offset = i\<rparr>, data) \<in> set (leaf_items leaf)))"
proof (cases "audit_super crc img")
  case (Some p)
  then show ?thesis
    by (cases p) (auto simp: audit_image_parts Let_def root_unreadable_Nil sweep_Nil backups_Nil orphans_Nil)
qed (simp add: audit_image_parts)

theorem clean_image_silent_witness: "audit_image crc32c_ref (audit_disk audit_leaf) = []"
proof -
  obtain n where n: "node_parse crc32c_ref audit_leaf = Inr n" "n_crc_valid n = Some True"
      "is_leaf n" "leaf_items n = []"
    by (rule audit_leaf_node)
  have read: "read_node crc32c_ref (audit_disk audit_leaf) audit_sb [] 69632 = Inr n"
    using n audit_disk_read by simp
  have "l = 69632" if "l \<in> set (sweep_order crc32c_ref (audit_disk audit_leaf) audit_sb [])" for l
  proof -
    have "sweep_children crc32c_ref (audit_disk audit_leaf) audit_sb [] 69632 = []"
      using read n(3) by (simp add: sweep_children_def sweep_view_def key_ptrs_leaf)
    with sweep_order_reach [OF that] show ?thesis
      unfolding sweep_reach_def by (induction rule: reach.induct) (auto simp: audit_disk_seeds)
  qed
  then have "\<not> (\<exists>l k. l \<in> set (sweep_order crc32c_ref (audit_disk audit_leaf) audit_sb []) \<and>
      read_node crc32c_ref (audit_disk audit_leaf) audit_sb [] l = Inr k \<and> n_crc_valid k = Some False)"
    using read n(2) by fastforce
  moreover have "orphan_fs_roots crc32c_ref (audit_disk audit_leaf) audit_sb [] = []"
    using n by (intro audit_disk_fs_roots) auto
  ultimately show ?thesis
    using read unfolding clean_image_silent [of crc32c_ref "audit_disk audit_leaf"] audit_disk_super
    by (auto simp: audit_disk_map audit_disk_backups backup_sane_def Let_def)
qed

text \<open>
  Claim C34. An anomaly of an audit is determined by its code and its evidence, over all images:
  two reported anomalies with the same code and the same evidence are equal, notes and severities
  included. Only an orphaned inode is graded medium, and its code says so.
\<close>

theorem evidence_reproduces:
  assumes "a \<in> set (audit_image crc img)" and "b \<in> set (audit_image crc' img')"
    and "obs_code a = obs_code b" and "obs_evidence a = obs_evidence b"
  shows "a = b \<and> (obs_severity a = Some Medium \<longleftrightarrow> obs_code a = ''BTRFS-ORPHANED-INODE'')"
proof -
  obtain k where k: "a = anomaly_new k" "reported_kind k"
    using audit_kinds [OF assms(1)] by metis
  obtain k' where k': "b = anomaly_new k'" "reported_kind k'"
    using audit_kinds [OF assms(2)] by metis
  have "k = k'"
    using assms(3,4) by (intro evidence_determines_kind k k')
      (simp_all add: k(1) k'(1) obs_code_def obs_evidence_def anomaly_new_def)
  moreover have "kind_severity k = Medium \<longleftrightarrow> kind_code k = ''BTRFS-ORPHANED-INODE''"
    by (cases k) simp_all
  ultimately show ?thesis
    by (simp add: k(1) k'(1) obs_severity_def obs_code_def anomaly_new_def)
qed

theorem evidence_reproduces_witness:
  "obs_severity (anomaly_new (NodeCrcMismatch 69632 69632)) \<noteq> Some Medium"
proof -
  let ?a = "anomaly_new (NodeCrcMismatch 69632 69632)"
  have "?a \<in> set (audit_image crc32c_ref (audit_disk bad_leaf))"
    using bad_disk_reported by (simp add: node_offset_def)
  from evidence_reproduces [OF this this refl refl] show ?thesis
    by (simp add: obs_code_def anomaly_new_def)
qed

end
