(* ===== verification/Sha256.thy ===== *)
theory Sha256
  imports Bytes
begin

text \<open>
  The auditor's own SHA-256, \<open>sha256_hex\<close> of \<open>forensic/src/lib.rs\<close>, whose output is the gate
  of a recovered file. The model keeps the code's mutable arrays: the 64-word schedule is
  a list updated by index, the eight working variables are a list shifted by eight
  assignments. The lemmas give the padding (a whole number of blocks, and no two messages
  pad alike), the standard's description of the function (the schedule by its recurrence, the
  round on a tuple of named variables), which the array program computes, and the two
  published digests of the crate's unit test.
\<close>

section \<open>Constants\<close>

definition SHA_K :: "u32 list" where
  "SHA_K =
     [0x428a2f98, 0x71374491, 0xb5c0fbcf, 0xe9b5dba5] @
     [0x3956c25b, 0x59f111f1, 0x923f82a4, 0xab1c5ed5] @
     [0xd807aa98, 0x12835b01, 0x243185be, 0x550c7dc3] @
     [0x72be5d74, 0x80deb1fe, 0x9bdc06a7, 0xc19bf174] @
     [0xe49b69c1, 0xefbe4786, 0x0fc19dc6, 0x240ca1cc] @
     [0x2de92c6f, 0x4a7484aa, 0x5cb0a9dc, 0x76f988da] @
     [0x983e5152, 0xa831c66d, 0xb00327c8, 0xbf597fc7] @
     [0xc6e00bf3, 0xd5a79147, 0x06ca6351, 0x14292967] @
     [0x27b70a85, 0x2e1b2138, 0x4d2c6dfc, 0x53380d13] @
     [0x650a7354, 0x766a0abb, 0x81c2c92e, 0x92722c85] @
     [0xa2bfe8a1, 0xa81a664b, 0xc24b8b70, 0xc76c51a3] @
     [0xd192e819, 0xd6990624, 0xf40e3585, 0x106aa070] @
     [0x19a4c116, 0x1e376c08, 0x2748774c, 0x34b0bcb5] @
     [0x391c0cb3, 0x4ed8aa4a, 0x5b9cca4f, 0x682e6ff3] @
     [0x748f82ee, 0x78a5636f, 0x84c87814, 0x8cc70208] @
     [0x90befffa, 0xa4506ceb, 0xbef9a3f7, 0xc67178f2]"

definition SHA_H0 :: "u32 list" where
  "SHA_H0 =
    [0x6a09e667, 0xbb67ae85, 0x3c6ef372, 0xa54ff53a, 0x510e527f, 0x9b05688c, 0x1f83d9ab, 0x5be0cd19]"

section \<open>Padding\<close>

text \<open>The bytes still missing before the length field starts.\<close>

definition pad_gap :: "nat \<Rightarrow> nat" where
  "pad_gap n = (120 - n mod 64) mod 64"

lemma pad_gap_eq: "pad_gap n = (if n mod 64 \<le> 56 then 56 - n mod 64 else 120 - n mod 64)"
proof -
  have "(120 - r) mod 64 = 56 - r" if "r \<le> 56" for r :: nat
  proof -
    have "(120 - r) mod 64 = ((56 - r) + 64) mod 64" using that by simp
    also have "\<dots> = 56 - r" by (simp only: mod_add_self2) simp
    finally show ?thesis .
  qed
  then show ?thesis by (auto simp: pad_gap_def)
qed

lemma pad_gap_step: "n mod 64 \<noteq> 56 \<Longrightarrow> pad_gap n = Suc (pad_gap (Suc n))"
  using mod_less_divisor [of 64 n] by (auto simp: pad_gap_eq mod_Suc)

lemma pad_gap_done: "n mod 64 = 56 \<Longrightarrow> pad_gap n = 0"
  by (simp add: pad_gap_def)

text \<open>\<open>while msg.len() % 64 != 56 { msg.push(0) }\<close>\<close>

function push_zeros :: "bytes \<Rightarrow> bytes" where
  "push_zeros msg = (if length msg mod 64 \<noteq> 56 then push_zeros (msg @ [0]) else msg)"
  by pat_completeness auto
termination
  by (relation "measure (\<lambda>msg. pad_gap (length msg))") (simp_all add: pad_gap_step)

declare push_zeros.simps [simp del]

definition sha_pad :: "bytes \<Rightarrow> bytes" where
  "sha_pad data =
     (let bit_len = of_nat (length data) * 8 :: u64
      in push_zeros (data @ [0x80]) @ to_be_bytes bit_len)"

text \<open>\<open>slice::chunks_exact\<close>: the whole pieces, a shorter tail dropped.\<close>

function chunks_exact :: "nat \<Rightarrow> 'a list \<Rightarrow> 'a list list" where
  "chunks_exact n xs =
     (if n = 0 \<or> length xs < n then [] else take n xs # chunks_exact n (drop n xs))"
  by pat_completeness auto
termination
  by (relation "measure (\<lambda>(n, xs). length xs)") auto

declare chunks_exact.simps [simp del]

section \<open>One block\<close>

definition sha_load :: "bytes \<Rightarrow> u32 list" where
  "sha_load block =
     map (\<lambda>i. from_be_bytes [block ! (i * 4), block ! (i * 4 + 1), block ! (i * 4 + 2),
       block ! (i * 4 + 3)]) [0..<16] @ replicate 48 0"

definition sha_extend :: "u32 list \<Rightarrow> nat \<Rightarrow> u32 list" where
  "sha_extend w i =
     (let s0 = word_rotr 7 (w ! (i - 15)) XOR word_rotr 18 (w ! (i - 15)) XOR drop_bit 3 (w ! (i - 15));
          s1 = word_rotr 17 (w ! (i - 2)) XOR word_rotr 19 (w ! (i - 2)) XOR drop_bit 10 (w ! (i - 2))
      in w[i := w ! (i - 16) + s0 + w ! (i - 7) + s1])"

definition sha_schedule :: "bytes \<Rightarrow> u32 list" where
  "sha_schedule block = foldl sha_extend (sha_load block) [16..<64]"

definition sha_round :: "u32 list \<Rightarrow> u32 list \<Rightarrow> nat \<Rightarrow> u32 list" where
  "sha_round w v i =
     (let s1 = word_rotr 6 (v ! 4) XOR word_rotr 11 (v ! 4) XOR word_rotr 25 (v ! 4);
          ch = (v ! 4 AND v ! 5) XOR (NOT (v ! 4) AND v ! 6);
          t1 = v ! 7 + s1 + ch + SHA_K ! i + w ! i;
          s0 = word_rotr 2 (v ! 0) XOR word_rotr 13 (v ! 0) XOR word_rotr 22 (v ! 0);
          maj = (v ! 0 AND v ! 1) XOR (v ! 0 AND v ! 2) XOR (v ! 1 AND v ! 2);
          t2 = s0 + maj;
          v = v[7 := v ! 6];
          v = v[6 := v ! 5];
          v = v[5 := v ! 4];
          v = v[4 := v ! 3 + t1];
          v = v[3 := v ! 2];
          v = v[2 := v ! 1];
          v = v[1 := v ! 0]
      in v[0 := t1 + t2])"

definition sha_block :: "u32 list \<Rightarrow> bytes \<Rightarrow> u32 list" where
  "sha_block h block =
     (let w = sha_schedule block;
          v = foldl (sha_round w) h [0..<64]
      in map2 (+) h v)"

definition sha256_hex :: "bytes \<Rightarrow> rstring" where
  "sha256_hex data =
     concat (map hex_u32 (foldl sha_block SHA_H0 (chunks_exact 64 (sha_pad data))))"

section \<open>The padding\<close>

lemma push_zeros_eq: "push_zeros msg = msg @ replicate (pad_gap (length msg)) 0"
proof (induction msg rule: push_zeros.induct)
  case (1 msg)
  show ?case
  proof (cases "length msg mod 64 = 56")
    case True
    then show ?thesis by (simp add: push_zeros.simps [of msg] pad_gap_done)
  next
    case False
    have "push_zeros msg = push_zeros (msg @ [0])"
      using False by (subst push_zeros.simps) simp
    also have "\<dots> = msg @ 0 # replicate (pad_gap (Suc (length msg))) 0"
      using 1 False by simp
    finally show ?thesis using False by (simp add: pad_gap_step)
  qed
qed

lemma sha_pad_eq:
  "sha_pad data = data @ [0x80] @ replicate (pad_gap (Suc (length data))) 0 @
     to_be_bytes (of_nat (length data) * 8 :: u64)"
  by (simp add: sha_pad_def push_zeros_eq)

lemma pad_gap_mod: "(n + pad_gap n) mod 64 = 56"
proof -
  have "(n + pad_gap n) mod 64 = (n mod 64 + pad_gap n) mod 64"
    by (rule mod_add_left_eq [symmetric])
  also have "\<dots> = 56"
    using mod_less_divisor [of 64 n] by (cases "n mod 64 \<le> 56") (simp_all add: pad_gap_eq)
  finally show ?thesis .
qed

lemma sha_pad_whole_blocks: "length (sha_pad data) mod 64 = 0"
proof -
  have "length (sha_pad data) = (Suc (length data) + pad_gap (Suc (length data))) + 8"
    by (simp add: sha_pad_eq)
  also have "\<dots> mod 64 = (56 + 8) mod 64"
    by (rule mod_add_cong) (simp_all only: pad_gap_mod, simp)
  finally show ?thesis by simp
qed

lemma chunks_exact_blocks:
  assumes "0 < n"
  shows "chunks_exact n xs = map (\<lambda>i. take n (drop (n * i) xs)) [0..<length xs div n]"
  using assms
proof (induction n xs rule: chunks_exact.induct)
  case (1 n xs)
  show ?case
  proof (cases "length xs < n")
    case True
    then show ?thesis by (simp add: chunks_exact.simps [of n xs])
  next
    case False
    then have d: "length xs div n = Suc ((length xs - n) div n)"
      using 1(2) by (simp add: le_div_geq)
    have "chunks_exact n xs = take n xs # chunks_exact n (drop n xs)"
      using False 1(2) by (subst chunks_exact.simps) simp
    also have "\<dots> = take n xs # map (\<lambda>i. take n (drop (n * Suc i) xs)) [0..<(length xs - n) div n]"
      using 1 False by (simp add: add.commute)
    also have "\<dots> = map (\<lambda>i. take n (drop (n * i) xs)) (0 # map Suc [0..<(length xs - n) div n])"
      by simp
    finally show ?thesis
      unfolding d map_Suc_upt by (simp only: upt_conv_Cons [of 0 "Suc k" for k, OF zero_less_Suc])
  qed
qed

section \<open>The standard's description\<close>

text \<open>
  The message schedule by its recurrence, the round on named variables, and the digest as
  the sum of the rounds' result and the chaining value, block after block.
\<close>

definition fips_sigma0 :: "u32 \<Rightarrow> u32" where
  "fips_sigma0 x = word_rotr 7 x XOR word_rotr 18 x XOR drop_bit 3 x"

definition fips_sigma1 :: "u32 \<Rightarrow> u32" where
  "fips_sigma1 x = word_rotr 17 x XOR word_rotr 19 x XOR drop_bit 10 x"

definition fips_Sigma0 :: "u32 \<Rightarrow> u32" where
  "fips_Sigma0 x = word_rotr 2 x XOR word_rotr 13 x XOR word_rotr 22 x"

definition fips_Sigma1 :: "u32 \<Rightarrow> u32" where
  "fips_Sigma1 x = word_rotr 6 x XOR word_rotr 11 x XOR word_rotr 25 x"

definition fips_Ch :: "u32 \<Rightarrow> u32 \<Rightarrow> u32 \<Rightarrow> u32" where
  "fips_Ch x y z = (x AND y) XOR (NOT x AND z)"

definition fips_Maj :: "u32 \<Rightarrow> u32 \<Rightarrow> u32 \<Rightarrow> u32" where
  "fips_Maj x y z = (x AND y) XOR (x AND z) XOR (y AND z)"

fun fips_W :: "bytes \<Rightarrow> nat \<Rightarrow> u32" where
  "fips_W block t =
     (if t < 16 then from_be_bytes (take 4 (drop (4 * t) block))
      else fips_sigma1 (fips_W block (t - 2)) + fips_W block (t - 7) +
           fips_sigma0 (fips_W block (t - 15)) + fips_W block (t - 16))"

declare fips_W.simps [simp del]

record fips_vars =
  va :: u32
  vb :: u32
  vc :: u32
  vd :: u32
  ve :: u32
  vf :: u32
  vg :: u32
  vh :: u32

definition fips_round :: "(nat \<Rightarrow> u32) \<Rightarrow> nat \<Rightarrow> fips_vars \<Rightarrow> fips_vars" where
  "fips_round W t s =
     (let T1 = vh s + fips_Sigma1 (ve s) + fips_Ch (ve s) (vf s) (vg s) + SHA_K ! t + W t;
          T2 = fips_Sigma0 (va s) + fips_Maj (va s) (vb s) (vc s)
      in \<lparr>va = T1 + T2, vb = va s, vc = vb s, vd = vc s,
          ve = vd s + T1, vf = ve s, vg = vf s, vh = vg s\<rparr>)"

definition fips_rounds :: "(nat \<Rightarrow> u32) \<Rightarrow> fips_vars \<Rightarrow> fips_vars" where
  "fips_rounds W s = fold (fips_round W) [0..<64] s"

definition fips_add :: "fips_vars \<Rightarrow> fips_vars \<Rightarrow> fips_vars" where
  "fips_add s t = \<lparr>va = va s + va t, vb = vb s + vb t, vc = vc s + vc t, vd = vd s + vd t,
     ve = ve s + ve t, vf = vf s + vf t, vg = vg s + vg t, vh = vh s + vh t\<rparr>"

definition fips_init :: fips_vars where
  "fips_init = \<lparr>va = 0x6a09e667, vb = 0xbb67ae85, vc = 0x3c6ef372, vd = 0xa54ff53a,
     ve = 0x510e527f, vf = 0x9b05688c, vg = 0x1f83d9ab, vh = 0x5be0cd19\<rparr>"

text \<open>The padded message of the standard, and its \<open>i\<close>-th block of 512 bits.\<close>

definition fips_padded :: "bytes \<Rightarrow> bytes" where
  "fips_padded m =
     (let l = length m; k = (120 - (l + 1) mod 64) mod 64
      in m @ [0x80] @ replicate k 0 @ to_be_bytes (of_nat (8 * l) :: u64))"

primrec fips_hash :: "bytes \<Rightarrow> nat \<Rightarrow> fips_vars" where
  "fips_hash m 0 = fips_init"
| "fips_hash m (Suc i) =
     (let block = take 64 (drop (64 * i) (fips_padded m))
      in fips_add (fips_hash m i) (fips_rounds (fips_W block) (fips_hash m i)))"

definition fips_list :: "fips_vars \<Rightarrow> u32 list" where
  "fips_list s = [va s, vb s, vc s, vd s, ve s, vf s, vg s, vh s]"

definition fips_digest :: "bytes \<Rightarrow> u32 list" where
  "fips_digest m = fips_list (fips_hash m (length (fips_padded m) div 64))"

lemmas fips_funs = fips_sigma0_def fips_sigma1_def fips_Sigma0_def fips_Sigma1_def fips_Ch_def fips_Maj_def

lemma word_rotr_shift:
  assumes "n < LENGTH('a)"
  shows "word_rotr n w = drop_bit n w OR push_bit (LENGTH('a) - n) (w :: 'a::len word)"
proof (rule bit_word_eqI)
  fix m assume m: "m < LENGTH('a)"
  show "bit (word_rotr n w) m = bit (drop_bit n w OR push_bit (LENGTH('a) - n) w) m"
  proof (cases "m + n < LENGTH('a)")
    case True
    with m show ?thesis by (auto simp: bit_simps add.commute)
  next
    case False
    then have "(m + n) mod LENGTH('a) = m + n - LENGTH('a)"
      using assms m by (simp add: mod_if)
    moreover have "\<not> bit w (n + m)"
      using False bit_imp_le_length [of w "n + m"] by (auto simp: add.commute)
    moreover have "m - (LENGTH('a) - n) = m + n - LENGTH('a)"
      using False assms by simp
    ultimately show ?thesis
      using False m assms by (auto simp: bit_simps)
  qed
qed

section \<open>The array program computes it\<close>

lemma sha_load_word:
  assumes "length block = 64" and "t < 16"
  shows "sha_load block ! t = from_be_bytes (take 4 (drop (4 * t) block))"
proof -
  have "take 4 (drop (4 * t) block) = map (\<lambda>i. block ! (4 * t + i)) [0..<4]"
    using assms by (intro map_nth_take_drop [symmetric]) simp
  also have "\<dots> = [block ! (t * 4), block ! (t * 4 + 1), block ! (t * 4 + 2), block ! (t * 4 + 3)]"
    by (simp add: upt_rec mult.commute numeral_eq_Suc)
  finally show ?thesis
    using assms(2) by (simp add: sha_load_def nth_append)
qed

lemma sha_extend_nth:
  assumes "length w = 64" and "16 \<le> i" and "i < 64"
  shows "sha_extend w i = w[i := fips_sigma1 (w ! (i - 2)) + w ! (i - 7) + fips_sigma0 (w ! (i - 15)) + w ! (i - 16)]"
  by (simp add: sha_extend_def fips_funs Let_def ac_simps)

lemma sha_schedule_prefix:
  assumes "length block = 64" and "16 \<le> n" and "n \<le> 64"
  shows "length (foldl sha_extend (sha_load block) [16..<n]) = 64 \<and>
    (\<forall>t<n. foldl sha_extend (sha_load block) [16..<n] ! t = fips_W block t)"
  using assms(2,3)
proof (induction n rule: nat_induct_at_least)
  case base
  have "length (sha_load block) = 64" by (simp add: sha_load_def)
  with assms(1) show ?case by (simp add: sha_load_word fips_W.simps)
next
  case (Suc n)
  define w where "w = foldl sha_extend (sha_load block) [16..<n]"
  have w: "length w = 64" "\<And>t. t < n \<Longrightarrow> w ! t = fips_W block t"
    using Suc by (simp_all add: w_def)
  have "foldl sha_extend (sha_load block) [16..<Suc n] = w[n := fips_W block n]"
    using Suc.hyps Suc.prems w by (simp add: w_def [symmetric] sha_extend_nth fips_W.simps [of block n])
  with w Suc.prems show ?case by (auto simp: nth_list_update less_Suc_eq)
qed

lemma sha_schedule_W:
  "length block = 64 \<Longrightarrow> t < 64 \<Longrightarrow> sha_schedule block ! t = fips_W block t"
  using sha_schedule_prefix [of block 64] by (simp add: sha_schedule_def)

lemma sha_round_list: "sha_round w (fips_list s) t = fips_list (fips_round ((!) w) t s)"
  by (simp add: sha_round_def fips_round_def fips_list_def fips_funs Let_def)

lemma fips_round_cong: "W t = W' t \<Longrightarrow> fips_round W t s = fips_round W' t s"
  by (simp add: fips_round_def)

lemma sha_rounds_list:
  "foldl (sha_round w) (fips_list s) ts = fips_list (fold (fips_round ((!) w)) ts s)"
  by (induction ts arbitrary: s) (simp_all add: sha_round_list)

lemma sha_block_list:
  assumes "length block = 64"
  shows "sha_block (fips_list s) block = fips_list (fips_add s (fips_rounds (fips_W block) s))"
proof -
  have "fold (fips_round ((!) (sha_schedule block))) [0..<64] s = fips_rounds (fips_W block) s"
    unfolding fips_rounds_def
    by (rule fold_cong) (auto intro!: fips_round_cong simp: sha_schedule_W assms)
  then show ?thesis
    by (simp add: sha_block_def sha_rounds_list Let_def) (simp add: fips_list_def fips_add_def)
qed

lemma sha_pad_fips: "sha_pad data = fips_padded data"
  by (simp add: sha_pad_eq fips_padded_def pad_gap_def Let_def mult.commute)

lemma fold_blocks:
  assumes "64 * k \<le> length (fips_padded m)"
  shows "foldl sha_block SHA_H0 (map (\<lambda>i. take 64 (drop (64 * i) (fips_padded m))) [0..<k]) =
    fips_list (fips_hash m k)"
  using assms
proof (induction k)
  case 0
  show ?case by (simp add: SHA_H0_def fips_list_def fips_init_def)
next
  case (Suc k)
  then have "length (take 64 (drop (64 * k) (fips_padded m))) = 64" by simp
  with Suc show ?case by (simp add: sha_block_list Let_def)
qed

lemma sha256_words: "foldl sha_block SHA_H0 (chunks_exact 64 (sha_pad data)) = fips_digest data"
  by (simp add: sha_pad_fips chunks_exact_blocks fips_digest_def fold_blocks)

lemma length_fips_digest_hex: "length (concat (map hex_u32 (fips_digest m))) = 64"
  by (simp add: fips_digest_def fips_list_def)

lemma length_sha256_hex [simp]: "length (sha256_hex data) = 64"
  by (simp add: sha256_hex_def sha256_words length_fips_digest_hex)

section \<open>Properties\<close>

lemma to_be_bytes_inj: "to_be_bytes (v :: u64) = to_be_bytes w \<longleftrightarrow> v = w"
proof
  assume "to_be_bytes v = to_be_bytes w"
  then have "from_le_bytes (to_le_bytes v) = (from_le_bytes (to_le_bytes w) :: u64)"
    by (simp add: to_be_bytes_def)
  then show "v = w" by (simp add: from_to_le_bytes)
qed simp

text \<open>
  Claim C35. The hand-written hash of the recovery gate is SHA-256: for every input the array
  program (the schedule filled in place, the eight variables shifted by assignments, the
  padding pushed byte by byte) renders, as 64 hexadecimal digits, the digest of the standard's
  description.
\<close>

theorem sha256_is_fips:
  "sha256_hex data = concat (map hex_u32 (fips_digest data)) \<and> length (sha256_hex data) = 64"
  by (simp add: sha256_hex_def sha256_words length_fips_digest_hex)

text \<open>
  The padding loop ends with a whole number of blocks, adds at least nine and at most
  72 bytes after the unchanged message, and no two messages of a real buffer's size are padded
  to the same blocks, so the hash sees all of a recovered file.
\<close>

theorem sha_pad_faithful:
  assumes "length a < 2 ^ 61" and "length b < 2 ^ 61"
  shows "length (sha_pad a) mod 64 = 0 \<and> take (length a) (sha_pad a) = a \<and>
    length a + 9 \<le> length (sha_pad a) \<and> length (sha_pad a) \<le> length a + 72 \<and>
    (sha_pad a = sha_pad b \<longleftrightarrow> a = b)"
proof -
  have len: "length (to_be_bytes (w :: u64)) = 8" for w by simp
  have gap: "pad_gap n < 64" for n by (simp add: pad_gap_def)
  have bits: "unat (of_nat (length x) * 8 :: u64) = 8 * length x" if "length x < 2 ^ 61" for x :: bytes
  proof -
    have "(of_nat (length x) * 8 :: u64) = of_nat (8 * length x)" by simp
    also have "unat \<dots> = 8 * length x" using that by (simp only: unat_of_nat) simp
    finally show ?thesis .
  qed
  have tail: "drop (length (sha_pad x) - 8) (sha_pad x) = to_be_bytes (of_nat (length x) * 8 :: u64)" for x
    by (simp add: sha_pad_eq)
  have "a = b" if eq: "sha_pad a = sha_pad b"
  proof -
    have "to_be_bytes (of_nat (length a) * 8 :: u64) = to_be_bytes (of_nat (length b) * 8 :: u64)"
      using tail [of a] tail [of b] eq by simp
    then have "(of_nat (length a) * 8 :: u64) = of_nat (length b) * 8"
      by (simp only: to_be_bytes_inj)
    then have "8 * length a = 8 * length b"
      by (simp only: bits [OF assms(1), symmetric] bits [OF assms(2), symmetric])
    then have "length a = length b" by simp
    with eq show ?thesis by (simp add: sha_pad_eq)
  qed
  then show ?thesis
    using sha_pad_whole_blocks [of a] gap [of "Suc (length a)"] by (auto simp: sha_pad_eq)
qed

theorem sha_pad_faithful_witness: "sha_pad [1] \<noteq> sha_pad [1, 0x80]"
  using sha_pad_faithful [of "[1]" "[1, 0x80]"] by simp

section \<open>A published digest\<close>

text \<open>
  Kernel evaluation of the three-byte message of the crate's unit test. The rewriting keeps
  every word below \<open>2 ^ 32\<close> by explicit masks.
\<close>

lemma mask_u32: "x AND 0xFFFFFFFF = (x :: u32)"
proof -
  have "(0xFFFFFFFF :: u32) = - 1" by simp
  then show ?thesis by (simp only: and.right_neutral)
qed

lemma word_rotr_eval:
  "word_rotr (numeral n) (w :: u32) =
     (if numeral n < (32 :: nat)
      then (drop_bit (numeral n) w OR push_bit (32 - numeral n) w) AND 0xFFFFFFFF
      else word_rotr (numeral n) w)"
  using word_rotr_shift [of "numeral n" w] by (simp add: mask_u32)

lemma sha_extend_eval:
  "sha_extend w i = w[i := (w ! (i - 16) + fips_sigma0 (w ! (i - 15)) + w ! (i - 7) +
     fips_sigma1 (w ! (i - 2))) AND 0xFFFFFFFF]"
  by (simp add: sha_extend_def fips_funs Let_def mask_u32)

lemma sha_round_eval:
  "sha_round w [a, b, c, d, e, f, g, h] i =
     (let t1 = (h + fips_Sigma1 e + fips_Ch e f g + SHA_K ! i + w ! i) AND 0xFFFFFFFF
      in [(t1 + (fips_Sigma0 a + fips_Maj a b c)) AND 0xFFFFFFFF, a, b, c, (d + t1) AND 0xFFFFFFFF, e, f, g])"
  by (simp add: sha_round_def fips_funs Let_def mask_u32)

lemmas sha_eval = word_rotr_eval sha_extend_eval sha_round_eval fips_funs

lemma upt_from_0: "2 < n \<Longrightarrow> [0..<n] = 0 # 1 # [2..<n]"
  by (simp add: upt_conv_Cons numeral_2_eq_2)

lemma replicate_num: "replicate (numeral k) x = x # replicate (pred_numeral k) x"
  by (simp add: numeral_eq_Suc)

lemma hex_pad_numeral:
  "hex_pad (numeral k) n = hex_pad (pred_numeral k) (n div 16) @ [hex_digit (n mod 16)]"
  by (simp only: numeral_eq_Suc hex_pad.simps)

lemma nat_le_numeral: "nat_le (numeral k) n = of_nat n # nat_le (pred_numeral k) (n div 256)"
  by (simp only: numeral_eq_Suc nat_le.simps)

lemma nat_le_zeros: "nat_le k 0 = replicate k 0"
  by (induction k) simp_all

lemma sha_pad_abc: "sha_pad [97, 98, 99] = [97, 98, 99, 128] @ replicate 59 0 @ [24]"
proof -
  have "to_be_bytes (24 :: u64) = replicate 7 0 @ [24]"
    by (simp add: to_be_bytes_def to_le_bytes_def nat_le_numeral replicate_num)
  moreover have "replicate 59 (0 :: u8) = replicate 52 0 @ replicate 7 0"
    by (simp only: replicate_add [symmetric]) simp
  ultimately show ?thesis
    by (simp add: sha_pad_eq pad_gap_def)
qed

lemma sha_chunks_abc:
  "chunks_exact 64 (sha_pad [97, 98, 99]) = [[97, 98, 99, 128] @ replicate 59 0 @ [24]]"
  by (simp add: chunks_exact_blocks sha_pad_abc)

lemma sha_load_abc:
  "sha_load ([97, 98, 99, 128] @ replicate 59 0 @ [24]) =
    [1633837952, 0, 0, 0, 0, 0, 0, 0, 0, 0, 0, 0, 0, 0, 0, 24] @ replicate 48 0"
proof -
  have b: "[97, 98, 99, 128] @ replicate 59 0 @ [24 :: u8] =
    [97, 98, 99, 128] @ replicate 56 0 @ [0, 0, 0, 24]"
    by (simp add: numeral_eq_Suc)
  show ?thesis
    unfolding b sha_load_def
    by (simp add: upt_from_0 upt_rec_numeral nth_append from_be_bytes_def from_le_bytes_def)
qed

definition abc_schedule :: "u32 list" where
  "abc_schedule =
    [1633837952, 0, 0, 0, 0, 0, 0, 0, 0, 0, 0, 0, 0, 0, 0, 24, 1633837952,
     983040, 2108187653, 1610613702, 1050508152, 25426944, 316456923,
     3806512014, 3357629466, 3073800610, 3854317833, 845560923, 2636160359,
     3968280267, 1881225380, 3552024379, 2482346367, 996719219, 2952069057,
     4043988066, 176896406, 1924104970, 2483675966, 610538786, 2672279444,
     4037431130, 1042573945, 657669027, 206005234, 2215296807, 2049510749,
     106709978, 4215179723, 3430291419, 3118885940, 2845390439, 2226839261,
     3256115900, 344409900, 2987358873, 4015503821, 3957764664, 2682456414,
     2025622859, 2755645205, 1720397816, 4004225740, 313650667]"

lemma sha_schedule_abc:
  "foldl sha_extend ([1633837952, 0, 0, 0, 0, 0, 0, 0, 0, 0, 0, 0, 0, 0, 0, 24] @ replicate 48 0) [16..<64] =
     abc_schedule"
proof -
  have "replicate 48 0 = [0, 0, 0, 0, 0, 0, 0, 0, 0, 0, 0, 0, 0, 0, 0, 0, 0, 0, 0, 0, 0, 0, 0, 0, 0, 0, 0, 0, 0, 0, 0, 0, 0, 0, 0, 0, 0, 0, 0, 0, 0, 0, 0, 0, 0, 0, 0, 0 :: u32]"
    by (simp add: numeral_eq_Suc)
  then show ?thesis
    by (simp add: upt_rec_numeral sha_eval Let_def abc_schedule_def)
qed

lemma sha_block_abc:
  "sha_schedule ([97, 98, 99, 128] @ replicate 59 0 @ [24]) = abc_schedule"
  unfolding sha_schedule_def sha_load_abc by (rule sha_schedule_abc)

lemma sha_rounds_abc:
  "foldl (sha_round abc_schedule) SHA_H0 [0..<64] =
     [1349398616, 3550093669, 80891244, 3093179625, 1593118500, 4212265488, 2492278198, 2518632596]"
  by (simp add: upt_from_0 upt_rec_numeral Let_def sha_eval SHA_H0_def SHA_K_def abc_schedule_def)

text \<open>
  The digest of the three bytes \<open>abc\<close> is the published one, so the sixty-four round
  constants and the initial value are the standard's.
\<close>

theorem sha256_abc:
  "sha256_hex [97, 98, 99] =
     str ''ba7816bf8f01cfea414140de5dae2223b00361a396177a9cb410ff61f20015ad''"
proof -
  have "sha256_hex [97, 98, 99] = concat (map hex_u32 [3128432319, 2399260650, 1094795486, 1571693091,
      2953011619, 2518121116, 3021012833, 4060091821])"
    by (simp only: sha256_hex_def sha_chunks_abc sha_block_def sha_block_abc sha_rounds_abc Let_def foldl.simps)
      (simp add: SHA_H0_def)
  also have "\<dots> = str ''ba7816bf8f01cfea414140de5dae2223b00361a396177a9cb410ff61f20015ad''"
    by (simp add: hex_u32_def hex_pad_numeral hex_digit_def str_def)
  finally show ?thesis .
qed

text \<open>The empty message: its one block holds the marker bit and a length of zero.\<close>

definition empty_schedule :: "u32 list" where
  "empty_schedule =
    [2147483648, 0, 0, 0, 0, 0, 0,
     0, 0, 0, 0, 0, 0, 0,
     0, 0, 2147483648, 0, 2117632, 0, 570427392,
     0, 84448578, 2147483648, 1476919296, 4235264, 1451269, 1711282176,
     3592562048, 337794312, 3594910044, 3374850048, 3287351444, 676112230, 109604294,
     2742808854, 1904000662, 4274181962, 2813755136, 2165675682, 2561075048, 62000258,
     1562224585, 2975250741, 3286092305, 614207615, 3297584367, 1575308336, 3741240933,
     748767245, 1008022316, 30329261, 369937616, 195877528, 907775968, 3526495142,
     43741191, 1967544444, 133517113, 4161330627, 3704256008, 1581412744, 1153231965,
     996066459]"

lemma sha_chunks_empty: "chunks_exact 64 (sha_pad []) = [[128, 0, 0, 0] @ replicate 59 0 @ [0]]"
proof -
  have "to_be_bytes (0 :: u64) = replicate 8 0"
    by (simp add: to_be_bytes_def to_le_bytes_def nat_le_zeros)
  then have "sha_pad [] = [128] @ replicate 55 0 @ replicate 8 0"
    by (simp add: sha_pad_eq pad_gap_def)
  also have "\<dots> = [128, 0, 0, 0] @ replicate 59 0 @ [0]"
    by (simp add: numeral_eq_Suc)
  finally show ?thesis by (simp add: chunks_exact_blocks)
qed

lemma sha_schedule_empty: "sha_schedule ([128, 0, 0, 0] @ replicate 59 0 @ [0]) = empty_schedule"
proof -
  have "[128, 0, 0, 0] @ replicate 59 0 @ [0 :: u8] = [128, 0, 0, 0] @ replicate 56 0 @ [0, 0, 0, 0]"
    by (simp add: numeral_eq_Suc)
  then have load: "sha_load ([128, 0, 0, 0] @ replicate 59 0 @ [0]) =
      [2147483648, 0, 0, 0, 0, 0, 0, 0, 0, 0, 0, 0, 0, 0, 0, 0] @ replicate 48 0"
    unfolding sha_load_def
    by (simp add: upt_from_0 upt_rec_numeral nth_append from_be_bytes_def from_le_bytes_def)
  have "replicate 48 0 = replicate 16 0 @ replicate 16 0 @ replicate 16 (0 :: u32)"
    by (simp add: numeral_eq_Suc)
  then show ?thesis
    unfolding sha_schedule_def load
    by (simp add: replicate_num upt_rec_numeral sha_eval Let_def empty_schedule_def)
qed

lemma sha_rounds_empty:
  "foldl (sha_round empty_schedule) SHA_H0 [0..<64] =
     [2040978907, 3717492111, 1586299222, 4095722474, 3600805733, 3382061760, 2232532848, 477227836]"
  by (simp add: upt_from_0 upt_rec_numeral Let_def sha_eval SHA_H0_def SHA_K_def empty_schedule_def)

theorem sha256_empty:
  "sha256_hex [] = str ''e3b0c44298fc1c149afbf4c8996fb92427ae41e4649b934ca495991b7852b855''"
proof -
  have "sha256_hex [] = concat (map hex_u32 [3820012610, 2566659092, 2600203464, 2574235940,
      665731556, 1687917388, 2761267483, 2018687061])"
    by (simp only: sha256_hex_def sha_chunks_empty sha_block_def sha_schedule_empty sha_rounds_empty Let_def foldl.simps)
      (simp add: SHA_H0_def)
  also have "\<dots> = str ''e3b0c44298fc1c149afbf4c8996fb92427ae41e4649b934ca495991b7852b855''"
    by (simp add: hex_u32_def hex_pad_numeral hex_digit_def str_def)
  finally show ?thesis .
qed

end
