(* ===== verification/Carve.thy ===== *)
theory Carve
  imports Extent Sha256 SmallDisk
begin

text \<open>
  Deleted-file recovery, \<open>recover_deleted_from_leaves\<close> and \<open>recover_deleted\<close> of
  \<open>forensic/src/lib.rs\<close>: an older FS-tree leaf is compared with the current one, and the content
  of every inode missing from the current one is read from the old extents.

  The lemmas give the recovered list of a pair of leaves, the agreement of the carver's own
  directory parser with the reader's, and what is recovered from a whole image.
\<close>

section \<open>Helpers of the carver\<close>

definition INODE_SIZE_FIELD :: nat where "INODE_SIZE_FIELD = 16"
definition CARVE_NAME_LEN :: nat where "CARVE_NAME_LEN = 27"
definition CARVE_NAME :: nat where "CARVE_NAME = 30"
definition CARVE_DIR_ITEM_KEY :: u8 where "CARVE_DIR_ITEM_KEY = 84"
definition CARVE_DIR_INDEX_KEY :: u8 where "CARVE_DIR_INDEX_KEY = 96"

lemmas carve_consts = INODE_SIZE_FIELD_def CARVE_NAME_LEN_def CARVE_NAME_def
  CARVE_DIR_ITEM_KEY_def CARVE_DIR_INDEX_KEY_def

definition inode_set :: "node \<Rightarrow> u64 list" where
  "inode_set leaf =
     map (\<lambda>(k, _). k_objectid k) (filter (\<lambda>(k, _). k_type k = INODE_ITEM_KEY) (leaf_items leaf))"

text \<open>\<open>DirNames\<close>: the first name of each child inode.\<close>

type_synonym dir_names_map = "(u64 \<times> rstring) list"

definition get_name :: "dir_names_map \<Rightarrow> u64 \<Rightarrow> rstring option" where
  "get_name entries ino = map_option snd (find (\<lambda>(child, _). child = ino) entries)"

definition dir_names_step :: "dir_names_map \<Rightarrow> disk_key \<times> bytes \<Rightarrow> dir_names_map" where
  "dir_names_step entries = (\<lambda>(key, data).
     if k_type key \<noteq> CARVE_DIR_ITEM_KEY \<and> k_type key \<noteq> CARVE_DIR_INDEX_KEY then entries
     else if length data < CARVE_NAME then entries
     else
       let child = f_le_u64 data 0;
           name_len = unat (f_le_u16 data CARVE_NAME_LEN);
           avail = length data - CARVE_NAME;
           n = min name_len avail;
           name_bytes = unwrap_or (get_range data CARVE_NAME (CARVE_NAME + n)) [];
           name = from_utf8_lossy name_bytes
       in if list_all (\<lambda>(c, _). c \<noteq> child) entries then entries @ [(child, name)] else entries)"

definition dir_names :: "node \<Rightarrow> dir_names_map" where
  "dir_names leaf = foldl dir_names_step [] (leaf_items leaf)"

section \<open>A pair of leaves\<close>

record recovered_file =
  rf_path :: rstring
  rf_inode :: u64
  rf_generation :: u64
  rf_size :: u64
  rf_content :: bytes
  rf_content_sha256 :: rstring

text \<open>The body of the loop: \<open>None\<close> for each of its \<open>continue\<close> branches.\<close>

definition recover_item :: "codecs \<Rightarrow> node \<Rightarrow> u64 list \<Rightarrow> dir_names_map \<Rightarrow> u64 \<Rightarrow> bytes \<Rightarrow> chunk_map \<Rightarrow> u32 \<Rightarrow>
    disk_key \<times> bytes \<Rightarrow> recovered_file option" where
  "recover_item c old current_inodes old_names generation img m sectorsize = (\<lambda>(key, data).
     if k_type key \<noteq> INODE_ITEM_KEY then None
     else
       let ino = k_objectid key in
       if ino < 257 then None
       else if ino \<in> set current_inodes then None
       else if \<not> list_ex (\<lambda>(k, _). k_objectid k = ino \<and> k_type k = EXTENT_DATA_KEY) (leaf_items old) then None
       else
         let sz = f_le_u64 data INODE_SIZE_FIELD;
             content = (case read_file_from_leaf c old img m sectorsize ino of Inl _ \<Rightarrow> [] | Inr bs \<Rightarrow> bs);
             content_sha256 = sha256_hex content
         in Some \<lparr> rf_path = unwrap_or (get_name old_names ino) (str ''inode_'' @ dec_u64 ino),
                   rf_inode = ino, rf_generation = generation, rf_size = sz,
                   rf_content = content, rf_content_sha256 = content_sha256 \<rparr>)"

definition recover_deleted_from_leaves ::
    "codecs \<Rightarrow> node \<Rightarrow> node \<Rightarrow> bytes \<Rightarrow> chunk_map \<Rightarrow> u32 \<Rightarrow> recovered_file list" where
  "recover_deleted_from_leaves c old current img m sectorsize =
     (if h_owner (n_header old) \<noteq> FS_TREE_OBJECTID then []
      else
        let current_inodes = inode_set current;
            old_names = dir_names old;
            generation = h_generation (n_header old)
        in List.map_filter (recover_item c old current_inodes old_names generation img m sectorsize)
             (leaf_items old))"

section \<open>A whole image\<close>

definition push_recovered :: "recovered_file list \<Rightarrow> recovered_file \<Rightarrow> recovered_file list" where
  "push_recovered out r =
     (if \<not> list_ex (\<lambda>r'. rf_inode r' = rf_inode r) out then out @ [r] else out)"

definition recover_backup :: "(bytes \<Rightarrow> u32) \<Rightarrow> codecs \<Rightarrow> bytes \<Rightarrow> superblock \<Rightarrow> chunk_map \<Rightarrow> fs_root \<Rightarrow> node \<Rightarrow>
    recovered_file list \<Rightarrow> root_backup \<Rightarrow> recovered_file list" where
  "recover_backup crc c img sb m cur_root current out b =
     (if rb_fs_root b = 0 \<or> rb_fs_root b = fr_bytenr cur_root then out
      else
        case read_node crc img sb m (rb_fs_root b) of
          Inl _ \<Rightarrow> out
        | Inr old \<Rightarrow>
            foldl push_recovered out (recover_deleted_from_leaves c old current img m (sb_sectorsize sb)))"

definition recover_deleted :: "(bytes \<Rightarrow> u32) \<Rightarrow> codecs \<Rightarrow> bytes \<Rightarrow> recovered_file list" where
  "recover_deleted crc c img =
     (case get_range img BTRFS_SUPER_INFO_OFFSET (sat_add BTRFS_SUPER_INFO_OFFSET BTRFS_SUPER_INFO_SIZE) of
        None \<Rightarrow> []
      | Some sb_block \<Rightarrow>
          (case superblock_parse crc sb_block of
             Inl _ \<Rightarrow> []
           | Inr sb \<Rightarrow>
               let m = walk_or_default crc img sb in
               (case fs_tree_root crc img sb m of
                  Inl _ \<Rightarrow> []
                | Inr cur_root \<Rightarrow>
                    (case read_node crc img sb m (fr_bytenr cur_root) of
                       Inl _ \<Rightarrow> []
                     | Inr current \<Rightarrow>
                         foldl (recover_backup crc c img sb m cur_root current) []
                           (parse_backup_roots sb_block)))))"

section \<open>Names\<close>

lemma f_readers_near:
  "k + 2 \<le> usize_max \<Longrightarrow> f_le_u16 d k = le_u16 d k"
  "k + 8 \<le> usize_max \<Longrightarrow> f_le_u64 d k = le_u64 d k"
  unfolding f_le_u16_def f_le_u64_def le_u16_def le_u64_def
  by (simp_all add: sat_add_exact get_range_def try_array_def from_le_bytes_def)

text \<open>The directory entries of all directories in the leaf, as the reader parses them.\<close>

definition leaf_dir_entries :: "(disk_key \<times> bytes) list \<Rightarrow> dir_entry list" where
  "leaf_dir_entries items =
     List.map_filter (\<lambda>(key, data). if k_type key = 84 \<or> k_type key = 96 then parse_dir_item data else None) items"

lemma list_all_key: "list_all (\<lambda>(c, _). c \<noteq> x) entries \<longleftrightarrow> x \<notin> fst ` set entries"
  by (induction entries) auto

lemma dir_names_step_eq:
  "dir_names_step entries (key, data) =
     (case (if k_type key = 84 \<or> k_type key = 96 then parse_dir_item data else None) of
        None \<Rightarrow> entries
      | Some e \<Rightarrow> if de_child e \<in> fst ` set entries then entries else entries @ [(de_child e, de_name e)])"
  by (auto simp: dir_names_step_def parse_dir_item_def carve_consts dir_offsets f_readers_near usize_max_def
      list_all_key Let_def simp del: image_iff)

lemma dir_names_first:
  "foldl dir_names_step entries items =
     entries @ map (\<lambda>e. (de_child e, de_name e)) (first_by de_child (fst ` set entries) (leaf_dir_entries items))"
proof (induction items arbitrary: entries)
  case (Cons it items)
  obtain key data where it: "it = (key, data)" by fastforce
  show ?case
    unfolding it foldl.simps Cons dir_names_step_eq
    by (cases "if k_type key = 84 \<or> k_type key = 96 then parse_dir_item data else None")
      (auto simp: leaf_dir_entries_def List.map_filter_def insert_commute)
qed (simp add: leaf_dir_entries_def List.map_filter_def)

lemma find_first_by:
  "x \<notin> seen \<Longrightarrow> find (\<lambda>e. f e = x) (first_by f seen es) = find (\<lambda>e. f e = x) es"
  by (induction f seen es rule: first_by.induct) auto

lemma find_pair:
  "find (\<lambda>(child, _). child = ino) (map (\<lambda>e. (f e, g e)) es) =
     map_option (\<lambda>e. (f e, g e)) (find (\<lambda>e. f e = ino) es)"
  by (induction es) auto

lemma get_name_dir_names:
  "get_name (dir_names leaf) ino =
     map_option de_name (find (\<lambda>e. de_child e = ino) (leaf_dir_entries (leaf_items leaf)))"
  unfolding get_name_def dir_names_def dir_names_first append_Nil find_pair
  by (simp add: find_first_by option.map_comp comp_def)

section \<open>What a pair of leaves gives\<close>

text \<open>A deleted inode item of the old leaf: a user inode with an extent item beside it, and no inode item
  of its number in the current leaf.\<close>

definition deleted_since :: "node \<Rightarrow> node \<Rightarrow> disk_key \<times> bytes \<Rightarrow> bool" where
  "deleted_since old current = (\<lambda>(key, data).
     k_type key = 1 \<and> 257 \<le> k_objectid key \<and>
     \<not> (\<exists>it\<in>set (leaf_items current). k_objectid (fst it) = k_objectid key \<and> k_type (fst it) = 1) \<and>
     (\<exists>it\<in>set (leaf_items old). k_objectid (fst it) = k_objectid key \<and> k_type (fst it) = 108))"

definition old_name :: "node \<Rightarrow> u64 \<Rightarrow> rstring" where
  "old_name old ino =
     (case find (\<lambda>e. de_child e = ino) (leaf_dir_entries (leaf_items old)) of
        None \<Rightarrow> str ''inode_'' @ dec_u64 ino
      | Some e \<Rightarrow> de_name e)"

definition old_content :: "codecs \<Rightarrow> node \<Rightarrow> bytes \<Rightarrow> chunk_map \<Rightarrow> u32 \<Rightarrow> u64 \<Rightarrow> bytes" where
  "old_content c old img m ss ino =
     (case read_file_from_leaf c old img m ss ino of Inl _ \<Rightarrow> [] | Inr content \<Rightarrow> content)"

definition carved :: "codecs \<Rightarrow> node \<Rightarrow> bytes \<Rightarrow> chunk_map \<Rightarrow> u32 \<Rightarrow> disk_key \<times> bytes \<Rightarrow> recovered_file" where
  "carved c old img m ss = (\<lambda>(key, data).
     \<lparr> rf_path = old_name old (k_objectid key), rf_inode = k_objectid key,
       rf_generation = h_generation (n_header old), rf_size = i_size (inode_parse (k_objectid key) data),
       rf_content = old_content c old img m ss (k_objectid key),
       rf_content_sha256 = sha256_hex (old_content c old img m ss (k_objectid key)) \<rparr>)"

lemma rf_inode_carved [simp]: "rf_inode (carved c old img m ss it) = k_objectid (fst it)"
  by (simp add: carved_def case_prod_beta)

lemma set_inode_set:
  "x \<in> set (inode_set leaf) \<longleftrightarrow> (\<exists>it\<in>set (leaf_items leaf). k_objectid (fst it) = x \<and> k_type (fst it) = 1)"
  by (force simp: inode_set_def INODE_ITEM_KEY_def)

lemma recover_item_eq:
  "recover_item c old (inode_set current) (dir_names old) (h_generation (n_header old)) img m ss it =
     (if deleted_since old current it then Some (carved c old img m ss it) else None)"
proof (cases it)
  case (Pair key data)
  have live: "list_ex (\<lambda>(k, _). k_objectid k = ino \<and> k_type k = EXTENT_DATA_KEY) (leaf_items old) \<longleftrightarrow>
      (\<exists>it\<in>set (leaf_items old). k_objectid (fst it) = ino \<and> k_type (fst it) = 108)" for ino
    by (simp add: list_ex_iff case_prod_beta EXTENT_DATA_KEY_def)
  have name: "unwrap_or (get_name (dir_names old) ino) (str ''inode_'' @ dec_u64 ino) = old_name old ino" for ino
    by (simp add: get_name_dir_names old_name_def unwrap_or_def split: option.split)
  show ?thesis
    unfolding Pair recover_item_def prod.case live name set_inode_set
    by (auto simp: deleted_since_def carved_def old_content_def INODE_ITEM_KEY_def not_less Let_def
        f_readers_near usize_max_def INODE_SIZE_FIELD_def inode_parse_def)
qed

lemma recover_pair_eq:
  "recover_deleted_from_leaves c old current img m ss =
     (if h_owner (n_header old) \<noteq> 5 then []
      else map (carved c old img m ss) (filter (deleted_since old current) (leaf_items old)))"
  by (simp add: recover_deleted_from_leaves_def FS_TREE_OBJECTID_def recover_item_eq Let_def
      List.map_filter_def o_def if_distrib cong: if_cong)

section \<open>What an image gives\<close>

text \<open>The older FS trees that can be read, in the order of their slots.\<close>

definition old_leaves ::
    "(bytes \<Rightarrow> u32) \<Rightarrow> bytes \<Rightarrow> superblock \<Rightarrow> chunk_map \<Rightarrow> u64 \<Rightarrow> root_backup list \<Rightarrow> node list" where
  "old_leaves crc img sb m cur bs =
     List.map_filter (\<lambda>b. if rb_fs_root b = 0 \<or> rb_fs_root b = cur then None
       else case read_node crc img sb m (rb_fs_root b) of Inl _ \<Rightarrow> None | Inr old \<Rightarrow> Some old) bs"

lemma foldl_push_recovered:
  "foldl push_recovered out rs = out @ first_by rf_inode (rf_inode ` set out) rs"
proof (induction rs arbitrary: out)
  case (Cons r rs)
  have "list_ex (\<lambda>r'. rf_inode r' = rf_inode r) out \<longleftrightarrow> rf_inode r \<in> rf_inode ` set out"
    by (auto simp: list_ex_iff intro: rev_image_eqI)
  then show ?case unfolding foldl.simps Cons by (simp add: push_recovered_def)
qed simp

lemma old_leaves_simps [simp]:
  "old_leaves crc img sb m cur [] = []"
  "old_leaves crc img sb m cur (b # bs) =
     (if rb_fs_root b = 0 \<or> rb_fs_root b = cur then []
      else case read_node crc img sb m (rb_fs_root b) of Inl _ \<Rightarrow> [] | Inr old \<Rightarrow> [old])
     @ old_leaves crc img sb m cur bs"
  by (simp_all add: old_leaves_def List.map_filter_simps split: sum.split)

lemma old_leaves_iff:
  "old \<in> set (old_leaves crc img sb m cur bs) \<longleftrightarrow>
     (\<exists>b\<in>set bs. rb_fs_root b \<noteq> 0 \<and> rb_fs_root b \<noteq> cur \<and> read_node crc img sb m (rb_fs_root b) = Inr old)"
  by (induction bs) (auto split: sum.splits)

lemma foldl_recover_backup:
  "foldl (recover_backup crc c img sb m cur_root current) out bs =
     out @ first_by rf_inode (rf_inode ` set out)
       (concat (map (\<lambda>old. recover_deleted_from_leaves c old current img m (sb_sectorsize sb))
          (old_leaves crc img sb m (fr_bytenr cur_root) bs)))"
proof (induction bs arbitrary: out)
  case (Cons b bs)
  show ?case
    unfolding foldl.simps Cons
    by (cases "read_node crc img sb m (rb_fs_root b)")
      (auto simp: recover_backup_def foldl_push_recovered first_by_append first_by_image image_Un Un_Diff_cancel)
qed simp

text \<open>What \<open>recover_deleted\<close> finds before it compares anything.\<close>

definition carve_state ::
    "(bytes \<Rightarrow> u32) \<Rightarrow> bytes \<Rightarrow> (superblock \<times> chunk_map \<times> node \<times> node list) option" where
  "carve_state crc img =
     (case audit_super crc img of
        None \<Rightarrow> None
      | Some (blk, sb) \<Rightarrow>
          let m = walk_or_default crc img sb in
          (case fs_tree_root crc img sb m of
             Inl _ \<Rightarrow> None
           | Inr cur \<Rightarrow>
               (case read_node crc img sb m (fr_bytenr cur) of
                  Inl _ \<Rightarrow> None
                | Inr current \<Rightarrow>
                    Some (sb, m, current, old_leaves crc img sb m (fr_bytenr cur) (parse_backup_roots blk)))))"

lemma recover_deleted_eq:
  "recover_deleted crc c img =
     (case carve_state crc img of
        None \<Rightarrow> []
      | Some (sb, m, current, olds) \<Rightarrow>
          first_by rf_inode {}
            (concat (map (\<lambda>old. recover_deleted_from_leaves c old current img m (sb_sectorsize sb)) olds)))"
  by (auto simp: recover_deleted_def carve_state_def audit_super_def super_block_range foldl_recover_backup Let_def
      split: sum.split)

lemma first_by_mem: "x \<in> set (first_by f S xs) \<Longrightarrow> x \<in> set xs"
  using first_by_subset by fastforce

lemma recover_deleted_distinct: "distinct (map rf_inode (recover_deleted crc c img))"
  unfolding recover_deleted_eq using first_by_distinct by (auto split: option.split)

lemma recover_deleted_source:
  assumes "r \<in> set (recover_deleted crc c img)"
  obtains blk sb m cur current b old it where "audit_super crc img = Some (blk, sb)"
    "m = walk_or_default crc img sb" "fs_tree_root crc img sb m = Inr cur"
    "read_node crc img sb m (fr_bytenr cur) = Inr current" "b \<in> set (parse_backup_roots blk)"
    "rb_fs_root b \<noteq> 0" "rb_fs_root b \<noteq> fr_bytenr cur" "read_node crc img sb m (rb_fs_root b) = Inr old"
    "h_owner (n_header old) = 5" "it \<in> set (leaf_items old)" "deleted_since old current it"
    "k_objectid (fst it) \<notin> set (inode_set current)" "r = carved c old img m (sb_sectorsize sb) it"
proof -
  from assms obtain sb m current olds where st: "carve_state crc img = Some (sb, m, current, olds)"
    and "r \<in> set (first_by rf_inode {}
            (concat (map (\<lambda>old. recover_deleted_from_leaves c old current img m (sb_sectorsize sb)) olds)))"
    unfolding recover_deleted_eq by (cases "carve_state crc img") auto
  from first_by_mem [OF this(2)] obtain old where old: "old \<in> set olds"
    and r: "r \<in> set (recover_deleted_from_leaves c old current img m (sb_sectorsize sb))"
    by auto
  from st obtain blk cur where super: "audit_super crc img = Some (blk, sb)" "m = walk_or_default crc img sb"
    "fs_tree_root crc img sb m = Inr cur" "read_node crc img sb m (fr_bytenr cur) = Inr current"
    and olds: "olds = old_leaves crc img sb m (fr_bytenr cur) (parse_backup_roots blk)"
    by (auto simp: carve_state_def Let_def split: option.splits sum.splits)
  from r obtain it where it: "h_owner (n_header old) = 5" "it \<in> set (leaf_items old)"
    "deleted_since old current it" "r = carved c old img m (sb_sectorsize sb) it"
    unfolding recover_pair_eq by (auto split: if_splits)
  have "k_objectid (fst it) \<notin> set (inode_set current)"
    using it(3) by (auto simp: deleted_since_def set_inode_set case_prod_beta)
  with super it that old show thesis
    unfolding olds old_leaves_iff by blast
qed

section \<open>Properties\<close>

text \<open>
  Claim C5. The files recovered from a pair of leaves: nothing when the old leaf is not of the FS
  tree; otherwise, in leaf order, one file for each inode item of the old leaf that is a user
  inode with an extent item beside it and no inode item in the current leaf. Its name is that of
  the first directory entry of the inode as the reader parses it, or \<open>inode_\<close> and the number;
  its size is the inode's; its content is what the reader gives, or nothing when the reader
  fails; the digest is the content's.
\<close>

theorem deleted_files_exact:
  "recover_deleted_from_leaves c old current img m ss =
     (if h_owner (n_header old) \<noteq> 5 then []
      else map (\<lambda>(key, data). let ino = k_objectid key; content = old_content c old img m ss ino in
          \<lparr> rf_path = old_name old ino, rf_inode = ino, rf_generation = h_generation (n_header old),
            rf_size = i_size (inode_parse ino data), rf_content = content,
            rf_content_sha256 = sha256_hex content \<rparr>)
        (filter (deleted_since old current) (leaf_items old)))"
  by (simp add: recover_pair_eq carved_def Let_def)

text \<open>
  Claim C6. A file recovered from an image comes from a readable FS-tree leaf that a backup slot
  points to and that is not the current one, where it is deleted since, with the name, size and
  content it has there; no inode is recovered twice, and none that the current leaf still holds.
\<close>

theorem recover_deleted_sound:
  "distinct (map rf_inode (recover_deleted crc c img)) \<and>
   set (recover_deleted crc c img) \<subseteq>
     {carved c old img m (sb_sectorsize sb) it | blk sb m cur current b old it.
        audit_super crc img = Some (blk, sb) \<and> m = walk_or_default crc img sb \<and>
        fs_tree_root crc img sb m = Inr cur \<and> read_node crc img sb m (fr_bytenr cur) = Inr current \<and>
        b \<in> set (parse_backup_roots blk) \<and> rb_fs_root b \<noteq> 0 \<and> rb_fs_root b \<noteq> fr_bytenr cur \<and>
        read_node crc img sb m (rb_fs_root b) = Inr old \<and> h_owner (n_header old) = 5 \<and>
        it \<in> set (leaf_items old) \<and> deleted_since old current it \<and>
        k_objectid (fst it) \<notin> set (inode_set current)}"
  using recover_deleted_distinct by (auto elim!: recover_deleted_source) blast

text \<open>
  Claim C7. Every deleted file of a retained generation is recovered, exactly once: if a backup
  slot points to a readable FS-tree leaf other than the current one, each of its inodes deleted
  since is the inode of one recovered file. An inode is deleted since (\<open>deleted_since\<close>) when its number is
  at least 257, the leaf holds an extent item of it, and the current leaf has no inode item of it.
\<close>

theorem recover_deleted_complete:
  assumes "audit_super crc img = Some (blk, sb)" and "m = walk_or_default crc img sb"
    and "fs_tree_root crc img sb m = Inr cur" and "read_node crc img sb m (fr_bytenr cur) = Inr current"
    and "b \<in> set (parse_backup_roots blk)" and "rb_fs_root b \<noteq> 0" and "rb_fs_root b \<noteq> fr_bytenr cur"
    and "read_node crc img sb m (rb_fs_root b) = Inr old" and "h_owner (n_header old) = 5"
    and "it \<in> set (leaf_items old)" and "deleted_since old current it"
  shows "\<exists>!r. r \<in> set (recover_deleted crc c img) \<and> rf_inode r = k_objectid (fst it)"
proof -
  have "carve_state crc img =
      Some (sb, m, current, old_leaves crc img sb m (fr_bytenr cur) (parse_backup_roots blk))"
    using assms(1-4) by (simp add: carve_state_def Let_def)
  then have eq: "recover_deleted crc c img = first_by rf_inode {}
      (concat (map (\<lambda>old. recover_deleted_from_leaves c old current img m (sb_sectorsize sb))
         (old_leaves crc img sb m (fr_bytenr cur) (parse_backup_roots blk))))"
    by (simp add: recover_deleted_eq)
  have "old \<in> set (old_leaves crc img sb m (fr_bytenr cur) (parse_backup_roots blk))"
    using assms(5-8) by (auto simp: old_leaves_iff)
  moreover have "carved c old img m (sb_sectorsize sb) it \<in>
      set (recover_deleted_from_leaves c old current img m (sb_sectorsize sb))"
    using assms(9-11) by (auto simp: recover_pair_eq)
  ultimately have "rf_inode (carved c old img m (sb_sectorsize sb) it) \<in> rf_inode ` set (recover_deleted crc c img)"
    unfolding eq first_by_image by force
  then show ?thesis
    using recover_deleted_distinct [of crc c img] by (auto simp: distinct_map inj_on_def)
qed

text \<open>
  Claim C14. A small deleted file comes back whole: when the old FS-tree leaf holds its inode item, one
  uncompressed inline extent and a directory entry that is the first to name it, each as the kernel lays it
  out, and the current leaf no longer holds the inode, the recovered file has its name, number and
  size, its bytes and their SHA-256, whatever the image and the chunk map are, and whatever stands in the fields
  that the readers skip.
\<close>

theorem deleted_file_content:
  assumes "h_owner (n_header old) = 5"
    and "find (\<lambda>(k, _). k_objectid k = ino \<and> k_type k = 1) (leaf_items old) =
      Some (key, inode_item_bytes block_group rdev sequence i)"
    and "filter (\<lambda>(k, _). k_objectid k = ino \<and> k_type k = 108) (leaf_items old) =
      [(key', inline_bytes generation payload)]"
    and "leaf_items old = before @ (dir_key, dir_item_bytes loc_type loc_offset transid e) # after"
    and "\<forall>d\<in>set (leaf_dir_entries before). de_child d \<noteq> ino"
    and "k_type dir_key \<in> {84, 96}" and "wf_dir_entry e" and "de_child e = ino"
    and "unat (i_size i) = length payload" and "length payload \<le> 0x4000000" and "257 \<le> ino"
    and "\<forall>it\<in>set (leaf_items current). k_objectid (fst it) \<noteq> ino \<or> k_type (fst it) \<noteq> 1"
  shows "\<lparr> rf_path = de_name e, rf_inode = ino, rf_generation = h_generation (n_header old),
      rf_size = i_size i, rf_content = payload, rf_content_sha256 = sha256_hex payload \<rparr>
    \<in> set (recover_deleted_from_leaves c old current img m ss)"
proof -
  let ?inode = "inode_item_bytes block_group rdev sequence i"
  have content: "old_content c old img m ss ino = payload"
    using read_inline_bytes [OF assms(2,3,9,10)] by (simp add: old_content_def)
  have "leaf_dir_entries (leaf_items old) = leaf_dir_entries before @ e # leaf_dir_entries after"
    using assms(6) parse_dir_item_bytes [OF assms(7)]
    by (auto simp: assms(4) leaf_dir_entries_def List.map_filter_def)
  then have "find (\<lambda>d. de_child d = ino) (leaf_dir_entries (leaf_items old)) = Some e"
    using assms(5,8) by (auto intro: find_append_first)
  then have name: "old_name old ino = de_name e" by (simp add: old_name_def)
  from assms(2) have item: "(key, ?inode) \<in> set (leaf_items old)" "k_objectid key = ino" "k_type key = 1"
    by (auto simp: find_Some_iff in_set_conv_nth)
  have "(key', inline_bytes generation payload) \<in>
      set (filter (\<lambda>(k, _). k_objectid k = ino \<and> k_type k = 108) (leaf_items old))"
    unfolding assms(3) by simp
  then have "\<exists>it\<in>set (leaf_items old). k_objectid (fst it) = ino \<and> k_type (fst it) = 108"
    by force
  with item have "deleted_since old current (key, ?inode)"
    using assms(11,12) by (auto simp: deleted_since_def)
  moreover have "i_size (inode_parse ino ?inode) = i_size i"
    by (simp add: inode_parse_def inode_item_bytes_def fs_consts read_simps)
  then have "carved c old img m ss (key, ?inode) =
      \<lparr> rf_path = de_name e, rf_inode = ino, rf_generation = h_generation (n_header old),
        rf_size = i_size i, rf_content = payload, rf_content_sha256 = sha256_hex payload \<rparr>"
    using item by (simp add: carved_def content name)
  ultimately show ?thesis
    using assms(1) item(1) by (force simp: recover_pair_eq)
qed

section \<open>A disk with a deleted file\<close>

text \<open>
  The root tree at 69632, the current FS tree, already empty, at 70144, and at 70656 the older FS
  tree that the first backup slot still points to, with the file \<open>gone\<close>.
\<close>

definition gone_items :: "(disk_key \<times> bytes) list" where
  "gone_items =
     [(\<lparr>k_objectid = 257, k_type = 1, k_offset = 0\<rparr>, encode_inode (demo_inode 257 0x81A4)),
      (\<lparr>k_objectid = 256, k_type = 84, k_offset = 7\<rparr>,
        encode_dir_item \<lparr> de_name = str ''gone'', de_child = 257, de_type = FileItem \<rparr>),
      (\<lparr>k_objectid = 257, k_type = 108, k_offset = 0\<rparr>, encode_inline (str ''hello''))]"

definition gone_root :: fs_root where
  "gone_root = \<lparr>fr_bytenr = 70144, fr_level = 0, fr_root_dirid = 256, fr_generation = 9\<rparr>"

definition gone_root_leaf :: bytes where
  "gone_root_leaf = encode_leaf (demo_header 1 0 1) (zeros 147)
     [(\<lparr>k_objectid = 5, k_type = 132, k_offset = 0\<rparr>, encode_root_item gone_root)]"

definition gone_current_leaf :: bytes where
  "gone_current_leaf = encode_leaf (demo_header 5 0 0) (zeros 411) []"

definition gone_old_leaf :: bytes where
  "gone_old_leaf = encode_leaf (demo_header 5 0 3) (zeros 116) gone_items"

definition gone_rest :: bytes where
  "gone_rest = zeros 1999 @ to_le_bytes (70656 :: u64) @ zeros 1181"

definition gone_disk :: bytes where
  "gone_disk = small_disk 512 gone_rest (gone_root_leaf @ gone_current_leaf @ gone_old_leaf)"

lemma gone_lengths [simp]:
  "length gone_rest = 3188" "length gone_root_leaf = 512" "length gone_current_leaf = 512"
  "length gone_old_leaf = 512"
  by (simp_all add: gone_rest_def gone_root_leaf_def gone_current_leaf_def gone_old_leaf_def encode_leaf_def
      encode_item_header_def gone_items_def encode_dir_item_def encode_inline_def str_def)

lemma gone_nodes:
  obtains root current old where "node_parse crc gone_root_leaf = Inr root"
    "node_parse crc gone_current_leaf = Inr current" "node_parse crc gone_old_leaf = Inr old"
    "leaf_items root = [(\<lparr>k_objectid = 5, k_type = 132, k_offset = 0\<rparr>, encode_root_item gone_root)]"
    "leaf_items current = []" "leaf_items old = gone_items" "h_owner (n_header old) = 5"
    "h_generation (n_header old) = 9"
proof -
  have wf: "wf_leaf (demo_header 1 0 1) (zeros 147)
      [(\<lparr>k_objectid = 5, k_type = 132, k_offset = 0\<rparr>, encode_root_item gone_root)]"
    "wf_leaf (demo_header 5 0 0) (zeros 411) []" "wf_leaf (demo_header 5 0 3) (zeros 116) gone_items"
    by (simp_all add: wf_leaf_def gone_items_def encode_dir_item_def encode_inline_def str_def)
  obtain root current old where n: "node_parse crc gone_root_leaf = Inr root"
    "node_parse crc gone_current_leaf = Inr current" "node_parse crc gone_old_leaf = Inr old"
    using node_parse_ok_iff [of crc gone_root_leaf] node_parse_ok_iff [of crc gone_current_leaf]
      node_parse_ok_iff [of crc gone_old_leaf] by auto
  show thesis
    using n wf encode_leaf_items
    by (intro that [OF n]) (auto simp: gone_root_leaf_def gone_current_leaf_def gone_old_leaf_def demo_header_def)
qed

lemma gone_disk_super: "audit_super crc gone_disk = Some (small_block 512 gone_rest, small_sb 512)"
  by (simp add: gone_disk_def small_disk_super)

lemma gone_disk_map: "walk_or_default crc gone_disk (small_sb 512) = []"
  by (simp add: gone_disk_def small_disk_map)

lemma gone_disk_reads:
  "read_node crc gone_disk (small_sb 512) [] 69632 = node_parse crc gone_root_leaf"
  "read_node crc gone_disk (small_sb 512) [] 70144 = node_parse crc gone_current_leaf"
  "read_node crc gone_disk (small_sb 512) [] 70656 = node_parse crc gone_old_leaf"
  using small_disk_read [of gone_rest gone_root_leaf 512 69632 "[]" crc "gone_current_leaf @ gone_old_leaf"]
    small_disk_read [of gone_rest gone_current_leaf 512 70144 gone_root_leaf crc gone_old_leaf]
    small_disk_read [of gone_rest gone_old_leaf 512 70656 "gone_root_leaf @ gone_current_leaf" crc "[]"]
  by (simp_all add: gone_disk_def)

lemma gone_backup: "backup_at (small_block 512 gone_rest) 0 \<in> set (parse_backup_roots (small_block 512 gone_rest))"
  by (simp add: parse_backup_roots_eq fits_memory_def)

lemma gone_backup_root: "rb_fs_root (backup_at (small_block 512 gone_rest) 0) = 70656"
proof -
  obtain pre where pre: "small_block 512 gone_rest = pre @ gone_rest" "length pre = 908"
    by (rule small_block_split)
  show ?thesis
    using pre(2) by (simp add: pre(1) backup_at_def Let_def le_u64_skip)
      (simp add: gone_rest_def read_simps)
qed

theorem recover_deleted_complete_witness:
  "\<exists>!r. r \<in> set (recover_deleted crc32c_ref demo_codecs gone_disk) \<and> rf_inode r = 257"
proof -
  obtain root current old where n: "node_parse crc32c_ref gone_root_leaf = Inr root"
    "node_parse crc32c_ref gone_current_leaf = Inr current" "node_parse crc32c_ref gone_old_leaf = Inr old"
    "leaf_items root = [(\<lparr>k_objectid = 5, k_type = 132, k_offset = 0\<rparr>, encode_root_item gone_root)]"
    "leaf_items current = []" "leaf_items old = gone_items" "h_owner (n_header old) = 5"
    by (rule gone_nodes)
  have "fs_tree_root crc32c_ref gone_disk (small_sb 512) [] = Inr gone_root"
    using n by (simp add: fs_tree_root_def gone_disk_reads fs_consts fs_root_parse_encode)
  note complete = recover_deleted_complete [OF gone_disk_super gone_disk_map [symmetric] this _ gone_backup,
      of current old "hd gone_items" demo_codecs]
  show ?thesis
    using complete n by (simp add: gone_root_def gone_backup_root gone_disk_reads)
      (simp add: gone_items_def deleted_since_def)
qed

end
