(* ===== verification/Panic.thy ===== *)
theory Panic
  imports Prelude "HOL-Library.Monad_Syntax"
begin

text \<open>
  Runs that may panic. The operations of Rust that panic (an index or a range outside a slice,
  \<open>copy_from_slice\<close> on different lengths, an overflowing \<open>+\<close>, \<open>-\<close> or \<open>*\<close> in a build with overflow
  checks, a remainder by zero) are partial: \<open>None\<close> is the panic, \<open>Some\<close> the value. A program is a
  \<open>do\<close> block of such operations, and that it never panics is that it is \<open>Some\<close> for every input.
\<close>

type_synonym 'a run = "'a option"

section \<open>Operations that panic\<close>

text \<open>Arithmetic on \<open>usize\<close>.\<close>

definition p_add :: "nat \<Rightarrow> nat \<Rightarrow> nat run" where
  "p_add a b = (if a + b \<le> usize_max then Some (a + b) else None)"

definition p_sub :: "nat \<Rightarrow> nat \<Rightarrow> nat run" where
  "p_sub a b = (if b \<le> a then Some (a - b) else None)"

definition p_mul :: "nat \<Rightarrow> nat \<Rightarrow> nat run" where
  "p_mul a b = (if a * b \<le> usize_max then Some (a * b) else None)"

definition p_rem :: "nat \<Rightarrow> nat \<Rightarrow> nat run" where
  "p_rem a b = (if b = 0 then None else Some (a mod b))"

definition p_div :: "nat \<Rightarrow> nat \<Rightarrow> nat run" where
  "p_div a b = (if b = 0 then None else Some (a div b))"

text \<open>Subtraction on \<open>u64\<close>.\<close>

definition p_sub64 :: "u64 \<Rightarrow> u64 \<Rightarrow> u64 run" where
  "p_sub64 a b = (if b \<le> a then Some (a - b) else None)"

text \<open>\<open>xs[i]\<close>, \<open>xs[a..b]\<close>, \<open>xs[a..]\<close> and \<open>dst.copy_from_slice(src)\<close>, the value being the new \<open>dst\<close>.\<close>

definition p_idx :: "'a list \<Rightarrow> nat \<Rightarrow> 'a run" where
  "p_idx xs i = (if i < length xs then Some (xs ! i) else None)"

definition p_range :: "'a list \<Rightarrow> nat \<Rightarrow> nat \<Rightarrow> 'a list run" where
  "p_range xs a b = get_range xs a b"

definition p_from :: "'a list \<Rightarrow> nat \<Rightarrow> 'a list run" where
  "p_from xs a = get_from xs a"

definition p_copy :: "'a list \<Rightarrow> 'a list \<Rightarrow> 'a list run" where
  "p_copy dst src = (if length dst = length src then Some src else None)"

text \<open>\<open>dst[a..b].copy_from_slice(src)\<close> and \<open>xs[i] = x\<close>.\<close>

definition p_put :: "'a list \<Rightarrow> nat \<Rightarrow> nat \<Rightarrow> 'a list \<Rightarrow> 'a list run" where
  "p_put dst a b src =
     (if a \<le> b \<and> b \<le> length dst \<and> length src = b - a then Some (overwrite dst a src) else None)"

definition p_set :: "'a list \<Rightarrow> nat \<Rightarrow> 'a \<Rightarrow> 'a list run" where
  "p_set xs i x = (if i < length xs then Some (xs[i := x]) else None)"

text \<open>
  A buffer whose size the input chooses: \<open>Vec::with_capacity(n)\<close> and \<open>vec![0; n]\<close>, and what
  \<open>extend_from_slice\<close> and \<open>resize\<close> append, panic beyond \<open>isize::MAX\<close> bytes.
\<close>

definition isize_max :: nat where
  "isize_max = 9223372036854775807"

definition p_alloc :: "nat \<Rightarrow> unit run" where
  "p_alloc n = (if n \<le> isize_max then Some () else None)"

definition p_extend :: "'a list \<Rightarrow> 'a list \<Rightarrow> 'a list run" where
  "p_extend xs ys = (if length xs + length ys \<le> isize_max then Some (xs @ ys) else None)"

section \<open>Loops\<close>

text \<open>A loop over an iterator that collects, and one that threads a state.\<close>

fun run_map :: "('a \<Rightarrow> 'b run) \<Rightarrow> 'a list \<Rightarrow> 'b list run" where
  "run_map f [] = Some []"
| "run_map f (x # xs) = do { y \<leftarrow> f x; ys \<leftarrow> run_map f xs; Some (y # ys) }"

fun run_fold :: "('s \<Rightarrow> 'a \<Rightarrow> 's run) \<Rightarrow> 's \<Rightarrow> 'a list \<Rightarrow> 's run" where
  "run_fold f s [] = Some s"
| "run_fold f s (x # xs) = do { s' \<leftarrow> f s x; run_fold f s' xs }"

text \<open>The question-mark operator in a run: an error ends the function, a panic the program.\<close>

definition try_run :: "('e + 'a) run \<Rightarrow> ('a \<Rightarrow> ('e + 'b) run) \<Rightarrow> ('e + 'b) run" where
  "try_run r k = do { x \<leftarrow> r; case x of Inl e \<Rightarrow> Some (Inl e) | Inr y \<Rightarrow> k y }"

section \<open>Runs that do not panic\<close>

named_theorems run_simps

lemma p_add_Some [run_simps]: "a + b \<le> usize_max \<Longrightarrow> p_add a b = Some (a + b)"
  by (simp add: p_add_def)

lemma p_sub_Some [run_simps]: "b \<le> a \<Longrightarrow> p_sub a b = Some (a - b)"
  by (simp add: p_sub_def)

lemma p_mul_Some [run_simps]: "a * b \<le> usize_max \<Longrightarrow> p_mul a b = Some (a * b)"
  by (simp add: p_mul_def)

lemma p_rem_Some [run_simps]: "0 < b \<Longrightarrow> p_rem a b = Some (a mod b)"
  by (simp add: p_rem_def)

lemma p_div_Some [run_simps]: "0 < b \<Longrightarrow> p_div a b = Some (a div b)"
  by (simp add: p_div_def)

lemma p_sub64_Some [run_simps]: "b \<le> a \<Longrightarrow> p_sub64 a b = Some (a - b)"
  by (simp add: p_sub64_def)

lemma p_idx_Some [run_simps]: "i < length xs \<Longrightarrow> p_idx xs i = Some (xs ! i)"
  by (simp add: p_idx_def)

lemma p_range_Some [run_simps]: "a \<le> b \<Longrightarrow> b \<le> length xs \<Longrightarrow> p_range xs a b = Some (take (b - a) (drop a xs))"
  by (simp add: p_range_def get_range_def)

lemma p_from_Some [run_simps]: "a \<le> length xs \<Longrightarrow> p_from xs a = Some (drop a xs)"
  by (simp add: p_from_def get_from_def)

lemma p_copy_Some [run_simps]: "length dst = length src \<Longrightarrow> p_copy dst src = Some src"
  by (simp add: p_copy_def)

lemma p_put_Some [run_simps]:
  "b = a + length src \<Longrightarrow> b \<le> length dst \<Longrightarrow> p_put dst a b src = Some (overwrite dst a src)"
  by (simp add: p_put_def)

lemma p_set_Some [run_simps]: "i < length xs \<Longrightarrow> p_set xs i x = Some (xs[i := x])"
  by (simp add: p_set_def)

lemma p_alloc_Some [run_simps]: "n \<le> isize_max \<Longrightarrow> p_alloc n = Some ()"
  by (simp add: p_alloc_def)

lemma p_extend_Some [run_simps]: "length xs + length ys \<le> isize_max \<Longrightarrow> p_extend xs ys = Some (xs @ ys)"
  by (simp add: p_extend_def)

lemma try_run_Some [run_simps]: "try_run (Some r) k = (case r of Inl e \<Rightarrow> Some (Inl e) | Inr y \<Rightarrow> k y)"
  by (simp add: try_run_def)

lemma run_map_Some: "(\<And>x. x \<in> set xs \<Longrightarrow> f x = Some (g x)) \<Longrightarrow> run_map f xs = Some (map g xs)"
  by (induction xs) simp_all

lemma run_fold_Some:
  assumes "\<And>s x. x \<in> set xs \<Longrightarrow> P s \<Longrightarrow> f s x = Some (g s x) \<and> P (g s x)" and "P s"
  shows "run_fold f s xs = Some (foldl g s xs) \<and> P (foldl g s xs)"
  using assms by (induction xs arbitrary: s) simp_all

lemma run_fold_total:
  "(\<And>s x. x \<in> set xs \<Longrightarrow> f s x = Some (g s x)) \<Longrightarrow> run_fold f s xs = Some (foldl g s xs)"
  by (induction xs arbitrary: s) simp_all

end
