(* ===== verification/Safe_Readers.thy ===== *)
theory Safe_Readers
  imports Superblock Panic
begin

text \<open>
  The readers of \<open>bytes.rs\<close>, \<open>chunk.rs\<close>, \<open>crc.rs\<close> and \<open>superblock.rs\<close> as runs that may panic: every
  unchecked addition, subtraction, index and \<open>copy_from_slice\<close> of the source is a partial
  operation here. The lemmas say that on a buffer that fits in memory each run is \<open>Some\<close> of
  what the total model of the other theories computes.
\<close>

section \<open>Little-endian readers\<close>

definition le_u16_p :: "bytes \<Rightarrow> nat \<Rightarrow> u16 run" where
  "le_u16_p data off = do {
     lim \<leftarrow> p_add off 2;
     b \<leftarrow> (case get_range data off lim of None \<Rightarrow> Some (replicate 2 0) | Some s \<Rightarrow> p_copy (replicate 2 0) s);
     Some (from_le_bytes b) }"

definition le_u32_p :: "bytes \<Rightarrow> nat \<Rightarrow> u32 run" where
  "le_u32_p data off = do {
     lim \<leftarrow> p_add off 4;
     b \<leftarrow> (case get_range data off lim of None \<Rightarrow> Some (replicate 4 0) | Some s \<Rightarrow> p_copy (replicate 4 0) s);
     Some (from_le_bytes b) }"

definition le_u64_p :: "bytes \<Rightarrow> nat \<Rightarrow> u64 run" where
  "le_u64_p data off = do {
     lim \<leftarrow> p_add off 8;
     b \<leftarrow> (case get_range data off lim of None \<Rightarrow> Some (replicate 8 0) | Some s \<Rightarrow> p_copy (replicate 8 0) s);
     Some (from_le_bytes b) }"

lemma le_p_Some [run_simps]:
  "off + 2 \<le> usize_max \<Longrightarrow> le_u16_p data off = Some (le_u16 data off)"
  "off + 4 \<le> usize_max \<Longrightarrow> le_u32_p data off = Some (le_u32 data off)"
  "off + 8 \<le> usize_max \<Longrightarrow> le_u64_p data off = Some (le_u64 data off)"
  by (auto simp: le_u16_p_def le_u32_p_def le_u64_p_def le_u16_def le_u32_def le_u64_def run_simps
      get_range_def)

text \<open>A fixed array filled byte by byte: \<open>*b = u8_at(data, off + i)\<close>.\<close>

definition bytes_at_p :: "bytes \<Rightarrow> nat \<Rightarrow> nat \<Rightarrow> bytes run" where
  "bytes_at_p data off n = run_map (\<lambda>i. do { k \<leftarrow> p_add off i; Some (u8_at data k) }) [0..<n]"

lemma bytes_at_p_Some [run_simps]: "off + n \<le> usize_max \<Longrightarrow> bytes_at_p data off n = Some (bytes_at data off n)"
  unfolding bytes_at_p_def bytes_at_def by (rule run_map_Some) (simp add: run_simps)

section \<open>Keys, stripes and the bootstrap array\<close>

definition disk_key_parse_p :: "bytes \<Rightarrow> nat \<Rightarrow> disk_key run" where
  "disk_key_parse_p data off = do {
     oid \<leftarrow> le_u64_p data off;
     o8 \<leftarrow> p_add off 8;
     o9 \<leftarrow> p_add off 9;
     koff \<leftarrow> le_u64_p data o9;
     Some \<lparr> k_objectid = oid, k_type = u8_at data o8, k_offset = koff \<rparr> }"

lemma disk_key_parse_p_Some [run_simps]:
  "off + 17 \<le> usize_max \<Longrightarrow> disk_key_parse_p data off = Some (disk_key_parse data off)"
  by (simp add: disk_key_parse_p_def disk_key_parse_def run_simps)

definition stripe_at_p :: "bytes \<Rightarrow> nat \<Rightarrow> stripe run" where
  "stripe_at_p data s = do {
     devid \<leftarrow> le_u64_p data s;
     s8 \<leftarrow> p_add s 8;
     off \<leftarrow> le_u64_p data s8;
     s16 \<leftarrow> p_add s 16;
     dev_uuid \<leftarrow> bytes_at_p data s16 16;
     Some \<lparr> s_devid = devid, s_offset = off, s_uuid = dev_uuid \<rparr> }"

lemma stripe_at_p_Some [run_simps]:
  "s + 32 \<le> usize_max \<Longrightarrow> stripe_at_p data s = Some (stripe_at data s)"
  by (simp add: stripe_at_p_def stripe_at_def run_simps)

fun parse_stripes_p :: "bytes \<Rightarrow> nat \<Rightarrow> nat \<Rightarrow> stripe list run" where
  "parse_stripes_p block s 0 = Some []"
| "parse_stripes_p block s (Suc n) = do {
     st \<leftarrow> stripe_at_p block s;
     sts \<leftarrow> parse_stripes_p block (sat_add s STRIPE_SIZE) n;
     Some (st # sts) }"

lemma parse_stripes_p_Some [run_simps]:
  "s + 32 * n \<le> usize_max \<Longrightarrow> parse_stripes_p block s n = Some (parse_stripes block s n)"
  by (induction block s n rule: parse_stripes.induct)
    (simp_all add: run_simps sat_add_exact STRIPE_SIZE_def)

definition sys_chunk_l2p_p :: "sys_chunk \<Rightarrow> u64 \<Rightarrow> u64 option run" where
  "sys_chunk_l2p_p c logical =
     (let start = k_offset (sc_key c) in
      case u64_checked_add start (sc_length c) of
        None \<Rightarrow> Some None
      | Some lim \<Rightarrow>
          if logical < start \<or> lim \<le> logical then Some None
          else (case sc_stripes c of
                  [] \<Rightarrow> Some None
                | stripe # _ \<Rightarrow> do {
                    delta \<leftarrow> p_sub64 logical start;
                    Some (u64_checked_add (s_offset stripe) delta) }))"

lemma sys_chunk_l2p_p_Some [run_simps]: "sys_chunk_l2p_p c l = Some (sys_chunk_l2p c l)"
  by (auto simp: sys_chunk_l2p_p_def sys_chunk_l2p_def Let_def run_simps split: option.split list.split)

definition sys_chunk_entry_p :: "bytes \<Rightarrow> nat \<Rightarrow> nat \<Rightarrow> (sys_chunk \<times> nat) option run" where
  "sys_chunk_entry_p block lim p =
     (let key_end = sat_add p DISK_KEY_SIZE;
          hdr_end = sat_add key_end CHUNK_HEADER_SIZE in
      if lim < hdr_end then Some None
      else do {
        key \<leftarrow> disk_key_parse_p block p;
        let c = key_end;
        len \<leftarrow> le_u64_p block c;
        c8 \<leftarrow> p_add c 8;
        owner \<leftarrow> le_u64_p block c8;
        c16 \<leftarrow> p_add c 16;
        stripe_len \<leftarrow> le_u64_p block c16;
        c24 \<leftarrow> p_add c 24;
        chunk_type \<leftarrow> le_u64_p block c24;
        c44 \<leftarrow> p_add c 44;
        num_stripes \<leftarrow> le_u16_p block c44;
        c46 \<leftarrow> p_add c 46;
        sub_stripes \<leftarrow> le_u16_p block c46;
        let stripes_start = sat_add c CHUNK_HEADER_SIZE;
        let stripes_bytes = sat_mul (unat num_stripes) STRIPE_SIZE;
        let stripes_end = sat_add stripes_start stripes_bytes;
        if lim < stripes_end then Some None
        else do {
          stripes \<leftarrow> parse_stripes_p block stripes_start (unat num_stripes);
          Some (Some
            (\<lparr> sc_key = key, sc_length = len, sc_owner = owner, sc_stripe_len = stripe_len,
               sc_type = chunk_type, sc_num_stripes = num_stripes, sc_sub_stripes = sub_stripes,
               sc_stripes = stripes \<rparr>,
             stripes_end)) } })"

lemma sys_chunk_entry_p_Some [run_simps]:
  assumes "lim < 2 ^ 63"
  shows "sys_chunk_entry_p block lim p = Some (sys_chunk_entry block lim p)"
proof -
  let ?c = "sat_add p DISK_KEY_SIZE"
  show ?thesis
  proof (cases "lim < sat_add ?c CHUNK_HEADER_SIZE")
    case False
    then have p: "p + 65 \<le> lim" and c: "?c = p + 17"
      using assms by (auto simp: sat_add_def usize_max_def chunk_consts split: if_splits)
    let ?n = "unat (le_u16 block (61 + p))"
    have s: "sat_add (p + 17) CHUNK_HEADER_SIZE = p + 65"
      using p assms by (simp add: sat_add_exact usize_max_def chunk_consts)
    have "parse_stripes_p block (p + 65) ?n = Some (parse_stripes block (p + 65) ?n)"
      using p assms unat_u16_le [of "le_u16 block (61 + p)"] by (intro parse_stripes_p_Some) (simp add: usize_max_def)
    with p assms False show ?thesis
      by (simp add: sys_chunk_entry_p_def sys_chunk_entry_def Let_def c s run_simps usize_max_def)
  qed (simp add: sys_chunk_entry_p_def sys_chunk_entry_def Let_def)
qed

function parse_array_from_p :: "bytes \<Rightarrow> nat \<Rightarrow> nat \<Rightarrow> sys_chunk list run" where
  "parse_array_from_p block lim p = do {
     e \<leftarrow> sys_chunk_entry_p block lim p;
     (case e of
        None \<Rightarrow> Some []
      | Some (chunk, p') \<Rightarrow> do {
          rest \<leftarrow> (if p < p' \<and> p' \<le> lim then parse_array_from_p block lim p' else Some []);
          Some (chunk # rest) }) }"
  by pat_completeness auto
termination
  by (relation "measure (\<lambda>(block, lim, p). Suc lim - p)") auto

declare parse_array_from_p.simps [simp del]

lemma parse_array_from_p_Some [run_simps]:
  "lim < 2 ^ 63 \<Longrightarrow> parse_array_from_p block lim p = Some (parse_array_from block lim p)"
proof (induction block lim p rule: parse_array_from.induct)
  case (1 block lim p)
  then show ?case
    by (auto simp: parse_array_from_p.simps [of block lim p] parse_array_from.simps [of block lim p] run_simps
        split: option.split)
qed

definition parse_array_p :: "bytes \<Rightarrow> nat \<Rightarrow> u32 \<Rightarrow> sys_chunk list run" where
  "parse_array_p block array_off array_size =
     (let declared_end = sat_add array_off (unat array_size);
          lim = min declared_end (length block) in
      parse_array_from_p block lim array_off)"

lemma parse_array_p_Some [run_simps]:
  "fits_memory block \<Longrightarrow> parse_array_p block off n = Some (parse_array block off n)"
  by (simp add: parse_array_p_def parse_array_def Let_def run_simps fits_memory_def)

section \<open>Checksum and superblock\<close>

definition verify_superblock_crc32c_p :: "(bytes \<Rightarrow> u32) \<Rightarrow> bytes \<Rightarrow> nat \<Rightarrow> bool run" where
  "verify_superblock_crc32c_p crc block covered_len =
     (case get_range block 0 4 of
        None \<Rightarrow> Some False
      | Some stored_bytes \<Rightarrow> do {
          stored \<leftarrow> run_map (p_idx stored_bytes) [0, 1, 2, 3];
          if covered_len \<le> BTRFS_CSUM_SIZE then Some False
          else (case get_range block BTRFS_CSUM_SIZE covered_len of
                  None \<Rightarrow> Some False
                | Some covered \<Rightarrow> Some (to_le_bytes (crc covered) = stored)) })"

lemma verify_p_Some [run_simps]:
  "verify_superblock_crc32c_p crc block n = Some (verify_superblock_crc32c crc block n)"
proof (cases "get_range block 0 4")
  case (Some s)
  then have "length s = 4" by (auto simp: slice_simps)
  then obtain a b c d where s: "s = [a, b, c, d]"
    by (auto simp: numeral_eq_Suc length_Suc_conv)
  have "run_map (p_idx s) [0, 1, 2, 3] = Some s"
    by (simp add: s p_idx_def)
  then show ?thesis
    by (auto simp: verify_superblock_crc32c_p_def verify_superblock_crc32c_def Some split: option.split)
qed (simp add: verify_superblock_crc32c_p_def verify_superblock_crc32c_def)

definition superblock_crc_status_p ::
    "(bytes \<Rightarrow> u32) \<Rightarrow> csum_type \<Rightarrow> bytes \<Rightarrow> nat \<Rightarrow> bool option run" where
  "superblock_crc_status_p crc csum_type block covered_len =
     (case csum_type of
        Crc32c \<Rightarrow> do { b \<leftarrow> verify_superblock_crc32c_p crc block covered_len; Some (Some b) }
      | _ \<Rightarrow> Some None)"

lemma superblock_crc_status_p_Some [run_simps]:
  "superblock_crc_status_p crc t block n = Some (superblock_crc_status crc t block n)"
  by (cases t) (simp_all add: superblock_crc_status_p_def superblock_crc_status_def run_simps)

definition superblock_parse_p :: "(bytes \<Rightarrow> u32) \<Rightarrow> bytes \<Rightarrow> (btrfs_error + superblock) run" where
  "superblock_parse_p crc block = do {
     magic \<leftarrow> bytes_at_p block MAGIC_OFFSET 8;
     if magic \<noteq> BTRFS_MAGIC then Some (Inl (BadMagic magic))
     else if length block < SB_MIN_LEN then
       Some (Inl (Truncated ''superblock'' SB_MIN_LEN (length block)))
     else do {
       let csum = bytes_at block 0 4;
       fsid \<leftarrow> bytes_at_p block 0x20 BTRFS_FSID_SIZE;
       sectorsize \<leftarrow> le_u32_p block 0x90;
       code \<leftarrow> le_u16_p block 0xc4;
       let csum_type = csum_from_code code;
       let covered = max (min (unat sectorsize) (length block)) BTRFS_CSUM_SIZE;
       crc_valid \<leftarrow> superblock_crc_status_p crc csum_type block covered;
       sys_chunk_array_size \<leftarrow> le_u32_p block 0xa0;
       sys_chunks \<leftarrow> parse_array_p block SYS_CHUNK_ARRAY_OFFSET sys_chunk_array_size;
       let label = decode_label block 0x12b;
       bytenr \<leftarrow> le_u64_p block 0x30;
       flags \<leftarrow> le_u64_p block 0x38;
       generation \<leftarrow> le_u64_p block 0x48;
       root \<leftarrow> le_u64_p block 0x50;
       chunk_root \<leftarrow> le_u64_p block 0x58;
       log_root \<leftarrow> le_u64_p block 0x60;
       total_bytes \<leftarrow> le_u64_p block 0x70;
       bytes_used \<leftarrow> le_u64_p block 0x78;
       root_dir_objectid \<leftarrow> le_u64_p block 0x80;
       num_devices \<leftarrow> le_u64_p block 0x88;
       nodesize \<leftarrow> le_u32_p block 0x94;
       stripesize \<leftarrow> le_u32_p block 0x9c;
       chunk_root_generation \<leftarrow> le_u64_p block 0xa4;
       compat_flags \<leftarrow> le_u64_p block 0xac;
       compat_ro_flags \<leftarrow> le_u64_p block 0xb4;
       incompat_flags \<leftarrow> le_u64_p block 0xbc;
       Some (Inr
         \<lparr> sb_magic = magic, sb_csum = csum, sb_fsid = fsid, sb_bytenr = bytenr, sb_flags = flags,
           sb_generation = generation, sb_root = root, sb_chunk_root = chunk_root, sb_log_root = log_root,
           sb_total_bytes = total_bytes, sb_bytes_used = bytes_used,
           sb_root_dir_objectid = root_dir_objectid, sb_num_devices = num_devices,
           sb_sectorsize = sectorsize, sb_nodesize = nodesize, sb_stripesize = stripesize,
           sb_sys_chunk_array_size = sys_chunk_array_size,
           sb_chunk_root_generation = chunk_root_generation, sb_compat_flags = compat_flags,
           sb_compat_ro_flags = compat_ro_flags, sb_incompat_flags = incompat_flags,
           sb_csum_type = csum_type, sb_root_level = u8_at block 0xc6,
           sb_chunk_root_level = u8_at block 0xc7, sb_log_root_level = u8_at block 0xc8,
           sb_label = label, sb_sys_chunks = sys_chunks, sb_crc_valid = crc_valid \<rparr>) } }"

lemma superblock_parse_p_Some [run_simps]:
  "fits_memory block \<Longrightarrow> superblock_parse_p crc block = Some (superblock_parse crc block)"
  by (simp add: superblock_parse_p_def superblock_parse_def run_simps Let_def super_consts usize_max_def)

definition uuid_string_p :: "bytes \<Rightarrow> rstring run" where
  "uuid_string_p u = do {
     let h = map hex_u8 u;
     p \<leftarrow> run_map (p_idx h) [0..<16];
     Some (concat (take 4 p) @ str ''-'' @ concat (take 2 (drop 4 p)) @ str ''-'' @ concat (take 2 (drop 6 p))
       @ str ''-'' @ concat (take 2 (drop 8 p)) @ str ''-'' @ concat (drop 10 p)) }"

lemma uuid_string_p_Some [run_simps]: "length u = 16 \<Longrightarrow> uuid_string_p u = Some (uuid_string u)"
  by (auto simp: uuid_string_p_def uuid_string_def p_idx_def upt_rec Let_def dest!: length16_elems)

end
