(* ===== verification/Safe_Nodes.thy ===== *)
theory Safe_Nodes
  imports ChunkMap Safe_Readers
begin

text \<open>
  \<open>node.rs\<close> as runs that may panic: the node parser with its three tables, the chunk map, the walk of
  the chunk tree and \<open>read_node\<close>. No block and no image that fits in memory makes any of them panic.
\<close>

section \<open>Node blocks\<close>

definition header_parse_p :: "bytes \<Rightarrow> header option run" where
  "header_parse_p block =
     (if length block < BTRFS_HEADER_SIZE then Some None
      else do {
        let csum = bytes_at block 0 4;
        fsid \<leftarrow> bytes_at_p block HDR_FSID 16;
        chunk_tree_uuid \<leftarrow> bytes_at_p block HDR_CHUNK_TREE_UUID 16;
        bytenr \<leftarrow> le_u64_p block HDR_BYTENR;
        flags \<leftarrow> le_u64_p block HDR_FLAGS;
        generation \<leftarrow> le_u64_p block HDR_GENERATION;
        owner \<leftarrow> le_u64_p block HDR_OWNER;
        nritems \<leftarrow> le_u32_p block HDR_NRITEMS;
        Some (Some
          \<lparr> h_csum = csum, h_fsid = fsid, h_bytenr = bytenr, h_flags = flags,
            h_chunk_tree_uuid = chunk_tree_uuid, h_generation = generation, h_owner = owner,
            h_nritems = nritems, h_level = u8_at block HDR_LEVEL \<rparr>) })"

lemma header_parse_p_Some [run_simps]: "header_parse_p block = Some (header_parse block)"
  by (simp add: header_parse_p_def header_parse_def run_simps usize_max_def)

definition item_header_at_p :: "bytes \<Rightarrow> nat \<Rightarrow> item_header run" where
  "item_header_at_p block io = do {
     key \<leftarrow> disk_key_parse_p block io;
     o1 \<leftarrow> p_add io DISK_KEY_SIZE;
     data_offset \<leftarrow> le_u32_p block o1;
     o2 \<leftarrow> p_add o1 4;
     data_size \<leftarrow> le_u32_p block o2;
     Some \<lparr> ih_key = key, ih_data_offset = data_offset, ih_data_size = data_size \<rparr> }"

definition key_ptr_at_p :: "bytes \<Rightarrow> nat \<Rightarrow> key_ptr run" where
  "key_ptr_at_p block po = do {
     key \<leftarrow> disk_key_parse_p block po;
     o1 \<leftarrow> p_add po DISK_KEY_SIZE;
     blockptr \<leftarrow> le_u64_p block o1;
     o2 \<leftarrow> p_add o1 8;
     generation \<leftarrow> le_u64_p block o2;
     Some \<lparr> kp_key = key, kp_blockptr = blockptr, kp_generation = generation \<rparr> }"

lemma table_entry_p_Some [run_simps]:
  "io + 25 \<le> usize_max \<Longrightarrow> item_header_at_p block io = Some (item_header_at block io)"
  "io + 33 \<le> usize_max \<Longrightarrow> key_ptr_at_p block io = Some (key_ptr_at block io)"
  by (simp_all add: item_header_at_p_def item_header_at_def key_ptr_at_p_def key_ptr_at_def run_simps DISK_KEY_SIZE_def)

text \<open>The loop of all three tables: entry \<open>i\<close> at \<open>base + i * sz\<close>, with both operations checked.\<close>

definition table_p :: "nat \<Rightarrow> nat \<Rightarrow> (bytes \<Rightarrow> nat \<Rightarrow> 'e run) \<Rightarrow> bytes \<Rightarrow> nat \<Rightarrow> 'e list run" where
  "table_p base sz entry block declared = do {
     let avail = length block - base;
     max_fit \<leftarrow> p_div avail sz;
     run_map (\<lambda>i. do { d \<leftarrow> p_mul i sz; o1 \<leftarrow> p_add base d; entry block o1 }) [0..<min declared max_fit] }"

lemma table_p_Some:
  assumes "fits_memory block" and "0 < sz" and "base + sz < 1024"
    and entry: "\<And>o1. o1 + sz \<le> usize_max \<Longrightarrow> entry block o1 = Some (entry_at block o1)"
  shows "table_p base sz entry block n =
    Some (map (\<lambda>i. entry_at block (base + i * sz)) [0..<min n ((length block - base) div sz)])"
proof -
  have "do { d \<leftarrow> p_mul i sz; o1 \<leftarrow> p_add base d; entry block o1 } = Some (entry_at block (base + i * sz))"
    if "i < (length block - base) div sz" for i
  proof -
    have "i * sz \<le> (length block - base) div sz * sz"
      using that by (intro mult_le_mono1) simp
    also have "\<dots> \<le> length block - base" by simp
    finally have "i * sz < 2 ^ 63" using assms(1) by (simp add: fits_memory_def)
    then show ?thesis
      using assms(3) by (simp add: run_simps entry usize_max_def)
  qed
  then have "run_map (\<lambda>i. do { d \<leftarrow> p_mul i sz; o1 \<leftarrow> p_add base d; entry block o1 })
      [0..<min n ((length block - base) div sz)] =
    Some (map (\<lambda>i. entry_at block (base + i * sz)) [0..<min n ((length block - base) div sz)])"
    by (intro run_map_Some) simp
  then show ?thesis
    using assms(2) by (simp add: table_p_def run_simps Let_def)
qed

definition parse_items_p :: "bytes \<Rightarrow> nat \<Rightarrow> item_header list run" where
  "parse_items_p block nritems = table_p BTRFS_HEADER_SIZE BTRFS_ITEM_SIZE item_header_at_p block nritems"

definition parse_key_ptrs_p :: "bytes \<Rightarrow> nat \<Rightarrow> key_ptr list run" where
  "parse_key_ptrs_p block nritems = table_p BTRFS_HEADER_SIZE BTRFS_KEY_PTR_SIZE key_ptr_at_p block nritems"

definition chunk_stripes_p :: "bytes \<Rightarrow> nat \<Rightarrow> stripe list run" where
  "chunk_stripes_p data num_stripes = table_p CHUNK_HEADER_SIZE STRIPE_SIZE stripe_at_p data num_stripes"

lemma tables_p_Some [run_simps]:
  assumes "fits_memory block"
  shows "parse_items_p block n = Some (parse_items block n)"
    and "parse_key_ptrs_p block n = Some (parse_key_ptrs block n)"
    and "chunk_stripes_p block n = Some (chunk_stripes block n)"
proof -
  show "parse_items_p block n = Some (parse_items block n)"
    unfolding parse_items_p_def items.parse_eq
    by (rule table_p_Some [OF assms]) (simp_all add: run_simps node_consts DISK_KEY_SIZE_def)
  show "parse_key_ptrs_p block n = Some (parse_key_ptrs block n)"
    unfolding parse_key_ptrs_p_def ptrs.parse_eq
    by (rule table_p_Some [OF assms]) (simp_all add: run_simps node_consts DISK_KEY_SIZE_def)
  show "chunk_stripes_p block n = Some (chunk_stripes block n)"
    unfolding chunk_stripes_p_def stripes.parse_eq
    by (rule table_p_Some [OF assms]) (simp_all add: run_simps chunk_consts)
qed

definition node_parse_p :: "(bytes \<Rightarrow> u32) \<Rightarrow> bytes \<Rightarrow> (btrfs_error + node) run" where
  "node_parse_p crc block = do {
     h \<leftarrow> header_parse_p block;
     (case h of
        None \<Rightarrow> Some (Inl (Truncated ''btrfs_header'' BTRFS_HEADER_SIZE (length block)))
      | Some header \<Rightarrow> do {
          crc_valid \<leftarrow> superblock_crc_status_p crc Crc32c block (length block);
          let nritems = unat (h_nritems header);
          body \<leftarrow> (if h_level header = 0
                    then do { items \<leftarrow> parse_items_p block nritems; Some (Leaf items) }
                    else do { ptrs \<leftarrow> parse_key_ptrs_p block nritems; Some (Interior ptrs) });
          Some (Inr \<lparr> n_header = header, n_crc_valid = crc_valid, n_body = body, n_block = block \<rparr>) }) }"

lemma node_parse_p_Some [run_simps]:
  "fits_memory block \<Longrightarrow> node_parse_p crc block = Some (node_parse crc block)"
  by (simp add: node_parse_p_def node_parse_def run_simps Let_def split: option.split)

definition chunk_parse_p :: "bytes \<Rightarrow> chunk run" where
  "chunk_parse_p data = do {
     num_stripes \<leftarrow> le_u16_p data 44;
     stripes \<leftarrow> chunk_stripes_p data (unat num_stripes);
     len \<leftarrow> le_u64_p data 0;
     owner \<leftarrow> le_u64_p data 8;
     stripe_len \<leftarrow> le_u64_p data 16;
     chunk_type \<leftarrow> le_u64_p data 24;
     sub_stripes \<leftarrow> le_u16_p data 46;
     Some \<lparr> ck_length = len, ck_owner = owner, ck_stripe_len = stripe_len, ck_type = chunk_type,
       ck_num_stripes = num_stripes, ck_sub_stripes = sub_stripes, ck_stripes = stripes \<rparr> }"

lemma chunk_parse_p_Some [run_simps]: "fits_memory data \<Longrightarrow> chunk_parse_p data = Some (chunk_parse data)"
  by (simp add: chunk_parse_p_def chunk_parse_def run_simps usize_max_def Let_def)

text \<open>\<open>leaf_items\<close> and \<open>key_ptrs\<close> use saturating operations and \<open>get\<close> only: they cannot panic.\<close>

definition chunk_items_p :: "node \<Rightarrow> (u64 \<times> chunk) list run" where
  "chunk_items_p n =
     run_map (\<lambda>(key, data). do { c \<leftarrow> chunk_parse_p data; Some (k_offset key, c) })
       (filter (\<lambda>(key, _). k_type key = CHUNK_ITEM_KEY) (leaf_items n))"

text \<open>Every item's data is a piece of the block, so it fits in memory when the block does.\<close>

definition fits_node :: "node \<Rightarrow> bool" where
  "fits_node n \<longleftrightarrow> fits_memory (n_block n)"

lemma fits_item:
  assumes "fits_node n" and "(key, data) \<in> set (leaf_items n)"
  shows "fits_memory data"
proof -
  have le: "length (item_data n it) \<le> length (n_block n)" for it
    using assms(1) by (auto simp: fits_node_def item_data_exact)
  from assms(2) obtain it where "data = item_data n it"
    by (auto simp: leaf_items_def Let_def)
  with le [of it] assms(1) show ?thesis
    by (simp add: fits_node_def fits_memory_def)
qed

lemma fits_node_parse: "node_parse crc block = Inr n \<Longrightarrow> fits_memory block \<Longrightarrow> fits_node n"
  by (simp add: node_parse_Inr_iff fits_node_def)

lemma chunk_items_p_Some [run_simps]: "fits_node n \<Longrightarrow> chunk_items_p n = Some (chunk_items n)"
  unfolding chunk_items_p_def chunk_items_def
  by (rule run_map_Some) (auto simp: run_simps fits_item)

section \<open>The chunk map\<close>

fun map_l2p_p :: "chunk_map \<Rightarrow> u64 \<Rightarrow> (u64 \<times> u64) option run" where
  "map_l2p_p [] logical = Some None"
| "map_l2p_p (e # es) logical =
     (case u64_checked_add (me_start e) (me_length e) of
        None \<Rightarrow> Some None
      | Some lim \<Rightarrow>
          if me_start e \<le> logical \<and> logical < lim then
            (case me_stripes e of
               [] \<Rightarrow> Some None
             | (devid, phys_start) # _ \<Rightarrow> do {
                 delta \<leftarrow> p_sub64 logical (me_start e);
                 (case u64_checked_add phys_start delta of
                    None \<Rightarrow> Some None
                  | Some phys \<Rightarrow> Some (Some (devid, phys))) })
          else map_l2p_p es logical)"

lemma map_l2p_p_Some [run_simps]: "map_l2p_p m l = Some (map_l2p m l)"
  by (induction m l rule: map_l2p.induct)
    (auto simp: run_simps Let_def split: option.split list.split)

text \<open>
  The walk. Its pattern \<open>Suc budget\<close> is the decrement behind the test for zero; the
  positions in the image use saturating additions.
\<close>

fun walk_loop_p :: "(bytes \<Rightarrow> u32) \<Rightarrow> bytes \<Rightarrow> nat \<Rightarrow> chunk_map \<Rightarrow>
    nat \<Rightarrow> chunk_map \<Rightarrow> u64 list \<Rightarrow> bool \<Rightarrow> (btrfs_error + chunk_map) run" where
  "walk_loop_p crc img nodesize boot budget m [] bootstrapped = Some (Inr m)"
| "walk_loop_p crc img nodesize boot 0 m (logical # st) bootstrapped = Some (Inr m)"
| "walk_loop_p crc img nodesize boot (Suc budget) m (logical # st) bootstrapped = do {
     r1 \<leftarrow> map_l2p_p m logical;
     r \<leftarrow> (case r1 of None \<Rightarrow> map_l2p_p boot logical | Some x \<Rightarrow> Some (Some x));
     (case r of
        None \<Rightarrow>
          if \<not> bootstrapped then
            Some (Inl (Truncated ''chunk_root logical (sys_chunk_array bootstrap)'' (unat logical) 0))
          else walk_loop_p crc img nodesize boot budget m st bootstrapped
      | Some (_, phys) \<Rightarrow>
          let start = unat phys in
          (case get_range img start (sat_add start nodesize) of
             None \<Rightarrow>
               if m = [] then
                 Some (Inl (Truncated ''chunk_root node (out of image)'' (sat_add start nodesize) (length img)))
               else walk_loop_p crc img nodesize boot budget m st True
           | Some block \<Rightarrow> do {
               r \<leftarrow> node_parse_p crc block;
               (case r of
                  Inl _ \<Rightarrow> walk_loop_p crc img nodesize boot budget m st True
                | Inr node \<Rightarrow>
                    if is_leaf node then do {
                      cs \<leftarrow> chunk_items_p node;
                      walk_loop_p crc img nodesize boot budget (m @ map entry_of_chunk cs) st True }
                    else
                      walk_loop_p crc img nodesize boot budget m
                        (rev (map kp_blockptr (key_ptrs node)) @ st) True) })) }"

lemma fits_range: "fits_memory img \<Longrightarrow> get_range img a b = Some block \<Longrightarrow> fits_memory block"
  by (auto simp: slice_simps fits_memory_def)

lemma or_else_run: "(case x of None \<Rightarrow> Some y | Some z \<Rightarrow> Some (Some z)) = Some (or_else x y)"
  by (cases x) simp_all

lemma walk_loop_p_Some [run_simps]:
  assumes "fits_memory img"
  shows "walk_loop_p crc img ns boot k m st b = Some (walk_loop crc img ns boot k m st b)"
proof (induction k arbitrary: m st b)
  case 0
  then show ?case by (cases st) simp_all
next
  case (Suc k)
  show ?case
  proof (cases st)
    case (Cons l st')
    have block: "(get_range img a c = Some blk \<Longrightarrow> node_parse_p crc blk = Some (node_parse crc blk))" for a c blk
      by (simp add: run_simps fits_range [OF assms])
    have items: "get_range img a c = Some blk \<Longrightarrow> node_parse crc blk = Inr n \<Longrightarrow>
        chunk_items_p n = Some (chunk_items n)" for a c blk n
      by (simp add: run_simps fits_node_parse fits_range [OF assms])
    show ?thesis
      unfolding Cons walk_loop_p.simps walk_loop.simps run_simps Option.bind.bind_lunit or_else_run
      by (auto simp: Let_def Suc block items add_from_node_def split: option.split sum.split)
  qed simp
qed

definition walk_p :: "(bytes \<Rightarrow> u32) \<Rightarrow> bytes \<Rightarrow> superblock \<Rightarrow> (btrfs_error + chunk_map) run" where
  "walk_p crc img sb =
     walk_loop_p crc img (unat (sb_nodesize sb)) (boot_map sb) 4096 [] [sb_chunk_root sb] False"

lemma walk_p_Some [run_simps]: "fits_memory img \<Longrightarrow> walk_p crc img sb = Some (walk crc img sb)"
  by (simp add: walk_p_def walk_def run_simps del: walk_loop_p.simps walk_loop.simps)

section \<open>Reading a node\<close>

fun find_map_p :: "('a \<Rightarrow> 'b option run) \<Rightarrow> 'a list \<Rightarrow> 'b option run" where
  "find_map_p f [] = Some None"
| "find_map_p f (x # xs) = do {
     r \<leftarrow> f x;
     (case r of None \<Rightarrow> find_map_p f xs | Some y \<Rightarrow> Some (Some y)) }"

lemma find_map_p_Some: "(\<And>x. f x = Some (g x)) \<Longrightarrow> find_map_p f xs = Some (find_map g xs)"
  by (induction xs) (simp_all split: option.split)

definition node_phys_p :: "superblock \<Rightarrow> chunk_map \<Rightarrow> u64 \<Rightarrow> (u64 \<times> u64) option run" where
  "node_phys_p sb m logical = do {
     r \<leftarrow> map_l2p_p m logical;
     (case r of
        Some x \<Rightarrow> Some (Some x)
      | None \<Rightarrow>
          find_map_p (\<lambda>c. do { p \<leftarrow> sys_chunk_l2p_p c logical; Some (map_option (Pair 0) p) }) (sb_sys_chunks sb)) }"

lemma node_phys_p_Some [run_simps]: "node_phys_p sb m l = Some (node_phys sb m l)"
  by (simp add: node_phys_p_def node_phys_def run_simps find_map_p_Some
      [where g = "\<lambda>c. map_option (Pair 0) (sys_chunk_l2p c l)"] split: option.split)

definition read_node_p ::
    "(bytes \<Rightarrow> u32) \<Rightarrow> bytes \<Rightarrow> superblock \<Rightarrow> chunk_map \<Rightarrow> u64 \<Rightarrow> (btrfs_error + node) run" where
  "read_node_p crc img sb m logical = do {
     r \<leftarrow> node_phys_p sb m logical;
     (case r of
        None \<Rightarrow> Some (Inl (Truncated ''logical address (no chunk mapping)'' (unat logical) 0))
      | Some (_, phys) \<Rightarrow>
          let nodesize = unat (sb_nodesize sb); start = unat phys in
          (case get_range img start (sat_add start nodesize) of
             None \<Rightarrow> Some (Inl (Truncated ''node block (out of image)'' (sat_add start nodesize) (length img)))
           | Some block \<Rightarrow> node_parse_p crc block)) }"

lemma read_node_p_Some [run_simps]:
  assumes "fits_memory img"
  shows "read_node_p crc img sb m l = Some (read_node crc img sb m l)"
  by (auto simp: read_node_p_def read_node_def run_simps fits_range [OF assms] Let_def split: option.split)

lemma fits_read_node: "fits_memory img \<Longrightarrow> read_node crc img sb m l = Inr n \<Longrightarrow> fits_node n"
  by (auto simp: read_node_def Let_def intro: fits_node_parse fits_range split: option.splits prod.splits)

end
