(* ===== verification/Safe_Content.thy ===== *)
theory Safe_Content
  imports Extent Safe_Nodes
begin

text \<open>
  \<open>fstree.rs\<close> and \<open>extent.rs\<close> as runs that may panic. Inodes, directories, packed records and paths
  never panic. Reading content does not either, when the decompressor of a block stays within the
  buffer it is given (its documented behaviour) and the extents of the file cannot together exceed
  the largest buffer (\<open>fits_content\<close>): each extent is bounded by a guard of the code, their sum is not.
\<close>

section \<open>Inodes and directories\<close>

definition timestamp_parse_p :: "bytes \<Rightarrow> nat \<Rightarrow> timestamp run" where
  "timestamp_parse_p data off = do {
     sec \<leftarrow> le_u64_p data off;
     o1 \<leftarrow> p_add off 8;
     nsec \<leftarrow> le_u32_p data o1;
     Some \<lparr> t_sec = sec, t_nsec = nsec \<rparr> }"

lemma timestamp_parse_p_Some [run_simps]:
  "off + 12 \<le> usize_max \<Longrightarrow> timestamp_parse_p data off = Some (timestamp_parse data off)"
  by (simp add: timestamp_parse_p_def timestamp_parse_def run_simps)

definition inode_parse_p :: "u64 \<Rightarrow> bytes \<Rightarrow> inode run" where
  "inode_parse_p objectid data = do {
     generation \<leftarrow> le_u64_p data INO_GENERATION;
     transid \<leftarrow> le_u64_p data INO_TRANSID;
     sz \<leftarrow> le_u64_p data INO_SIZE;
     nbytes \<leftarrow> le_u64_p data INO_NBYTES;
     nlink \<leftarrow> le_u32_p data INO_NLINK;
     uid \<leftarrow> le_u32_p data INO_UID;
     gid \<leftarrow> le_u32_p data INO_GID;
     mode \<leftarrow> le_u32_p data INO_MODE;
     flags \<leftarrow> le_u64_p data INO_FLAGS;
     atime \<leftarrow> timestamp_parse_p data INO_ATIME;
     ctime \<leftarrow> timestamp_parse_p data INO_CTIME;
     mtime \<leftarrow> timestamp_parse_p data INO_MTIME;
     otime \<leftarrow> timestamp_parse_p data INO_OTIME;
     Some \<lparr> i_objectid = objectid, i_generation = generation, i_transid = transid, i_size = sz,
       i_nbytes = nbytes, i_nlink = nlink, i_uid = uid, i_gid = gid, i_mode = mode, i_flags = flags,
       i_atime = atime, i_ctime = ctime, i_mtime = mtime, i_otime = otime \<rparr> }"

lemma inode_parse_p_Some [run_simps]: "inode_parse_p oid data = Some (inode_parse oid data)"
  by (simp add: inode_parse_p_def inode_parse_def run_simps usize_max_def)

definition read_inode_p :: "node \<Rightarrow> u64 \<Rightarrow> inode option run" where
  "read_inode_p leaf objectid =
     (case find (\<lambda>(key, _). k_objectid key = objectid \<and> k_type key = INODE_ITEM_KEY) (leaf_items leaf) of
        None \<Rightarrow> Some None
      | Some (_, data) \<Rightarrow> do { i \<leftarrow> inode_parse_p objectid data; Some (Some i) })"

lemma read_inode_p_Some [run_simps]: "read_inode_p leaf oid = Some (read_inode leaf oid)"
  by (simp add: read_inode_p_def read_inode_def run_simps split: option.split prod.split)

definition parse_dir_item_p :: "bytes \<Rightarrow> dir_entry option run" where
  "parse_dir_item_p data =
     (if length data < DIR_NAME then Some None
      else do {
        child \<leftarrow> le_u64_p data 0;
        let type_byte = u8_at data DIR_TYPE;
        nl \<leftarrow> le_u16_p data DIR_NAME_LEN;
        let name_len = unat nl;
        let name_start = DIR_NAME;
        let avail = length data - name_start;
        let n = min name_len avail;
        lim \<leftarrow> p_add name_start n;
        let name_bytes = unwrap_or (get_range data name_start lim) [];
        Some (Some \<lparr> de_name = from_utf8_lossy name_bytes, de_child = child,
          de_type = dir_item_type_from_byte type_byte \<rparr>) })"

lemma parse_dir_item_p_Some [run_simps]: "parse_dir_item_p data = Some (parse_dir_item data)"
proof -
  have "min (unat (le_u16 data 27)) k + 30 \<le> usize_max" for k
    using unat_less_exp [of "le_u16 data 27"] by (simp add: usize_max_def)
  then show ?thesis
    by (simp add: parse_dir_item_p_def parse_dir_item_def run_simps usize_max_def Let_def
        DIR_NAME_def DIR_NAME_LEN_def DIR_TYPE_def add.commute)
qed

definition list_dir_step_p :: "u64 \<Rightarrow> dir_entry list \<Rightarrow> disk_key \<times> bytes \<Rightarrow> dir_entry list run" where
  "list_dir_step_p dir out item =
     (case item of (key, data) \<Rightarrow>
        if \<not> is_dir_key dir key then Some out
        else do {
          e \<leftarrow> parse_dir_item_p data;
          (case e of
             None \<Rightarrow> Some out
           | Some entry \<Rightarrow>
               if list_ex (\<lambda>e. de_name e = de_name entry \<and> de_child e = de_child entry) out then Some out
               else Some (out @ [entry])) })"

definition list_dir_p :: "node \<Rightarrow> u64 \<Rightarrow> dir_entry list run" where
  "list_dir_p leaf dir = run_fold (list_dir_step_p dir) [] (leaf_items leaf)"

lemma list_dir_p_Some [run_simps]: "list_dir_p leaf dir = Some (list_dir leaf dir)"
proof -
  have "list_dir_step_p dir out it = Some (list_dir_step dir out it)" for out it
    by (simp add: list_dir_step_p_def list_dir_step_def run_simps split: option.split prod.split)
  then show ?thesis
    unfolding list_dir_p_def list_dir_def by (intro run_fold_total)
qed

section \<open>Packed records\<close>

text \<open>The loop \<open>while let Some(rest) = data.get(off..)\<close> with its addition checked.\<close>

function packed_walk_p :: "(bytes \<Rightarrow> ('r \<times> nat) option run) \<Rightarrow> bytes \<Rightarrow> nat \<Rightarrow> 'r list run" where
  "packed_walk_p parse data off =
     (case get_from data off of
        None \<Rightarrow> Some []
      | Some rest \<Rightarrow>
          (case parse rest of
             None \<Rightarrow> None
           | Some None \<Rightarrow> Some []
           | Some (Some (x, consumed)) \<Rightarrow>
               if consumed = 0 then Some [x]
               else
                 (case p_add off consumed of
                    None \<Rightarrow> None
                  | Some off' \<Rightarrow> do { xs \<leftarrow> packed_walk_p parse data off'; Some (x # xs) })))"
  by pat_completeness auto
termination
  by (relation "measure (\<lambda>(parse, data, off). Suc (length data) - off)")
    (auto simp: get_from_def p_add_def split: if_splits)

declare packed_walk_p.simps [simp del]

lemma packed_walk_p_Some:
  assumes parse: "\<And>d. parse_p d = Some (parse d)"
    and bound: "\<And>d x n. parse d = Some (x, n) \<Longrightarrow> n \<le> length d"
    and "fits_memory data"
  shows "packed_walk_p parse_p data off = Some (packed_walk parse data off)"
proof (induction "Suc (length data) - off" arbitrary: off rule: less_induct)
  case less
  show ?case
  proof (cases "off \<le> length data \<and> parse (drop off data) \<noteq> None")
    case True
    then obtain x n where x: "parse (drop off data) = Some (x, n)" by fastforce
    then have "off + n \<le> usize_max" and "0 < n \<Longrightarrow> packed_walk_p parse_p data (off + n) =
        Some (packed_walk parse data (off + n))"
      using bound [OF x] True assms(3) less [of "off + n"] by (auto simp: fits_memory_def usize_max_def)
    with True x show ?thesis
      unfolding packed_walk_p.simps [of parse_p data off] packed_walk.simps [of parse data off]
      by (simp add: parse get_from_def run_simps)
  qed (auto simp: packed_walk_p.simps [of parse_p data off] packed_walk.simps [of parse data off]
      parse get_from_def split: option.split)
qed

definition parse_xattr_item_p :: "bytes \<Rightarrow> (xattr \<times> nat) option run" where
  "parse_xattr_item_p data =
     (if length data < DIR_NAME then Some None
      else do {
        dl \<leftarrow> le_u16_p data DIR_DATA_LEN;
        nl \<leftarrow> le_u16_p data DIR_NAME_LEN;
        let data_len = unat dl;
        let name_len = unat nl;
        Some (if name_len = 0 then None
          else
            Option.bind (usize_checked_add DIR_NAME name_len) (\<lambda>name_end.
            Option.bind (usize_checked_add name_end data_len) (\<lambda>value_end.
            Option.bind (get_range data DIR_NAME name_end) (\<lambda>name.
            Option.bind (get_range data name_end value_end) (\<lambda>value.
              Some (\<lparr> xa_name = from_utf8_lossy name, xa_value = value \<rparr>, value_end)))))) })"

definition parse_inode_ref_p :: "u64 \<Rightarrow> bytes \<Rightarrow> (inode_ref \<times> nat) option run" where
  "parse_inode_ref_p parent data =
     (if length data < IREF_NAME then Some None
      else do {
        index \<leftarrow> le_u64_p data IREF_INDEX;
        nl \<leftarrow> le_u16_p data IREF_NAME_LEN;
        let name_len = unat nl;
        Some (if name_len = 0 then None
          else
            Option.bind (usize_checked_add IREF_NAME name_len) (\<lambda>name_end.
            Option.bind (get_range data IREF_NAME name_end) (\<lambda>name.
              Some (\<lparr> ir_parent = parent, ir_index = index, ir_name = from_utf8_lossy name \<rparr>, name_end)))) })"

lemma record_parsers_p_Some [run_simps]:
  "parse_xattr_item_p data = Some (parse_xattr_item data)"
  "parse_inode_ref_p parent data = Some (parse_inode_ref parent data)"
  by (simp_all add: parse_xattr_item_p_def parse_xattr_item_def parse_inode_ref_p_def parse_inode_ref_def
      run_simps Let_def usize_max_def dir_offsets iref_offsets)

definition list_xattrs_p :: "node \<Rightarrow> u64 \<Rightarrow> xattr list run" where
  "list_xattrs_p leaf objectid = do {
     xs \<leftarrow> run_map (\<lambda>(key, data).
       if k_objectid key \<noteq> objectid \<or> k_type key \<noteq> XATTR_ITEM_KEY then Some []
       else packed_walk_p parse_xattr_item_p data 0) (leaf_items leaf);
     Some (concat xs) }"

definition list_inode_refs_p :: "node \<Rightarrow> u64 \<Rightarrow> inode_ref list run" where
  "list_inode_refs_p leaf objectid = do {
     xs \<leftarrow> run_map (\<lambda>(key, data).
       if k_objectid key \<noteq> objectid \<or> k_type key \<noteq> INODE_REF_KEY then Some []
       else packed_walk_p (parse_inode_ref_p (k_offset key)) data 0) (leaf_items leaf);
     Some (concat xs) }"

lemma record_lists_p_Some [run_simps]:
  assumes "fits_node leaf"
  shows "list_xattrs_p leaf oid = Some (list_xattrs leaf oid)"
    and "list_inode_refs_p leaf oid = Some (list_inode_refs leaf oid)"
proof -
  have xattr: "packed_walk_p parse_xattr_item_p data 0 = Some (packed_walk parse_xattr_item data 0)"
    if "fits_memory data" for data
    by (rule packed_walk_p_Some) (auto simp: run_simps parse_xattr_item_iff that)
  have ref: "packed_walk_p (parse_inode_ref_p q) data 0 = Some (packed_walk (parse_inode_ref q) data 0)"
    if "fits_memory data" for q data
    by (rule packed_walk_p_Some) (auto simp: run_simps parse_inode_ref_iff that)
  show "list_xattrs_p leaf oid = Some (list_xattrs leaf oid)"
    unfolding list_xattrs_p_def list_xattrs_def
    by (subst run_map_Some [where g = "\<lambda>(key, data).
       if k_objectid key \<noteq> oid \<or> k_type key \<noteq> XATTR_ITEM_KEY then []
       else packed_walk parse_xattr_item data 0"]) (auto simp: xattr fits_item [OF assms])
  show "list_inode_refs_p leaf oid = Some (list_inode_refs leaf oid)"
    unfolding list_inode_refs_p_def list_inode_refs_def
    by (subst run_map_Some [where g = "\<lambda>(key, data).
       if k_objectid key \<noteq> oid \<or> k_type key \<noteq> INODE_REF_KEY then []
       else packed_walk (parse_inode_ref (k_offset key)) data 0"]) (auto simp: ref fits_item [OF assms])
qed

section \<open>The root of the FS tree and paths\<close>

definition fs_root_parse_p :: "bytes \<Rightarrow> fs_root run" where
  "fs_root_parse_p data = do {
     bytenr \<leftarrow> le_u64_p data ROOT_BYTENR;
     let level = u8_at data ROOT_LEVEL;
     root_dirid \<leftarrow> le_u64_p data ROOT_ROOT_DIRID;
     generation \<leftarrow> le_u64_p data ROOT_GENERATION;
     Some \<lparr> fr_bytenr = bytenr, fr_level = level, fr_root_dirid = root_dirid, fr_generation = generation \<rparr> }"

definition fs_tree_root_p ::
    "(bytes \<Rightarrow> u32) \<Rightarrow> bytes \<Rightarrow> superblock \<Rightarrow> chunk_map \<Rightarrow> (btrfs_error + fs_root) run" where
  "fs_tree_root_p crc img sb m =
     try_run (read_node_p crc img sb m (sb_root sb)) (\<lambda>node.
       (case find (\<lambda>(key, _). k_objectid key = FS_TREE_OBJECTID \<and> k_type key = ROOT_ITEM_KEY)
               (leaf_items node) of
          Some (_, data) \<Rightarrow> do { r \<leftarrow> fs_root_parse_p data; Some (Inr r) }
        | None \<Rightarrow> Some (Inl (Truncated ''FS_TREE ROOT_ITEM (objectid 5) in root tree''
            (unat FS_TREE_OBJECTID) (unat (h_nritems (n_header node)))))))"

lemma fs_root_parse_p_Some [run_simps]: "fs_root_parse_p data = Some (fs_root_parse data)"
  by (simp add: fs_root_parse_p_def fs_root_parse_def run_simps usize_max_def Let_def)

lemma fs_tree_root_p_Some [run_simps]:
  "fits_memory img \<Longrightarrow> fs_tree_root_p crc img sb m = Some (fs_tree_root crc img sb m)"
  by (auto simp: fs_tree_root_p_def fs_tree_root_def run_simps split: sum.split option.split)

fun resolve_p :: "node \<Rightarrow> u64 \<Rightarrow> inode \<Rightarrow> rstring list \<Rightarrow> (u64 \<times> inode) option run" where
  "resolve_p leaf current inode [] = Some (Some (current, inode))"
| "resolve_p leaf current inode (component # rest) =
     (if \<not> is_dir inode then Some None
      else do {
        entries \<leftarrow> list_dir_p leaf current;
        (case find (\<lambda>e. de_name e = component) entries of
           None \<Rightarrow> Some None
         | Some entry \<Rightarrow> do {
             r \<leftarrow> read_inode_p leaf (de_child entry);
             (case r of None \<Rightarrow> Some None | Some inode' \<Rightarrow> resolve_p leaf (de_child entry) inode' rest) }) })"

lemma resolve_p_Some [run_simps]: "resolve_p leaf cur i cs = Some (resolve leaf cur i cs)"
  by (induction leaf cur i cs rule: resolve.induct) (simp_all add: run_simps split: option.split)

definition read_by_path_p :: "node \<Rightarrow> rstring \<Rightarrow> (u64 \<times> inode) option run" where
  "read_by_path_p leaf path = do {
     r \<leftarrow> read_inode_p leaf FS_TREE_ROOT_DIR_OBJECTID;
     (case r of
        None \<Rightarrow> Some None
      | Some inode \<Rightarrow> resolve_p leaf FS_TREE_ROOT_DIR_OBJECTID inode (components path)) }"

lemma read_by_path_p_Some [run_simps]: "read_by_path_p leaf path = Some (read_by_path leaf path)"
  by (simp add: read_by_path_p_def read_by_path_def run_simps split: option.split)

section \<open>LZO frames\<close>

definition le32_padded_p :: "bytes \<Rightarrow> nat \<Rightarrow> bytes run" where
  "le32_padded_p src off = do {
     let b = replicate 8 0;
     lim \<leftarrow> p_add off 4;
     (case get_range src off lim of None \<Rightarrow> Some b | Some s \<Rightarrow> p_put b 0 4 s) }"

lemma le32_padded_p_Some [run_simps]: "off + 4 \<le> usize_max \<Longrightarrow> le32_padded_p src off = Some (le32_padded src off)"
  by (auto simp: le32_padded_p_def le32_padded_def run_simps get_range_def overwrite_def)

definition lzo_align_p :: "nat \<Rightarrow> nat \<Rightarrow> nat \<Rightarrow> nat run" where
  "lzo_align_p sectorsize len_all cur = do {
     r \<leftarrow> p_rem cur sectorsize;
     q \<leftarrow> p_add r 4;
     if q > sectorsize then do {
       d \<leftarrow> p_sub sectorsize r;
       Some (unwrap_or (usize_checked_add cur d) len_all) }
     else Some cur }"

lemma lzo_align_p_Some [run_simps]:
  assumes "0 < ss" and "ss + 4 \<le> usize_max"
  shows "lzo_align_p ss len_all cur = Some (lzo_align ss len_all cur)"
proof -
  have "cur mod ss < ss" using assms(1) by simp
  with assms have "p_add (cur mod ss) 4 = Some (cur mod ss + 4)" "p_sub ss (cur mod ss) = Some (ss - cur mod ss)"
    by (auto intro!: p_add_Some p_sub_Some)
  with assms(1) show ?thesis by (simp add: lzo_align_p_def lzo_align_def run_simps)
qed

lemma lzo_align_p_ge:
  assumes "lzo_align_p ss len_all cur = Some pos" and "cur < len_all"
  shows "cur \<le> pos"
proof -
  have "cur \<le> cur + ss - cur mod ss" if "cur mod ss \<le> ss" using that by linarith
  then show ?thesis
    using assms
    by (auto simp: lzo_align_p_def p_rem_def p_add_def p_sub_def usize_checked_add_def bind_eq_Some_conv
        split: if_splits)
qed

text \<open>
  The segment loop, statement by statement. \<open>dst\<close> is the buffer behind the decompressor: what it wrote,
  then zeros; \<open>&dst[..n]\<close> is evaluated on every turn, as the argument of \<open>unwrap_or\<close>.
  No progress test is needed: past the checked additions the position has grown.
\<close>

function lzo_loop_p :: "(bytes \<Rightarrow> nat \<Rightarrow> bytes option) \<Rightarrow> bytes \<Rightarrow> nat \<Rightarrow> nat \<Rightarrow> nat \<Rightarrow> nat \<Rightarrow>
    nat \<Rightarrow> bytes \<Rightarrow> (btrfs_error + bytes) run" where
  "lzo_loop_p dec src cap sectorsize seg_out_cap len_all cur out =
     (if \<not> (cur < len_all \<and> length out < cap) then Some (Inr out)
      else
        (case lzo_align_p sectorsize len_all cur of
           None \<Rightarrow> None
         | Some pos \<Rightarrow>
             if len_all \<le> pos then Some (Inr out)
             else
               (case p_add pos 4 of
                  None \<Rightarrow> None
                | Some body \<Rightarrow>
                    (case get_range src pos body of
                       None \<Rightarrow> Some (Inr out)
                     | Some h \<Rightarrow> do {
                         b0 \<leftarrow> p_idx h 0;
                         b1 \<leftarrow> p_idx h 1;
                         b2 \<leftarrow> p_idx h 2;
                         b3 \<leftarrow> p_idx h 3;
                         let seg_len = unat (from_le_bytes [b0, b1, b2, b3] :: u32);
                         if seg_len = 0 then Some (Inr out)
                         else
                           (case get_range src body (min (sat_add body seg_len) (length src)) of
                              None \<Rightarrow> Some (Inr out)
                            | Some seg \<Rightarrow> do {
                                _ \<leftarrow> p_alloc seg_out_cap;
                                (case dec seg seg_out_cap of
                                   None \<Rightarrow> Some (Inl (Truncated ''LZO extent segment (decompression failed)''
                                             seg_len (length out)))
                                 | Some d \<Rightarrow> do {
                                     let dst = take seg_out_cap (d @ replicate seg_out_cap 0);
                                     room \<leftarrow> p_sub cap (length out);
                                     let want = min room (length d);
                                     written \<leftarrow> p_range dst 0 (length d);
                                     out' \<leftarrow> p_extend out (unwrap_or (get_range dst 0 want) written);
                                     lzo_loop_p dec src cap sectorsize seg_out_cap len_all
                                       (sat_add body seg_len) out' }) }) }))))"
  by pat_completeness auto
termination
proof (relation "measure (\<lambda>(dec, src, cap, ss, sc, len_all, cur, out). len_all - cur)", goal_cases)
  case (2 dec src cap ss sc len_all cur out pos body)
  then have "cur < body" "cur < len_all" "body \<le> usize_max"
    using lzo_align_p_ge [of ss len_all cur pos] by (auto simp: p_add_def split: if_splits)
  then have "cur < sat_add body n" for n
    using sat_add_ge [of body n] by linarith
  with \<open>cur < len_all\<close> show ?case by (auto intro!: diff_less_mono2)
qed simp

declare lzo_loop_p.simps [simp del]

lemma range_Some: "get_range src a b = Some h \<Longrightarrow> a \<le> b \<and> b \<le> length src \<and> length h = b - a"
  by (auto simp: get_range_def split: if_splits)

lemma four_bytes:
  assumes "length h = 4"
  shows "[h ! 0, h ! Suc 0, h ! 2, h ! 3] = h"
  using assms by (auto simp: numeral_eq_Suc length_Suc_conv)

definition codec_fits :: "(bytes \<Rightarrow> nat \<Rightarrow> bytes option) \<Rightarrow> bool" where
  "codec_fits dec \<longleftrightarrow> (\<forall>seg n d. dec seg n = Some d \<longrightarrow> length d \<le> n)"

lemma lzo_loop_p_Some:
  assumes "fits_memory src" and "0 < ss" and "ss + 4 \<le> usize_max" and "len_all \<le> max (length src) 4"
    and "cap \<le> isize_max" and "sc \<le> isize_max" and dec: "codec_fits dec"
  shows "lzo_loop_p dec src cap ss sc len_all cur out = Some (lzo_loop dec src cap ss sc len_all cur out)"
proof (induction "len_all - cur" arbitrary: cur out rule: less_induct)
  case less
  let ?pos = "lzo_align ss len_all cur"
  note unf = lzo_loop_p.simps [of dec src cap ss sc len_all cur out]
    lzo_loop.simps [of dec src cap ss sc len_all cur out]
  show ?case
  proof (cases "cur < len_all \<and> length out < cap \<and> ?pos < len_all")
    case False
    then show ?thesis using assms(2,3) by (auto simp: unf run_simps Let_def)
  next
    case True
    have pos4: "?pos + 4 \<le> usize_max"
      using True assms(1,4) by (auto simp: fits_memory_def usize_max_def)
    have ge: "cur \<le> ?pos" using True lzo_align_ge by blast
    show ?thesis
    proof (cases "get_range src ?pos (?pos + 4)")
      case None
      with True pos4 assms(2,3) show ?thesis by (simp add: unf run_simps Let_def)
    next
      case (Some h)
      then have h: "length h = 4" by (auto dest: range_Some)
      let ?n = "unat (from_le_bytes h :: u32)"
      let ?cur = "sat_add (?pos + 4) ?n"
      have step: "cur < ?cur" using ge pos4 sat_add_ge [of "?pos + 4" ?n] by linarith
      have IH: "lzo_loop_p dec src cap ss sc len_all ?cur o' = Some (lzo_loop dec src cap ss sc len_all ?cur o')" for o'
        using True step by (intro less) linarith
      let ?w = "\<lambda>d :: bytes. min (cap - length out) (length d)"
      have dst: "p_range (take sc (d @ replicate sc 0)) 0 (length d) = Some d"
        "get_range (take sc (d @ replicate sc 0)) 0 (?w d) = Some (take (?w d) d)"
        if "dec seg sc = Some d" for seg d
      proof -
        have "length d \<le> sc" using that dec by (auto simp: codec_fits_def)
        then show "p_range (take sc (d @ replicate sc 0)) 0 (length d) = Some d"
          "get_range (take sc (d @ replicate sc 0)) 0 (?w d) = Some (take (?w d) d)"
          by (auto simp: run_simps get_range_def min_def)
      qed
      have ext: "p_extend out (take (?w d) d) = Some (out @ take (?w d) d)" for d
        using True assms(5) by (auto simp: p_extend_def)
      show ?thesis
      proof (cases "?n = 0")
        case True
        with \<open>cur < len_all \<and> length out < cap \<and> ?pos < len_all\<close> Some pos4 assms(2,3) h show ?thesis
          by (simp add: unf run_simps Let_def four_bytes)
      next
        case n: False
        have "lzo_loop_p dec src cap ss sc len_all cur out =
            (case get_range src (?pos + 4) (min ?cur (length src)) of
               None \<Rightarrow> Some (Inr out)
             | Some seg \<Rightarrow>
                 (case dec seg sc of
                    None \<Rightarrow> Some (Inl (Truncated ''LZO extent segment (decompression failed)'' ?n (length out)))
                  | Some d \<Rightarrow> lzo_loop_p dec src cap ss sc len_all ?cur (out @ take (?w d) d)))"
          using True Some pos4 assms(2,3,6) h n
          by (simp add: unf(1) run_simps Let_def four_bytes dst ext del: take_append split: option.split)
        moreover have "lzo_loop dec src cap ss sc len_all cur out =
            (case get_range src (?pos + 4) (min ?cur (length src)) of
               None \<Rightarrow> Inr out
             | Some seg \<Rightarrow>
                 (case dec seg sc of
                    None \<Rightarrow> Inl (Truncated ''LZO extent segment (decompression failed)'' ?n (length out))
                  | Some d \<Rightarrow> lzo_loop dec src cap ss sc len_all ?cur (out @ take (?w d) d)))"
          using True Some n step by (simp add: unf(2) Let_def split: option.split)
        ultimately show ?thesis by (simp add: IH split: option.split)
      qed
    qed
  qed
qed

definition decompress_lzo_btrfs_p :: "codecs \<Rightarrow> bytes \<Rightarrow> nat \<Rightarrow> u32 \<Rightarrow> (btrfs_error + bytes) run" where
  "decompress_lzo_btrfs_p c src cap sectorsize = do {
     let ss = max (unat sectorsize) 1;
     b \<leftarrow> le32_padded_p src 0;
     declared \<leftarrow> le_u64_p b 0;
     let len_all = max (min (unat declared) (length src)) 4;
     _ \<leftarrow> p_alloc cap;
     sixteenth \<leftarrow> p_div ss 16;
     let seg_out_cap = sat_add (sat_add ss sixteenth) 64;
     try_run (lzo_loop_p (lzo_block c) src cap ss seg_out_cap len_all 4 []) (\<lambda>out. Some (Inr (take cap out))) }"

lemma decompress_lzo_btrfs_p_Some [run_simps]:
  assumes "fits_memory src" and "cap \<le> isize_max" and "codec_fits (lzo_block c)"
  shows "decompress_lzo_btrfs_p c src cap sectorsize = Some (decompress_lzo_btrfs c src cap sectorsize)"
proof -
  let ?ss = "max (unat sectorsize) 1"
  have ss: "0 < ?ss" "?ss + 4 \<le> usize_max" "sat_add (sat_add ?ss (?ss div 16)) 64 \<le> isize_max"
    using unat_less_exp [of sectorsize] by (auto simp: usize_max_def isize_max_def sat_add_def)
  have "lzo_loop_p (lzo_block c) src cap ?ss (sat_add (sat_add ?ss (?ss div 16)) 64) n 4 [] =
      Some (lzo_loop (lzo_block c) src cap ?ss (sat_add (sat_add ?ss (?ss div 16)) 64) n 4 [])"
    if "n \<le> max (length src) 4" for n
    by (rule lzo_loop_p_Some [OF assms(1) ss(1,2) that assms(2) ss(3) assms(3)])
  then show ?thesis
    using assms(2) by (simp add: decompress_lzo_btrfs_p_def decompress_lzo_btrfs_def run_simps Let_def
        usize_max_def min.coboundedI2 max.coboundedI1 split: sum.split)
qed

section \<open>Decompression\<close>

text \<open>Both streaming decoders collect into \<open>Vec::with_capacity(cap)\<close>.\<close>

definition decompress_zlib_p :: "codecs \<Rightarrow> bytes \<Rightarrow> nat \<Rightarrow> (btrfs_error + bytes) run" where
  "decompress_zlib_p c src cap = do { _ \<leftarrow> p_alloc cap; Some (decompress_zlib c src cap) }"

definition decompress_zstd_p :: "codecs \<Rightarrow> bytes \<Rightarrow> nat \<Rightarrow> (btrfs_error + bytes) run" where
  "decompress_zstd_p c src cap =
     (case zstd_stream c src of
        None \<Rightarrow> Some (Inl (Truncated ''zstd extent frame (bad frame header)'' cap 0))
      | Some s \<Rightarrow> do {
          _ \<leftarrow> p_alloc cap;
          Some (case read_capped s cap of
             Inr out \<Rightarrow> Inr out
           | Inl n \<Rightarrow> Inl (Truncated ''zstd extent frame (decompression failed)'' cap n)) })"

lemma decompress_stream_p_Some [run_simps]:
  "cap \<le> isize_max \<Longrightarrow> decompress_zlib_p c src cap = Some (decompress_zlib c src cap)"
  "cap \<le> isize_max \<Longrightarrow> decompress_zstd_p c src cap = Some (decompress_zstd c src cap)"
  by (simp_all add: decompress_zlib_p_def decompress_zstd_p_def decompress_zstd_def run_simps split: option.split)

definition decompress_extent_p ::
    "codecs \<Rightarrow> compression \<Rightarrow> bytes \<Rightarrow> u64 \<Rightarrow> u32 \<Rightarrow> (btrfs_error + bytes) run" where
  "decompress_extent_p c algo src ram_bytes sectorsize =
     (if algo = NoCompression then
        let n = min (unat ram_bytes) (length src) in
        Some (Inr (unwrap_or (get_range src 0 n) src))
      else
        let bound = u64_sat_add (u64_sat_mul (of_nat (length src)) 1024) (push_bit 20 1) in
        try_run (Some (guard_alloc ''compressed ram_bytes'' ram_bytes bound)) (\<lambda>_.
          let cap = unat ram_bytes in
          (case algo of
             Zlib \<Rightarrow> decompress_zlib_p c src cap
           | Zstd \<Rightarrow> decompress_zstd_p c src cap
           | Lzo \<Rightarrow> decompress_lzo_btrfs_p c src cap sectorsize
           | other \<Rightarrow> Some (Inl (Truncated ''extent compression algorithm (unsupported codec)''
                        (unat (unsupported_codec_byte other)) 0)))))"

text \<open>
  The guard bounds the capacity by 1024 times the source plus one mebibyte, so the source must be
  smaller than the largest buffer by that factor.
\<close>

definition expand_bound :: "nat \<Rightarrow> nat" where
  "expand_bound n = n * 1024 + 2 ^ 20"

lemma guard_expand:
  assumes "expand_bound (length src) \<le> isize_max"
    and "ram \<le> u64_sat_add (u64_sat_mul (of_nat (length src)) 1024) (push_bit 20 1)"
  shows "unat ram \<le> expand_bound (length src)"
proof -
  have "length src * 1024 + 1048576 < 2 ^ 64" 
    using assms(1) by (simp add: expand_bound_def isize_max_def)
  then have "unat (u64_sat_add (u64_sat_mul (of_nat (length src)) 1024) (push_bit 20 1)) = length src * 1024 + 2 ^ 20"
    by (simp add: u64_sat_add_def u64_sat_mul_def unat_of_nat unat_add_u64 unat_word_ariths push_bit_eq_mult)
  with assms(2) show ?thesis by (simp add: word_le_nat_alt expand_bound_def)
qed

lemma decompress_extent_p_Some [run_simps]:
  assumes "expand_bound (length src) \<le> isize_max" and "codec_fits (lzo_block c)"
  shows "decompress_extent_p c algo src ram sectorsize = Some (decompress_extent c algo src ram sectorsize)"
proof -
  have fits: "fits_memory src" using assms(1) by (simp add: fits_memory_def expand_bound_def isize_max_def)
  have "unat ram \<le> isize_max" if "\<not> u64_sat_add (u64_sat_mul (of_nat (length src)) 1024) (push_bit 20 1) < ram"
    using guard_expand [OF assms(1)] assms(1) that by (meson leI le_trans)
  then show ?thesis
    unfolding decompress_extent_p_def decompress_extent_def try_run_Some Let_def
    by (auto simp: run_simps guard_alloc_def fits assms(2) split: compression.split)
qed

section \<open>Reading content\<close>

definition read_regular_extent_p :: "codecs \<Rightarrow> bytes \<Rightarrow> chunk_map \<Rightarrow> u32 \<Rightarrow> compression \<Rightarrow>
    u64 \<Rightarrow> u64 \<Rightarrow> u64 \<Rightarrow> u64 \<Rightarrow> (btrfs_error + bytes) run" where
  "read_regular_extent_p c img m sectorsize compression disk_bytenr ext_offset num_bytes ram_bytes =
     (let image_len = of_nat (length img) :: u64 in
      try_run (Some (guard_alloc ''extent num_bytes'' num_bytes image_len)) (\<lambda>_.
      try_run (do { r \<leftarrow> map_l2p_p m disk_bytenr;
          Some (ok_or r (Truncated ''extent disk_bytenr (no chunk mapping)'' (unat disk_bytenr) 0)) }) (\<lambda>(_, phys).
        if compression = NoCompression then
          let start = unat (u64_sat_add phys ext_offset);
              lim = sat_add start (unat num_bytes) in
          Some (ok_or (get_range img start lim)
            (Truncated ''regular extent data (out of image)'' lim (length img)))
        else
          let start = unat phys in
          try_run (Some (ok_or (get_from img start)
              (Truncated ''compressed extent source (out of image)'' start (length img)))) (\<lambda>src.
          try_run (decompress_extent_p c compression src ram_bytes sectorsize) (\<lambda>whole.
            let win_start = unat ext_offset;
                win_end = sat_add win_start (unat num_bytes) in
            Some (Inr (unwrap_or (get_range whole win_start (min win_end (length whole))) [])))))))"

lemma read_regular_extent_p_Some [run_simps]:
  assumes "expand_bound (length img) \<le> isize_max" and "codec_fits (lzo_block c)"
  shows "read_regular_extent_p c img m ss alg disk off num ram =
    Some (read_regular_extent c img m ss alg disk off num ram)"
proof -
  have "decompress_extent_p c alg src ram ss = Some (decompress_extent c alg src ram ss)"
    if "get_from img start = Some src" for src start
    using that assms by (intro decompress_extent_p_Some) (auto simp: get_from_def expand_bound_def split: if_splits)
  then show ?thesis
    unfolding read_regular_extent_p_def read_regular_extent_def try_run_Some Let_def run_simps
    by (auto simp: guard_alloc_def run_simps ok_or_def split: sum.split option.split prod.split)
qed

text \<open>The body of the loop over the extents: the buffer with the bytes of one extent behind it.\<close>

definition extent_append_p :: "codecs \<Rightarrow> bytes \<Rightarrow> chunk_map \<Rightarrow> u32 \<Rightarrow> u64 \<Rightarrow> bytes \<Rightarrow> bytes \<Rightarrow>
    (btrfs_error + bytes) run" where
  "extent_append_p c img m sectorsize bound out data = do {
     ram_bytes \<leftarrow> le_u64_p data EXT_RAM_BYTES;
     let etype = u8_at data EXT_TYPE;
     let compression = compression_from_byte (u8_at data EXT_COMPRESSION);
     if etype = EXTENT_TYPE_INLINE then
       let payload = unwrap_or (get_from data EXTENT_HEADER_LEN) [] in
       try_run (decompress_extent_p c compression payload ram_bytes sectorsize) (\<lambda>bs. do {
         out' \<leftarrow> p_extend out bs; Some (Inr out') })
     else if etype = EXTENT_TYPE_REG \<or> etype = EXTENT_TYPE_PREALLOC then do {
       disk_bytenr \<leftarrow> le_u64_p data EXT_DISK_BYTENR;
       ext_offset \<leftarrow> le_u64_p data EXT_OFFSET;
       num_bytes \<leftarrow> le_u64_p data EXT_NUM_BYTES;
       if disk_bytenr = 0 then
         try_run (Some (guard_alloc ''hole num_bytes'' num_bytes bound)) (\<lambda>_. do {
           n \<leftarrow> p_add (length out) (unat num_bytes);
           out' \<leftarrow> p_extend out (replicate (n - length out) 0);
           Some (Inr out') })
       else
         try_run (read_regular_extent_p c img m sectorsize compression disk_bytenr ext_offset num_bytes ram_bytes)
           (\<lambda>bs. do { out' \<leftarrow> p_extend out bs; Some (Inr out') }) }
     else
       Some (Inl (Truncated ''btrfs_file_extent_item type (unknown extent type)'' (unat etype) 0)) }"

fun assemble_p :: "codecs \<Rightarrow> bytes \<Rightarrow> chunk_map \<Rightarrow> u32 \<Rightarrow> u64 \<Rightarrow> (u64 \<times> bytes) list \<Rightarrow> bytes \<Rightarrow>
    (btrfs_error + bytes) run" where
  "assemble_p c img m sectorsize bound [] out = Some (Inr out)"
| "assemble_p c img m sectorsize bound ((file_off, data) # rest) out =
     try_run (extent_append_p c img m sectorsize bound out data) (\<lambda>out'.
       assemble_p c img m sectorsize bound rest out')"

text \<open>The most one extent can append, for items in a block of \<open>n\<close> bytes.\<close>

definition content_bound :: "nat \<Rightarrow> bytes \<Rightarrow> nat" where
  "content_bound n img = max (max (length img) (2 ^ 26)) (expand_bound n)"

lemma extent_bytes_length:
  assumes "extent_bytes c img m ss (max (of_nat (length img)) LOGICAL_ALLOC_FLOOR) data = Inr bs"
    and "length data \<le> n" and "expand_bound n \<le> isize_max" and "fits_memory img"
  shows "length bs \<le> content_bound n img"
proof -
  have len: "unat (of_nat (length img) :: u64) = length img"
    using assms(4) by (simp add: unat_of_nat fits_memory_def)
  have inline: "length bs \<le> expand_bound n"
    if "decompress_extent c algo src ram ss = Inr bs" and "length src \<le> n" for algo src ram
  proof (cases "algo = NoCompression")
    case True
    with that show ?thesis by (auto simp: decompress_extent_def Let_def get_range_def expand_bound_def)
  next
    case False
    with that(1) have "ram \<le> u64_sat_add (u64_sat_mul (of_nat (length src)) 1024) (push_bit 20 1)"
      by (auto simp: decompress_extent_def Let_def try_res_Inr_iff)
    from guard_expand [OF _ this] decompress_extent_length [OF that(1)] assms(3) that(2)
    show ?thesis by (auto simp: expand_bound_def)
  qed
  have regular: "length bs \<le> length img"
    if "read_regular_extent c img m ss alg disk off num ram = Inr bs" for alg disk off num ram
  proof -
    have "num \<le> of_nat (length img)"
      using that by (auto simp: read_regular_extent_def Let_def try_res_Inr_iff)
    then have "unat num \<le> length img" by (simp add: word_le_nat_alt len)
    moreover have "length bs \<le> unat num"
      using that by (auto simp: read_regular_extent_def Let_def try_res_Inr_iff ok_or_def get_range_def sat_add_def
          split: if_splits option.splits)
    ultimately show ?thesis by simp
  qed
  have hole: "unat num \<le> max (length img) (2 ^ 26)"
    if "num \<le> max (of_nat (length img)) LOGICAL_ALLOC_FLOOR" for num
    using that by (auto simp: word_le_nat_alt len LOGICAL_ALLOC_FLOOR_def max_def split: if_splits)
  have "length (unwrap_or (get_from data EXTENT_HEADER_LEN) []) \<le> n"
    using assms(2) by (auto simp: get_from_def)
  with assms(1) show ?thesis
    unfolding extent_bytes_def content_bound_def Let_def
    by (auto split: if_splits simp: try_res_Inr_iff dest!: inline regular hole)
qed

lemma extent_append_p_Some:
  assumes bound: "b = max (of_nat (length img)) LOGICAL_ALLOC_FLOOR" and n: "length data \<le> n"
    and small: "expand_bound n \<le> isize_max" "expand_bound (length img) \<le> isize_max"
    and dec: "codec_fits (lzo_block c)" and room: "length out + content_bound n img \<le> isize_max"
  shows "extent_append_p c img m ss b out data =
    Some (case extent_bytes c img m ss b data of Inl e \<Rightarrow> Inl e | Inr bs \<Rightarrow> Inr (out @ bs))"
proof -
  have fits: "fits_memory img" using small(2) by (simp add: fits_memory_def expand_bound_def isize_max_def)
  have ext: "p_extend out bs = Some (out @ bs)" if "extent_bytes c img m ss b data = Inr bs" for bs
    using extent_bytes_length [OF that [unfolded bound] n small(1) fits] room by (simp add: run_simps)
  have payload: "expand_bound (length (unwrap_or (get_from data EXTENT_HEADER_LEN) [])) \<le> isize_max"
    using n small(1) by (auto simp: get_from_def expand_bound_def)
  have reads: "le_u64_p data EXT_RAM_BYTES = Some (le_u64 data EXT_RAM_BYTES)"
    "le_u64_p data EXT_DISK_BYTENR = Some (le_u64 data EXT_DISK_BYTENR)"
    "le_u64_p data EXT_OFFSET = Some (le_u64 data EXT_OFFSET)"
    "le_u64_p data EXT_NUM_BYTES = Some (le_u64 data EXT_NUM_BYTES)"
    by (simp_all add: run_simps ext_consts usize_max_def)
  have add: "p_add (length out) k = Some (length out + k)" if "length out + k \<le> isize_max" for k
    using that by (simp add: p_add_def isize_max_def usize_max_def)
  let ?num = "le_u64 data EXT_NUM_BYTES"
  consider (inline) "u8_at data EXT_TYPE = EXTENT_TYPE_INLINE"
    | (hole) "u8_at data EXT_TYPE = EXTENT_TYPE_REG \<or> u8_at data EXT_TYPE = EXTENT_TYPE_PREALLOC"
        "u8_at data EXT_TYPE \<noteq> EXTENT_TYPE_INLINE" "le_u64 data EXT_DISK_BYTENR = 0" "?num \<le> b"
    | (other) "u8_at data EXT_TYPE \<noteq> EXTENT_TYPE_INLINE"
        "\<not> ((u8_at data EXT_TYPE = EXTENT_TYPE_REG \<or> u8_at data EXT_TYPE = EXTENT_TYPE_PREALLOC) \<and>
            le_u64 data EXT_DISK_BYTENR = 0 \<and> ?num \<le> b)"
    by blast
  then show ?thesis
  proof cases
    case inline
    then show ?thesis
      using ext by (auto simp: extent_append_p_def extent_bytes_def reads Let_def try_run_Some
          decompress_extent_p_Some [OF payload dec] split: sum.split)
  next
    case hole
    then have eb: "extent_bytes c img m ss b data = Inr (replicate (unat ?num) 0)"
      by (auto simp: extent_bytes_def Let_def guard_alloc_def)
    from extent_bytes_length [OF this [unfolded bound] n small(1) fits] room
    have "length out + unat ?num \<le> isize_max" by simp
    with hole ext [OF eb] show ?thesis
      by (auto simp: extent_append_p_def reads Let_def try_run_Some guard_alloc_def add eb)
  next
    case other
    then show ?thesis
      using ext by (auto simp: extent_append_p_def extent_bytes_def reads Let_def try_run_Some guard_alloc_def
          read_regular_extent_p_Some [OF small(2) dec] split: sum.split)
  qed
qed

lemma assemble_p_Some:
  assumes "b = max (of_nat (length img)) LOGICAL_ALLOC_FLOOR"
    and "expand_bound n \<le> isize_max" and "expand_bound (length img) \<le> isize_max"
    and "codec_fits (lzo_block c)" and "\<forall>(off, data)\<in>set es. length data \<le> n"
    and "length out + length es * content_bound n img \<le> isize_max"
  shows "assemble_p c img m ss b es out = Some (assemble c img m ss b es out)"
  using assms(5,6)
proof (induction es arbitrary: out)
  case (Cons e es)
  obtain off data where e: "e = (off, data)" by fastforce
  have "extent_append_p c img m ss b out data =
      Some (case extent_bytes c img m ss b data of Inl e \<Rightarrow> Inl e | Inr bs \<Rightarrow> Inr (out @ bs))"
    using Cons.prems by (intro extent_append_p_Some [OF assms(1) _ assms(2-4)]) (auto simp: e)
  moreover have "assemble_p c img m ss b es (out @ bs) = Some (assemble c img m ss b es (out @ bs))"
    if "extent_bytes c img m ss b data = Inr bs" for bs
  proof (rule Cons.IH)
    have "fits_memory img" using assms(3) by (simp add: fits_memory_def expand_bound_def isize_max_def)
    moreover have "length data \<le> n" using Cons.prems(1) by (simp add: e)
    ultimately have "length bs \<le> content_bound n img"
      using extent_bytes_length [OF that [unfolded assms(1)] _ assms(2)] by blast
    then show "length (out @ bs) + length es * content_bound n img \<le> isize_max"
      using Cons.prems(2) by simp
  qed (use Cons.prems in simp)
  ultimately show ?case
    by (simp add: e try_run_Some split: sum.split)
qed simp

text \<open>
  The sum of the extents is bounded by the number of items of the leaf only: what keeps the buffer
  of the whole file in range is that this many extents of the largest size fit.
\<close>

definition fits_content :: "node \<Rightarrow> bytes \<Rightarrow> bool" where
  "fits_content leaf img \<longleftrightarrow> expand_bound (length (n_block leaf)) \<le> isize_max \<and>
     expand_bound (length img) \<le> isize_max \<and>
     length (leaf_items leaf) * content_bound (length (n_block leaf)) img \<le> isize_max"

definition read_file_from_leaf_p ::
    "codecs \<Rightarrow> node \<Rightarrow> bytes \<Rightarrow> chunk_map \<Rightarrow> u32 \<Rightarrow> u64 \<Rightarrow> (btrfs_error + bytes) run" where
  "read_file_from_leaf_p c leaf img m sectorsize ino = do {
     sz \<leftarrow> (case find (\<lambda>(k, _). k_objectid k = ino \<and> k_type k = INODE_ITEM_KEY) (leaf_items leaf) of
         None \<Rightarrow> Some None
       | Some (_, data) \<Rightarrow> do { n \<leftarrow> le_u64_p data INODE_SIZE_OFFSET; Some (Some n) });
     try_run (Some (ok_or sz
         (Truncated ''INODE_ITEM for the requested objectid (read_file)'' (unat ino) 0))) (\<lambda>size.
       let extents = file_extents leaf ino;
           image_len = of_nat (length img) :: u64;
           bound = max image_len LOGICAL_ALLOC_FLOOR in
       try_run (Some (guard_alloc ''inode size'' size bound)) (\<lambda>_.
       try_run (assemble_p c img m sectorsize bound extents []) (\<lambda>out.
         let n = unat size in
         if n < length out then Some (Inr (take n out))
         else if length out < n then do { out' \<leftarrow> p_extend out (replicate (n - length out) 0); Some (Inr out') }
         else Some (Inr out)))) }"

lemma fits_item_length:
  assumes "fits_node leaf" and "(key, data) \<in> set (leaf_items leaf)"
  shows "length data \<le> length (n_block leaf)"
proof -
  from assms(2) obtain it where "data = item_data leaf it"
    by (auto simp: leaf_items_def Let_def)
  then show ?thesis using assms(1) by (auto simp: fits_node_def item_data_exact)
qed

lemma read_file_from_leaf_p_Some [run_simps]:
  assumes "fits_content leaf img" and "codec_fits (lzo_block c)"
  shows "read_file_from_leaf_p c leaf img m ss ino = Some (read_file_from_leaf c leaf img m ss ino)"
proof -
  let ?b = "max (of_nat (length img) :: u64) LOGICAL_ALLOC_FLOOR"
  let ?B = "content_bound (length (n_block leaf)) img"
  have node: "fits_node leaf"
    using assms(1) by (simp add: fits_content_def fits_node_def fits_memory_def expand_bound_def isize_max_def)
  have "length (file_extents leaf ino) \<le> length (leaf_items leaf)"
    by (simp add: file_extents_def)
  then have "length (file_extents leaf ino) * ?B \<le> length (leaf_items leaf) * ?B"
    by (rule mult_le_mono1)
  also have "\<dots> \<le> isize_max" using assms(1) by (simp add: fits_content_def)
  finally have asm: "assemble_p c img m ss ?b (file_extents leaf ino) [] =
      Some (assemble c img m ss ?b (file_extents leaf ino) [])"
    using assms fits_item_length [OF node]
    by (intro assemble_p_Some [where n = "length (n_block leaf)"])
      (auto simp: fits_content_def file_extents_set)
  have ext: "p_extend out (replicate (unat size - length out) 0) = Some (out @ replicate (unat size - length out) 0)"
    if "size \<le> of_nat (length img) \<or> size \<le> LOGICAL_ALLOC_FLOOR" "length out < unat size"
      for size :: u64 and out :: bytes
  proof -
    have "unat (of_nat (length img) :: u64) = length img"
      using assms(1) by (simp add: unat_of_nat fits_content_def expand_bound_def isize_max_def)
    then have "unat ?b \<le> isize_max"
      using assms(1) by (simp add: fits_content_def expand_bound_def isize_max_def LOGICAL_ALLOC_FLOOR_def max_def)
    moreover have "size \<le> ?b" using that(1) by (simp add: le_max_iff_disj)
    ultimately have "unat size \<le> isize_max" using word_le_nat_alt [of size ?b] by linarith
    with that(2) show ?thesis by (simp add: run_simps)
  qed
  have sz: "(case find (\<lambda>(k, _). k_objectid k = ino \<and> k_type k = INODE_ITEM_KEY) (leaf_items leaf) of
         None \<Rightarrow> Some None
       | Some (_, data) \<Rightarrow> do { n \<leftarrow> le_u64_p data INODE_SIZE_OFFSET; Some (Some n) }) =
      Some (file_size leaf ino)"
    by (auto simp: file_size_def run_simps INODE_SIZE_OFFSET_def usize_max_def split: option.split)
  show ?thesis
    unfolding read_file_from_leaf_p_def read_file_from_leaf_def sz Let_def try_run_Some Option.bind.bind_lunit asm
    by (auto simp: guard_alloc_def ok_or_def ext not_less split: sum.split option.split)
qed

definition fs_tree_leaf_p ::
    "(bytes \<Rightarrow> u32) \<Rightarrow> bytes \<Rightarrow> superblock \<Rightarrow> chunk_map \<Rightarrow> (btrfs_error + node) run" where
  "fs_tree_leaf_p crc img sb m =
     try_run (fs_tree_root_p crc img sb m) (\<lambda>root. read_node_p crc img sb m (fr_bytenr root))"

definition read_file_p :: "(bytes \<Rightarrow> u32) \<Rightarrow> codecs \<Rightarrow> bytes \<Rightarrow> superblock \<Rightarrow> chunk_map \<Rightarrow> u64 \<Rightarrow>
    (btrfs_error + bytes) run" where
  "read_file_p crc c img sb m ino =
     try_run (fs_tree_leaf_p crc img sb m) (\<lambda>leaf.
       read_file_from_leaf_p c leaf img m (sb_sectorsize sb) ino)"

definition read_by_path_content_p :: "(bytes \<Rightarrow> u32) \<Rightarrow> codecs \<Rightarrow> bytes \<Rightarrow> superblock \<Rightarrow> chunk_map \<Rightarrow>
    rstring \<Rightarrow> (btrfs_error + bytes) run" where
  "read_by_path_content_p crc c img sb m path =
     try_run (fs_tree_leaf_p crc img sb m) (\<lambda>leaf.
     try_run (do { r \<leftarrow> read_by_path_p leaf path;
         Some (ok_or r (Truncated ''path (unresolved in FS_TREE)'' (length path) 0)) }) (\<lambda>(ino, _).
       read_file_from_leaf_p c leaf img m (sb_sectorsize sb) ino))"

text \<open>
  Images on which no leaf can overflow the buffer: up to 256 MiB whatever the node size says, up to
  a pebibyte with nodes of at most 64 KiB, the largest btrfs has.
\<close>

definition readable_size :: "u32 \<Rightarrow> bytes \<Rightarrow> bool" where
  "readable_size nodesize img \<longleftrightarrow> length img \<le> 2 ^ 28 \<or> nodesize \<le> 0x10000 \<and> length img \<le> 2 ^ 50"

lemma readable_size_fits: "readable_size ns img \<Longrightarrow> fits_memory img"
  by (auto simp: readable_size_def fits_memory_def)

lemma leaf_items_count:
  assumes "node_parse crc block = Inr n"
  shows "length (leaf_items n) * 25 \<le> length block"
proof (cases "is_leaf n")
  case True
  then have "n_body n = Leaf (parse_items block (unat (h_nritems (n_header n))))"
    using assms by (auto simp: node_parse_Inr_iff is_leaf_def split: if_splits)
  moreover have "101 \<le> length block" using assms by (simp add: node_parse_Inr_iff)
  ultimately show ?thesis
    using items.table_fits [of block "unat (h_nritems (n_header n))"]
    by (simp add: leaf_items_def node_consts DISK_KEY_SIZE_def)
qed (simp add: leaf_items_interior)

lemma fits_content_parse:
  assumes "node_parse crc block = Inr n"
    and "length block \<le> length img \<and> length img \<le> 2 ^ 28 \<or> length block \<le> 2 ^ 16 \<and> length img \<le> 2 ^ 50"
  shows "fits_content n img"
proof -
  have blk: "n_block n = block" using assms(1) by (simp add: node_parse_Inr_iff)
  have k: "length (leaf_items n) \<le> length block div 25"
    using leaf_items_count [OF assms(1)] by (simp add: less_eq_div_iff_mult_less_eq)
  consider "length block \<le> 2 ^ 28" "length img \<le> 2 ^ 28" | "length block \<le> 2 ^ 16" "length img \<le> 2 ^ 50"
    using assms(2) by force
  then have "length (leaf_items n) * content_bound (length block) img \<le> isize_max"
  proof cases
    case 1
    have "length (leaf_items n) * content_bound (length block) img \<le> (2 ^ 28 div 25) * (2 ^ 38 + 2 ^ 20)"
      using 1 k by (intro mult_le_mono) (auto simp: content_bound_def expand_bound_def)
    then show ?thesis by (simp add: isize_max_def)
  next
    case 2
    have "length (leaf_items n) * content_bound (length block) img \<le> (2 ^ 16 div 25) * 2 ^ 50"
      using 2 k by (intro mult_le_mono) (auto simp: content_bound_def expand_bound_def)
    then show ?thesis by (simp add: isize_max_def)
  qed
  moreover have "expand_bound (length block) \<le> isize_max" "expand_bound (length img) \<le> isize_max"
    using assms(2) by (auto simp: expand_bound_def isize_max_def)
  ultimately show ?thesis by (simp add: fits_content_def blk)
qed

lemma fits_content_read_node:
  assumes "readable_size (sb_nodesize sb) img" and "read_node crc img sb m l = Inr n"
  shows "fits_content n img"
proof -
  have mem: "fits_memory img" by (rule readable_size_fits [OF assms(1)])
  have p: "node_parse crc (n_block n) = Inr n"
    using assms(2) unfolding read_node_Inr_iff [OF mem] by (auto simp: node_parse_Inr_iff)
  have "length (n_block n) = unat (sb_nodesize sb)" "length (n_block n) \<le> length img"
    using read_node_block [OF mem assms(2)] assms(2) unfolding read_node_Inr_iff [OF mem] by auto
  then show ?thesis
    using assms(1) by (intro fits_content_parse [OF p]) (auto simp: readable_size_def word_le_nat_alt)
qed

lemma fs_tree_leaf_p_Some [run_simps]:
  "fits_memory img \<Longrightarrow> fs_tree_leaf_p crc img sb m = Some (fs_tree_leaf crc img sb m)"
  by (auto simp: fs_tree_leaf_p_def fs_tree_leaf_def run_simps split: sum.split)

lemma fits_content_fs_tree_leaf:
  "readable_size (sb_nodesize sb) img \<Longrightarrow> fs_tree_leaf crc img sb m = Inr leaf \<Longrightarrow> fits_content leaf img"
  by (auto simp: fs_tree_leaf_def try_res_Inr_iff intro: fits_content_read_node)

lemma read_content_p_Some [run_simps]:
  assumes "readable_size (sb_nodesize sb) img" and "codec_fits (lzo_block c)"
  shows "read_file_p crc c img sb m ino = Some (read_file crc c img sb m ino)"
    and "read_by_path_content_p crc c img sb m path = Some (read_by_path_content crc c img sb m path)"
  using fits_content_fs_tree_leaf [OF assms(1)] assms(2) readable_size_fits [OF assms(1)]
  by (auto simp: read_file_p_def read_file_def read_by_path_content_p_def read_by_path_content_def run_simps
      ok_or_def split: sum.split option.split)

section \<open>What the guards leave open\<close>

text \<open>A leaf with an empty file of \<open>n\<close> holes of 64 MiB each.\<close>

definition hole_items :: "nat \<Rightarrow> (disk_key \<times> bytes) list" where
  "hole_items n =
     (\<lparr>k_objectid = 257, k_type = 1, k_offset = 0\<rparr>, encode_inode (demo_inode 257 0x81A4\<lparr>i_size := 0\<rparr>))
     # replicate n (\<lparr>k_objectid = 257, k_type = 108, k_offset = 0\<rparr>, encode_regular 0 0 0 0x4000000)"

definition hole_leaf :: "nat \<Rightarrow> bytes" where
  "hole_leaf n = encode_leaf (demo_header 5 0 (Suc n)) [] (hole_items n)"

lemma hole_items_size: "length (hole_items n) = Suc n" "data_size (hole_items n) = 160 + 53 * n"
proof -
  have "data_size (replicate k (key, d)) = k * length d" for k key and d :: bytes
    by (induction k) simp_all
  then show "length (hole_items n) = Suc n" "data_size (hole_items n) = 160 + 53 * n"
    by (simp_all add: hole_items_def encode_regular_def zeros_def)
qed

lemma hole_node:
  assumes "n < 2 ^ 20"
  obtains leaf where "node_parse crc (hole_leaf n) = Inr leaf" and "leaf_items leaf = hole_items n"
proof -
  have "wf_leaf (demo_header 5 0 (Suc n)) [] (hole_items n)"
    using assms hole_items_size [of n] by (simp add: wf_leaf_def unat_of_nat del: of_nat_Suc)
  moreover obtain leaf where "node_parse crc (hole_leaf n) = Inr leaf"
    using node_parse_ok_iff [of crc "hole_leaf n"] by (auto simp: hole_leaf_def encode_leaf_def)
  ultimately show thesis
    using encode_leaf_items(2) that unfolding hole_leaf_def by blast
qed

text \<open>
  Claim C23. Each hole is guarded, their sum is not: the buffer of an empty file of \<open>n\<close> holes grows to
  \<open>n\<close> times 64 MiB before it is cut to the file's size, on a leaf of 286 + 78 \<open>n\<close> bytes.
\<close>

theorem holes_add_up:
  assumes "n < 2 ^ 20"
  shows "\<exists>leaf. node_parse crc (hole_leaf n) = Inr leaf \<and> length (hole_leaf n) = 286 + 78 * n \<and>
    assemble c [] m ss 0x4000000 (file_extents leaf 257) [] = Inr (replicate (n * 0x4000000) 0) \<and>
    read_file_from_leaf c leaf [] m ss 257 = Inr []"
proof -
  obtain leaf where leaf: "node_parse crc (hole_leaf n) = Inr leaf" and its: "leaf_items leaf = hole_items n"
    by (rule hole_node [OF assms])
  have len: "length (hole_leaf n) = 286 + 78 * n"
    by (simp add: hole_leaf_def length_encode_leaf hole_items_size)
  have ext: "file_extents leaf 257 = replicate n (0, encode_regular 0 0 0 0x4000000)"
    by (simp add: file_extents_def its hole_items_def EXTENT_DATA_KEY_def sort_key_id_if_sorted)
  have fields: "u8_at (encode_regular 0 dn off num) 20 = 1" "u8_at (encode_regular 0 dn off num) 16 = 0"
    "le_u64 (encode_regular 0 dn off num) 21 = 0" "le_u64 (encode_regular 0 dn off num) 45 = num" for dn off num
    by (simp_all add: encode_regular_def read_simps zeros_def)
  have one: "extent_bytes c [] m ss 0x4000000 (encode_regular 0 0 0 0x4000000) = Inr (replicate 0x4000000 0)"
    by (simp add: extent_bytes_def ext_consts fields Let_def guard_alloc_def)
  have asm: "assemble c [] m ss 0x4000000 (replicate k (0, encode_regular 0 0 0 0x4000000)) out =
      Inr (out @ replicate (k * 0x4000000) 0)" for k out
    by (induction k arbitrary: out) (simp_all add: one replicate_add del: replicate.simps(2) add: replicate_Suc)
  have sz: "file_size leaf 257 = Some 0"
    by (simp add: file_size_def its hole_items_def fs_consts encode_inode_def read_simps)
  have "read_file_from_leaf c leaf [] m ss 257 = Inr []"
    using asm [of n "[]"] by (simp add: read_file_from_leaf_def sz ext LOGICAL_ALLOC_FLOOR_def guard_alloc_def)
  with leaf len ext asm [of n "[]"] show ?thesis by auto
qed

theorem holes_add_up_witness:
  "\<exists>leaf. node_parse crc32c_ref (hole_leaf 206) = Inr leaf \<and> length (hole_leaf 206) = 16354 \<and>
    assemble demo_codecs [] [] 4096 0x4000000 (file_extents leaf 257) [] = Inr (replicate 13824425984 0) \<and>
    read_file_from_leaf demo_codecs leaf [] [] 4096 257 = Inr []"
  using holes_add_up [of 206 crc32c_ref demo_codecs "[]" 4096] by simp

end
