(* ===== verification/Safe_Forensic.thy ===== *)
theory Safe_Forensic
  imports Carve Safe_Content
begin

text \<open>
  \<open>forensic/src/lib.rs\<close> as runs that may panic: the backup roots, the audit, the carver and its
  SHA-256 with every index of the two word arrays checked. No image that fits in memory makes the
  audit panic, and none of readable size the recovery.
\<close>

section \<open>SHA-256\<close>

function push_zeros_p :: "bytes \<Rightarrow> bytes run" where
  "push_zeros_p msg =
     (if length msg mod 64 \<noteq> 56 then
        (case p_extend msg [0] of None \<Rightarrow> None | Some msg' \<Rightarrow> push_zeros_p msg')
      else Some msg)"
  by pat_completeness auto
termination
  by (relation "measure (\<lambda>msg. pad_gap (length msg))") (auto simp: pad_gap_step p_extend_def split: if_splits)

declare push_zeros_p.simps [simp del]

definition sha_pad_p :: "bytes \<Rightarrow> bytes run" where
  "sha_pad_p data = do {
     let bit_len = (of_nat (length data) * 8 :: u64);
     msg \<leftarrow> p_extend data [0x80];
     msg \<leftarrow> push_zeros_p msg;
     p_extend msg (to_be_bytes bit_len) }"

lemma push_zeros_p_Some:
  "length msg + pad_gap (length msg) \<le> isize_max \<Longrightarrow> push_zeros_p msg = Some (push_zeros msg)"
proof (induction msg rule: push_zeros.induct)
  case (1 msg)
  show ?case
  proof (cases "length msg mod 64 = 56")
    case False
    then show ?thesis
      using 1 by (simp add: push_zeros_p.simps [of msg] push_zeros.simps [of msg] run_simps pad_gap_step)
  qed (simp add: push_zeros_p.simps [of msg] push_zeros.simps [of msg])
qed

lemma sha_pad_p_Some [run_simps]:
  assumes "length data + 73 \<le> isize_max"
  shows "sha_pad_p data = Some (sha_pad data)"
proof -
  have gap: "pad_gap n < 64" for n by (simp add: pad_gap_def)
  have "push_zeros_p (data @ [0x80]) = Some (push_zeros (data @ [0x80]))"
    using gap [of "Suc (length data)"] assms by (intro push_zeros_p_Some) simp
  moreover have "p_extend (push_zeros (data @ [0x80])) x = Some (push_zeros (data @ [0x80]) @ x)"
    if "length x = 8" for x
    using gap [of "Suc (length data)"] assms that by (simp add: push_zeros_eq run_simps)
  ultimately show ?thesis
    using assms by (simp add: sha_pad_p_def sha_pad_def run_simps Let_def)
qed

definition sha_word_p :: "bytes \<Rightarrow> nat \<Rightarrow> u32 run" where
  "sha_word_p block i = do {
     k0 \<leftarrow> p_mul i 4;
     b0 \<leftarrow> p_idx block k0;
     k1 \<leftarrow> p_add k0 1;
     b1 \<leftarrow> p_idx block k1;
     k2 \<leftarrow> p_add k0 2;
     b2 \<leftarrow> p_idx block k2;
     k3 \<leftarrow> p_add k0 3;
     b3 \<leftarrow> p_idx block k3;
     Some (from_be_bytes [b0, b1, b2, b3]) }"

definition sha_load_p :: "bytes \<Rightarrow> u32 list run" where
  "sha_load_p block = do { w \<leftarrow> run_map (sha_word_p block) [0..<16]; Some (w @ replicate 48 0) }"

lemma sha_load_p_Some [run_simps]:
  assumes "length block = 64"
  shows "sha_load_p block = Some (sha_load block)"
proof -
  have "run_map (sha_word_p block) [0..<16] =
      Some (map (\<lambda>i. from_be_bytes [block ! (i * 4), block ! (i * 4 + 1), block ! (i * 4 + 2), block ! (i * 4 + 3)]) [0..<16])"
    by (rule run_map_Some) (simp add: sha_word_p_def run_simps assms usize_max_def)
  then show ?thesis by (simp add: sha_load_p_def sha_load_def)
qed

definition sha_extend_p :: "u32 list \<Rightarrow> nat \<Rightarrow> u32 list run" where
  "sha_extend_p w i = do {
     k15 \<leftarrow> p_sub i 15;
     w15 \<leftarrow> p_idx w k15;
     k2 \<leftarrow> p_sub i 2;
     w2 \<leftarrow> p_idx w k2;
     let s0 = word_rotr 7 w15 XOR word_rotr 18 w15 XOR drop_bit 3 w15;
     let s1 = word_rotr 17 w2 XOR word_rotr 19 w2 XOR drop_bit 10 w2;
     k16 \<leftarrow> p_sub i 16;
     w16 \<leftarrow> p_idx w k16;
     k7 \<leftarrow> p_sub i 7;
     w7 \<leftarrow> p_idx w k7;
     p_set w i (w16 + s0 + w7 + s1) }"

definition sha_schedule_p :: "bytes \<Rightarrow> u32 list run" where
  "sha_schedule_p block = do { w \<leftarrow> sha_load_p block; run_fold sha_extend_p w [16..<64] }"

lemma length_sha_load: "length (sha_load block) = 64"
  by (simp add: sha_load_def)

lemma sha_schedule_p_Some [run_simps]:
  assumes "length block = 64"
  shows "sha_schedule_p block = Some (sha_schedule block)" and "length (sha_schedule block) = 64"
proof -
  have "sha_extend_p w i = Some (sha_extend w i) \<and> length (sha_extend w i) = 64"
    if "16 \<le> i" "i < 64" "length w = 64" for w i
    using that by (simp add: sha_extend_p_def sha_extend_def run_simps Let_def)
  then have "run_fold sha_extend_p (sha_load block) [16..<64] = Some (foldl sha_extend (sha_load block) [16..<64]) \<and>
      length (foldl sha_extend (sha_load block) [16..<64]) = 64"
    by (intro run_fold_Some [where P = "\<lambda>w. length w = 64"])
      (simp_all only: set_upt atLeastLessThan_iff length_sha_load)
  then show "sha_schedule_p block = Some (sha_schedule block)" and "length (sha_schedule block) = 64"
    using assms by (simp_all add: sha_schedule_p_def sha_schedule_def run_simps)
qed

definition sha_round_p :: "u32 list \<Rightarrow> u32 list \<Rightarrow> nat \<Rightarrow> u32 list run" where
  "sha_round_p w v i = do {
     v4 \<leftarrow> p_idx v 4;
     v5 \<leftarrow> p_idx v 5;
     v6 \<leftarrow> p_idx v 6;
     v7 \<leftarrow> p_idx v 7;
     let s1 = word_rotr 6 v4 XOR word_rotr 11 v4 XOR word_rotr 25 v4;
     let ch = (v4 AND v5) XOR (NOT v4 AND v6);
     k \<leftarrow> p_idx SHA_K i;
     wi \<leftarrow> p_idx w i;
     let t1 = v7 + s1 + ch + k + wi;
     v0 \<leftarrow> p_idx v 0;
     v1 \<leftarrow> p_idx v 1;
     v2 \<leftarrow> p_idx v 2;
     let s0 = word_rotr 2 v0 XOR word_rotr 13 v0 XOR word_rotr 22 v0;
     let maj = (v0 AND v1) XOR (v0 AND v2) XOR (v1 AND v2);
     let t2 = s0 + maj;
     x \<leftarrow> p_idx v 6; v \<leftarrow> p_set v 7 x;
     x \<leftarrow> p_idx v 5; v \<leftarrow> p_set v 6 x;
     x \<leftarrow> p_idx v 4; v \<leftarrow> p_set v 5 x;
     x \<leftarrow> p_idx v 3; v \<leftarrow> p_set v 4 (x + t1);
     x \<leftarrow> p_idx v 2; v \<leftarrow> p_set v 3 x;
     x \<leftarrow> p_idx v 1; v \<leftarrow> p_set v 2 x;
     x \<leftarrow> p_idx v 0; v \<leftarrow> p_set v 1 x;
     p_set v 0 (t1 + t2) }"

lemma sha_round_p_Some:
  assumes "length v = 8" and "length w = 64" and "i < 64"
  shows "sha_round_p w v i = Some (sha_round w v i) \<and> length (sha_round w v i) = 8"
proof -
  have "length SHA_K = 64" by (simp add: SHA_K_def)
  then have "p_idx SHA_K i = Some (SHA_K ! i)" "p_idx w i = Some (w ! i)"
    using assms by (simp_all add: run_simps)
  moreover obtain a b c d e f g h where "v = [a, b, c, d, e, f, g, h]"
    using assms(1) by (auto simp: numeral_eq_Suc length_Suc_conv)
  ultimately show ?thesis
    by (simp add: sha_round_p_def sha_round_def p_idx_def [of "_ # _"] p_set_def Let_def)
qed

definition sha_block_p :: "u32 list \<Rightarrow> bytes \<Rightarrow> u32 list run" where
  "sha_block_p h block = do {
     w \<leftarrow> sha_schedule_p block;
     v \<leftarrow> run_fold (sha_round_p w) h [0..<64];
     Some (map2 (+) h v) }"

lemma sha_block_p_Some:
  assumes "length h = 8" and "length block = 64"
  shows "sha_block_p h block = Some (sha_block h block) \<and> length (sha_block h block) = 8"
proof -
  let ?w = "sha_schedule block"
  have "run_fold (sha_round_p ?w) h [0..<64] = Some (foldl (sha_round ?w) h [0..<64]) \<and>
      length (foldl (sha_round ?w) h [0..<64]) = 8"
    using sha_schedule_p_Some(2) [OF assms(2)] assms(1)
    by (intro run_fold_Some [where P = "\<lambda>v. length v = 8"])
      (simp_all only: set_upt atLeastLessThan_iff sha_round_p_Some)
  then show ?thesis
    using assms by (simp add: sha_block_p_def sha_block_def run_simps Let_def)
qed

definition sha256_hex_p :: "bytes \<Rightarrow> rstring run" where
  "sha256_hex_p data = do {
     msg \<leftarrow> sha_pad_p data;
     h \<leftarrow> run_fold sha_block_p SHA_H0 (chunks_exact 64 msg);
     Some (concat (map hex_u32 h)) }"

lemma length_chunks_exact: "b \<in> set (chunks_exact n xs) \<Longrightarrow> length b = n"
proof (induction n xs rule: chunks_exact.induct)
  case (1 n xs)
  then show ?case unfolding chunks_exact.simps [of n xs] by (auto split: if_splits)
qed

lemma sha256_hex_p_Some [run_simps]:
  assumes "length data + 73 \<le> isize_max"
  shows "sha256_hex_p data = Some (sha256_hex data)"
proof -
  have "run_fold sha_block_p SHA_H0 (chunks_exact 64 msg) = Some (foldl sha_block SHA_H0 (chunks_exact 64 msg)) \<and>
      length (foldl sha_block SHA_H0 (chunks_exact 64 msg)) = 8" for msg
    by (intro run_fold_Some [where P = "\<lambda>h. length h = 8"])
      (auto simp: sha_block_p_Some length_chunks_exact SHA_H0_def)
  then show ?thesis
    using assms by (simp add: sha256_hex_p_def sha256_hex_def run_simps)
qed

section \<open>The audit\<close>

fun backup_roots_from_p :: "bytes \<Rightarrow> nat list \<Rightarrow> root_backup list run" where
  "backup_roots_from_p sb_block [] = Some []"
| "backup_roots_from_p sb_block (slot # slots) = do {
     d \<leftarrow> p_mul slot ROOT_BACKUP_SIZE;
     base \<leftarrow> p_add BACKUP_ROOTS_OFFSET d;
     (case get_range sb_block base (sat_add base ROOT_BACKUP_SIZE) of
        None \<Rightarrow> Some []
      | Some entry \<Rightarrow> do {
          bs \<leftarrow> backup_roots_from_p sb_block slots;
          Some (root_backup_parse entry # bs) }) }"

definition parse_backup_roots_p :: "bytes \<Rightarrow> root_backup list run" where
  "parse_backup_roots_p sb_block = backup_roots_from_p sb_block [0..<NUM_BACKUP_ROOTS]"

lemma parse_backup_roots_p_Some [run_simps]: "parse_backup_roots_p b = Some (parse_backup_roots b)"
proof -
  have "backup_roots_from_p b slots = Some (backup_roots_from b slots)" if "\<forall>s\<in>set slots. s < 4" for slots
    using that by (induction slots) (auto simp: run_simps backup_consts usize_max_def Let_def split: option.split)
  then show ?thesis by (simp add: parse_backup_roots_p_def parse_backup_roots_def NUM_BACKUP_ROOTS_def)
qed

definition check_backup_roots_p :: "anomaly list \<Rightarrow> bytes \<Rightarrow> u64 \<Rightarrow> u64 \<Rightarrow> anomaly list run" where
  "check_backup_roots_p out sb_block current_gen image_len = do {
     bs \<leftarrow> parse_backup_roots_p sb_block;
     Some (foldl (\<lambda>out sb. out @ check_backup_root current_gen image_len sb) out (List.enumerate 0 bs)) }"

definition check_root_reachable_p ::
    "(bytes \<Rightarrow> u32) \<Rightarrow> anomaly list \<Rightarrow> bytes \<Rightarrow> superblock \<Rightarrow> chunk_map \<Rightarrow> string \<Rightarrow> u64 \<Rightarrow> anomaly list run" where
  "check_root_reachable_p crc out img sb m field logical =
     (if logical = 0 then Some out
      else do {
        r \<leftarrow> read_node_p crc img sb m logical;
        Some (if \<not> is_ok r then out @ [anomaly_new (ImpossibleGeometry field logical (of_nat (length img)))]
              else out) })"

lemma checks_p_Some [run_simps]:
  "check_backup_roots_p out b g len = Some (check_backup_roots out b g len)"
  "fits_memory img \<Longrightarrow> check_root_reachable_p crc out img sb m field logical =
     Some (check_root_reachable crc out img sb m field logical)"
  by (simp_all add: check_backup_roots_p_def check_backup_roots_def check_root_reachable_p_def
      check_root_reachable_def run_simps)

fun sweep_loop_p :: "(bytes \<Rightarrow> u32) \<Rightarrow> bytes \<Rightarrow> superblock \<Rightarrow> chunk_map \<Rightarrow>
    nat \<Rightarrow> u64 list \<Rightarrow> u64 list \<Rightarrow> anomaly list \<Rightarrow> anomaly list run" where
  "sweep_loop_p crc img sb m budget seen [] out = Some out"
| "sweep_loop_p crc img sb m 0 seen (logical # st) out = Some out"
| "sweep_loop_p crc img sb m (Suc budget) seen (logical # st) out =
     (if logical \<in> set seen then sweep_loop_p crc img sb m budget seen st out
      else do {
        let seen = seen @ [logical];
        r \<leftarrow> read_node_p crc img sb m logical;
        (case r of
           Inl _ \<Rightarrow> sweep_loop_p crc img sb m budget seen st out
         | Inr node \<Rightarrow>
             if h_bytenr (n_header node) \<noteq> logical \<or> h_fsid (n_header node) \<noteq> sb_fsid sb then
               sweep_loop_p crc img sb m budget seen st out
             else do {
               p \<leftarrow> map_l2p_p m logical;
               let offset = (case p of None \<Rightarrow> logical | Some (_, phys) \<Rightarrow> phys);
               let out = (if n_crc_valid node = Some False then
                            out @ [anomaly_new (NodeCrcMismatch (h_bytenr (n_header node)) offset)]
                          else out);
               let st = (if \<not> is_leaf node then
                           rev (filter (\<lambda>p. p \<noteq> 0) (map kp_blockptr (key_ptrs node))) @ st
                         else st);
               sweep_loop_p crc img sb m budget seen st out }) })"

lemma sweep_loop_p_Some [run_simps]:
  assumes "fits_memory img"
  shows "sweep_loop_p crc img sb m k seen st out = Some (sweep_loop crc img sb m k seen st out)"
proof (induction k arbitrary: seen st out)
  case 0
  then show ?case by (cases st) simp_all
next
  case (Suc k)
  then show ?case
    by (cases st) (auto simp: run_simps assms Let_def split: sum.split)
qed

definition sweep_seeds_p :: "bytes \<Rightarrow> superblock \<Rightarrow> u64 list run" where
  "sweep_seeds_p img sb =
     (let roots = filter (\<lambda>l. l \<noteq> 0) [sb_root sb, sb_chunk_root sb] in
      case get_range img BTRFS_SUPER_INFO_OFFSET (sat_add BTRFS_SUPER_INFO_OFFSET BTRFS_SUPER_INFO_SIZE) of
        None \<Rightarrow> Some roots
      | Some sb_block \<Rightarrow> do {
          bs \<leftarrow> parse_backup_roots_p sb_block;
          Some (roots @ concat (map (\<lambda>b. filter (\<lambda>l. l \<noteq> 0) [rb_tree_root b, rb_fs_root b]) bs)) })"

definition sweep_node_crcs_p ::
    "(bytes \<Rightarrow> u32) \<Rightarrow> anomaly list \<Rightarrow> bytes \<Rightarrow> superblock \<Rightarrow> chunk_map \<Rightarrow> anomaly list run" where
  "sweep_node_crcs_p crc out img sb m = do {
     seeds \<leftarrow> sweep_seeds_p img sb;
     sweep_loop_p crc img sb m 8192 [] (rev seeds) out }"

definition orphan_fs_roots_p :: "(bytes \<Rightarrow> u32) \<Rightarrow> bytes \<Rightarrow> superblock \<Rightarrow> chunk_map \<Rightarrow> u64 list run" where
  "orphan_fs_roots_p crc img sb m = do {
     r \<leftarrow> fs_tree_root_p crc img sb m;
     let fs_roots = (case r of Inl _ \<Rightarrow> [] | Inr root_item \<Rightarrow> [fr_bytenr root_item]);
     (case get_range img BTRFS_SUPER_INFO_OFFSET (sat_add BTRFS_SUPER_INFO_OFFSET BTRFS_SUPER_INFO_SIZE) of
        None \<Rightarrow> Some fs_roots
      | Some sb_block \<Rightarrow> do {
          bs \<leftarrow> parse_backup_roots_p sb_block;
          Some (foldl add_fs_root fs_roots bs) }) }"

definition orphan_root_p :: "(bytes \<Rightarrow> u32) \<Rightarrow> bytes \<Rightarrow> superblock \<Rightarrow> chunk_map \<Rightarrow>
    u64 list \<times> anomaly list \<Rightarrow> u64 \<Rightarrow> (u64 list \<times> anomaly list) run" where
  "orphan_root_p crc img sb m acc logical = do {
     r \<leftarrow> read_node_p crc img sb m logical;
     Some (case r of
        Inl _ \<Rightarrow> acc
      | Inr leaf \<Rightarrow>
          if h_owner (n_header leaf) \<noteq> FS_TREE_OBJECTID then acc
          else foldl orphan_item acc (leaf_items leaf)) }"

definition scan_orphans_p ::
    "(bytes \<Rightarrow> u32) \<Rightarrow> anomaly list \<Rightarrow> bytes \<Rightarrow> superblock \<Rightarrow> chunk_map \<Rightarrow> anomaly list run" where
  "scan_orphans_p crc out img sb m = do {
     roots \<leftarrow> orphan_fs_roots_p crc img sb m;
     r \<leftarrow> run_fold (orphan_root_p crc img sb m) ([], out) roots;
     Some (snd r) }"

lemma sweep_node_crcs_p_Some [run_simps]:
  "fits_memory img \<Longrightarrow> sweep_node_crcs_p crc out img sb m = Some (sweep_node_crcs crc out img sb m)"
  by (simp add: sweep_node_crcs_p_def sweep_node_crcs_def sweep_seeds_p_def sweep_seeds_def run_simps Let_def
      del: sweep_loop_p.simps sweep_loop.simps split: option.split)

lemma scan_orphans_p_Some [run_simps]:
  assumes "fits_memory img"
  shows "scan_orphans_p crc out img sb m = Some (scan_orphans crc out img sb m)"
proof -
  have "orphan_root_p crc img sb m acc l = Some (orphan_root crc img sb m acc l)" for acc l
    by (simp add: orphan_root_p_def orphan_root_def run_simps assms split: sum.split)
  then show ?thesis
    by (simp add: scan_orphans_p_def scan_orphans_def orphan_fs_roots_p_def orphan_fs_roots_def run_simps assms
        run_fold_total [where g = "orphan_root crc img sb m"] Let_def split: option.split)
qed

definition audit_image_p :: "(bytes \<Rightarrow> u32) \<Rightarrow> bytes \<Rightarrow> anomaly list run" where
  "audit_image_p crc img =
     (let out = [] in
      case get_range img BTRFS_SUPER_INFO_OFFSET (sat_add BTRFS_SUPER_INFO_OFFSET BTRFS_SUPER_INFO_SIZE) of
        None \<Rightarrow> Some out
      | Some sb_block \<Rightarrow> do {
          r \<leftarrow> superblock_parse_p crc sb_block;
          (case r of
             Inl _ \<Rightarrow> Some out
           | Inr sb \<Rightarrow> do {
               let out = (if sb_crc_valid sb = Some False then
                            out @ [anomaly_new (SuperblockCrcMismatch (of_nat BTRFS_SUPER_INFO_OFFSET))]
                          else out);
               let image_len = (of_nat (length img) :: u64);
               w \<leftarrow> walk_p crc img sb;
               let m = (case w of Inl _ \<Rightarrow> [] | Inr m \<Rightarrow> m);
               out \<leftarrow> check_root_reachable_p crc out img sb m ''root'' (sb_root sb);
               out \<leftarrow> check_root_reachable_p crc out img sb m ''chunk_root'' (sb_chunk_root sb);
               out \<leftarrow> sweep_node_crcs_p crc out img sb m;
               out \<leftarrow> check_backup_roots_p out sb_block (sb_generation sb) image_len;
               scan_orphans_p crc out img sb m }) })"

lemma audit_image_p_Some [run_simps]:
  assumes "fits_memory img"
  shows "audit_image_p crc img = Some (audit_image crc img)"
  by (auto simp: audit_image_p_def audit_image_def walk_or_default_def run_simps assms fits_range [OF assms] Let_def
      split: option.split sum.split)

definition audit_findings_p ::
    "(bytes \<Rightarrow> u32) \<Rightarrow> (anomaly \<Rightarrow> report_source \<Rightarrow> 'f) \<Rightarrow> bytes \<Rightarrow> rstring \<Rightarrow> 'f list run" where
  "audit_findings_p crc to_finding img scope = do {
     let source = \<lparr> rs_analyzer = str ''btrfs-forensic'', rs_scope = scope, rs_version = None \<rparr>;
     out \<leftarrow> audit_image_p crc img;
     Some (map (\<lambda>a. to_finding a source) out) }"

lemma audit_findings_p_Some [run_simps]:
  "fits_memory img \<Longrightarrow> audit_findings_p crc to_finding img scope = Some (audit_findings crc to_finding img scope)"
  by (simp add: audit_findings_p_def audit_findings_def run_simps Let_def)

section \<open>Recovery\<close>

definition dir_names_step_p :: "dir_names_map \<Rightarrow> disk_key \<times> bytes \<Rightarrow> dir_names_map run" where
  "dir_names_step_p entries = (\<lambda>(key, data).
     if k_type key \<noteq> CARVE_DIR_ITEM_KEY \<and> k_type key \<noteq> CARVE_DIR_INDEX_KEY then Some entries
     else if length data < CARVE_NAME then Some entries
     else do {
       let child = f_le_u64 data 0;
       let name_len = unat (f_le_u16 data CARVE_NAME_LEN);
       let avail = length data - CARVE_NAME;
       let n = min name_len avail;
       lim \<leftarrow> p_add CARVE_NAME n;
       let name_bytes = unwrap_or (get_range data CARVE_NAME lim) [];
       let name = from_utf8_lossy name_bytes;
       Some (if list_all (\<lambda>(c, _). c \<noteq> child) entries then entries @ [(child, name)] else entries) })"

definition dir_names_p :: "node \<Rightarrow> dir_names_map run" where
  "dir_names_p leaf = run_fold dir_names_step_p [] (leaf_items leaf)"

lemma dir_names_p_Some [run_simps]: "dir_names_p leaf = Some (dir_names leaf)"
proof -
  have "30 + min (unat (f_le_u16 data 27)) k \<le> usize_max" for data k
    using unat_less_exp [of "f_le_u16 data 27"] by (simp add: usize_max_def)
  then have "dir_names_step_p entries it = Some (dir_names_step entries it)" for entries it
    by (simp add: dir_names_step_p_def dir_names_step_def run_simps carve_consts Let_def split: prod.split)
  then show ?thesis
    unfolding dir_names_p_def dir_names_def by (intro run_fold_total)
qed

definition recover_item_p :: "codecs \<Rightarrow> node \<Rightarrow> u64 list \<Rightarrow> dir_names_map \<Rightarrow> u64 \<Rightarrow> bytes \<Rightarrow> chunk_map \<Rightarrow> u32 \<Rightarrow>
    disk_key \<times> bytes \<Rightarrow> recovered_file option run" where
  "recover_item_p c old current_inodes old_names generation img m sectorsize = (\<lambda>(key, data).
     if k_type key \<noteq> INODE_ITEM_KEY then Some None
     else
       let ino = k_objectid key in
       if ino < 257 then Some None
       else if ino \<in> set current_inodes then Some None
       else if \<not> list_ex (\<lambda>(k, _). k_objectid k = ino \<and> k_type k = EXTENT_DATA_KEY) (leaf_items old) then Some None
       else do {
         let sz = f_le_u64 data INODE_SIZE_FIELD;
         r \<leftarrow> read_file_from_leaf_p c old img m sectorsize ino;
         let content = (case r of Inl _ \<Rightarrow> [] | Inr bs \<Rightarrow> bs);
         content_sha256 \<leftarrow> sha256_hex_p content;
         Some (Some \<lparr> rf_path = unwrap_or (get_name old_names ino) (str ''inode_'' @ dec_u64 ino),
                   rf_inode = ino, rf_generation = generation, rf_size = sz,
                   rf_content = content, rf_content_sha256 = content_sha256 \<rparr>) })"

definition recover_deleted_from_leaves_p ::
    "codecs \<Rightarrow> node \<Rightarrow> node \<Rightarrow> bytes \<Rightarrow> chunk_map \<Rightarrow> u32 \<Rightarrow> recovered_file list run" where
  "recover_deleted_from_leaves_p c old current img m sectorsize =
     (if h_owner (n_header old) \<noteq> FS_TREE_OBJECTID then Some []
      else do {
        let current_inodes = inode_set current;
        old_names \<leftarrow> dir_names_p old;
        let generation = h_generation (n_header old);
        rs \<leftarrow> run_map (recover_item_p c old current_inodes old_names generation img m sectorsize) (leaf_items old);
        Some (List.map_filter id rs) })"

lemma fits_content_sha:
  assumes "fits_content leaf img" and "read_file_from_leaf c leaf img m ss ino = Inr out"
  shows "length out + 73 \<le> isize_max"
proof -
  have img: "length img * 1024 + 2 ^ 20 \<le> isize_max"
    using assms(1) by (simp add: fits_content_def expand_bound_def)
  then have len: "unat (of_nat (length img) :: u64) = length img"
    by (simp add: unat_of_nat isize_max_def)
  obtain sz :: u64 where "sz \<le> max (of_nat (length img)) LOGICAL_ALLOC_FLOOR" and "length out = unat sz"
    using assms(2) unfolding read_file_from_leaf_Inr_iff logical_bound_def by auto
  then have "length out \<le> max (length img) (2 ^ 26)"
    by (auto simp: word_le_nat_alt len LOGICAL_ALLOC_FLOOR_def max_def split: if_splits)
  with img show ?thesis by (auto simp: isize_max_def)
qed

lemma recover_deleted_from_leaves_p_Some [run_simps]:
  assumes "fits_content old img" and "codec_fits (lzo_block c)"
  shows "recover_deleted_from_leaves_p c old current img m ss =
    Some (recover_deleted_from_leaves c old current img m ss)"
proof -
  have sha: "sha256_hex_p (case read_file_from_leaf c old img m ss ino of Inl _ \<Rightarrow> [] | Inr bs \<Rightarrow> bs) =
      Some (sha256_hex (case read_file_from_leaf c old img m ss ino of Inl _ \<Rightarrow> [] | Inr bs \<Rightarrow> bs))" for ino
    using fits_content_sha [OF assms(1), of c m ss ino]
    by (intro sha256_hex_p_Some) (simp add: isize_max_def split: sum.split)
  have "recover_item_p c old cur names g img m ss it = Some (recover_item c old cur names g img m ss it)"
    for cur names g it
    by (auto simp: recover_item_p_def recover_item_def read_file_from_leaf_p_Some [OF assms] sha Let_def
        split: prod.split)
  then have "run_map (recover_item_p c old cur names g img m ss) its =
      Some (map (recover_item c old cur names g img m ss) its)" for cur names g its
    by (intro run_map_Some)
  then show ?thesis
    by (simp add: recover_deleted_from_leaves_p_def recover_deleted_from_leaves_def run_simps Let_def
        List.map_filter_def filter_map comp_def)
qed

definition recover_backup_p :: "(bytes \<Rightarrow> u32) \<Rightarrow> codecs \<Rightarrow> bytes \<Rightarrow> superblock \<Rightarrow> chunk_map \<Rightarrow> fs_root \<Rightarrow> node \<Rightarrow>
    recovered_file list \<Rightarrow> root_backup \<Rightarrow> recovered_file list run" where
  "recover_backup_p crc c img sb m cur_root current out b =
     (if rb_fs_root b = 0 \<or> rb_fs_root b = fr_bytenr cur_root then Some out
      else do {
        r \<leftarrow> read_node_p crc img sb m (rb_fs_root b);
        (case r of
           Inl _ \<Rightarrow> Some out
         | Inr old \<Rightarrow> do {
             rs \<leftarrow> recover_deleted_from_leaves_p c old current img m (sb_sectorsize sb);
             Some (foldl push_recovered out rs) }) })"

definition recover_deleted_p :: "(bytes \<Rightarrow> u32) \<Rightarrow> codecs \<Rightarrow> bytes \<Rightarrow> recovered_file list run" where
  "recover_deleted_p crc c img =
     (case get_range img BTRFS_SUPER_INFO_OFFSET (sat_add BTRFS_SUPER_INFO_OFFSET BTRFS_SUPER_INFO_SIZE) of
        None \<Rightarrow> Some []
      | Some sb_block \<Rightarrow> do {
          r \<leftarrow> superblock_parse_p crc sb_block;
          (case r of
             Inl _ \<Rightarrow> Some []
           | Inr sb \<Rightarrow> do {
               w \<leftarrow> walk_p crc img sb;
               let m = (case w of Inl _ \<Rightarrow> [] | Inr m \<Rightarrow> m);
               q \<leftarrow> fs_tree_root_p crc img sb m;
               (case q of
                  Inl _ \<Rightarrow> Some []
                | Inr cur_root \<Rightarrow> do {
                    r \<leftarrow> read_node_p crc img sb m (fr_bytenr cur_root);
                    (case r of
                       Inl _ \<Rightarrow> Some []
                     | Inr current \<Rightarrow> do {
                         bs \<leftarrow> parse_backup_roots_p sb_block;
                         run_fold (recover_backup_p crc c img sb m cur_root current) [] bs }) }) }) })"

lemma recover_backup_p_Some [run_simps]:
  assumes "readable_size (sb_nodesize sb) img" and "codec_fits (lzo_block c)"
  shows "recover_backup_p crc c img sb m r cur out b = Some (recover_backup crc c img sb m r cur out b)"
  using readable_size_fits [OF assms(1)] fits_content_read_node [OF assms(1)] assms(2)
  by (auto simp: recover_backup_p_def recover_backup_def run_simps split: sum.split)

text \<open>The node size is a field of the image, so only the image's size can be assumed here.\<close>

lemma recover_deleted_p_Some [run_simps]:
  assumes "length img \<le> 2 ^ 28" and "codec_fits (lzo_block c)"
  shows "recover_deleted_p crc c img = Some (recover_deleted crc c img)"
proof -
  have size: "readable_size ns img" for ns using assms(1) by (simp add: readable_size_def)
  have mem: "fits_memory img" by (rule readable_size_fits [OF size])
  have "run_fold (recover_backup_p crc c img sb m r cur) [] bs = Some (foldl (recover_backup crc c img sb m r cur) [] bs)"
    for sb m r cur bs
    by (intro run_fold_total recover_backup_p_Some size assms(2))
  then show ?thesis
    by (auto simp: recover_deleted_p_def recover_deleted_def walk_or_default_def run_simps mem fits_range [OF mem] Let_def
        split: option.split sum.split)
qed

end
