(* ===== verification/Fuzz.thy ===== *)
theory Fuzz
  imports Safe_Forensic
begin

text \<open>
  The seven fuzz targets of \<open>fuzz/fuzz_targets\<close>, over the runs that may panic: each is a function of the
  fuzzer's bytes that ends without a value, and \<open>Some ()\<close> is that no statement of it panicked. What
  the fuzzer searches for, an input that panics, does not exist.
\<close>

section \<open>Targets\<close>

text \<open>\<open>black_box\<close> only keeps the compiler from removing a call: the call is made, its value dropped.\<close>

definition fuzz_chunk :: "bytes \<Rightarrow> unit run" where
  "fuzz_chunk data =
     (if length data < 4 then Some ()
      else do {
        b0 \<leftarrow> p_idx data 0;
        b1 \<leftarrow> p_idx data 1;
        b2 \<leftarrow> p_idx data 2;
        b3 \<leftarrow> p_idx data 3;
        let array_size = (from_le_bytes [b0, b1, b2, b3] :: u32);
        block \<leftarrow> p_from data 4;
        chunks \<leftarrow> parse_array_p block 0 array_size;
        _ \<leftarrow> run_map (\<lambda>chunk. run_map (sys_chunk_l2p_p chunk) [0, push_bit 20 1, push_bit 40 1, - 1]) chunks;
        Some () })"

definition fuzz_crc :: "(bytes \<Rightarrow> u32) \<Rightarrow> bytes \<Rightarrow> unit run" where
  "fuzz_crc crc data =
     (if length data < 2 then Some ()
      else do {
        b0 \<leftarrow> p_idx data 0;
        b1 \<leftarrow> p_idx data 1;
        let code = (from_le_bytes [b0, b1] :: u16);
        let csum_type = csum_from_code code;
        block \<leftarrow> p_from data 2;
        _ \<leftarrow> superblock_crc_status_p crc csum_type block (length block);
        _ \<leftarrow> verify_superblock_crc32c_p crc block (length block);
        Some () })"

definition fuzz_superblock :: "(bytes \<Rightarrow> u32) \<Rightarrow> bytes \<Rightarrow> unit run" where
  "fuzz_superblock crc data = do {
     r \<leftarrow> superblock_parse_p crc data;
     (case r of
        Inl _ \<Rightarrow> Some ()
      | Inr sb \<Rightarrow> do {
          _ \<leftarrow> superblock_crc_status_p crc (sb_csum_type sb) data (length data);
          Some () }) }"

definition fuzz_node :: "(bytes \<Rightarrow> u32) \<Rightarrow> bytes \<Rightarrow> unit run" where
  "fuzz_node crc data = do {
     r \<leftarrow> node_parse_p crc data;
     (case r of
        Inl _ \<Rightarrow> Some ()
      | Inr node \<Rightarrow> do {
          _ \<leftarrow> run_map (\<lambda>(_, item). Some item) (leaf_items node);
          _ \<leftarrow> Some (key_ptrs node);
          _ \<leftarrow> chunk_items_p node;
          _ \<leftarrow> Some (is_leaf node);
          Some () }) }"

definition fuzz_fstree :: "(bytes \<Rightarrow> u32) \<Rightarrow> bytes \<Rightarrow> unit run" where
  "fuzz_fstree crc data = do {
     r \<leftarrow> node_parse_p crc data;
     (case r of
        Inl _ \<Rightarrow> Some ()
      | Inr leaf \<Rightarrow> do {
          _ \<leftarrow> run_map (\<lambda>oid. do {
            _ \<leftarrow> read_inode_p leaf oid;
            list_dir_p leaf oid }) [0, 256, - 1];
          _ \<leftarrow> read_by_path_p leaf [];
          _ \<leftarrow> read_by_path_p leaf (str ''a/b/c'');
          _ \<leftarrow> read_by_path_p leaf (str ''/etc/hosts'');
          Some () }) }"

definition fuzz_extent :: "(bytes \<Rightarrow> u32) \<Rightarrow> codecs \<Rightarrow> bytes \<Rightarrow> unit run" where
  "fuzz_extent crc c data =
     (if length data < 9 then Some ()
      else do {
        b0 \<leftarrow> p_idx data 0;
        let algo = compression_from_byte b0;
        bs \<leftarrow> run_map (p_idx data) [1, 2, 3, 4, 5, 6, 7, 8];
        let ram_bytes = (from_le_bytes bs :: u64);
        src \<leftarrow> p_from data 9;
        _ \<leftarrow> decompress_extent_p c algo src ram_bytes 4096;
        r \<leftarrow> node_parse_p crc data;
        (case r of
           Inl _ \<Rightarrow> Some ()
         | Inr leaf \<Rightarrow> do {
             _ \<leftarrow> run_map (read_file_from_leaf_p c leaf data map_new 4096) [0, 256, - 1];
             Some () }) })"

definition fuzz_forensic ::
    "(bytes \<Rightarrow> u32) \<Rightarrow> codecs \<Rightarrow> (anomaly \<Rightarrow> report_source \<Rightarrow> 'f) \<Rightarrow> bytes \<Rightarrow> unit run" where
  "fuzz_forensic crc c to_finding data = do {
     _ \<leftarrow> audit_image_p crc data;
     _ \<leftarrow> audit_findings_p crc to_finding data (str ''fuzz'');
     _ \<leftarrow> recover_deleted_p crc c data;
     Some () }"

section \<open>No target panics\<close>

lemma run_map_ok: "(\<And>x. x \<in> set xs \<Longrightarrow> f x = Some (g x)) \<Longrightarrow> run_map f xs \<bind> (\<lambda>_. Some ()) = Some ()"
  by (simp add: run_map_Some)

text \<open>
  Claim C11. The targets \<open>chunk\<close>, \<open>crc\<close>, \<open>superblock\<close>, \<open>node\<close> and \<open>fstree\<close> never panic: no input
  makes a parser of the superblock, its checksum or a node read outside a buffer or overflow
  an index, whatever the counts, lengths and offsets on it say.
\<close>

theorem fuzz_structures_never_panic:
  assumes "fits_memory data"
  shows "fuzz_chunk data = Some () \<and> fuzz_crc crc data = Some () \<and> fuzz_superblock crc data = Some () \<and>
    fuzz_node crc data = Some () \<and> fuzz_fstree crc data = Some ()"
proof (intro conjI)
  have fits: "fits_memory (drop k data)" for k
    using assms by (auto simp: fits_memory_def)
  have "run_map (\<lambda>chunk. run_map (sys_chunk_l2p_p chunk) ls) chunks \<bind> (\<lambda>_. Some ()) = Some ()" for ls chunks
    by (rule run_map_ok [where g = "\<lambda>chunk. map (sys_chunk_l2p chunk) ls"])
      (simp add: run_map_Some [where g = "sys_chunk_l2p chunk" for chunk] run_simps)
  moreover have "p_idx data 0 = Some (data ! 0)" if "\<not> length data < 4"
    using that by (intro p_idx_Some) linarith
  ultimately show "fuzz_chunk data = Some ()"
    by (simp add: fuzz_chunk_def run_simps fits Let_def del: run_map.simps)
  have "p_idx data 0 = Some (data ! 0)" if "\<not> length data < 2"
    using that by (intro p_idx_Some) linarith
  then show "fuzz_crc crc data = Some ()"
    by (simp add: fuzz_crc_def run_simps Let_def)
  show "fuzz_superblock crc data = Some ()"
    by (simp add: fuzz_superblock_def run_simps assms split: sum.split)
  have "run_map (\<lambda>(k, item). Some item) its \<bind> (\<lambda>_. Some ()) = Some ()" for its :: "(disk_key \<times> bytes) list"
    by (rule run_map_ok [where g = snd]) auto
  then show "fuzz_node crc data = Some ()"
    by (auto simp: fuzz_node_def run_simps assms fits_node_parse run_map_Some [where g = snd] split: sum.split)
  show "fuzz_fstree crc data = Some ()"
    by (auto simp: fuzz_fstree_def run_simps assms split: sum.split)
qed

text \<open>
  Claim C10. The targets \<open>extent\<close> and \<open>fuzz_forensic\<close> never panic on inputs of up to 256 MiB: neither the
  assembly of a file with its decompressors, nor the audit, nor the recovery of deleted files, with
  a decompressor that stays inside the buffer it is given.
\<close>

theorem fuzz_content_never_panics:
  assumes "length data \<le> 2 ^ 28" and "codec_fits (lzo_block c)"
  shows "fuzz_extent crc c data = Some () \<and> fuzz_forensic crc c to_finding data = Some ()"
proof
  have mem: "fits_memory data" using assms(1) by (simp add: fits_memory_def)
  have small: "expand_bound (length (drop k data)) \<le> isize_max" for k
    using assms(1) by (simp add: expand_bound_def isize_max_def)
  have leaf: "fits_content leaf data" if "node_parse crc data = Inr leaf" for leaf
    using assms(1) by (intro fits_content_parse [OF that]) simp
  have "p_idx data 0 = Some (data ! 0)" if "\<not> length data < 9"
    using that by (intro p_idx_Some) linarith
  then show "fuzz_extent crc c data = Some ()"
    using small [of 9]
    by (auto simp: fuzz_extent_def run_simps mem assms(2) leaf Let_def split: sum.split)
  show "fuzz_forensic crc c to_finding data = Some ()"
    by (simp add: fuzz_forensic_def run_simps mem recover_deleted_p_Some [OF assms])
qed

section \<open>Instances\<close>

theorem fuzz_structures_never_panic_witness:
  "fuzz_chunk [255, 255, 255, 255, 1] = Some () \<and> fuzz_crc crc32c_ref [0, 0, 7] = Some () \<and>
    fuzz_node crc32c_ref (replicate 101 255) = Some ()"
  using fuzz_structures_never_panic [of "[255, 255, 255, 255, 1]" crc32c_ref]
    fuzz_structures_never_panic [of "[0, 0, 7]" crc32c_ref]
    fuzz_structures_never_panic [of "replicate 101 255" crc32c_ref]
  by (simp add: fits_memory_def)

theorem fuzz_content_never_panics_witness:
  "fuzz_extent crc32c_ref demo_codecs (2 # replicate 200 255) = Some () \<and>
    fuzz_forensic crc32c_ref demo_codecs (\<lambda>a s. (a, s)) (replicate 200 0) = Some ()"
proof -
  have c: "codec_fits (lzo_block demo_codecs)"
    by (simp add: codec_fits_def demo_codecs_def)
  show ?thesis
    by (intro conjI conjunct1 [OF fuzz_content_never_panics [OF _ c]]
        conjunct2 [OF fuzz_content_never_panics [OF _ c]]) simp_all
qed

end
