(* ===== verification/Crafted.thy ===== *)
theory Crafted
  imports Mount
begin

text \<open>
  The crafted image of the unit tests in \<open>core/src/vfs.rs\<close>: the writer of a leaf, of inodes, inline extents,
  directory items, of a chunk leaf and a superblock, statement by statement on a zeroed buffer, and the
  4 MiB image they are assembled into. The writer of a leaf is the inverse of the reader for any items
  that fit; the image is mounted through a chunk map that is really walked.
\<close>

section \<open>Constants\<close>

definition T_NODESIZE :: nat where "T_NODESIZE = 16384"
definition T_HDR_END :: nat where "T_HDR_END = 101"
definition T_ITEM_STRIDE :: nat where "T_ITEM_STRIDE = 25"
definition T_SUPER_OFFSET :: nat where "T_SUPER_OFFSET = 65536"
definition T_SUPER_SIZE :: nat where "T_SUPER_SIZE = 4096"
definition T_ROOT_LOGICAL :: u64 where "T_ROOT_LOGICAL = 0x20000"
definition T_FS_LEAF_LOGICAL :: u64 where "T_FS_LEAF_LOGICAL = 0x30000"
definition T_CHUNK_LEN :: u64 where "T_CHUNK_LEN = 4 * 1024 * 1024"

lemmas crafted_consts = T_NODESIZE_def T_HDR_END_def T_ITEM_STRIDE_def T_SUPER_OFFSET_def T_SUPER_SIZE_def
  T_ROOT_LOGICAL_def T_FS_LEAF_LOGICAL_def T_CHUNK_LEN_def

section \<open>Writing into a buffer\<close>

named_theorems build_simps

lemma overwrite_skip [build_simps]: "length xs \<le> k \<Longrightarrow> overwrite (xs @ ys) k e = xs @ overwrite ys (k - length xs) e"
  by (simp add: overwrite_def)

lemma overwrite_Cons [build_simps]: "0 < k \<Longrightarrow> overwrite (x # ys) k e = x # overwrite ys (k - 1) e"
  by (cases k) (simp_all add: overwrite_def)

lemma overwrite_zeros [build_simps]:
  "k + length e \<le> n \<Longrightarrow> overwrite (zeros n) k e = zeros k @ e @ zeros (n - k - length e)"
  by (simp add: overwrite_def zeros_def diff_diff_add)

lemma overwrite_zeros_append [build_simps]:
  "k + length e \<le> n \<Longrightarrow> overwrite (zeros n @ ys) k e = zeros k @ e @ zeros (n - k - length e) @ ys"
  by (simp add: overwrite_def zeros_def diff_diff_add)

lemma update_skip [build_simps]: "length xs \<le> k \<Longrightarrow> (xs @ ys)[k := y] = xs @ ys[k - length xs := y]"
  by (simp add: list_update_append)

lemma update_zeros [build_simps]: "k < n \<Longrightarrow> (zeros n)[k := y] = zeros k @ [y] @ zeros (n - k - 1)"
  by (simp add: zeros_def list_eq_iff_nth_eq nth_append nth_list_update)

lemma update_zeros_append [build_simps]: "k < n \<Longrightarrow> (zeros n @ ys)[k := y] = zeros k @ [y] @ zeros (n - k - 1) @ ys"
  by (simp add: list_update_append update_zeros)

lemma zeros_merge [build_simps]:
  "zeros 0 = []" "zeros a @ zeros b = zeros (a + b)" "zeros a @ zeros b @ xs = zeros (a + b) @ xs"
  by (simp_all add: zeros_def replicate_add)

lemma zeros_Cons: "zeros n @ 0 # xs = zeros (Suc n) @ xs" "zeros n @ [0] = zeros (Suc n)"
  by (induction n) (simp_all add: zeros_def)

lemma le_zero [build_simps]:
  "to_le_bytes (0 :: u64) = zeros 8" "to_le_bytes (0 :: u32) = zeros 4" "to_le_bytes (0 :: u16) = zeros 2"
proof -
  have "nat_le n 0 = zeros n" for n by (induction n) (simp_all add: zeros_def)
  then show "to_le_bytes (0 :: u64) = zeros 8" "to_le_bytes (0 :: u32) = zeros 4" "to_le_bytes (0 :: u16) = zeros 2"
    by (simp_all add: to_le_bytes_def)
qed

section \<open>A leaf\<close>

type_synonym test_item = "u64 \<times> u8 \<times> u64 \<times> bytes"

text \<open>The loop over the items: the item header from the front, the data from the back.\<close>

fun build_items :: "nat \<Rightarrow> nat \<Rightarrow> bytes \<Rightarrow> test_item list \<Rightarrow> bytes" where
  "build_items i tail node [] = node"
| "build_items i tail node ((oid, ty, koff, data) # items) =
     (let io = T_HDR_END + i * T_ITEM_STRIDE;
          node = overwrite node io (to_le_bytes oid);
          node = node[io + 8 := ty];
          node = overwrite node (io + 9) (to_le_bytes koff);
          tail = tail - length data;
          doff = of_nat (tail - T_HDR_END) :: u32;
          node = overwrite node (io + 17) (to_le_bytes doff);
          node = overwrite node (io + 21) (to_le_bytes (of_nat (length data) :: u32));
          node = overwrite node tail data
      in build_items (Suc i) tail node items)"

definition build_leaf :: "u64 \<Rightarrow> test_item list \<Rightarrow> bytes" where
  "build_leaf owner items =
     (let node = zeros T_NODESIZE;
          node = overwrite node 0x30 (to_le_bytes (30654464 :: u64));
          node = overwrite node 0x58 (to_le_bytes owner);
          node = overwrite node 0x60 (to_le_bytes (of_nat (length items) :: u32));
          node = node[0x64 := 0];
          node = build_items 0 T_NODESIZE node items;
          c = crc32c_ref (drop 0x20 node)
      in overwrite node 0 (to_le_bytes c))"

text \<open>The items as the reader presents them.\<close>

definition as_item :: "test_item \<Rightarrow> disk_key \<times> bytes" where
  "as_item = (\<lambda>(oid, ty, koff, data). (\<lparr> k_objectid = oid, k_type = ty, k_offset = koff \<rparr>, data))"

lemma build_step:
  fixes P D data :: bytes and oid koff :: u64 and x y :: u32
  assumes "length P = io" and "tail = io + g - length data" and "25 + length data \<le> g"
  shows "overwrite (overwrite (overwrite (overwrite ((overwrite (P @ zeros g @ D) io (to_le_bytes oid))[io + 8 := ty])
      (io + 9) (to_le_bytes koff)) (io + 17) (to_le_bytes x)) (io + 21) (to_le_bytes y)) tail data =
    (P @ to_le_bytes oid @ [ty] @ to_le_bytes koff @ to_le_bytes x @ to_le_bytes y)
      @ zeros (g - 25 - length data) @ data @ D"
  using assms
  by (simp add: build_simps)

lemma build_items_eq:
  assumes "length P = 101 + 25 * i" and "tail = 101 + 25 * i + g"
    and "25 * length items + data_size (map as_item items) \<le> g"
  shows "build_items i tail (P @ zeros g @ D) items =
    P @ concat (map encode_item_header (item_table (tail - 101) (map as_item items)))
      @ zeros (g - 25 * length items - data_size (map as_item items))
      @ concat (rev (map snd (map as_item items))) @ D"
  using assms
proof (induction items arbitrary: P D i tail g)
  case (Cons item items)
  obtain oid ty koff data where item: "item = (oid, ty, koff, data)" by (cases item)
  let ?tail = "tail - length data" and ?g = "g - 25 - length data"
  let ?P = "P @ to_le_bytes oid @ [ty] @ to_le_bytes koff @ to_le_bytes (of_nat (?tail - 101) :: u32)
    @ to_le_bytes (of_nat (length data) :: u32)"
  note step = build_step [where io = "101 + i * 25" and tail = ?tail and g = g and P = P and data = data]
  have "build_items i tail (P @ zeros g @ D) (item # items) = build_items (Suc i) ?tail (?P @ zeros ?g @ data @ D) items"
    unfolding item build_items.simps Let_def crafted_consts
    by (subst step) (use Cons.prems in \<open>simp_all add: item as_item_def\<close>)
  also have "\<dots> = ?P @ concat (map encode_item_header (item_table (?tail - 101) (map as_item items)))
      @ zeros (?g - 25 * length items - data_size (map as_item items))
      @ concat (rev (map snd (map as_item items))) @ data @ D"
    using Cons.prems by (intro Cons.IH) (auto simp: item as_item_def)
  also have "?tail - 101 = tail - 101 - length data" by simp
  finally show ?case
    by (simp add: item as_item_def encode_item_header_def encode_disk_key_def diff_diff_add add.assoc add.left_commute)
qed (simp add: build_simps)

definition built_header :: "u64 \<Rightarrow> nat \<Rightarrow> bytes \<Rightarrow> header" where
  "built_header owner n csum =
     \<lparr> h_csum = csum, h_fsid = zeros 16, h_bytenr = 30654464, h_flags = 0, h_chunk_tree_uuid = zeros 16,
       h_generation = 0, h_owner = owner, h_nritems = of_nat n, h_level = 0 \<rparr>"

definition leaf_gap :: "test_item list \<Rightarrow> nat" where
  "leaf_gap items = 16283 - 25 * length items - data_size (map as_item items)"

definition leaf_fits :: "test_item list \<Rightarrow> bool" where
  "leaf_fits items \<longleftrightarrow> 25 * length items + data_size (map as_item items) \<le> 16283"

lemma seal_leaf:
  assumes "length (h_csum h) = 4"
  shows "seal crc (encode_leaf h gap its) =
    encode_leaf (h\<lparr>h_csum := to_le_bytes (crc (drop 32 (encode_leaf h gap its)))\<rparr>) gap its"
proof -
  obtain rest where rest: "\<And>c. encode_leaf (h\<lparr>h_csum := c\<rparr>) gap its = c @ rest"
    by (simp add: encode_leaf_def encode_header_def)
  have "encode_leaf h gap its = h_csum h @ rest" using rest [of "h_csum h"] by simp
  then show ?thesis using assms rest by (simp add: seal_def overwrite_def)
qed

lemma build_leaf_seal:
  assumes "leaf_fits items"
  shows "build_leaf owner items =
    seal crc32c_ref (encode_leaf (built_header owner (length items) (zeros 4)) (zeros (leaf_gap items)) (map as_item items))"
proof -
  let ?h = "encode_header (built_header owner (length items) (zeros 4))"
  have start: "(overwrite (overwrite (overwrite (zeros 16384) 48 (to_le_bytes (30654464 :: u64))) 88 (to_le_bytes owner))
      96 (to_le_bytes (of_nat (length items) :: u32)))[100 := 0] = ?h @ zeros 16283 @ []"
    by (simp add: encode_header_def built_header_def build_simps)
  have "build_items 0 16384 (?h @ zeros 16283 @ []) items =
      encode_leaf (built_header owner (length items) (zeros 4)) (zeros (leaf_gap items)) (map as_item items)"
  proof -
    have "16283 = 25 * length items + leaf_gap items + data_size (map as_item items)"
      using assms by (simp add: leaf_fits_def leaf_gap_def)
    moreover have "length ?h = 101" by (simp add: wf_header_def built_header_def zeros_def)
    ultimately show ?thesis
      using assms by (subst build_items_eq [of _ 0 _ 16283])
        (simp_all add: leaf_fits_def encode_leaf_def leaf_gap_def zeros_def)
  qed
  then show ?thesis
    unfolding build_leaf_def Let_def crafted_consts start by (simp add: seal_def)
qed

lemma wf_built_leaf:
  assumes "leaf_fits items" and "length csum = 4"
  shows "wf_leaf (built_header owner (length items) csum) (zeros (leaf_gap items)) (map as_item items)"
  using assms by (simp add: wf_leaf_def wf_header_def built_header_def leaf_fits_def leaf_gap_def unat_of_nat zeros_def)

lemma build_leaf_encode:
  assumes "leaf_fits items"
  obtains csum where "length csum = 4" and "build_leaf owner items =
    encode_leaf (built_header owner (length items) csum) (zeros (leaf_gap items)) (map as_item items)"
proof -
  have "length (h_csum (built_header owner (length items) (zeros 4))) = 4"
    by (simp add: built_header_def zeros_def)
  note seal_leaf [OF this, of crc32c_ref "zeros (leaf_gap items)" "map as_item items"]
  moreover have "(built_header owner (length items) (zeros 4))\<lparr>h_csum := c\<rparr> = built_header owner (length items) c" for c
    by (simp add: built_header_def)
  ultimately have "build_leaf owner items = encode_leaf (built_header owner (length items)
      (to_le_bytes (crc32c_ref (drop 32 (encode_leaf (built_header owner (length items) (zeros 4))
        (zeros (leaf_gap items)) (map as_item items)))))) (zeros (leaf_gap items)) (map as_item items)"
    unfolding build_leaf_seal [OF assms] by simp
  then show thesis by (rule that [rotated]) simp
qed

lemma length_build_leaf [simp]:
  assumes "leaf_fits items"
  shows "length (build_leaf owner items) = 16384"
proof -
  obtain csum where "length csum = 4" and leaf: "build_leaf owner items =
      encode_leaf (built_header owner (length items) csum) (zeros (leaf_gap items)) (map as_item items)"
    by (rule build_leaf_encode [OF assms])
  then have "wf_header (built_header owner (length items) csum)"
    by (simp add: wf_header_def built_header_def zeros_def)
  then show ?thesis
    using assms by (simp add: leaf length_encode_leaf leaf_fits_def leaf_gap_def zeros_def)
qed

lemma build_leaf_node:
  assumes "leaf_fits items"
  obtains n where "node_parse crc (build_leaf owner items) = Inr n" and "leaf_items n = map as_item items"
    and "is_leaf n" and "h_owner (n_header n) = owner"
    and "crc = crc32c_ref \<longrightarrow> n_crc_valid n = Some True"
proof -
  obtain csum where c: "length csum = 4" and leaf: "build_leaf owner items =
      encode_leaf (built_header owner (length items) csum) (zeros (leaf_gap items)) (map as_item items)"
    by (rule build_leaf_encode [OF assms])
  obtain n where n: "node_parse crc (build_leaf owner items) = Inr n"
    using node_parse_ok_iff [of crc "build_leaf owner items"] assms by auto
  note parsed = encode_leaf_items [OF wf_built_leaf [OF assms c] n [unfolded leaf]]
  have "length (encode_leaf (built_header owner (length items) (zeros 4)) (zeros (leaf_gap items)) (map as_item items)) = 16384"
    using assms by (subst length_encode_leaf)
      (simp_all add: wf_header_def built_header_def leaf_fits_def leaf_gap_def zeros_def)
  then have "verify_superblock_crc32c crc32c_ref (build_leaf owner items) 16384"
    using verify_seal [of "encode_leaf (built_header owner (length items) (zeros 4)) (zeros (leaf_gap items)) (map as_item items)" crc32c_ref]
    unfolding build_leaf_seal [OF assms] by simp
  then have "crc = crc32c_ref \<longrightarrow> n_crc_valid n = Some True"
    using n assms by (simp add: node_parse_Inr_iff)
  moreover have "h_owner (n_header n) = owner" using parsed(1) by (simp add: built_header_def)
  ultimately show thesis using that n parsed(2,3) by blast
qed

section \<open>Items\<close>

definition inode_item :: "u64 \<Rightarrow> u32 \<Rightarrow> u32 \<Rightarrow> u32 \<Rightarrow> u32 \<Rightarrow> u64 \<Rightarrow> bytes" where
  "inode_item sz mode nlink uid gid otime_sec =
     (let d = zeros 160;
          d = overwrite d 16 (to_le_bytes sz);
          d = overwrite d 40 (to_le_bytes nlink);
          d = overwrite d 44 (to_le_bytes uid);
          d = overwrite d 48 (to_le_bytes gid);
          d = overwrite d 52 (to_le_bytes mode);
          d = overwrite d 112 (to_le_bytes (111 :: u64));
          d = overwrite d 124 (to_le_bytes (222 :: u64));
          d = overwrite d 136 (to_le_bytes (333 :: u64))
      in overwrite d 148 (to_le_bytes otime_sec))"

definition inline_extent :: "bytes \<Rightarrow> bytes" where
  "inline_extent payload =
     (let d = zeros (21 + length payload);
          d = overwrite d 8 (to_le_bytes (of_nat (length payload) :: u64));
          d = d[20 := 0]
      in overwrite d 21 payload)"

definition dir_item :: "u64 \<Rightarrow> u8 \<Rightarrow> bytes \<Rightarrow> bytes" where
  "dir_item child ft name =
     (let d = zeros (30 + length name);
          d = overwrite d 0 (to_le_bytes child);
          d = d[8 := 1];
          d = overwrite d 27 (to_le_bytes (of_nat (length name) :: u16));
          d = d[29 := ft]
      in overwrite d 30 name)"

definition built_inode :: "u64 \<Rightarrow> u64 \<Rightarrow> u32 \<Rightarrow> u32 \<Rightarrow> u32 \<Rightarrow> u32 \<Rightarrow> u64 \<Rightarrow> inode" where
  "built_inode oid sz mode nlink uid gid otime_sec =
     \<lparr> i_objectid = oid, i_generation = 0, i_transid = 0, i_size = sz, i_nbytes = 0, i_nlink = nlink,
       i_uid = uid, i_gid = gid, i_mode = mode, i_flags = 0,
       i_atime = \<lparr> t_sec = 111, t_nsec = 0 \<rparr>, i_ctime = \<lparr> t_sec = 222, t_nsec = 0 \<rparr>,
       i_mtime = \<lparr> t_sec = 333, t_nsec = 0 \<rparr>, i_otime = \<lparr> t_sec = otime_sec, t_nsec = 0 \<rparr> \<rparr>"

lemma inode_item_encode:
  "inode_item sz mode nlink uid gid otime = encode_inode (built_inode oid sz mode nlink uid gid otime)"
  by (simp add: inode_item_def Let_def build_simps encode_inode_def built_inode_def encode_timestamp_def)

lemma inode_item_parse: "inode_parse oid (inode_item sz mode nlink uid gid otime) = built_inode oid sz mode nlink uid gid otime"
  unfolding inode_item_encode [where oid = oid] using inode_parse_encode [of "built_inode oid sz mode nlink uid gid otime"]
  by (simp add: built_inode_def)

lemma inline_extent_encode: "inline_extent payload = encode_inline payload"
  by (simp add: inline_extent_def Let_def build_simps zeros_Cons encode_inline_def)

lemma dir_item_layout:
  "dir_item child ft name = to_le_bytes child @ [1] @ zeros 18 @ to_le_bytes (of_nat (length name) :: u16) @ [ft] @ name"
  by (simp add: dir_item_def Let_def build_simps)

lemma dir_item_parse:
  assumes "length name < 2 ^ 16" and "valid_utf8 name"
  shows "parse_dir_item (dir_item child ft name) =
    Some \<lparr> de_name = name, de_child = child, de_type = dir_item_type_from_byte ft \<rparr>"
  using assms by (simp add: dir_item_layout parse_dir_item_def Let_def dir_offsets read_simps zeros_def unat_of_nat
      from_utf8_lossy_valid get_range_def)

lemma item_lengths [simp]:
  "length (inode_item sz mode nlink uid gid otime) = 160" "length (inline_extent payload) = 21 + length payload"
  "length (dir_item child ft name) = 30 + length name"
  by (simp_all add: inode_item_encode [where oid = 0] inline_extent_encode encode_inline_def dir_item_layout zeros_def)

section \<open>The chunk leaf and the superblock\<close>

definition build_chunk_leaf :: bytes where
  "build_chunk_leaf =
     (let node = zeros T_NODESIZE;
          node = overwrite node 0x30 (to_le_bytes (0 :: u64));
          node = overwrite node 0x58 (to_le_bytes (3 :: u64));
          node = overwrite node 0x60 (to_le_bytes (1 :: u32));
          node = node[0x64 := 0];
          ch = zeros (48 + 32);
          ch = overwrite ch 0 (to_le_bytes T_CHUNK_LEN);
          ch = overwrite ch 24 (to_le_bytes (1 :: u64));
          ch = overwrite ch 44 (to_le_bytes (1 :: u16));
          ch = overwrite ch 46 (to_le_bytes (1 :: u16));
          ch = overwrite ch 48 (to_le_bytes (1 :: u64));
          ch = overwrite ch 56 (to_le_bytes (0 :: u64));
          data_tail = T_NODESIZE - length ch;
          io = T_HDR_END;
          node = overwrite node io (to_le_bytes (256 :: u64));
          node = node[io + 8 := 228];
          node = overwrite node (io + 9) (to_le_bytes (0 :: u64));
          node = overwrite node (io + 17) (to_le_bytes (of_nat (data_tail - T_HDR_END) :: u32));
          node = overwrite node (io + 21) (to_le_bytes (of_nat (length ch) :: u32));
          node = overwrite node data_tail ch;
          c = crc32c_ref (drop 0x20 node)
      in overwrite node 0 (to_le_bytes c))"

definition built_chunk :: chunk where
  "built_chunk = \<lparr> ck_length = 0x400000, ck_owner = 0, ck_stripe_len = 0, ck_type = 1, ck_num_stripes = 1,
     ck_sub_stripes = 1, ck_stripes = [\<lparr> s_devid = 1, s_offset = 0, s_uuid = zeros 16 \<rparr>] \<rparr>"

definition chunk_leaf_header :: "bytes \<Rightarrow> header" where
  "chunk_leaf_header csum = built_header 3 1 csum\<lparr> h_bytenr := 0 \<rparr>"

abbreviation chunk_leaf_items :: "(disk_key \<times> bytes) list" where
  "chunk_leaf_items \<equiv> [(\<lparr>k_objectid = 256, k_type = 228, k_offset = 0\<rparr>, encode_chunk (zeros 12) built_chunk)]"

lemma build_chunk_bytes:
  "overwrite (overwrite (overwrite (overwrite (overwrite (overwrite (zeros 80) 0 (to_le_bytes (0x400000 :: u64)))
     24 (to_le_bytes (1 :: u64))) 44 (to_le_bytes (1 :: u16))) 46 (to_le_bytes (1 :: u16))) 48 (to_le_bytes (1 :: u64)))
     56 (to_le_bytes (0 :: u64)) = encode_chunk (zeros 12) built_chunk"
  by (simp add: build_simps encode_chunk_def built_chunk_def encode_stripe_def)

lemma length_built_chunk [simp]: "length (encode_chunk (zeros 12) built_chunk) = 80"
  by (simp add: encode_chunk_def built_chunk_def encode_stripe_def zeros_def)

lemma build_chunk_leaf_seal:
  "build_chunk_leaf = seal crc32c_ref (encode_leaf (chunk_leaf_header (zeros 4)) (zeros 16178) chunk_leaf_items)"
proof -
  let ?h = "encode_header (chunk_leaf_header (zeros 4))"
  have start: "(overwrite (overwrite (overwrite (zeros 16384) 48 (to_le_bytes (0 :: u64))) 88 (to_le_bytes (3 :: u64)))
      96 (to_le_bytes (1 :: u32)))[100 := 0] = ?h @ zeros 16283 @ []"
    by (simp add: encode_header_def chunk_leaf_header_def built_header_def build_simps)
  have h: "length ?h = 101"
    by (simp add: wf_header_def chunk_leaf_header_def built_header_def zeros_def)
  note step = build_step [of ?h 101 16304 16283 "encode_chunk (zeros 12) built_chunk" "[]" 256 228 0 16203 80]
  show ?thesis
    using step h unfolding build_chunk_leaf_def Let_def crafted_consts
    by (simp add: start build_chunk_bytes del: append_assoc)
      (simp add: seal_def encode_leaf_def encode_item_header_def encode_disk_key_def)
qed

lemma build_chunk_leaf_encode:
  obtains csum where "length csum = 4"
    and "build_chunk_leaf = encode_leaf (chunk_leaf_header csum) (zeros 16178) chunk_leaf_items"
proof -
  let ?c = "to_le_bytes (crc32c_ref (drop 32 (encode_leaf (chunk_leaf_header (zeros 4)) (zeros 16178) chunk_leaf_items)))"
  have "length (h_csum (chunk_leaf_header (zeros 4))) = 4"
    by (simp add: chunk_leaf_header_def built_header_def zeros_def)
  note seal_leaf [OF this, of crc32c_ref "zeros 16178" chunk_leaf_items]
  moreover have "(chunk_leaf_header (zeros 4))\<lparr>h_csum := c\<rparr> = chunk_leaf_header c" for c
    by (simp add: chunk_leaf_header_def built_header_def)
  ultimately have "build_chunk_leaf = encode_leaf (chunk_leaf_header ?c) (zeros 16178) chunk_leaf_items"
    unfolding build_chunk_leaf_seal by simp
  then show thesis by (rule that [rotated]) simp
qed

lemma wf_chunk_leaf: "length csum = 4 \<Longrightarrow> wf_leaf (chunk_leaf_header csum) (zeros 16178) chunk_leaf_items"
  by (simp add: wf_leaf_def wf_header_def chunk_leaf_header_def built_header_def)

lemma length_build_chunk_leaf [simp]: "length build_chunk_leaf = 16384"
proof -
  obtain csum where "length csum = 4"
    and leaf: "build_chunk_leaf = encode_leaf (chunk_leaf_header csum) (zeros 16178) chunk_leaf_items"
    by (rule build_chunk_leaf_encode)
  then have "wf_header (chunk_leaf_header csum)"
    by (simp add: wf_header_def chunk_leaf_header_def built_header_def zeros_def)
  then show ?thesis by (simp add: leaf length_encode_leaf)
qed

lemma build_chunk_leaf_node:
  obtains n where "node_parse crc build_chunk_leaf = Inr n" and "is_leaf n" and "chunk_items n = [(0, built_chunk)]"
proof -
  obtain csum where c: "length csum = 4"
    and leaf: "build_chunk_leaf = encode_leaf (chunk_leaf_header csum) (zeros 16178) chunk_leaf_items"
    by (rule build_chunk_leaf_encode)
  obtain n where n: "node_parse crc build_chunk_leaf = Inr n"
    using node_parse_ok_iff [of crc build_chunk_leaf] by auto
  note parsed = encode_leaf_items [OF wf_chunk_leaf [OF c] n [unfolded leaf]]
  have "chunk_parse (encode_chunk (zeros 12) built_chunk) = built_chunk"
    by (intro chunk_parse_encode) (simp_all add: wf_chunk_def built_chunk_def wf_stripe_def zeros_def)
  then have "chunk_items n = [(0, built_chunk)]"
    by (simp add: chunk_items_def parsed(2) CHUNK_ITEM_KEY_def)
  with n parsed(3) show thesis by (rule that)
qed

definition build_super :: bytes where
  "build_super =
     (let sb = zeros T_SUPER_SIZE;
          sb = overwrite sb 0x40 BTRFS_MAGIC;
          sb = overwrite sb 0x30 (to_le_bytes (65536 :: u64));
          sb = overwrite sb 0x50 (to_le_bytes T_ROOT_LOGICAL);
          sb = overwrite sb 0x58 (to_le_bytes (0 :: u64));
          sb = overwrite sb 0x90 (to_le_bytes (4096 :: u32));
          sb = overwrite sb 0x94 (to_le_bytes (of_nat T_NODESIZE :: u32));
          arr = 0x32b;
          sb = overwrite sb arr (to_le_bytes (256 :: u64));
          sb = sb[arr + 8 := 228];
          sb = overwrite sb (arr + 9) (to_le_bytes (0 :: u64));
          ci = zeros (48 + 32);
          ci = overwrite ci 0 (to_le_bytes T_CHUNK_LEN);
          ci = overwrite ci 24 (to_le_bytes (2 :: u64));
          ci = overwrite ci 44 (to_le_bytes (1 :: u16));
          ci = overwrite ci 46 (to_le_bytes (1 :: u16));
          ci = overwrite ci 48 (to_le_bytes (1 :: u64));
          ci = overwrite ci 56 (to_le_bytes (0 :: u64));
          sb = overwrite sb (arr + 17) ci
      in overwrite sb 0xa0 (to_le_bytes (of_nat (17 + length ci) :: u32)))"

definition built_sys_chunk :: sys_chunk where
  "built_sys_chunk = \<lparr> sc_key = \<lparr>k_objectid = 256, k_type = 228, k_offset = 0\<rparr>, sc_length = 0x400000,
     sc_owner = 0, sc_stripe_len = 0, sc_type = 2, sc_num_stripes = 1, sc_sub_stripes = 1,
     sc_stripes = [\<lparr> s_devid = 1, s_offset = 0, s_uuid = zeros 16 \<rparr>] \<rparr>"

definition built_sb :: "bool option \<Rightarrow> superblock" where
  "built_sb crc_valid =
     \<lparr> sb_magic = BTRFS_MAGIC, sb_csum = zeros 4, sb_fsid = zeros 16, sb_bytenr = 65536, sb_flags = 0,
       sb_generation = 0, sb_root = 0x20000, sb_chunk_root = 0, sb_log_root = 0,
       sb_total_bytes = 0, sb_bytes_used = 0, sb_root_dir_objectid = 0, sb_num_devices = 0,
       sb_sectorsize = 4096, sb_nodesize = 16384, sb_stripesize = 0,
       sb_sys_chunk_array_size = 97, sb_chunk_root_generation = 0, sb_compat_flags = 0,
       sb_compat_ro_flags = 0, sb_incompat_flags = 0, sb_csum_type = Crc32c, sb_root_level = 0,
       sb_chunk_root_level = 0, sb_log_root_level = 0, sb_label = [], sb_sys_chunks = [built_sys_chunk],
       sb_crc_valid = crc_valid \<rparr>"

lemma build_sys_chunk_bytes:
  "to_le_bytes (256 :: u64) @ 228 # to_le_bytes (0 :: u64) @
     overwrite (overwrite (overwrite (overwrite (overwrite (overwrite (zeros 80) 0 (to_le_bytes (0x400000 :: u64)))
     24 (to_le_bytes (2 :: u64))) 44 (to_le_bytes (1 :: u16))) 46 (to_le_bytes (1 :: u16))) 48 (to_le_bytes (1 :: u64)))
     56 (to_le_bytes (0 :: u64)) = encode_sys_chunk (zeros 12) built_sys_chunk"
  by (simp add: build_simps encode_sys_chunk_def built_sys_chunk_def encode_stripe_def encode_disk_key_def)

lemma build_super_encode: "build_super = encode_superblock (built_sb None) (zeros 3188)"
  by (simp add: build_super_def Let_def crafted_consts build_simps zeros_Cons encode_superblock_def built_sb_def
      built_sys_chunk_def encode_sys_chunk_def encode_stripe_def encode_disk_key_def)

lemma wf_built_sb: "wf_superblock (built_sb None)"
  by (simp add: wf_superblock_def built_sb_def wf_csum_type_def built_sys_chunk_def wf_sys_chunk_def wf_stripe_def
      sys_chunk_size_def zeros_def)

lemma length_build_super [simp]: "length build_super = 4096"
  by (simp add: build_super_encode encode_superblock_def built_sb_def built_sys_chunk_def encode_sys_chunk_def
      encode_stripe_def zeros_def)

lemma build_super_parse: "\<exists>v. superblock_parse crc (build_super @ rest) = Inr (built_sb v)"
proof -
  have "build_super @ rest = encode_superblock (built_sb None) (zeros 3188 @ rest)"
    by (simp add: build_super_encode encode_superblock_def)
  then show ?thesis
    using superblock_parse_encode [OF wf_built_sb, of crc "zeros 3188 @ rest"] by (simp add: built_sb_def)
qed

section \<open>The image\<close>

definition crafted_root_item :: bytes where
  "crafted_root_item =
     (let root_item = zeros 239;
          root_item = overwrite root_item 168 (to_le_bytes (256 :: u64))
      in overwrite root_item 176 (to_le_bytes T_FS_LEAF_LOGICAL))"

definition crafted_items :: "test_item list" where
  "crafted_items =
     [(256, 1, 0, inode_item 0 0x41ED 2 0 0 500),
      (256, 84, 10, dir_item 257 1 (str ''note.txt'')),
      (256, 84, 20, dir_item 258 7 (str ''link'')),
      (256, 84, 30, dir_item 259 2 (str ''sub'')),
      (257, 1, 0, inode_item 9 0x81A4 1 1000 1000 700),
      (257, 108, 0, inline_extent (str ''note body'')),
      (258, 1, 0, inode_item (of_nat (length (str ''target/path''))) 0xA1FF 1 0 0 0),
      (258, 108, 0, inline_extent (str ''target/path'')),
      (259, 1, 0, inode_item 0 0x41ED 2 0 0 0),
      (256, 84, 40, dir_item 260 99 (str ''dev'')),
      (260, 1, 0, inode_item 0 0x2000 1 0 0 0),
      (261, 1, 0, inode_item 0 0x1000 1 0 0 0)]"

definition walkable_image :: bytes where
  "walkable_image =
     (let img = zeros (unat T_CHUNK_LEN);
          img = overwrite img 0 build_chunk_leaf;
          img = overwrite img T_SUPER_OFFSET build_super;
          root_leaf = build_leaf 1 [(5, 132, 0, crafted_root_item)];
          img = overwrite img (unat T_ROOT_LOGICAL) root_leaf;
          fs_leaf = build_leaf 5 crafted_items
      in overwrite img (unat T_FS_LEAF_LOGICAL) fs_leaf)"

definition crafted_root :: fs_root where
  "crafted_root = \<lparr>fr_bytenr = 0x30000, fr_level = 0, fr_root_dirid = 256, fr_generation = 0\<rparr>"

lemma crafted_root_item_encode: "crafted_root_item = encode_root_item crafted_root"
  by (simp add: crafted_root_item_def Let_def crafted_consts build_simps zeros_Cons encode_root_item_def crafted_root_def)

lemma crafted_fits: "leaf_fits crafted_items" "leaf_fits [(5, 132, 0, crafted_root_item)]"
  by (simp_all add: leaf_fits_def crafted_items_def as_item_def str_def crafted_root_item_encode)

text \<open>The layout of the image, with anything behind it.\<close>

abbreviation root_leaf_block :: bytes where
  "root_leaf_block \<equiv> build_leaf 1 [(5, 132, 0, crafted_root_item)]"

abbreviation fs_leaf_block :: bytes where
  "fs_leaf_block \<equiv> build_leaf 5 crafted_items"

lemma walkable_layout:
  "walkable_image = build_chunk_leaf @ zeros 49152 @ build_super @ zeros 61440 @ root_leaf_block @
     zeros 49152 @ fs_leaf_block @ zeros 3981312"
  using crafted_fits by (simp add: walkable_image_def Let_def crafted_consts build_simps)

lemma length_walkable [simp]: "length walkable_image = 4194304"
  using crafted_fits by (simp add: walkable_layout)

definition crafted_map :: chunk_map where
  "crafted_map = [\<lparr> me_start = 0, me_length = 0x400000, me_stripes = [(1, 0)] \<rparr>]"

lemma crafted_l2p: "l < 0x400000 \<Longrightarrow> map_l2p crafted_map l = Some (1, l)"
  using unat_less_exp [of l] by (simp add: crafted_map_def u64_checked_add_def Let_def)

lemma crafted_blocks:
  "get_range (walkable_image @ zeros k) 0 16384 = Some build_chunk_leaf"
  "get_range (walkable_image @ zeros k) 131072 147456 = Some root_leaf_block"
  "get_range (walkable_image @ zeros k) 196608 212992 = Some fs_leaf_block"
  using crafted_fits by (simp_all add: get_range_def walkable_layout)

lemma crafted_read:
  "read_node crc (walkable_image @ zeros k) (built_sb v) crafted_map 0x20000 = node_parse crc root_leaf_block"
  "read_node crc (walkable_image @ zeros k) (built_sb v) crafted_map 0x30000 = node_parse crc fs_leaf_block"
  by (simp_all add: read_node_def node_phys_def crafted_l2p built_sb_def Let_def sat_add_def usize_max_def crafted_blocks)

lemma crafted_walk: "walk crc (walkable_image @ zeros k) (built_sb v) = Inr crafted_map"
proof -
  obtain n where n: "node_parse crc build_chunk_leaf = Inr n" "is_leaf n" "chunk_items n = [(0, built_chunk)]"
    by (rule build_chunk_leaf_node)
  have boot: "map_l2p (boot_map (built_sb v)) 0 = Some (1, 0)"
    by (simp add: built_sb_def boot_map_def entry_of_sys_def built_sys_chunk_def u64_checked_add_def Let_def)
  have "walk_loop crc (walkable_image @ zeros k) 16384 (boot_map (built_sb v)) (Suc 4095) [] [0] False = Inr crafted_map"
    unfolding walk_loop.simps(3)
    using n boot by (simp add: sat_add_def usize_max_def crafted_blocks add_from_node_def entry_of_chunk_def
        built_chunk_def crafted_map_def)
  then show ?thesis by (simp add: walk_def built_sb_def)
qed

lemma crafted_tree_root:
  "fs_tree_root crc (walkable_image @ zeros k) (built_sb v) crafted_map = Inr crafted_root"
proof -
  obtain n where n: "node_parse crc root_leaf_block = Inr n" "leaf_items n = map as_item [(5, 132, 0, crafted_root_item)]"
    by (rule build_leaf_node [OF crafted_fits(2)])
  then show ?thesis
    using crafted_read(1) [of crc k v]
    by (simp add: fs_tree_root_def built_sb_def fs_consts as_item_def crafted_root_item_encode fs_root_parse_encode)
qed

section \<open>The mounted image\<close>

definition crafted_fs :: "(bytes \<Rightarrow> u32) \<Rightarrow> btrfs_fs \<Rightarrow> bool" where
  "crafted_fs crc fs \<longleftrightarrow> fs_root_dirid fs = 256 \<and> sb_sectorsize (fs_sb fs) = 4096 \<and>
     fs_tree_leaf crc (fs_image fs) (fs_sb fs) (fs_map fs) = Inr (fs_leaf fs) \<and>
     leaf_items (fs_leaf fs) = map as_item crafted_items"

lemma crafted_open:
  assumes "fill src 0 (replicate (unat (src_len src)) 0) = Inr (walkable_image @ zeros k)"
  obtains fs where "open_fs crc src = Inr fs" and "crafted_fs crc fs"
proof -
  obtain leaf where leaf: "node_parse crc fs_leaf_block = Inr leaf" "leaf_items leaf = map as_item crafted_items"
    by (rule build_leaf_node [OF crafted_fits(1)])
  have super: "get_from (walkable_image @ zeros k) 65536 = Some (build_super @ zeros 61440 @ root_leaf_block @
      zeros 49152 @ fs_leaf_block @ zeros 3981312 @ zeros k)"
    by (simp add: get_from_def walkable_layout)
  obtain v where v: "superblock_parse crc (build_super @ zeros 61440 @ root_leaf_block @
      zeros 49152 @ fs_leaf_block @ zeros 3981312 @ zeros k) = Inr (built_sb v)"
    using build_super_parse by blast
  let ?fs = "\<lparr>fs_image = walkable_image @ zeros k, fs_sb = built_sb v, fs_map = crafted_map, fs_leaf = leaf,
      fs_root_dirid = 256\<rparr>"
  have "open_fs crc src = Inr ?fs"
    using assms leaf super v by (simp add: open_fs_def Let_def BTRFS_SUPER_INFO_OFFSET_def ok_or_def crafted_walk
        crafted_tree_root crafted_root_def crafted_read)
  moreover have "crafted_fs crc ?fs"
    using leaf by (simp add: crafted_fs_def fs_tree_leaf_def crafted_tree_root crafted_root_def crafted_read)
      (simp add: built_sb_def)
  ultimately show thesis by (rule that)
qed

lemma open_walkable:
  obtains fs where "open_fs crc (mem_source walkable_image :: 'e source) = Inr fs" and "crafted_fs crc fs"
proof -
  have fits: "fits_memory walkable_image" by (simp add: fits_memory_def)
  let ?src = "mem_source walkable_image :: 'e source"
  have "fill ?src 0 (replicate (unat (src_len ?src)) 0) =
      Inr (walkable_image @ zeros 0)"
    unfolding zeros_merge append_Nil2 using fits by (rule mem.fill_all)
  then show thesis using that by (rule crafted_open)
qed

section \<open>What the mounted image holds\<close>

lemma crafted_dir_items:
  "parse_dir_item (dir_item 257 1 (str ''note.txt'')) = Some \<lparr> de_name = str ''note.txt'', de_child = 257, de_type = FileItem \<rparr>"
  "parse_dir_item (dir_item 258 7 (str ''link'')) = Some \<lparr> de_name = str ''link'', de_child = 258, de_type = SymlinkItem \<rparr>"
  "parse_dir_item (dir_item 259 2 (str ''sub'')) = Some \<lparr> de_name = str ''sub'', de_child = 259, de_type = DirItem \<rparr>"
  "parse_dir_item (dir_item 260 99 (str ''dev'')) = Some \<lparr> de_name = str ''dev'', de_child = 260, de_type = OtherItem 99 \<rparr>"
  by (subst dir_item_parse, simp_all add: str_def valid_utf8_ascii dir_item_type_from_byte_def)+

lemma crafted_list_dir:
  assumes "crafted_fs crc fs"
  shows "list_dir (fs_leaf fs) 256 =
    [\<lparr> de_name = str ''note.txt'', de_child = 257, de_type = FileItem \<rparr>,
     \<lparr> de_name = str ''link'', de_child = 258, de_type = SymlinkItem \<rparr>,
     \<lparr> de_name = str ''sub'', de_child = 259, de_type = DirItem \<rparr>,
     \<lparr> de_name = str ''dev'', de_child = 260, de_type = OtherItem 99 \<rparr>]"
  using assms by (simp add: crafted_fs_def list_dir_eq crafted_items_def as_item_def dir_item_entries_def
      List.map_filter_simps is_dir_key_def fs_consts crafted_dir_items name_child_def del: str_Cons)

lemma crafted_inodes:
  assumes "crafted_fs crc fs"
  shows "read_inode (fs_leaf fs) 257 = Some (built_inode 257 9 0x81A4 1 1000 1000 700)"
    and "read_inode (fs_leaf fs) 258 = Some (built_inode 258 11 0xA1FF 1 0 0 0)"
    and "read_inode (fs_leaf fs) 259 = Some (built_inode 259 0 0x41ED 2 0 0 0)"
    and "read_inode (fs_leaf fs) 260 = Some (built_inode 260 0 0x2000 1 0 0 0)"
    and "read_inode (fs_leaf fs) 261 = Some (built_inode 261 0 0x1000 1 0 0 0)"
    and "read_inode (fs_leaf fs) 9999 = None"
  using assms
  by (simp_all add: crafted_fs_def read_inode_def crafted_items_def as_item_def fs_consts inode_item_parse str_def)

lemma crafted_content:
  assumes "crafted_fs crc fs"
  shows "read_file crc c (fs_image fs) (fs_sb fs) (fs_map fs) 257 = Inr (str ''note body'')"
    and "read_file crc c (fs_image fs) (fs_sb fs) (fs_map fs) 258 = Inr (str ''target/path'')"
proof -
  have items: "leaf_items (fs_leaf fs) = map as_item crafted_items" using assms by (simp add: crafted_fs_def)
  have "read_file_from_leaf c (fs_leaf fs) img m ss 257 = Inr (str ''note body'')" for img m ss
    by (rule read_inline_file [where i = "built_inode 257 9 0x81A4 1 1000 1000 700"])
      (simp_all add: items crafted_items_def as_item_def inode_item_encode [where oid = 257]
        inline_extent_encode built_inode_def str_def)
  moreover have "read_file_from_leaf c (fs_leaf fs) img m ss 258 = Inr (str ''target/path'')" for img m ss
    by (rule read_inline_file [where i = "built_inode 258 11 0xA1FF 1 0 0 0"])
      (simp_all add: items crafted_items_def as_item_def inode_item_encode [where oid = 258]
        inline_extent_encode built_inode_def str_def)
  ultimately show "read_file crc c (fs_image fs) (fs_sb fs) (fs_map fs) 257 = Inr (str ''note body'')"
    "read_file crc c (fs_image fs) (fs_sb fs) (fs_map fs) 258 = Inr (str ''target/path'')"
    using assms by (simp_all add: read_file_def crafted_fs_def)
qed

end
