(* ===== verification/Safe_Vfs.thy ===== *)
theory Safe_Vfs
  imports Crafted Safe_Content
begin

text \<open>
  \<open>vfs.rs\<close> as runs that may panic. Opening panics exactly when the source claims more bytes than one
  buffer can hold; an adapter that was opened on an image of readable size never panics.
\<close>

section \<open>Opening\<close>

definition open_fs_p :: "(bytes \<Rightarrow> u32) \<Rightarrow> 'e source \<Rightarrow> ('e vfs_error + btrfs_fs) run" where
  "open_fs_p crc source = do {
     let len = src_len source;
     _ \<leftarrow> p_alloc (unat len);
     try_run (Some (fill source 0 (replicate (unat len) 0))) (\<lambda>img.
     try_run (Some (ok_or (get_from img BTRFS_SUPER_INFO_OFFSET)
         (OutOfRange ''btrfs superblock offset'' (of_nat BTRFS_SUPER_INFO_OFFSET) 1 len))) (\<lambda>sb_slice.
     try_run (do { r \<leftarrow> superblock_parse_p crc sb_slice; Some (map_err map_btrfs_err r) }) (\<lambda>sb.
     try_run (do { r \<leftarrow> walk_p crc img sb; Some (map_err map_btrfs_err r) }) (\<lambda>m.
     try_run (do { r \<leftarrow> fs_tree_root_p crc img sb m; Some (map_err map_btrfs_err r) }) (\<lambda>root.
     try_run (do { r \<leftarrow> read_node_p crc img sb m (fr_bytenr root); Some (map_err map_btrfs_err r) }) (\<lambda>leaf.
       Some (Inr \<lparr> fs_image = img, fs_sb = sb, fs_map = m, fs_leaf = leaf,
              fs_root_dirid = fr_root_dirid root \<rparr>))))))) }"

text \<open>A source cannot change the length of the buffer it fills.\<close>

lemma length_fill:
  assumes "\<And>off buf n buf'. src_read_at src off buf = Inr (n, buf') \<Longrightarrow> length buf' = length buf"
  shows "fill src off buf = Inr out \<Longrightarrow> length out = length buf"
proof (induction "length buf" arbitrary: off buf out rule: less_induct)
  case less
  show ?case
  proof (cases "buf = []")
    case False
    note step = fill.simps [of src off buf]
    from False less.prems obtain n buf' where read: "src_read_at src off buf = Inr (n, buf')"
      by (auto simp: step split: sum.splits)
    note same = assms [OF read]
    show ?thesis
    proof (cases "out = buf'")
      case False
      with less.prems \<open>buf \<noteq> []\<close> obtain r where rest: "length (drop n buf') < length buf" "n \<le> length buf'"
          "fill src (u64_sat_add off (of_nat n)) (drop n buf') = Inr r" "out = take n buf' @ r"
        by (auto simp: step read get_from_def try_res_Inr_iff split: if_splits)
      have "length r = length (drop n buf')" by (rule less.hyps [OF rest(1,3)])
      with rest(2,4) same show ?thesis by simp
    qed (simp add: same)
  qed (use less.prems in \<open>simp add: fill.simps\<close>)
qed

lemma open_fs_p_Some:
  assumes "\<And>off buf n buf'. src_read_at src off buf = Inr (n, buf') \<Longrightarrow> length buf' = length buf"
    and "unat (src_len src) \<le> isize_max"
  shows "open_fs_p crc src = Some (open_fs crc src)"
proof (cases "fill src 0 (replicate (unat (src_len src)) 0)")
  case (Inl e)
  then show ?thesis by (simp add: open_fs_p_def open_fs_def p_alloc_Some [OF assms(2)] try_run_def)
next
  case img: (Inr img)
  then have "length img \<le> isize_max"
    using length_fill [OF assms(1) img] assms(2) by simp
  then have fits: "fits_memory img" "get_from img k = Some slice \<Longrightarrow> fits_memory slice" for k slice
    by (auto simp: fits_memory_def isize_max_def get_from_def split: if_splits)
  show ?thesis
  proof (cases "get_from img BTRFS_SUPER_INFO_OFFSET")
    case None
    with img show ?thesis
      by (simp add: open_fs_p_def open_fs_def p_alloc_Some [OF assms(2)] try_run_def ok_or_def)
  next
    case (Some slice)
    with img fits(1) fits(2) [OF Some] show ?thesis
      by (auto simp: open_fs_p_def open_fs_def p_alloc_Some [OF assms(2)] ok_or_def run_simps map_err_def
          split: sum.split)
  qed
qed

text \<open>What the operations rely on: the leaf of the adapter is a node read from its image.\<close>

definition fits_fs :: "(bytes \<Rightarrow> u32) \<Rightarrow> btrfs_fs \<Rightarrow> bool" where
  "fits_fs crc fs \<longleftrightarrow> readable_size (sb_nodesize (fs_sb fs)) (fs_image fs) \<and>
     fs_tree_leaf crc (fs_image fs) (fs_sb fs) (fs_map fs) = Inr (fs_leaf fs)"

lemma fits_fs_leaf: "fits_fs crc fs \<Longrightarrow> fits_node (fs_leaf fs)"
  using readable_size_fits
  by (auto simp: fits_fs_def fs_tree_leaf_def try_res_Inr_iff intro: fits_read_node)

section \<open>The operations\<close>

definition vfs_read_dir_p ::
    "('o file_id \<Rightarrow> rstring) \<Rightarrow> btrfs_fs \<Rightarrow> 'o file_id \<Rightarrow> ('e vfs_error + 'o vfs_dir_entry list) run" where
  "vfs_read_dir_p dbg fs ino =
     try_run (Some (oid_of dbg ino)) (\<lambda>dir_oid. do {
       es \<leftarrow> list_dir_p (fs_leaf fs) dir_oid;
       Some (Inr (map (\<lambda>e. \<lparr> vd_name = de_name e, vd_id = Opaque (de_child e),
         vd_kind = dirent_kind (de_type e) \<rparr>) es)) })"

definition vfs_lookup_p ::
    "('o file_id \<Rightarrow> rstring) \<Rightarrow> btrfs_fs \<Rightarrow> 'o file_id \<Rightarrow> bytes \<Rightarrow> ('e vfs_error + 'o file_id option) run" where
  "vfs_lookup_p dbg fs parent name =
     try_run (Some (oid_of dbg parent)) (\<lambda>dir_oid. do {
       es \<leftarrow> list_dir_p (fs_leaf fs) dir_oid;
       Some (Inr (map_option (\<lambda>e. Opaque (de_child e)) (find (\<lambda>e. de_name e = name) es))) })"

definition vfs_meta_p ::
    "('o file_id \<Rightarrow> rstring) \<Rightarrow> btrfs_fs \<Rightarrow> 'o file_id \<Rightarrow> ('e vfs_error + 's fs_meta) run" where
  "vfs_meta_p dbg fs ino =
     try_run (Some (oid_of dbg ino)) (\<lambda>oid.
     try_run (do { r \<leftarrow> read_inode_p (fs_leaf fs) oid;
         Some (ok_or r (OutOfRange ''btrfs inode (not in FS-tree root leaf)'' oid 1 0)) }) (\<lambda>inode.
       let born = (if t_sec (i_otime inode) \<noteq> 0 then Some (stamp (i_otime inode)) else None) in
       Some (Inr \<lparr> fm_ino = i_objectid inode, fm_kind = inode_kind inode, fm_allocated = Allocated,
             fm_size = i_size inode, fm_nlink = i_nlink inode, fm_uid = Some (i_uid inode), fm_gid = Some (i_gid inode),
             fm_mode = Some (i_mode inode),
             fm_times = \<lparr> mt_modified = Some (stamp (i_mtime inode)),
                          mt_accessed = Some (stamp (i_atime inode)),
                          mt_changed = Some (stamp (i_ctime inode)), mt_born = born \<rparr>,
             fm_streams = [], fm_residency = NonResident, fm_link_target = None \<rparr>)))"

definition vfs_hardlinks_p ::
    "('o file_id \<Rightarrow> rstring) \<Rightarrow> btrfs_fs \<Rightarrow> 'o file_id \<Rightarrow> ('e vfs_error + 'o hard_link list) run" where
  "vfs_hardlinks_p dbg fs ino =
     try_run (Some (oid_of dbg ino)) (\<lambda>oid. do {
       rs \<leftarrow> list_inode_refs_p (fs_leaf fs) oid;
       Some (Inr (map (\<lambda>r. \<lparr> hl_parent = Opaque (ir_parent r), hl_name = ir_name r \<rparr>) rs)) })"

definition vfs_data_streams_p ::
    "('o file_id \<Rightarrow> rstring) \<Rightarrow> btrfs_fs \<Rightarrow> 'o file_id \<Rightarrow> ('e vfs_error + 's stream_info list) run" where
  "vfs_data_streams_p dbg fs ino =
     try_run (Some (oid_of dbg ino)) (\<lambda>oid. do {
       r \<leftarrow> read_inode_p (fs_leaf fs) oid;
       let sz = (case r of None \<Rightarrow> 0 | Some i \<Rightarrow> i_size i);
       xs \<leftarrow> list_xattrs_p (fs_leaf fs) oid;
       Some (Inr (\<lparr> si_id = DefaultStream, si_name = None, si_size = sz, si_residency = NonResident,
              si_kind = DataStream \<rparr>
            # map (\<lambda>(i, x).
                \<lparr> si_id = XattrStream (clamp_u16 i), si_name = Some (xa_name x),
                  si_size = of_nat (length (xa_value x)),
                  si_residency = Resident (clamp_u32 (length (xa_value x))),
                  si_kind = XattrKind \<rparr>)
              (List.enumerate 0 xs))) })"

text \<open>\<open>buf[..n].copy_from_slice(&avail[..n])\<close> and its form with \<open>get_mut\<close>: the source slice and the copy are checked.\<close>

definition copy_front_p :: "bytes \<Rightarrow> bytes \<Rightarrow> nat \<Rightarrow> bytes run" where
  "copy_front_p buf avail n = do { src \<leftarrow> p_range avail 0 n; p_put buf 0 n src }"

lemma copy_front_p_Some:
  "n = min (length avail) (length buf) \<Longrightarrow> copy_front_p buf avail n = Some (take n avail @ drop n buf)"
  by (simp add: copy_front_p_def run_simps overwrite_def min_def)

definition vfs_read_at_p :: "(bytes \<Rightarrow> u32) \<Rightarrow> codecs \<Rightarrow> ('o file_id \<Rightarrow> rstring) \<Rightarrow>
    ('s stream_id \<Rightarrow> rstring) \<Rightarrow> btrfs_fs \<Rightarrow> 'o file_id \<Rightarrow> 's stream_id \<Rightarrow> u64 \<Rightarrow> bytes \<Rightarrow>
    ('e vfs_error + (nat \<times> bytes)) run" where
  "vfs_read_at_p crc c dbg dbg_s fs ino stream off buf =
     try_run (Some (oid_of dbg ino)) (\<lambda>oid.
       case stream of
         XattrStream idx \<Rightarrow> do {
           allx \<leftarrow> list_xattrs_p (fs_leaf fs) oid;
           if unat idx < length allx then
             let x = allx ! unat idx; start = unat off in
             (case get_from (xa_value x) start of
                None \<Rightarrow> Some (Inr (0, buf))
              | Some avail \<Rightarrow> do {
                  let n = min (length avail) (length buf);
                  buf' \<leftarrow> copy_front_p buf avail n;
                  Some (Inr (n, buf')) })
           else
             Some (Inl (Unsupported ''btrfs xattr index''
               (str ''attribute '' @ dec_nat (unat idx) @ str '' of '' @ dec_nat (length allx)))) }
       | _ \<Rightarrow>
           try_run (Some (require_default_stream dbg_s stream)) (\<lambda>_.
           try_run (do { r \<leftarrow> read_file_p crc c (fs_image fs) (fs_sb fs) (fs_map fs) oid;
               Some (map_err map_btrfs_err r) }) (\<lambda>data.
             let start = unat (min off (of_nat (length data))) in
             (case get_from data start of
                None \<Rightarrow> Some (Inr (0, buf))
              | Some avail \<Rightarrow> do {
                  let n = min (length avail) (length buf);
                  buf' \<leftarrow> copy_front_p buf avail n;
                  Some (Inr (n, buf')) }))))"

definition vfs_read_link_p :: "(bytes \<Rightarrow> u32) \<Rightarrow> codecs \<Rightarrow> ('o file_id \<Rightarrow> rstring) \<Rightarrow> btrfs_fs \<Rightarrow>
    'o file_id \<Rightarrow> nat \<Rightarrow> ('e vfs_error + bytes) run" where
  "vfs_read_link_p crc c dbg fs ino cap =
     try_run (Some (oid_of dbg ino)) (\<lambda>oid. do {
       r \<leftarrow> read_inode_p (fs_leaf fs) oid;
       (case r of
          None \<Rightarrow> Some (Inr [])
        | Some inode \<Rightarrow>
            if inode_kind inode \<noteq> KSymlink then Some (Inr [])
            else
              try_run (do { r \<leftarrow> read_file_p crc c (fs_image fs) (fs_sb fs) (fs_map fs) oid;
                  Some (map_err map_btrfs_err r) }) (\<lambda>target. Some (Inr (take cap target)))) })"

lemma vfs_dir_p_Some [run_simps]:
  "vfs_read_dir_p dbg fs ino = Some (vfs_read_dir dbg fs ino)"
  "vfs_lookup_p dbg fs ino name = Some (vfs_lookup dbg fs ino name)"
  "vfs_meta_p dbg fs ino = Some (vfs_meta dbg fs ino)"
  by (simp_all add: vfs_read_dir_p_def vfs_read_dir_def vfs_lookup_p_def vfs_lookup_def vfs_meta_p_def
      vfs_meta_def run_simps ok_or_def Let_def split: sum.split option.split)

lemma vfs_lists_p_Some [run_simps]:
  assumes "fits_fs crc fs"
  shows "vfs_hardlinks_p dbg fs ino = Some (vfs_hardlinks dbg fs ino)"
    and "vfs_data_streams_p dbg fs ino = Some (vfs_data_streams dbg fs ino)"
  using fits_fs_leaf [OF assms]
  by (simp_all add: vfs_hardlinks_p_def vfs_hardlinks_def vfs_data_streams_p_def vfs_data_streams_def
      run_simps Let_def split: sum.split)

lemma vfs_reads_p_Some [run_simps]:
  assumes "fits_fs crc fs" and "codec_fits (lzo_block c)"
  shows "vfs_read_at_p crc c dbg dbg_s fs ino stream off buf = Some (vfs_read_at crc c dbg dbg_s fs ino stream off buf)"
    and "vfs_read_link_p crc c dbg fs ino cap = Some (vfs_read_link crc c dbg fs ino cap)"
proof -
  have leaf: "fits_node (fs_leaf fs)" by (rule fits_fs_leaf [OF assms(1)])
  have size: "readable_size (sb_nodesize (fs_sb fs)) (fs_image fs)" using assms(1) by (simp add: fits_fs_def)
  note read = read_content_p_Some(1) [OF size assms(2)]
  show "vfs_read_at_p crc c dbg dbg_s fs ino stream off buf = Some (vfs_read_at crc c dbg dbg_s fs ino stream off buf)"
    by (auto simp: vfs_read_at_p_def vfs_read_at_def run_simps leaf read copy_front_p_Some Let_def
        split: sum.split stream_id.split option.split)
  show "vfs_read_link_p crc c dbg fs ino cap = Some (vfs_read_link crc c dbg fs ino cap)"
    by (auto simp: vfs_read_link_p_def vfs_read_link_def run_simps read Let_def split: sum.split option.split)
qed

section \<open>Properties\<close>

text \<open>
  Claim C29. \<open>BtrfsFs::open\<close> panics exactly when the source claims more bytes than a buffer can have:
  no content of the image makes it panic, whatever the source delivers and however short its reads are,
  but nothing stands between the claimed length and the allocation.
\<close>

theorem open_panics_iff:
  assumes "\<And>at buf n buf'. src_read_at src at buf = Inr (n, buf') \<Longrightarrow> length buf' = length buf"
  shows "open_fs_p crc src = None \<longleftrightarrow> isize_max < unat (src_len src)"
proof (cases "unat (src_len src) \<le> isize_max")
  case True
  then show ?thesis using open_fs_p_Some [OF assms True, where crc = crc] by simp
next
  case False
  then show ?thesis by (simp add: open_fs_p_def p_alloc_def Let_def)
qed

text \<open>
  Claim C12. Once opened on an image of readable size, the adapter never panics: every operation on every
  file id, stream, offset and buffer returns what its total model says, a value or a typed error.
\<close>

theorem adapter_never_panics:
  assumes "fits_fs crc fs" and "codec_fits (lzo_block c)"
  shows "vfs_read_dir_p dbg fs ino = Some (vfs_read_dir dbg fs ino) \<and>
    vfs_lookup_p dbg fs ino name = Some (vfs_lookup dbg fs ino name) \<and>
    vfs_meta_p dbg fs ino = Some (vfs_meta dbg fs ino) \<and>
    vfs_hardlinks_p dbg fs ino = Some (vfs_hardlinks dbg fs ino) \<and>
    vfs_data_streams_p dbg fs ino = Some (vfs_data_streams dbg fs ino) \<and>
    vfs_read_at_p crc c dbg dbg_s fs ino stream off buf = Some (vfs_read_at crc c dbg dbg_s fs ino stream off buf) \<and>
    vfs_read_link_p crc c dbg fs ino cap = Some (vfs_read_link crc c dbg fs ino cap)"
  by (intro conjI vfs_dir_p_Some vfs_lists_p_Some [OF assms(1)] vfs_reads_p_Some [OF assms])

section \<open>Instances\<close>

theorem open_panics_iff_witness:
  "open_fs_p crc32c_ref (\<lparr> src_len = - 1, src_read_at = \<lambda>off buf. Inr (0, buf) \<rparr> :: unit source) = None"
  by (subst open_panics_iff) (simp_all add: isize_max_def unsigned_minus_1_eq_mask mask_eq_exp_minus_1)

theorem adapter_never_panics_witness:
  "\<exists>fs. open_fs crc32c_ref (mem_source walkable_image :: unit source) = Inr fs \<and>
     (vfs_lookup_p (\<lambda>_. []) fs (Opaque 256) (str ''note.txt'') :: (unit vfs_error + unit file_id option) run) =
       Some (vfs_lookup (\<lambda>_. []) fs (Opaque 256) (str ''note.txt''))"
proof -
  obtain fs where fs: "open_fs crc32c_ref (mem_source walkable_image :: unit source) = Inr fs" "crafted_fs crc32c_ref fs"
    by (rule open_walkable)
  have fits: "fits_memory walkable_image" by (simp add: fits_memory_def)
  have "fs_image fs = walkable_image"
    using fs(1) unfolding open_fs_iff [OF mem.image_source_axioms fits] by blast
  with fs(2) have "fits_fs crc32c_ref fs"
    by (simp add: fits_fs_def crafted_fs_def readable_size_def)
  moreover have "codec_fits (lzo_block demo_codecs)"
    by (simp add: codec_fits_def demo_codecs_def)
  ultimately show ?thesis
    using fs(1) adapter_never_panics by blast
qed

end
