(* ===== verification/Unit_Tests.thy ===== *)
theory Unit_Tests
  imports Crafted Carve "HOL-Library.Product_Lexorder" "HOL-Library.List_Lexorder"
begin

text \<open>
  The unit tests inside the source files, each as the conjunction of its assertions over the model: an
  \<open>unwrap\<close> or \<open>expect\<close> on an error fails the test. That they all hold ties the model to what the
  repository itself checks.
\<close>

section \<open>Assertions\<close>

definition expecting :: "'e + 'a \<Rightarrow> ('a \<Rightarrow> bool) \<Rightarrow> bool" where
  "expecting r P = (case r of Inl _ \<Rightarrow> False | Inr x \<Rightarrow> P x)"

definition unwrapping :: "'a option \<Rightarrow> ('a \<Rightarrow> bool) \<Rightarrow> bool" where
  "unwrapping r P = (case r of None \<Rightarrow> False | Some x \<Rightarrow> P x)"

lemma assertion_simps [simp]:
  "expecting (Inr x) P = P x" "expecting (Inl e) P = False"
  "unwrapping (Some y) Q = Q y" "unwrapping None Q = False"
  by (simp_all add: expecting_def unwrapping_def)

section \<open>bytes.rs\<close>

definition readers_decode_little_endian_in_range :: bool where
  "readers_decode_little_endian_in_range \<longleftrightarrow>
     (let d = [0x01, 0x02, 0x03, 0x04, 0x05, 0x06, 0x07, 0x08] in
      le_u16 d 0 = 0x0201 \<and> le_u32 d 0 = 0x04030201 \<and> le_u64 d 0 = 0x0807060504030201 \<and>
      u8_at d 3 = 0x04)"

definition readers_yield_zero_out_of_range :: bool where
  "readers_yield_zero_out_of_range \<longleftrightarrow>
     le_u16 [0x12] 0 = 0 \<and> le_u32 [0, 0, 0] 0 = 0 \<and> le_u64 [0, 0, 0, 0, 0, 0, 0] 0 = 0 \<and>
     u8_at [] 0 = 0 \<and> u8_at [0xAA] 5 = 0"

lemma bytes_tests: "readers_decode_little_endian_in_range" "readers_yield_zero_out_of_range"
  by (simp_all add: readers_decode_little_endian_in_range_def readers_yield_zero_out_of_range_def Let_def
      le_u16_def le_u32_def le_u64_def u8_at_def get_range_def from_le_bytes_def)

section \<open>crc.rs\<close>

definition csum_type_decodes_every_code :: bool where
  "csum_type_decodes_every_code \<longleftrightarrow>
     csum_from_code 0 = Crc32c \<and> csum_from_code 1 = Xxhash64 \<and> csum_from_code 2 = Sha256 \<and>
     csum_from_code 3 = Blake2 \<and> csum_from_code 99 = UnknownCsum 99"

definition verify_rejects_short_and_degenerate_blocks :: "(bytes \<Rightarrow> u32) \<Rightarrow> bool" where
  "verify_rejects_short_and_degenerate_blocks crc \<longleftrightarrow>
     \<not> verify_superblock_crc32c crc (replicate 3 0) 4096 \<and>
     \<not> verify_superblock_crc32c crc (replicate 64 0) BTRFS_CSUM_SIZE \<and>
     \<not> verify_superblock_crc32c crc (replicate 40 0) 4096"

definition crc_status_is_none_for_non_crc32c_types :: "(bytes \<Rightarrow> u32) \<Rightarrow> bool" where
  "crc_status_is_none_for_non_crc32c_types crc \<longleftrightarrow>
     (let block = replicate 64 0 in
      superblock_crc_status crc Xxhash64 block 64 = None \<and>
      superblock_crc_status crc Sha256 block 64 = None \<and>
      superblock_crc_status crc Blake2 block 64 = None \<and>
      superblock_crc_status crc (UnknownCsum 7) block 64 = None)"

lemma crc_tests: "csum_type_decodes_every_code" "verify_rejects_short_and_degenerate_blocks crc"
  "crc_status_is_none_for_non_crc32c_types crc"
  by (simp_all add: csum_type_decodes_every_code_def csum_from_code_def verify_rejects_short_and_degenerate_blocks_def
      verify_superblock_crc32c_def BTRFS_CSUM_SIZE_def get_range_def crc_status_is_none_for_non_crc32c_types_def
      superblock_crc_status_def)

section \<open>chunk.rs\<close>

definition chunk_entry :: "u64 \<Rightarrow> u16 \<Rightarrow> nat \<Rightarrow> bytes" where
  "chunk_entry key_offset num_stripes present_stripes =
     (let e = zeros (DISK_KEY_SIZE + CHUNK_HEADER_SIZE + present_stripes * STRIPE_SIZE);
          e = overwrite e 0 (to_le_bytes (256 :: u64));
          e = e[8 := 228];
          e = overwrite e 9 (to_le_bytes key_offset);
          c = DISK_KEY_SIZE;
          e = overwrite e c (to_le_bytes (8388608 :: u64))
      in overwrite e (c + 44) (to_le_bytes num_stripes))"

definition parse_array_stops_when_stripes_overrun_the_declared_region :: bool where
  "parse_array_stops_when_stripes_overrun_the_declared_region \<longleftrightarrow>
     (let entry = chunk_entry 22020096 2 0;
          block = zeros (SYS_CHUNK_ARRAY_OFFSET + length entry);
          block = overwrite block SYS_CHUNK_ARRAY_OFFSET entry;
          sz = of_nat (length entry) :: u32;
          chunks = parse_array block SYS_CHUNK_ARRAY_OFFSET sz
      in chunks = [])"

definition logical_to_physical_guards_out_of_span_and_empty_stripes :: bool where
  "logical_to_physical_guards_out_of_span_and_empty_stripes \<longleftrightarrow>
     (let c = \<lparr> sc_key = \<lparr>k_objectid = 256, k_type = 228, k_offset = 1000\<rparr>, sc_length = 100, sc_owner = 2,
            sc_stripe_len = 65536, sc_type = 0x22, sc_num_stripes = 1, sc_sub_stripes = 1,
            sc_stripes = [\<lparr> s_devid = 1, s_offset = 5000, s_uuid = replicate 16 0 \<rparr>] \<rparr>;
          no_stripes = c\<lparr> sc_stripes := [] \<rparr>;
          overflow = c\<lparr> sc_key := \<lparr>k_objectid = 256, k_type = 228, k_offset = - 1 - 10\<rparr>, sc_length := 100 \<rparr>
      in sys_chunk_l2p c 1000 = Some 5000 \<and> sys_chunk_l2p c 1050 = Some 5050 \<and>
         sys_chunk_l2p c 999 = None \<and> sys_chunk_l2p c 1100 = None \<and>
         sys_chunk_l2p no_stripes 1000 = None \<and> sys_chunk_l2p overflow (- 1 - 5) = None)"

lemma chunk_entry_layout:
  "chunk_entry off n 0 = to_le_bytes (256 :: u64) @ 228 # to_le_bytes off @ to_le_bytes (8388608 :: u64) @ zeros 36 @
     to_le_bytes n @ zeros 2"
  by (simp add: chunk_entry_def Let_def build_simps chunk_consts)

lemma chunk_tests: "parse_array_stops_when_stripes_overrun_the_declared_region" "logical_to_physical_guards_out_of_span_and_empty_stripes"
proof -
  have "le_u16 (zeros 811 @ chunk_entry 22020096 2 0) 872 = 2"
    by (simp add: chunk_entry_layout read_simps)
  then have "sys_chunk_entry (zeros 811 @ chunk_entry 22020096 2 0) 876 811 = None"
    by (simp add: sys_chunk_entry_def Let_def sat_add_def sat_mul_def usize_max_def chunk_consts)
  then show "parse_array_stops_when_stripes_overrun_the_declared_region"
    by (simp add: parse_array_stops_when_stripes_overrun_the_declared_region_def Let_def chunk_entry_layout [of 22020096 2] build_simps
        chunk_consts parse_array_def sat_add_def usize_max_def parse_array_from.simps [of _ 876 811])
  show "logical_to_physical_guards_out_of_span_and_empty_stripes"
    by (simp add: logical_to_physical_guards_out_of_span_and_empty_stripes_def Let_def sys_chunk_l2p_def
        u64_checked_add_def)
qed

section \<open>forensic/src/lib.rs\<close>

definition parse_backup_roots_truncates_a_short_superblock :: bool where
  "parse_backup_roots_truncates_a_short_superblock \<longleftrightarrow>
     (let sb = zeros (BACKUP_ROOTS_OFFSET + ROOT_BACKUP_SIZE + 40);
          base = BACKUP_ROOTS_OFFSET;
          sb = overwrite sb base (to_le_bytes (12345 :: u64));
          backups = parse_backup_roots sb;
          tiny = zeros (BACKUP_ROOTS_OFFSET - 1)
      in length backups = 1 \<and> rb_tree_root (backups ! 0) = 12345 \<and> parse_backup_roots tiny = [])"

definition sha256_of_empty_and_known_input :: bool where
  "sha256_of_empty_and_known_input \<longleftrightarrow>
     sha256_hex [] = str ''e3b0c44298fc1c149afbf4c8996fb92427ae41e4649b934ca495991b7852b855'' \<and>
     sha256_hex (str ''abc'') = str ''ba7816bf8f01cfea414140de5dae2223b00361a396177a9cb410ff61f20015ad''"

definition le_readers_yield_zero_out_of_range :: bool where
  "le_readers_yield_zero_out_of_range \<longleftrightarrow>
     f_le_u16 [0x12] 0 = 0 \<and> f_le_u16 [0x34, 0x12] 0 = 0x1234 \<and> f_le_u64 [0, 0, 0] 0 = 0 \<and>
     f_le_u64 [1, 0, 0, 0, 0, 0, 0, 0] 0 = 1"

lemma forensic_tests: "parse_backup_roots_truncates_a_short_superblock" "sha256_of_empty_and_known_input"
  "le_readers_yield_zero_out_of_range"
proof -
  have near: "f_le_u16 d 0 = le_u16 d 0" "f_le_u64 d 0 = le_u64 d 0" for d
    using f_readers_near [of 0 d] by (simp_all add: usize_max_def)
  have abc: "str ''abc'' = [97, 98, 99]" by (simp add: str_def)
  show "sha256_of_empty_and_known_input"
    by (simp only: sha256_of_empty_and_known_input_def sha256_empty abc sha256_abc)
  show "le_readers_yield_zero_out_of_range"
    by (simp add: le_readers_yield_zero_out_of_range_def near le_u16_def le_u64_def get_range_def from_le_bytes_def)
  have "f_le_u64 (take 168 (drop 2859 (zeros 2859 @ to_le_bytes (12345 :: u64) @ zeros 200))) 0 = 12345"
    by (simp add: near read_simps)
  then show "parse_backup_roots_truncates_a_short_superblock"
    by (simp add: parse_backup_roots_truncates_a_short_superblock_def Let_def backup_consts build_simps
        parse_backup_roots_def upt_rec get_range_def sat_add_def usize_max_def root_backup_parse_def)
qed

section \<open>vfs.rs\<close>

text \<open>
  The tests over the crafted image. The other identity domain and the other stream kind that the tests
  use are the one value of \<open>unit\<close>; \<open>dbg\<close> and \<open>dbg_s\<close> are their \<open>Debug\<close> texts.
\<close>

type_synonym 'a vfs_result = "unit vfs_error + 'a"

definition open_crafted :: "(bytes \<Rightarrow> u32) \<Rightarrow> btrfs_fs vfs_result" where
  "open_crafted crc = open_fs crc (mem_source walkable_image)"

definition open_and_root_metadata_over_crafted_image :: "(bytes \<Rightarrow> u32) \<Rightarrow> bool" where
  "open_and_root_metadata_over_crafted_image crc \<longleftrightarrow>
     expecting (open_crafted crc) (\<lambda>fs.
       vfs_kind fs = (FsBtrfs :: unit fs_kind) \<and>
       vfs_root fs = (Opaque 256 :: unit file_id) \<and>
       (case vfs_sector_sizes fs of (logical, physical, cluster_or_block) \<Rightarrow>
          logical = 512 \<and> physical = 512 \<and> cluster_or_block = 4096) \<and>
       vfs_timestamp_zone fs = (Utc :: unit time_zone_policy) \<and>
       is_ok (vfs_extents fs (Opaque 257 :: unit file_id) (DefaultStream :: unit stream_id) :: unit list vfs_result) \<and>
       is_ok (vfs_deleted fs :: unit list vfs_result) \<and>
       is_ok (vfs_unallocated fs :: unit list vfs_result))"

definition read_dir_and_lookup_classify_children ::
    "(bytes \<Rightarrow> u32) \<Rightarrow> (unit file_id \<Rightarrow> rstring) \<Rightarrow> bool" where
  "read_dir_and_lookup_classify_children crc dbg \<longleftrightarrow>
     expecting (open_crafted crc) (\<lambda>fs.
       expecting (vfs_read_dir dbg fs (Opaque 256) :: unit vfs_dir_entry list vfs_result) (\<lambda>entries.
         unwrapping (find (\<lambda>e. vd_name e = str ''note.txt'') entries) (\<lambda>note.
           vd_id note = Opaque 257 \<and> vd_kind note = KFile) \<and>
         unwrapping (find (\<lambda>e. vd_name e = str ''link'') entries) (\<lambda>link. vd_kind link = KSymlink) \<and>
         unwrapping (find (\<lambda>e. vd_name e = str ''sub'') entries) (\<lambda>sub. vd_kind sub = KDir) \<and>
         unwrapping (find (\<lambda>e. vd_name e = str ''dev'') entries) (\<lambda>dev. vd_kind dev = KOther)) \<and>
       expecting (vfs_lookup dbg fs (Opaque 256) (str ''note.txt'') :: unit file_id option vfs_result) (\<lambda>r.
         r = Some (Opaque 257)) \<and>
       expecting (vfs_lookup dbg fs (Opaque 256) (str ''absent'') :: unit file_id option vfs_result) (\<lambda>r.
         r = None))"

definition meta_classifies_device_and_other_inode_kinds ::
    "(bytes \<Rightarrow> u32) \<Rightarrow> (unit file_id \<Rightarrow> rstring) \<Rightarrow> bool" where
  "meta_classifies_device_and_other_inode_kinds crc dbg \<longleftrightarrow>
     expecting (open_crafted crc) (\<lambda>fs.
       expecting (vfs_meta dbg fs (Opaque 260) :: unit fs_meta vfs_result) (\<lambda>m. fm_kind m = KDevice) \<and>
       expecting (vfs_meta dbg fs (Opaque 261) :: unit fs_meta vfs_result) (\<lambda>m. fm_kind m = KOther))"

text \<open>A source that claims more bytes than it serves.\<close>

definition short_source :: "bytes \<Rightarrow> u64 \<Rightarrow> 'e source" where
  "short_source data reported_len =
     \<lparr> src_len = reported_len,
       src_read_at = (\<lambda>off buf.
         let start = unat off in
         if start \<ge> length data then Inr (0, buf)
         else
           let avail = drop start data; n = min (length avail) (length buf) in
           Inr (n, take n avail @ drop n buf)) \<rparr>"

definition open_tolerates_a_source_that_short_reads_before_eof :: "(bytes \<Rightarrow> u32) \<Rightarrow> bool" where
  "open_tolerates_a_source_that_short_reads_before_eof crc \<longleftrightarrow>
     (let data = walkable_image;
          reported_len = of_nat (length data) + 4096 :: u64
      in expecting (open_fs crc (short_source data reported_len) :: btrfs_fs vfs_result) (\<lambda>fs.
           vfs_root fs = (Opaque 256 :: unit file_id)))"

definition meta_decodes_inode_kind_size_and_times ::
    "(bytes \<Rightarrow> u32) \<Rightarrow> (unit file_id \<Rightarrow> rstring) \<Rightarrow> bool" where
  "meta_decodes_inode_kind_size_and_times crc dbg \<longleftrightarrow>
     expecting (open_crafted crc) (\<lambda>fs.
       expecting (vfs_meta dbg fs (Opaque 257) :: unit fs_meta vfs_result) (\<lambda>m.
         fm_ino m = 257 \<and> fm_kind m = KFile \<and> fm_size m = 9 \<and> fm_nlink m = 1 \<and> fm_uid m = Some 1000 \<and>
         fm_gid m = Some 1000 \<and> fm_mode m = Some 0x81A4 \<and> mt_born (fm_times m) \<noteq> None \<and>
         mt_modified (fm_times m) \<noteq> None) \<and>
       expecting (vfs_meta dbg fs (Opaque 259) :: unit fs_meta vfs_result) (\<lambda>d.
         fm_kind d = KDir \<and> mt_born (fm_times d) = None) \<and>
       (case vfs_meta dbg fs (Opaque 9999) :: unit fs_meta vfs_result of
          Inl (OutOfRange _ _ _ _) \<Rightarrow> True | _ \<Rightarrow> False))"

definition read_at_windows_the_file_content :: "(bytes \<Rightarrow> u32) \<Rightarrow> codecs \<Rightarrow> (unit file_id \<Rightarrow> rstring) \<Rightarrow>
    (unit stream_id \<Rightarrow> rstring) \<Rightarrow> bool" where
  "read_at_windows_the_file_content crc c dbg dbg_s \<longleftrightarrow>
     expecting (open_crafted crc) (\<lambda>fs.
       let buf = zeros 4 in
       expecting (vfs_read_at crc c dbg dbg_s fs (Opaque 257) DefaultStream 5 buf :: (nat \<times> bytes) vfs_result)
         (\<lambda>(n, buf). take n buf = str ''body'' \<and>
           expecting (vfs_read_at crc c dbg dbg_s fs (Opaque 257) DefaultStream 1000 buf :: (nat \<times> bytes) vfs_result)
             (\<lambda>(n, buf). n = 0)))"

definition read_link_returns_symlink_target_and_empty_for_non_symlink ::
    "(bytes \<Rightarrow> u32) \<Rightarrow> codecs \<Rightarrow> (unit file_id \<Rightarrow> rstring) \<Rightarrow> bool" where
  "read_link_returns_symlink_target_and_empty_for_non_symlink crc c dbg \<longleftrightarrow>
     expecting (open_crafted crc) (\<lambda>fs.
       expecting (vfs_read_link crc c dbg fs (Opaque 258) 4096 :: bytes vfs_result) (\<lambda>target.
         target = str ''target/path'') \<and>
       expecting (vfs_read_link crc c dbg fs (Opaque 258) 6 :: bytes vfs_result) (\<lambda>capped.
         capped = str ''target'') \<and>
       expecting (vfs_read_link crc c dbg fs (Opaque 257) 4096 :: bytes vfs_result) (\<lambda>t. t = []) \<and>
       expecting (vfs_read_link crc c dbg fs (Opaque 9999) 4096 :: bytes vfs_result) (\<lambda>t. t = []))"

definition non_opaque_file_id_and_named_stream_are_refused_loud :: "(bytes \<Rightarrow> u32) \<Rightarrow> codecs \<Rightarrow>
    (unit file_id \<Rightarrow> rstring) \<Rightarrow> (unit stream_id \<Rightarrow> rstring) \<Rightarrow> bool" where
  "non_opaque_file_id_and_named_stream_are_refused_loud crc c dbg dbg_s \<longleftrightarrow>
     expecting (open_crafted crc) (\<lambda>fs.
       (case vfs_read_dir dbg fs (OtherId ()) :: unit vfs_dir_entry list vfs_result of
          Inl (Unsupported _ _) \<Rightarrow> True | _ \<Rightarrow> False) \<and>
       (let buf = zeros 4 in
        case vfs_read_at crc c dbg dbg_s fs (Opaque 257) (OtherStream ()) 0 buf :: (nat \<times> bytes) vfs_result of
          Inl (Unsupported _ _) \<Rightarrow> True | _ \<Rightarrow> False))"

definition open_malformed_source_is_a_loud_error_not_a_panic :: "(bytes \<Rightarrow> u32) \<Rightarrow> bool" where
  "open_malformed_source_is_a_loud_error_not_a_panic crc \<longleftrightarrow>
     \<not> is_ok (open_fs crc (mem_source (zeros 16)) :: btrfs_fs vfs_result) \<and>
     \<not> is_ok (open_fs crc (mem_source (zeros (T_SUPER_OFFSET + T_SUPER_SIZE))) :: btrfs_fs vfs_result)"

definition inode_ref_bytes :: "u64 \<Rightarrow> bytes \<Rightarrow> bytes" where
  "inode_ref_bytes index name =
     (let v = to_le_bytes index;
          v = v @ to_le_bytes (of_nat (length name) :: u16)
      in v @ name)"

definition hardlinks_maps_inode_refs_to_parent_file_ids :: "(bytes \<Rightarrow> u32) \<Rightarrow> bool" where
  "hardlinks_maps_inode_refs_to_parent_file_ids crc \<longleftrightarrow>
     (let packed = inode_ref_bytes 3 (str ''hardlink.txt'');
          packed = packed @ inode_ref_bytes 5 (str ''target.txt'');
          leaf = build_leaf 5
            [(700, 12, 256, packed),
             (700, 12, 300, inode_ref_bytes 2 (str ''second_name.txt'')),
             (701, 12, 256, inode_ref_bytes 1 (str ''plain.txt''))]
      in expecting (node_parse crc leaf) (\<lambda>node.
           let links = list_inode_refs node 700;
               got = map (\<lambda>r. (ir_parent r, ir_name r)) links
           in sort got = [(256, str ''hardlink.txt''), (256, str ''target.txt''), (300, str ''second_name.txt'')] \<and>
              length (list_inode_refs node 701) = 1))"

section \<open>The tests over the image hold\<close>

lemmas file_modes = S_IFMT_def S_IFREG_def S_IFDIR_def S_IFLNK_def S_IFCHR_def S_IFBLK_def

lemma open_crafted_ok:
  obtains fs where "open_crafted crc = Inr fs" and "crafted_fs crc fs"
  using open_walkable [where crc = crc] unfolding open_crafted_def by metis

lemma adapter_tests:
  "open_and_root_metadata_over_crafted_image crc" "read_dir_and_lookup_classify_children crc dbg"
  "meta_classifies_device_and_other_inode_kinds crc dbg" "meta_decodes_inode_kind_size_and_times crc dbg"
proof -
  obtain fs where fs: "open_crafted crc = Inr fs" and crafted: "crafted_fs crc fs"
    by (rule open_crafted_ok)
  note inodes = crafted_inodes [OF crafted]
  show "open_and_root_metadata_over_crafted_image crc"
    using crafted by (simp add: open_and_root_metadata_over_crafted_image_def fs vfs_kind_def vfs_root_def
        vfs_sector_sizes_def vfs_timestamp_zone_def vfs_extents_def vfs_deleted_def vfs_unallocated_def crafted_fs_def)
  show "read_dir_and_lookup_classify_children crc dbg"
    by (simp add: read_dir_and_lookup_classify_children_def fs vfs_read_dir_def vfs_lookup_def oid_of_def
        crafted_list_dir [OF crafted] dirent_kind_def)
  show "meta_classifies_device_and_other_inode_kinds crc dbg"
    by (simp add: meta_classifies_device_and_other_inode_kinds_def fs vfs_meta_def oid_of_def inodes ok_or_def
        Let_def built_inode_def inode_kind_def file_modes)
  show "meta_decodes_inode_kind_size_and_times crc dbg"
    by (simp add: meta_decodes_inode_kind_size_and_times_def fs vfs_meta_def oid_of_def inodes ok_or_def
        Let_def built_inode_def inode_kind_def file_modes)
qed

lemma content_tests:
  "read_at_windows_the_file_content crc c dbg dbg_s"
  "read_link_returns_symlink_target_and_empty_for_non_symlink crc c dbg"
  "non_opaque_file_id_and_named_stream_are_refused_loud crc c dbg dbg_s"
proof -
  obtain fs where fs: "open_crafted crc = Inr fs" and crafted: "crafted_fs crc fs"
    by (rule open_crafted_ok)
  note inodes = crafted_inodes [OF crafted] and content = crafted_content [OF crafted]
  have drop: "drop 5 (str ''note body'') = str ''body''" "length (str ''note body'') = 9" "length (str ''body'') = 4"
    by (simp_all add: str_def)
  show "read_at_windows_the_file_content crc c dbg dbg_s"
    by (simp add: read_at_windows_the_file_content_def fs vfs_read_at_def oid_of_def require_default_stream_def
        content Let_def get_from_def drop min_def del: str_Cons)
  show "read_link_returns_symlink_target_and_empty_for_non_symlink crc c dbg"
    by (simp add: read_link_returns_symlink_target_and_empty_for_non_symlink_def fs vfs_read_link_def oid_of_def
        inodes content built_inode_def inode_kind_def file_modes Let_def str_def)
  show "non_opaque_file_id_and_named_stream_are_refused_loud crc c dbg dbg_s"
    by (simp add: non_opaque_file_id_and_named_stream_are_refused_loud_def fs vfs_read_dir_def vfs_read_at_def
        oid_of_def require_default_stream_def Let_def)
qed

lemma fill_short_source:
  assumes "data \<noteq> []" and "length data + k < 2 ^ 64"
  shows "fill (short_source data r) 0 (zeros (length data + k)) = Inr (data @ zeros k)"
proof -
  have len: "unat (of_nat (length data) :: u64) = length data"
    using assms(2) by (simp add: unat_of_nat)
  have rest: "fill (short_source data r) (of_nat (length data)) (zeros k) = Inr (zeros k)"
    by (subst fill.simps) (simp add: short_source_def len)
  have read: "src_read_at (short_source data r) 0 (zeros (length data + k)) = Inr (length data, data @ zeros k)"
    using assms(1) by (simp add: short_source_def Let_def zeros_def)
  have "zeros (length data + k) \<noteq> []"
    using assms(1) by (metis length_0_conv length_zeros add_is_0)
  moreover have "get_from (data @ zeros k) (length data) = Some (zeros k)" by (simp add: get_from_def)
  moreover have "u64_sat_add 0 (of_nat (length data)) = (of_nat (length data) :: u64)"
    using assms(2) by (simp add: u64_sat_add_def len)
  ultimately show ?thesis
    unfolding fill.simps [of "short_source data r" 0 "zeros (length data + k)"]
    using assms(1) by (simp add: read rest)
qed

lemma source_tests: "open_tolerates_a_source_that_short_reads_before_eof crc"
  "open_malformed_source_is_a_loud_error_not_a_panic crc"
proof -
  let ?src = "short_source walkable_image (of_nat (length walkable_image) + 4096) :: unit source"
  have "walkable_image \<noteq> []" by (subst length_0_conv [symmetric]) simp
  moreover have "unat (src_len ?src) = length walkable_image + 4096"
    by (simp add: short_source_def)
  ultimately have "fill ?src 0 (replicate (unat (src_len ?src)) 0) = Inr (walkable_image @ zeros 4096)"
    using fill_short_source [of walkable_image 4096] by (simp only: zeros_def) simp
  then obtain fs where "open_fs crc ?src = Inr fs" "crafted_fs crc fs"
    by (rule crafted_open)
  then show "open_tolerates_a_source_that_short_reads_before_eof crc"
    by (simp add: open_tolerates_a_source_that_short_reads_before_eof_def Let_def vfs_root_def crafted_fs_def
        del: length_walkable)
  have small: "\<not> is_ok (open_fs crc (mem_source (zeros 16)) :: btrfs_fs vfs_result)"
  proof -
    have "open_fs crc (mem_source (zeros 16) :: unit source) \<noteq> Inr fs" for fs
      using open_fs_iff [OF mem.image_source_axioms, of "zeros 16" crc fs] by (simp add: fits_memory_def)
    then show ?thesis by (auto simp: is_ok_def split: sum.split)
  qed
  have "bytes_at (replicate 4096 0 @ []) 0x40 8 = replicate 8 (0 :: u8)"
    by (subst readers_zeros) simp_all
  moreover have "replicate 8 (0 :: u8) \<noteq> BTRFS_MAGIC"
    by (rule notI, drule arg_cong [where f = "\<lambda>xs. xs ! 0"]) (simp add: BTRFS_MAGIC_def str_def)
  ultimately have "superblock_parse crc (zeros 4096) \<noteq> Inr sb" for sb
    by (simp add: superblock_parse_def MAGIC_OFFSET_def zeros_def)
  then have "open_fs crc (mem_source (zeros 69632) :: unit source) \<noteq> Inr fs" for fs
    using open_fs_iff [OF mem.image_source_axioms, of "zeros 69632" crc fs] by (simp add: fits_memory_def zeros_def)
  with small show "open_malformed_source_is_a_loud_error_not_a_panic crc"
    by (auto simp: open_malformed_source_is_a_loud_error_not_a_panic_def crafted_consts is_ok_def split: sum.split)
qed

lemma inode_ref_bytes_encode: "inode_ref_bytes i name = encode_inode_ref \<lparr> ir_parent = p, ir_index = i, ir_name = name \<rparr>"
  by (simp add: inode_ref_bytes_def encode_inode_ref_def)

lemma hardlink_test: "hardlinks_maps_inode_refs_to_parent_file_ids crc"
proof -
  let ?ref = "\<lambda>p i name. \<lparr> ir_parent = p, ir_index = i, ir_name = name \<rparr>"
  let ?two = "inode_ref_bytes 3 (str ''hardlink.txt'') @ inode_ref_bytes 5 (str ''target.txt'')"
  let ?items = "[(700, 12, 256, ?two), (700, 12, 300, inode_ref_bytes 2 (str ''second_name.txt'')),
     (701, 12, 256, inode_ref_bytes 1 (str ''plain.txt''))] :: test_item list"
  have wf: "wf_inode_ref p (?ref p i (str ''hardlink.txt''))" "wf_inode_ref p (?ref p i (str ''target.txt''))"
    "wf_inode_ref p (?ref p i (str ''second_name.txt''))" "wf_inode_ref p (?ref p i (str ''plain.txt''))" for p i
    by (simp_all add: wf_inode_ref_def str_def valid_utf8_ascii)
  have walk: "packed_walk (parse_inode_ref 256) ?two 0 =
      [?ref 256 3 (str ''hardlink.txt''), ?ref 256 5 (str ''target.txt'')]"
    using irefs.walk_encode [of "[?ref 256 3 (str ''hardlink.txt''), ?ref 256 5 (str ''target.txt'')]" 256 "[]"]
    by (simp add: wf inode_ref_bytes_encode [where p = 256] del: str_Cons)
  have walk1: "packed_walk (parse_inode_ref p) (inode_ref_bytes i name) 0 = [?ref p i name]"
    if "wf_inode_ref p (?ref p i name)" for p i name
    using irefs.walk_encode [of "[?ref p i name]" p "[]"] that
    by (simp add: inode_ref_bytes_encode [where p = p])
  have "leaf_fits ?items"
    by (simp add: leaf_fits_def as_item_def inode_ref_bytes_def str_def)
  then obtain n where n: "node_parse crc (build_leaf 5 ?items) = Inr n" and its: "leaf_items n = map as_item ?items"
    by (rule build_leaf_node)
  have "list_inode_refs n 700 = [?ref 256 3 (str ''hardlink.txt''), ?ref 256 5 (str ''target.txt''),
      ?ref 300 2 (str ''second_name.txt'')]" "length (list_inode_refs n 701) = 1"
    by (simp_all add: list_inode_refs_def its as_item_def INODE_REF_KEY_def walk walk1 wf del: str_Cons)
  with n show ?thesis
    by (simp add: hardlinks_maps_inode_refs_to_parent_file_ids_def Let_def del: str_Cons append_assoc)
      (simp add: insort_key_def str_def)
qed

section \<open>Property\<close>

text \<open>
  Claim C40. Every unit test inside the source files holds of the model: the readers, the checksum
  dispatch, the bootstrap array, the backup roots, the two published digests, and the adapter
  over a disk of 4 MiB, built statement by statement, mounted through its walked chunk tree, listed,
  looked up and read; whatever the digest function and the codecs are.
\<close>

theorem unit_tests_hold:
  "readers_decode_little_endian_in_range \<and> readers_yield_zero_out_of_range \<and>
   csum_type_decodes_every_code \<and> verify_rejects_short_and_degenerate_blocks crc \<and>
   crc_status_is_none_for_non_crc32c_types crc \<and>
   parse_array_stops_when_stripes_overrun_the_declared_region \<and> logical_to_physical_guards_out_of_span_and_empty_stripes \<and>
   parse_backup_roots_truncates_a_short_superblock \<and> sha256_of_empty_and_known_input \<and>
   le_readers_yield_zero_out_of_range \<and>
   open_and_root_metadata_over_crafted_image crc \<and> read_dir_and_lookup_classify_children crc dbg \<and>
   meta_classifies_device_and_other_inode_kinds crc dbg \<and>
   open_tolerates_a_source_that_short_reads_before_eof crc \<and>
   meta_decodes_inode_kind_size_and_times crc dbg \<and>
   read_at_windows_the_file_content crc c dbg dbg_s \<and>
   read_link_returns_symlink_target_and_empty_for_non_symlink crc c dbg \<and>
   non_opaque_file_id_and_named_stream_are_refused_loud crc c dbg dbg_s \<and>
   open_malformed_source_is_a_loud_error_not_a_panic crc \<and>
   hardlinks_maps_inode_refs_to_parent_file_ids crc"
  by (intro conjI bytes_tests crc_tests chunk_tests forensic_tests adapter_tests content_tests source_tests
      hardlink_test)

end
