(* ===== verification/Bounds.thy ===== *)
theory Bounds
  imports Carve ImageAudit
begin

text \<open>
  What a hostile image can make the program produce. The loops over tree nodes carry budgets, a leaf holds at most
  one item for every 25 bytes behind its header, and the lists the program returns are bounded by the two together,
  whatever the image says of itself.
\<close>

definition items_per_node :: "superblock \<Rightarrow> nat" where
  "items_per_node sb = (unat (sb_nodesize sb) - 101) div 25"

lemma leaf_items_bound: "node_parse crc block = Inr n \<Longrightarrow> length (leaf_items n) \<le> (length block - 101) div 25"
proof (cases "is_leaf n")
  case True
  assume "node_parse crc block = Inr n"
  from length_leaf_items [OF this True] show ?thesis by simp
qed (simp add: leaf_items_def is_leaf_def split: body.splits)

lemma read_node_items: "read_node crc img sb m l = Inr n \<Longrightarrow> length (leaf_items n) \<le> items_per_node sb"
  by (auto simp: read_node_def items_per_node_def get_range_def sat_add_def Let_def dest!: leaf_items_bound
      split: option.splits prod.splits if_splits)

section \<open>The chunk walk\<close>

lemma length_add_from_node: "length (add_from_node m n) \<le> length m + length (leaf_items n)"
  by (simp add: add_from_node_def chunk_items_def List.map_filter_def)

lemma read_length: "get_range img s (sat_add s n) = Some b \<Longrightarrow> length b \<le> n"
  by (auto simp: get_range_def sat_add_def split: if_splits)

lemma walk_loop_bound:
  "walk_loop crc img ns boot k m st bs = Inr m' \<Longrightarrow> length m' \<le> length m + k * ((ns - 101) div 25)"
proof (induction crc img ns boot k m st bs rule: walk_loop.induct)
  case (3 crc img ns boot k m l st bs)
  let ?c = "(ns - 101) div 25"
  have node: "length (add_from_node m n) \<le> length m + ?c"
    if "get_range img s (sat_add s ns) = Some b" "node_parse crc b = Inr n" for s b n
    using length_add_from_node [of m n] leaf_items_bound [OF that(2)] read_length [OF that(1)]
      div_le_mono [of "length b - 101" "ns - 101" 25] by simp
  show ?case
  proof (cases "or_else (map_l2p m l) (map_l2p boot l)")
    case None
    then show ?thesis using 3 by (force split: if_splits)
  next
    case (Some dp)
    obtain d p where dp: "dp = (d, p)" by fastforce
    let ?r = "get_range img (unat p) (sat_add (unat p) ns)"
    show ?thesis
    proof (cases ?r)
      case None
      then show ?thesis using 3 Some dp by (force split: if_splits)
    next
      case (Some b)
      show ?thesis
      proof (cases "node_parse crc b")
        case (Inl e)
        then show ?thesis using 3 Some dp \<open>or_else (map_l2p m l) (map_l2p boot l) = Some dp\<close> by force
      next
        case (Inr n)
        note read = this Some dp \<open>or_else (map_l2p m l) (map_l2p boot l) = Some dp\<close>
        show ?thesis
        proof (cases "is_leaf n")
          case True
          then have "length m' \<le> length (add_from_node m n) + k * ?c"
            using 3 read by simp
          then show ?thesis using node [OF Some Inr] by simp
        next
          case False
          then show ?thesis using 3 read by force
        qed
      qed
    qed
  qed
qed simp_all

section \<open>The audit\<close>

lemma length_concat_le: "(\<And>x. x \<in> set xs \<Longrightarrow> length (f x) \<le> n) \<Longrightarrow> length (concat (map f xs)) \<le> length xs * n"
  by (induction xs) (auto intro: add_mono)

lemma length_map_filter: "length (List.map_filter f xs) \<le> length xs"
  by (induction xs) (auto simp: List.map_filter_simps split: option.split)

lemma length_first_by: "length (first_by f S xs) \<le> length xs"
  by (induction f S xs rule: first_by.induct) auto

lemma length_parse_backups: "length (parse_backup_roots blk) \<le> 4"
proof -
  have "length (backup_roots_from blk slots) \<le> length slots" for slots
    by (induction slots) (auto simp: Let_def split: option.split)
  from this [of "[0..<NUM_BACKUP_ROOTS]"] show ?thesis
    by (simp add: parse_backup_roots_def NUM_BACKUP_ROOTS_def)
qed

lemma length_fs_roots: "length (orphan_fs_roots crc img sb m) \<le> 5"
proof -
  have fold: "length (foldl add_fs_root rs bs) \<le> length rs + length bs" for rs bs
  proof (induction bs arbitrary: rs)
    case (Cons b bs)
    have "length (add_fs_root rs b) \<le> Suc (length rs)" by (simp add: add_fs_root_def)
    with Cons [of "add_fs_root rs b"] show ?case by simp
  qed simp
  have "length (case fs_tree_root crc img sb m of Inl _ \<Rightarrow> [] | Inr r \<Rightarrow> [fr_bytenr r]) \<le> 1"
    by (simp split: sum.split)
  then show ?thesis
    using fold [of "case fs_tree_root crc img sb m of Inl _ \<Rightarrow> [] | Inr r \<Rightarrow> [fr_bytenr r]"
        "parse_backup_roots (take 4096 (drop 65536 img))"] length_parse_backups [of "take 4096 (drop 65536 img)"]
    by (simp add: orphan_fs_roots_def super_block_range Let_def)
qed

lemma root_orphans_bound: "length (root_orphans crc img sb m l) \<le> items_per_node sb"
proof (cases "read_node crc img sb m l")
  case (Inr n)
  then show ?thesis
    using read_node_items [OF Inr] length_filter_le [of _ "leaf_items n"]
    by (simp add: root_orphans_def orphan_inodes_def) (meson le_trans length_filter_le)
qed (simp add: root_orphans_def)

lemma audit_bound:
  assumes "audit_super crc img = Some (blk, sb)"
  shows "length (audit_image crc img) \<le> 8199 + 5 * items_per_node sb"
proof -
  define m where "m = walk_or_default crc img sb"
  have sweep: "length (concat (map (sweep_found crc img sb m) (sweep_order crc img sb m))) \<le> 8192"
  proof -
    have "length (sweep_found crc img sb m l) \<le> 1" for l
      by (simp add: sweep_found_def split: option.split)
    then have "length (concat (map (sweep_found crc img sb m) (sweep_order crc img sb m))) \<le>
        length (sweep_order crc img sb m) * 1"
      by (intro length_concat_le)
    also have "\<dots> \<le> 8192"
      using length_visit_order by (simp add: sweep_order_def)
    finally show ?thesis .
  qed
  have backups: "length (concat (map (check_backup_root g len) (List.enumerate 0 (parse_backup_roots blk)))) \<le> 4" for g len
  proof -
    have "length (check_backup_root g len sb) \<le> 1" for sb
      by (simp add: check_backup_root_def split: prod.split)
    then have "length (concat (map (check_backup_root g len) (List.enumerate 0 (parse_backup_roots blk)))) \<le>
        length (List.enumerate 0 (parse_backup_roots blk)) * 1"
      by (intro length_concat_le)
    then show ?thesis using length_parse_backups [of blk] by simp
  qed
  have orphans: "length (orphans_of (first_by (\<lambda>i. i) {} (concat (map (root_orphans crc img sb m)
      (orphan_fs_roots crc img sb m))))) \<le> 5 * items_per_node sb"
  proof -
    let ?os = "concat (map (root_orphans crc img sb m) (orphan_fs_roots crc img sb m))"
    have "length (first_by (\<lambda>i. i) {} ?os) \<le> length ?os" by (rule length_first_by)
    also have "\<dots> \<le> length (orphan_fs_roots crc img sb m) * items_per_node sb"
      by (intro length_concat_le root_orphans_bound)
    also have "\<dots> \<le> 5 * items_per_node sb"
      by (intro mult_le_mono1 length_fs_roots)
    finally show ?thesis by (simp add: orphans_of_def)
  qed
  have roots: "length (root_unreadable crc img sb m f l) \<le> 1" for f l
    by (simp add: root_unreadable_def)
  have super: "length (if c then [a] else []) \<le> 1" for c and a :: anomaly
    by simp
  have "length (audit_image crc img) \<le> 1 + (1 + (1 + (8192 + (4 + 5 * items_per_node sb))))"
    unfolding audit_image_parts assms option.case prod.case Let_def m_def [symmetric] length_append
    by (intro add_mono sweep backups orphans roots super)
  then show ?thesis by simp
qed

section \<open>The recovery\<close>

lemma carve_state_olds:
  assumes "audit_super crc img = Some (blk, sb)" and "carve_state crc img = Some (sb', m, current, olds)"
  shows "sb' = sb \<and> (\<exists>cur. olds = old_leaves crc img sb m cur (parse_backup_roots blk))"
proof -
  let ?m = "walk_or_default crc img sb"
  obtain cur where cur: "fs_tree_root crc img sb ?m = Inr cur"
    using assms by (cases "fs_tree_root crc img sb ?m") (simp_all add: carve_state_def Let_def)
  obtain n where n: "read_node crc img sb ?m (fr_bytenr cur) = Inr n"
    using assms cur by (cases "read_node crc img sb ?m (fr_bytenr cur)") (simp_all add: carve_state_def Let_def)
  have "carve_state crc img = Some (sb, ?m, n, old_leaves crc img sb ?m (fr_bytenr cur) (parse_backup_roots blk))"
    by (simp add: carve_state_def Let_def assms(1) cur n)
  with assms(2) show ?thesis by auto
qed

lemma old_leaves_mem:
  "old \<in> set (old_leaves crc img sb m cur bs) \<Longrightarrow> \<exists>l. read_node crc img sb m l = Inr old"
  by (induction bs) (auto split: sum.splits if_splits)

lemma recovered_bound:
  assumes "audit_super crc img = Some (blk, sb)"
  shows "length (recover_deleted crc c img) \<le> 4 * items_per_node sb"
proof (cases "carve_state crc img")
  case (Some st)
  obtain sb' m current olds where st: "st = (sb', m, current, olds)" by (cases st)
  obtain cur where olds: "olds = old_leaves crc img sb m cur (parse_backup_roots blk)" and sb: "sb' = sb"
    using carve_state_olds [OF assms Some [unfolded st]] by blast
  have old_items: "length (recover_deleted_from_leaves c old current img m (sb_sectorsize sb)) \<le> items_per_node sb"
    if mem: "old \<in> set olds" for old
  proof -
    obtain l where "read_node crc img sb m l = Inr old"
      using old_leaves_mem [OF mem [unfolded olds]] by blast
    from read_node_items [OF this] show ?thesis
      using order_trans [OF length_filter_le, of "leaf_items old" "items_per_node sb" "deleted_since old current"]
      by (simp add: recover_pair_eq)
  qed
  have "length olds \<le> 4"
    unfolding olds old_leaves_def by (rule le_trans [OF length_map_filter length_parse_backups])
  have "length (recover_deleted crc c img) \<le>
      length (concat (map (\<lambda>old. recover_deleted_from_leaves c old current img m (sb_sectorsize sb)) olds))"
    unfolding recover_deleted_eq Some st option.case prod.case sb by (rule length_first_by)
  also have "\<dots> \<le> length olds * items_per_node sb"
    by (intro length_concat_le old_items)
  also have "\<dots> \<le> 4 * items_per_node sb"
    using \<open>length olds \<le> 4\<close> by (rule mult_le_mono1)
  finally show ?thesis .
qed (simp add: recover_deleted_eq)

section \<open>Properties\<close>

text \<open>
  Claim C13. Bounded results on hostile images, whatever they contain. A chunk walk returns a map of at most
  as many entries as 4096 nodes can hold, and its sweep reports at most 8192 nodes; an audit reports nothing when
  the image has no superblock, and otherwise at most 8199 anomalies besides the orphans of five leaves; a
  recovery returns at most the items of four leaves. The room of a node comes from its node size alone, never
  from the item count that its header claims.
\<close>

theorem output_bounded:
  "(case walk crc img sb of Inl _ \<Rightarrow> True | Inr m \<Rightarrow> length m \<le> 4096 * items_per_node sb) \<and>
   length (sweep_node_crcs crc [] img sb m) \<le> 8192 \<and>
   (case audit_super crc img of
      None \<Rightarrow> audit_image crc img = [] \<and> recover_deleted crc c img = []
    | Some (blk, sb) \<Rightarrow>
        length (audit_image crc img) \<le> 8199 + 5 * items_per_node sb \<and>
        length (recover_deleted crc c img) \<le> 4 * items_per_node sb)"
proof (intro conjI)
  show "case walk crc img sb of Inl _ \<Rightarrow> True | Inr m \<Rightarrow> length m \<le> 4096 * items_per_node sb"
    using walk_loop_bound [of crc img "unat (sb_nodesize sb)" "boot_map sb" 4096 "[]" "[sb_chunk_root sb]" False]
    by (simp add: walk_def items_per_node_def split: sum.split)
  have "length (sweep_found crc img sb m l) \<le> 1" for l
    by (simp add: sweep_found_def split: option.split)
  then have "length (sweep_node_crcs crc [] img sb m) \<le> length (sweep_order crc img sb m) * 1"
    unfolding sweep_node_crcs_eq append_Nil sweep_order_def by (intro length_concat_le)
  also have "\<dots> \<le> 8192"
    using length_visit_order by (simp add: sweep_order_def)
  finally show "length (sweep_node_crcs crc [] img sb m) \<le> 8192" .
  show "case audit_super crc img of
      None \<Rightarrow> audit_image crc img = [] \<and> recover_deleted crc c img = []
    | Some (blk, sb) \<Rightarrow>
        length (audit_image crc img) \<le> 8199 + 5 * items_per_node sb \<and>
        length (recover_deleted crc c img) \<le> 4 * items_per_node sb"
    using audit_bound recovered_bound
    by (auto simp: audit_image_parts recover_deleted_eq carve_state_def split: option.split)
qed

end
