(* ===== verification/Fast_Crc.thy ===== *)
theory Fast_Crc
  imports Superblock
begin

text \<open>
  Evaluating the reference CRC32c over whole disk blocks. A block is mostly zeros: a run of \<open>n\<close> zero
  bytes multiplies the state by a power of \<open>x\<close>, which is computed by squaring. The computation itself
  is carried out on integers, whose numerals halve faster than words.
\<close>

section \<open>Multiplication modulo the polynomial\<close>

text \<open>
  In the reflected representation the word \<open>0x80000000\<close> is 1 and \<open>crc_bit\<close> multiplies by \<open>x\<close>; \<open>crc_mul\<close>
  is Horner's rule over the coefficients of \<open>b\<close>.
\<close>

fun crc_mul :: "nat \<Rightarrow> u32 \<Rightarrow> u32 \<Rightarrow> u32 \<Rightarrow> u32" where
  "crc_mul 0 a b acc = acc"
| "crc_mul (Suc n) a b acc = crc_mul n a (drop_bit 1 b) (crc_bit acc XOR (if odd b then a else 0))"

lemma crc_bit_0 [simp]: "crc_bit 0 = 0"
  by (simp add: crc_bit_def)

lemma crc_bit_mul: "crc_bit (crc_mul n a b acc) = crc_mul n (crc_bit a) b (crc_bit acc)"
  by (induction n arbitrary: b acc) (simp_all add: crc_bit_xor)

lemma crc_bit_pow_mul: "(crc_bit ^^ k) (crc_mul n a b 0) = crc_mul n ((crc_bit ^^ k) a) b 0"
  by (induction k) (simp_all add: crc_bit_mul)

lemma crc_mul_one:
  assumes "k \<le> 32" and "\<And>i. i < k \<Longrightarrow> \<not> bit acc i"
  shows "crc_mul k 0x80000000 b acc = drop_bit k acc XOR push_bit (32 - k) b"
  using assms
proof (induction k arbitrary: b acc)
  case 0
  have "push_bit 32 b = 0" by (rule bit_eqI) (simp only: bit_push_bit_iff bit_0_eq, auto)
  then show ?case by simp
next
  case (Suc k)
  define one where "one = (push_bit 31 1 :: u32)"
  have one: "bit one i \<longleftrightarrow> i = 31" for i
    unfolding one_def by (simp only: bit_push_bit_iff bit_1_iff) auto
  define acc' where "acc' = drop_bit 1 acc XOR (if odd b then one else 0)"
  have "crc_bit acc = drop_bit 1 acc"
    using Suc.prems(2) [of 0] by (simp add: crc_bit_alt)
  then have "crc_mul (Suc k) 0x80000000 b acc = crc_mul k 0x80000000 (drop_bit 1 b) acc'"
    by (simp add: acc'_def one_def)
  also have "\<dots> = drop_bit k acc' XOR push_bit (32 - k) (drop_bit 1 b)"
    using Suc.prems by (intro Suc.IH) (auto simp: acc'_def bit_xor_iff bit_drop_bit_eq one)
  also have "\<dots> = drop_bit (Suc k) acc XOR push_bit (32 - Suc k) b"
  proof (rule bit_eqI)
    fix i assume "possible_bit TYPE(u32) i"
    then have i: "i < 32" by simp
    note bits = acc'_def bit_xor_iff bit_drop_bit_eq bit_push_bit_iff one bit_0
    consider "i < 31 - k" | "i = 31 - k" | j where "i = Suc (31 - k + j)"
      by (metis add_Suc_right less_imp_Suc_add linorder_cases)
    then show "bit (drop_bit k acc' XOR push_bit (32 - k) (drop_bit 1 b)) i =
        bit (drop_bit (Suc k) acc XOR push_bit (32 - Suc k) b) i"
    proof cases
      case 3
      then have "k + i = 32 + j" "i - (32 - k) = j" "i - (32 - Suc k) = Suc j" "32 - k \<le> i" "32 - Suc k \<le> i"
        using Suc.prems(1) by auto
      with i show ?thesis by (simp add: bits)
    qed (use i Suc.prems(1) in \<open>auto simp: bits\<close>)
  qed
  finally show ?case .
qed

definition x_pow :: "nat \<Rightarrow> u32" where
  "x_pow n = (crc_bit ^^ n) 0x80000000"

lemma crc_bit_pow_eq: "(crc_bit ^^ n) s = crc_mul 32 (x_pow n) s 0"
  using crc_mul_one [of 32 0 s] crc_bit_pow_mul [of n 32 "0x80000000" s] by (simp add: x_pow_def)

lemma x_pow_add: "x_pow (m + n) = crc_mul 32 (x_pow m) (x_pow n) 0"
  by (simp add: x_pow_def funpow_add flip: crc_bit_pow_eq [unfolded x_pow_def])

lemma crc_zeros: "foldl crc_byte s (zeros n) = crc_mul 32 (x_pow (8 * n)) s 0"
proof -
  have "foldl crc_byte s (zeros n) = (crc_bit ^^ (8 * n)) s"
  proof (induction n arbitrary: s)
    case (Suc n)
    have "foldl crc_byte s (zeros (Suc n)) = (crc_bit ^^ (8 * n)) ((crc_bit ^^ 8) s)"
      by (simp add: zeros_def crc_byte_def [of s] flip: Suc [unfolded zeros_def])
    also have "\<dots> = (crc_bit ^^ (8 * Suc n)) s"
      by (simp only: mult_Suc_right add.commute [of 8] funpow_add comp_apply)
    finally show ?case .
  qed (simp add: zeros_def)
  then show ?thesis by (simp add: crc_bit_pow_eq)
qed

section \<open>On integers\<close>

definition icrc_bit :: "int \<Rightarrow> int" where
  "icrc_bit c = (if odd c then (c div 2) XOR 0x82F63B78 else c div 2)"

definition icrc_byte :: "int \<Rightarrow> int \<Rightarrow> int" where
  "icrc_byte c b = icrc_bit (icrc_bit (icrc_bit (icrc_bit (icrc_bit (icrc_bit (icrc_bit (icrc_bit (c XOR b))))))))"

fun icrc_mul :: "nat \<Rightarrow> int \<Rightarrow> int \<Rightarrow> int \<Rightarrow> int" where
  "icrc_mul 0 a b acc = acc"
| "icrc_mul (Suc n) a b acc = icrc_mul n a (b div 2) (if odd b then icrc_bit acc XOR a else icrc_bit acc)"

lemma odd_uint: "odd (uint (w :: u32)) \<longleftrightarrow> odd w"
  by transfer simp

lemma uint_half: "uint (drop_bit (Suc 0) (w :: u32)) = uint w div 2"
  by (simp add: drop_bit_eq_div uint_div_distrib)

lemma uint_crc_bit: "uint (crc_bit w) = icrc_bit (uint w)"
  by (simp add: crc_bit_alt icrc_bit_def bit_0 odd_uint unsigned_xor_eq uint_half)

lemma uint_crc_byte: "uint (crc_byte c b) = icrc_byte (uint c) (uint b)"
proof -
  have "uint (ucast b :: u32) = uint b"
    using uint_bounded [of b] by (simp add: uint_up_ucast is_up)
  then show ?thesis
    by (simp add: crc_byte_unroll icrc_byte_def uint_crc_bit unsigned_xor_eq)
qed

lemma uint_crc_mul: "uint (crc_mul n a b acc) = icrc_mul n (uint a) (uint b) (uint acc)"
  by (induction n arbitrary: b acc)
    (simp_all add: uint_crc_bit odd_uint unsigned_xor_eq uint_half)

text \<open>\<open>2 ^ k\<close> zero bytes, and any number of them by its binary digits.\<close>

definition zpow :: "nat \<Rightarrow> int" where
  "zpow k = uint (x_pow (8 * 2 ^ k))"

fun zero_run :: "nat \<Rightarrow> nat \<Rightarrow> int \<Rightarrow> int" where
  "zero_run k n s =
     (if n = 0 then s else zero_run (Suc k) (n div 2) (if odd n then icrc_mul 32 (zpow k) s 0 else s))"

declare zero_run.simps [simp del]

lemma zero_run: "zero_run k n (uint s) = uint (foldl crc_byte s (zeros (n * 2 ^ k)))"
proof (induction n arbitrary: k s rule: less_induct)
  case (less n)
  show ?case
  proof (cases "n = 0")
    case False
    define t where "t = (if odd n then foldl crc_byte s (zeros (2 ^ k)) else s)"
    have "foldl crc_byte t (zeros (n div 2 * 2 ^ Suc k)) = foldl crc_byte s (zeros (n * 2 ^ k))"
    proof (cases "odd n")
      case True
      then have "n * 2 ^ k = 2 ^ k + n div 2 * 2 ^ Suc k"
        by (elim oddE) (simp add: algebra_simps)
      with True show ?thesis by (simp add: t_def zeros_def replicate_add)
    next
      case False
      then have "n div 2 * 2 ^ Suc k = n * 2 ^ k" by auto
      with False show ?thesis by (simp only: t_def if_False)
    qed
    moreover have "(if odd n then icrc_mul 32 (zpow k) (uint s) 0 else uint s) = uint t"
      by (simp add: t_def crc_zeros uint_crc_mul zpow_def)
    ultimately show ?thesis
      using less.IH [of "n div 2" "Suc k" t] False by (simp add: zero_run.simps [of k n])
  qed (simp add: zero_run.simps zeros_def)
qed

text \<open>Bytes written as runs: so many zeros, then these bytes.\<close>

definition runs :: "(nat \<times> bytes) list \<Rightarrow> bytes" where
  "runs rs = concat (map (\<lambda>(z, bs). zeros z @ bs) rs)"

fun icrc_bytes :: "int \<Rightarrow> bytes \<Rightarrow> int" where
  "icrc_bytes s [] = s"
| "icrc_bytes s (b # bs) = icrc_bytes (icrc_byte s (uint b)) bs"

fun icrc_runs :: "int \<Rightarrow> (nat \<times> bytes) list \<Rightarrow> int" where
  "icrc_runs s [] = s"
| "icrc_runs s ((z, bs) # rs) = icrc_runs (icrc_bytes (zero_run 0 z s) bs) rs"

lemma uint_crc_bytes: "uint (foldl crc_byte c bs) = icrc_bytes (uint c) bs"
  by (induction bs arbitrary: c) (simp_all add: uint_crc_byte)

lemma uint_crc_runs: "uint (foldl crc_byte c (runs rs)) = icrc_runs (uint c) rs"
  by (induction rs arbitrary: c)
    (auto simp: runs_def uint_crc_bytes zero_run [of 0, simplified] simp flip: uint_crc_bytes)

theorem crc32c_runs: "crc32c_ref (runs rs) = word_of_int (icrc_runs 0xFFFFFFFF rs) XOR 0xFFFFFFFF"
proof -
  have "foldl crc_byte 0xFFFFFFFF (runs rs) = word_of_int (uint (foldl crc_byte 0xFFFFFFFF (runs rs)))"
    by simp
  also have "\<dots> = word_of_int (icrc_runs 0xFFFFFFFF rs)"
    by (simp only: uint_crc_runs) simp
  finally show ?thesis by (simp add: crc32c_ref_def)
qed

text \<open>A block whose stored digest is followed by zeros up to the covered range.\<close>

lemma crc32c_block:
  assumes "length csum = 4"
  shows "crc32c_ref (drop 32 (runs ((0, csum) # (28, bs) # rs))) =
    word_of_int (icrc_runs 0xFFFFFFFF ((0, bs) # rs)) XOR 0xFFFFFFFF"
proof -
  have "drop 32 (runs ((0, csum) # (28, bs) # rs)) = runs ((0, bs) # rs)"
    using assms by (simp add: runs_def zeros_def)
  then show ?thesis by (simp only: crc32c_runs)
qed

section \<open>Evaluation\<close>

named_theorems crc_eval

lemma icrc_bit_eval [crc_eval]:
  "icrc_bit 0 = 0"
  "icrc_bit 1 = 0x82F63B78"
  "icrc_bit (numeral (Num.Bit0 n)) = numeral n"
  "icrc_bit (numeral (Num.Bit1 n)) = numeral n XOR 0x82F63B78"
  by (simp_all add: icrc_bit_def)

lemma icrc_mul_eval [crc_eval]:
  "icrc_mul 0 a b acc = acc"
  "icrc_mul (Suc 0) a b acc = (if odd b then icrc_bit acc XOR a else icrc_bit acc)"
  "icrc_mul (numeral k) a 0 acc = icrc_mul (pred_numeral k) a 0 (icrc_bit acc)"
  "icrc_mul (numeral k) a 1 acc = icrc_mul (pred_numeral k) a 0 (icrc_bit acc XOR a)"
  "icrc_mul (numeral k) a (numeral (Num.Bit0 m)) acc = icrc_mul (pred_numeral k) a (numeral m) (icrc_bit acc)"
  "icrc_mul (numeral k) a (numeral (Num.Bit1 m)) acc = icrc_mul (pred_numeral k) a (numeral m) (icrc_bit acc XOR a)"
  by (simp_all add: numeral_eq_Suc)

lemma zero_run_eval [crc_eval]:
  "zero_run k 0 s = s"
  "zero_run k (Suc 0) s = icrc_mul 32 (zpow k) s 0"
  "zero_run k (numeral (Num.Bit0 m)) s = zero_run (Suc k) (numeral m) s"
  "zero_run k (numeral (Num.Bit1 m)) s = zero_run (Suc k) (numeral m) (icrc_mul 32 (zpow k) s 0)"
  by (subst zero_run.simps; simp add: zero_run.simps [of "Suc k" 0])+

declare icrc_byte_def [crc_eval] numeral_2_eq_2 [symmetric, crc_eval]

lemma zpow_step: "zpow k = z \<Longrightarrow> Suc k = n \<Longrightarrow> icrc_mul 32 z z 0 = v \<Longrightarrow> zpow n = v"
  using x_pow_add [of "8 * 2 ^ k" "8 * 2 ^ k"] by (auto simp: zpow_def uint_crc_mul)

lemma zpow_0: "zpow 0 = 8388608"
proof -
  have "x_pow 8 = crc_byte 0x80000000 0" by (simp add: x_pow_def crc_byte_def)
  then have "zpow 0 = icrc_byte 0x80000000 0" by (simp add: zpow_def uint_crc_byte)
  then show ?thesis by (simp add: crc_eval)
qed

lemma zpow_1: "zpow (Suc 0) = 32768"
  by (rule zpow_step [OF zpow_0]) (simp_all add: crc_eval)

lemma zpow_2: "zpow 2 = 2197175160"
  by (rule zpow_step [OF zpow_1]) (simp_all add: crc_eval)

lemma zpow_3: "zpow 3 = 1856165212"
  by (rule zpow_step [OF zpow_2]) (simp_all add: crc_eval)

lemma zpow_4: "zpow 4 = 414771736"
  by (rule zpow_step [OF zpow_3]) (simp_all add: crc_eval)

lemma zpow_5: "zpow 5 = 1359660442"
  by (rule zpow_step [OF zpow_4]) (simp_all add: crc_eval)

lemma zpow_6: "zpow 6 = 3089885525"
  by (rule zpow_step [OF zpow_5]) (simp_all add: crc_eval)

lemma zpow_7: "zpow 7 = 3103633895"
  by (rule zpow_step [OF zpow_6]) (simp_all add: crc_eval)

lemma zpow_8: "zpow 8 = 2296737650"
  by (rule zpow_step [OF zpow_7]) (simp_all add: crc_eval)

lemma zpow_9: "zpow 9 = 1958961316"
  by (rule zpow_step [OF zpow_8]) (simp_all add: crc_eval)

lemma zpow_10: "zpow 10 = 3826723606"
  by (rule zpow_step [OF zpow_9]) (simp_all add: crc_eval)

lemma zpow_11: "zpow 11 = 224753194"
  by (rule zpow_step [OF zpow_10]) (simp_all add: crc_eval)

lemma zpow_12: "zpow 12 = 903297634"
  by (rule zpow_step [OF zpow_11]) (simp_all add: crc_eval)

lemma zpow_13: "zpow 13 = 675681636"
  by (rule zpow_step [OF zpow_12]) (simp_all add: crc_eval)

lemmas zpow_eval [crc_eval] = zpow_0 zpow_1 zpow_2 zpow_3 zpow_4 zpow_5 zpow_6 zpow_7 zpow_8 zpow_9 zpow_10 zpow_11 zpow_12 zpow_13

end
