(* ===== verification/Oracle_Data.thy ===== *)
theory Oracle_Data
  imports Carve Fast_Crc
begin

text \<open>
  Blocks of real disks, written by the kernel and committed under \<open>tests/data\<close>, as runs of zeros and
  bytes, and what lies where in them. The leaves have the layout \<open>encode_leaf\<close>, byte for byte, and the
  checksums that the kernel computed verify.
\<close>

section \<open>The blocks\<close>

text \<open>\<open>tests/data/btrfs_superblock.bin\<close>.\<close>

definition oracle_superblock :: bytes where
  "oracle_superblock = runs
    [(0, [217, 19, 111, 96]), (28, [254, 149, 153, 203, 226, 9, 77, 92, 183, 52, 100, 44, 69, 127, 188, 1, 0, 0, 1,
    0, 0, 0, 0, 0, 1, 0, 0, 0, 0, 0, 0, 0, 95, 66, 72, 82, 102, 83, 95, 77, 9, 0, 0, 0, 0, 0, 0, 0, 0, 192, 212, 1,
    0, 0, 0, 0, 0, 64, 80, 1]), (23, [32, 0, 0, 0, 0, 0, 64, 3, 0, 0, 0, 0, 0, 6, 0, 0, 0, 0, 0, 0, 0, 1, 0, 0, 0, 0,
    0, 0, 0, 0, 16, 0, 0, 0, 64, 0, 0, 0, 64, 0, 0, 0, 16, 0, 0, 129, 0, 0, 0, 6, 0, 0, 0, 0, 0, 0, 0, 0, 0, 0, 0, 0,
    0, 0, 0, 3, 0, 0, 0, 0, 0, 0, 0, 97, 3, 0, 0, 0, 0, 0, 0, 0, 0, 0, 0, 0, 1, 0, 0, 0, 0, 0, 0, 0, 0, 0, 0, 32, 0,
    0, 0, 0, 0, 0, 128, 5, 0, 0, 0, 0, 0, 16, 0, 0, 0, 16, 0, 0, 0, 16]), (32, [225, 239, 233, 78, 98, 144, 70, 158,
    185, 123, 112, 62, 72, 66, 127, 101, 254, 149, 153, 203, 226, 9, 77, 92, 183, 52, 100, 44, 69, 127, 188, 1, 66,
    84, 82, 70, 83, 95, 79, 82, 65, 67, 76, 69]), (252, [9]), (248, [1, 0, 0, 0, 0, 0, 0, 228, 0, 0, 80, 1, 0, 0, 0,
    0, 0, 0, 128, 0, 0, 0, 0, 0, 2, 0, 0, 0, 0, 0, 0, 0, 0, 0, 1, 0, 0, 0, 0, 0, 34, 0, 0, 0, 0, 0, 0, 0, 0, 0, 1, 0,
    0, 0, 1, 0, 0, 16, 0, 0, 2, 0, 1, 0, 1, 0, 0, 0, 0, 0, 0, 0, 0, 0, 80, 1, 0, 0, 0, 0, 225, 239, 233, 78, 98, 144,
    70, 158, 185, 123, 112, 62, 72, 66, 127, 101, 1, 0, 0, 0, 0, 0, 0, 0, 0, 0, 208, 1, 0, 0, 0, 0, 225, 239, 233,
    78, 98, 144, 70, 158, 185, 123, 112, 62, 72, 66, 127, 101, 0, 0, 0, 1, 0, 0, 0, 0, 0, 34, 0, 0, 0, 0, 0, 0, 0, 0,
    0, 1, 0, 0, 0, 1, 0, 0, 16, 0, 0, 2, 0, 1, 0, 1, 0, 0, 0, 0, 0, 0, 0, 0, 0, 80, 1, 0, 0, 0, 0, 225, 239, 233, 78,
    98, 144, 70, 158, 185, 123, 112, 62, 72, 66, 127, 101, 1, 0, 0, 0, 0, 0, 0, 0, 0, 0, 208, 1, 0, 0, 0, 0, 225,
    239, 233, 78, 98, 144, 70, 158, 185, 123, 112, 62, 72, 66, 127, 101]), (1823, [192, 212, 1, 0, 0, 0, 0, 9, 0, 0,
    0, 0, 0, 0, 0, 0, 64, 80, 1, 0, 0, 0, 0, 6, 0, 0, 0, 0, 0, 0, 0, 0, 0, 213, 1, 0, 0, 0, 0, 9, 0, 0, 0, 0, 0, 0,
    0, 0, 192, 211, 1, 0, 0, 0, 0, 8, 0, 0, 0, 0, 0, 0, 0, 0, 128, 211, 1, 0, 0, 0, 0, 7, 0, 0, 0, 0, 0, 0, 0, 0,
    192, 208, 1, 0, 0, 0, 0, 7, 0, 0, 0, 0, 0, 0, 0, 0, 0, 0, 32, 0, 0, 0, 0, 0, 64, 3, 0, 0, 0, 0, 0, 1]), (56,
    [192, 210, 1, 0, 0, 0, 0, 6, 0, 0, 0, 0, 0, 0, 0, 0, 64, 80, 1, 0, 0, 0, 0, 6, 0, 0, 0, 0, 0, 0, 0, 0, 0, 208, 1,
    0, 0, 0, 0, 6, 0, 0, 0, 0, 0, 0, 0, 0, 64, 208, 1, 0, 0, 0, 0, 5, 0, 0, 0, 0, 0, 0, 0, 0, 64, 210, 1, 0, 0, 0, 0,
    6, 0, 0, 0, 0, 0, 0, 0, 0, 64, 209, 1, 0, 0, 0, 0, 5, 0, 0, 0, 0, 0, 0, 0, 0, 0, 0, 32, 0, 0, 0, 0, 0, 64, 2, 0,
    0, 0, 0, 0, 1]), (56, [64, 211, 1, 0, 0, 0, 0, 7, 0, 0, 0, 0, 0, 0, 0, 0, 64, 80, 1, 0, 0, 0, 0, 6, 0, 0, 0, 0,
    0, 0, 0, 0, 0, 209, 1, 0, 0, 0, 0, 7, 0, 0, 0, 0, 0, 0, 0, 0, 0, 211, 1, 0, 0, 0, 0, 7, 0, 0, 0, 0, 0, 0, 0, 0,
    128, 211, 1, 0, 0, 0, 0, 7, 0, 0, 0, 0, 0, 0, 0, 0, 192, 208, 1, 0, 0, 0, 0, 7, 0, 0, 0, 0, 0, 0, 0, 0, 0, 0, 32,
    0, 0, 0, 0, 0, 64, 3, 0, 0, 0, 0, 0, 1]), (56, [128, 212, 1, 0, 0, 0, 0, 8, 0, 0, 0, 0, 0, 0, 0, 0, 64, 80, 1, 0,
    0, 0, 0, 6, 0, 0, 0, 0, 0, 0, 0, 0, 0, 212, 1, 0, 0, 0, 0, 8, 0, 0, 0, 0, 0, 0, 0, 0, 192, 211, 1, 0, 0, 0, 0, 8,
    0, 0, 0, 0, 0, 0, 0, 0, 128, 211, 1, 0, 0, 0, 0, 7, 0, 0, 0, 0, 0, 0, 0, 0, 192, 208, 1, 0, 0, 0, 0, 7, 0, 0, 0,
    0, 0, 0, 0, 0, 0, 0, 32, 0, 0, 0, 0, 0, 64, 3, 0, 0, 0, 0, 0, 1]), (620, [])]"

text \<open>\<open>tests/data/btrfs_chunk_root.bin\<close>, its header and its items.\<close>

definition chunk_root_leaf :: bytes where
  "chunk_root_leaf = runs
    [(0, [2, 73, 248, 136]), (28, [254, 149, 153, 203, 226, 9, 77, 92, 183, 52, 100, 44, 69, 127, 188, 1, 0, 64, 80,
    1, 0, 0, 0, 0, 1, 0, 0, 0, 0, 0, 0, 1, 5, 236, 128, 70, 51, 89, 67, 21, 166, 195, 133, 73, 85, 59, 43, 235, 6, 0,
    0, 0, 0, 0, 0, 0, 3, 0, 0, 0, 0, 0, 0, 0, 4, 0, 0, 0, 0, 1, 0, 0, 0, 0, 0, 0, 0, 216, 1, 0, 0, 0, 0, 0, 0, 0, 57,
    63, 0, 0, 98, 0, 0, 0, 0, 1, 0, 0, 0, 0, 0, 0, 228, 0, 0, 208, 0, 0, 0, 0, 0, 233, 62, 0, 0, 80, 0, 0, 0, 0, 1,
    0, 0, 0, 0, 0, 0, 228, 0, 0, 80, 1, 0, 0, 0, 0, 121, 62, 0, 0, 112, 0, 0, 0, 0, 1, 0, 0, 0, 0, 0, 0, 228, 0, 0,
    208, 1, 0, 0, 0, 0, 9, 62, 0, 0, 112, 0, 0, 0]), (1, [1, 0, 0, 0, 0, 0, 0, 228, 0, 0, 208, 1, 0, 0, 0, 0, 9, 62,
    0, 0, 112, 0, 0, 0, 0, 1, 0, 0, 0, 0, 0, 0, 228, 0, 0, 208, 1, 0, 0, 0, 0, 185, 61, 0, 0, 112]), (15577, [2, 0,
    0, 0, 0, 2, 0, 0, 0, 0, 0, 0, 0, 0, 0, 1, 0, 0, 0, 0, 0, 36, 0, 0, 0, 0, 0, 0, 0, 0, 0, 1, 0, 0, 0, 1, 0, 0, 16,
    0, 0, 2, 0, 1, 0, 1, 0, 0, 0, 0, 0, 0, 0, 0, 0, 80, 2, 0, 0, 0, 0, 225, 239, 233, 78, 98, 144, 70, 158, 185, 123,
    112, 62, 72, 66, 127, 101, 0, 0, 0, 2, 0, 0, 0, 0, 2, 0, 0, 0, 0, 0, 0, 0, 0, 0, 1, 0, 0, 0, 0, 0, 36, 0, 0, 0,
    0, 0, 0, 0, 0, 0, 1, 0, 0, 0, 1, 0, 0, 16, 0, 0, 2, 0, 1, 0, 1, 0, 0, 0, 0, 0, 0, 0, 0, 0, 80, 2, 0, 0, 0, 0,
    225, 239, 233, 78, 98, 144, 70, 158, 185, 123, 112, 62, 72, 66, 127, 101]), (3, [2, 0, 0, 0, 0, 2, 0, 0, 0, 0, 0,
    0, 0, 0, 0, 1, 0, 0, 0, 0, 0, 36, 0, 0, 0, 0, 0, 0, 0, 0, 0, 1, 0, 0, 0, 1, 0, 0, 16, 0, 0, 2, 0, 1, 0, 1, 0, 0,
    0, 0, 0, 0, 0, 0, 0, 80, 2, 0, 0, 0, 0, 225, 239, 233, 78, 98, 144, 70, 158, 185, 123, 112, 62, 72, 66, 127, 101,
    1, 0, 0, 0, 0, 0, 0, 0, 0, 0, 80, 4, 0, 0, 0, 0, 225, 239, 233, 78, 98, 144, 70, 158, 185, 123, 112, 62, 72, 66,
    127, 101, 0, 0, 128, 0, 0, 0, 0, 0, 2, 0, 0, 0, 0, 0, 0, 0, 0, 0, 1, 0, 0, 0, 0, 0, 34, 0, 0, 0, 0, 0, 0, 0, 0,
    0, 1, 0, 0, 0, 1, 0, 0, 16, 0, 0, 2, 0, 1, 0, 1, 0, 0, 0, 0, 0, 0, 0, 0, 0, 80, 1, 0, 0, 0, 0, 225, 239, 233, 78,
    98, 144, 70, 158, 185, 123, 112, 62, 72, 66, 127, 101, 1, 0, 0, 0, 0, 0, 0, 0, 0, 0, 208, 1, 0, 0, 0, 0, 225,
    239, 233, 78, 98, 144, 70, 158, 185, 123, 112, 62, 72, 66, 127, 101, 0, 0, 128, 0, 0, 0, 0, 0, 2, 0, 0, 0, 0, 0,
    0, 0, 0, 0, 1, 0, 0, 0, 0, 0, 1, 0, 0, 0, 0, 0, 0, 0, 0, 0, 1, 0, 0, 0, 1, 0, 0, 16, 0, 0, 1, 0, 1, 0, 1, 0, 0,
    0, 0, 0, 0, 0, 0, 0, 208, 0, 0, 0, 0, 0, 225, 239, 233, 78, 98, 144, 70, 158, 185, 123, 112, 62, 72, 66, 127,
    101, 1, 0, 0, 0, 0, 0, 0, 0, 0, 0, 0, 32, 0, 0, 0, 0, 0, 0, 128, 5, 0, 0, 0, 0, 0, 16, 0, 0, 0, 16, 0, 0, 0,
    16]), (32, [225, 239, 233, 78, 98, 144, 70, 158, 185, 123, 112, 62, 72, 66, 127, 101, 254, 149, 153, 203, 226, 9,
    77, 92, 183, 52, 100, 44, 69, 127, 188, 1])]"

definition chunk_root_leaf_header :: header where
  "chunk_root_leaf_header =
    \<lparr> h_csum = [2, 73, 248, 136], h_fsid = [254, 149, 153, 203, 226, 9, 77, 92, 183, 52, 100, 44, 69, 127,
    188, 1], h_bytenr = 22036480, h_flags = 72057594037927937, h_chunk_tree_uuid = [5, 236, 128, 70, 51, 89, 67, 21,
    166, 195, 133, 73, 85, 59, 43, 235], h_generation = 6, h_owner = 3, h_nritems = 4, h_level = 0 \<rparr>"

definition chunk_root_leaf_items :: "(disk_key \<times> bytes) list" where
  "chunk_root_leaf_items =
    [(\<lparr>k_objectid = 1, k_type = 216, k_offset = 1\<rparr>, [1, 0, 0, 0, 0, 0, 0, 0, 0, 0, 0, 32, 0, 0, 0, 0,
    0, 0, 128, 5, 0, 0, 0, 0, 0, 16, 0, 0, 0, 16, 0, 0, 0, 16, 0, 0, 0, 0, 0, 0, 0, 0, 0, 0, 0, 0, 0, 0, 0, 0, 0, 0,
    0, 0, 0, 0, 0, 0, 0, 0, 0, 0, 0, 0, 0, 0, 225, 239, 233, 78, 98, 144, 70, 158, 185, 123, 112, 62, 72, 66, 127,
    101, 254, 149, 153, 203, 226, 9, 77, 92, 183, 52, 100, 44, 69, 127, 188, 1]), (\<lparr>k_objectid = 256, k_type =
    228, k_offset = 13631488\<rparr>, [0, 0, 128, 0, 0, 0, 0, 0, 2, 0, 0, 0, 0, 0, 0, 0, 0, 0, 1, 0, 0, 0, 0, 0, 1,
    0, 0, 0, 0, 0, 0, 0, 0, 0, 1, 0, 0, 0, 1, 0, 0, 16, 0, 0, 1, 0, 1, 0, 1, 0, 0, 0, 0, 0, 0, 0, 0, 0, 208, 0, 0, 0,
    0, 0, 225, 239, 233, 78, 98, 144, 70, 158, 185, 123, 112, 62, 72, 66, 127, 101]), (\<lparr>k_objectid = 256,
    k_type = 228, k_offset = 22020096\<rparr>, [0, 0, 128, 0, 0, 0, 0, 0, 2, 0, 0, 0, 0, 0, 0, 0, 0, 0, 1, 0, 0, 0,
    0, 0, 34, 0, 0, 0, 0, 0, 0, 0, 0, 0, 1, 0, 0, 0, 1, 0, 0, 16, 0, 0, 2, 0, 1, 0, 1, 0, 0, 0, 0, 0, 0, 0, 0, 0, 80,
    1, 0, 0, 0, 0, 225, 239, 233, 78, 98, 144, 70, 158, 185, 123, 112, 62, 72, 66, 127, 101, 1, 0, 0, 0, 0, 0, 0, 0,
    0, 0, 208, 1, 0, 0, 0, 0, 225, 239, 233, 78, 98, 144, 70, 158, 185, 123, 112, 62, 72, 66, 127, 101]),
    (\<lparr>k_objectid = 256, k_type = 228, k_offset = 30408704\<rparr>, [0, 0, 0, 2, 0, 0, 0, 0, 2, 0, 0, 0, 0, 0,
    0, 0, 0, 0, 1, 0, 0, 0, 0, 0, 36, 0, 0, 0, 0, 0, 0, 0, 0, 0, 1, 0, 0, 0, 1, 0, 0, 16, 0, 0, 2, 0, 1, 0, 1, 0, 0,
    0, 0, 0, 0, 0, 0, 0, 80, 2, 0, 0, 0, 0, 225, 239, 233, 78, 98, 144, 70, 158, 185, 123, 112, 62, 72, 66, 127, 101,
    1, 0, 0, 0, 0, 0, 0, 0, 0, 0, 80, 4, 0, 0, 0, 0, 225, 239, 233, 78, 98, 144, 70, 158, 185, 123, 112, 62, 72, 66,
    127, 101])]"

text \<open>\<open>tests/data/btrfs_del_old_fs_tree_leaf.bin\<close>, its header and its items.\<close>

definition del_old_leaf :: bytes where
  "del_old_leaf = runs
    [(0, [209, 226, 70, 182]), (28, [122, 24, 89, 7, 61, 246, 73, 159, 162, 237, 208, 25, 249, 2, 16, 181, 0, 128,
    209, 1, 0, 0, 0, 0, 1, 0, 0, 0, 0, 0, 0, 1, 162, 17, 167, 137, 233, 254, 78, 219, 165, 255, 59, 159, 111, 10, 41,
    215, 7, 0, 0, 0, 0, 0, 0, 0, 5, 0, 0, 0, 0, 0, 0, 0, 12, 0, 0, 0, 0, 0, 1, 0, 0, 0, 0, 0, 0, 1, 0, 0, 0, 0, 0, 0,
    0, 0, 251, 62, 0, 0, 160, 0, 0, 0, 0, 1, 0, 0, 0, 0, 0, 0, 12, 0, 1, 0, 0, 0, 0, 0, 0, 239, 62, 0, 0, 12, 0, 0,
    0, 0, 1, 0, 0, 0, 0, 0, 0, 84, 238, 49, 19, 219, 0, 0, 0, 0, 199, 62, 0, 0, 40, 0, 0, 0, 0, 1, 0, 0, 0, 0, 0, 0,
    84, 217, 204, 67, 242, 0, 0, 0, 0, 161, 62, 0, 0, 38, 0, 0, 0, 0, 1, 0, 0, 0, 0, 0, 0, 96, 2, 0, 0, 0, 0, 0, 0,
    0, 121, 62, 0, 0, 40, 0, 0, 0, 0, 1, 0, 0, 0, 0, 0, 0, 96, 3, 0, 0, 0, 0, 0, 0, 0, 83, 62, 0, 0, 38, 0, 0, 0, 1,
    1, 0, 0, 0, 0, 0, 0, 1, 0, 0, 0, 0, 0, 0, 0, 0, 179, 61, 0, 0, 160, 0, 0, 0, 1, 1, 0, 0, 0, 0, 0, 0, 12, 0, 1, 0,
    0, 0, 0, 0, 0, 159, 61, 0, 0, 20, 0, 0, 0, 1, 1, 0, 0, 0, 0, 0, 0, 108, 0, 0, 0, 0, 0, 0, 0, 0, 58, 61, 0, 0,
    101, 0, 0, 0, 2, 1, 0, 0, 0, 0, 0, 0, 1, 0, 0, 0, 0, 0, 0, 0, 0, 154, 60, 0, 0, 160, 0, 0, 0, 2, 1, 0, 0, 0, 0,
    0, 0, 12, 0, 1, 0, 0, 0, 0, 0, 0, 136, 60, 0, 0, 18, 0, 0, 0, 2, 1, 0, 0, 0, 0, 0, 0, 108, 0, 0, 0, 0, 0, 0, 0,
    0, 98, 60, 0, 0, 38, 0, 0, 0]), (15158, [7, 0, 0, 0, 0, 0, 0, 0, 17, 0, 0, 0, 0, 0, 0, 0, 0, 0, 0, 0, 0, 116,
    104, 105, 115, 32, 102, 105, 108, 101, 32, 115, 116, 97, 121, 115, 46, 10, 3, 0, 0, 0, 0, 0, 0, 0, 8, 0, 107,
    101, 101, 112, 46, 116, 120, 116, 7, 0, 0, 0, 0, 0, 0, 0, 7, 0, 0, 0, 0, 0, 0, 0, 17, 0, 0, 0, 0, 0, 0, 0, 17, 0,
    0, 0, 0, 0, 0, 0, 0, 0, 0, 0, 0, 0, 0, 0, 1, 0, 0, 0, 0, 0, 0, 0, 0, 0, 0, 0, 128, 129]), (18, [4]), (39, [8,
    201, 84, 106, 0, 0, 0, 0, 39, 111, 9, 16, 8, 201, 84, 106, 0, 0, 0, 0, 39, 111, 9, 16, 8, 201, 84, 106, 0, 0, 0,
    0, 39, 111, 9, 16, 8, 201, 84, 106, 0, 0, 0, 0, 39, 111, 9, 16, 7, 0, 0, 0, 0, 0, 0, 0, 80, 0, 0, 0, 0, 0, 0, 0,
    0, 0, 0, 0, 0, 83, 69, 67, 82, 69, 84, 32, 98, 116, 114, 102, 115, 32, 100, 101, 108, 101, 116, 101, 100, 45,
    102, 105, 108, 101, 32, 114, 101, 99, 111, 118, 101, 114, 121, 32, 111, 114, 97, 99, 108, 101, 32, 112, 97, 121,
    108, 111, 97, 100, 32, 226, 128, 148, 32, 67, 111, 87, 32, 114, 101, 116, 97, 105, 110, 115, 32, 116, 104, 101,
    32, 111, 108, 100, 32, 114, 111, 111, 116, 46, 10, 2, 0, 0, 0, 0, 0, 0, 0, 10, 0, 115, 101, 99, 114, 101, 116,
    46, 116, 120, 116, 7, 0, 0, 0, 0, 0, 0, 0, 7, 0, 0, 0, 0, 0, 0, 0, 80, 0, 0, 0, 0, 0, 0, 0, 80, 0, 0, 0, 0, 0, 0,
    0, 0, 0, 0, 0, 0, 0, 0, 0, 1, 0, 0, 0, 0, 0, 0, 0, 0, 0, 0, 0, 128, 129]), (18, [2]), (39, [8, 201, 84, 106, 0,
    0, 0, 0, 103, 168, 219, 15, 8, 201, 84, 106, 0, 0, 0, 0, 167, 234, 234, 15, 8, 201, 84, 106, 0, 0, 0, 0, 167,
    234, 234, 15, 8, 201, 84, 106, 0, 0, 0, 0, 103, 168, 219, 15, 2, 1, 0, 0, 0, 0, 0, 0, 1, 0, 0, 0, 0, 0, 0, 0, 0,
    7, 0, 0, 0, 0, 0, 0, 0, 0, 0, 8, 0, 1, 107, 101, 101, 112, 46, 116, 120, 116, 1, 1, 0, 0, 0, 0, 0, 0, 1, 0, 0, 0,
    0, 0, 0, 0, 0, 7, 0, 0, 0, 0, 0, 0, 0, 0, 0, 10, 0, 1, 115, 101, 99, 114, 101, 116, 46, 116, 120, 116, 2, 1, 0,
    0, 0, 0, 0, 0, 1, 0, 0, 0, 0, 0, 0, 0, 0, 7, 0, 0, 0, 0, 0, 0, 0, 0, 0, 8, 0, 1, 107, 101, 101, 112, 46, 116,
    120, 116, 1, 1, 0, 0, 0, 0, 0, 0, 1, 0, 0, 0, 0, 0, 0, 0, 0, 7, 0, 0, 0, 0, 0, 0, 0, 0, 0, 10, 0, 1, 115, 101,
    99, 114, 101, 116, 46, 116, 120, 116, 0, 0, 0, 0, 0, 0, 0, 0, 2, 0, 46, 46, 3, 0, 0, 0, 0, 0, 0, 0, 7, 0, 0, 0,
    0, 0, 0, 0, 36, 0, 0, 0, 0, 0, 0, 0, 0, 64, 0, 0, 0, 0, 0, 0, 0, 0, 0, 0, 0, 0, 0, 0, 1, 0, 0, 0, 0, 0, 0, 0, 0,
    0, 0, 0, 237, 65]), (18, [2]), (39, [8, 201, 84, 106, 0, 0, 0, 0, 0, 0, 0, 0, 8, 201, 84, 106, 0, 0, 0, 0, 39,
    111, 9, 16, 8, 201, 84, 106, 0, 0, 0, 0, 39, 111, 9, 16, 8, 201, 84, 106, 0, 0, 0, 0, 0, 0, 0, 0])]"

definition del_old_leaf_header :: header where
  "del_old_leaf_header =
    \<lparr> h_csum = [209, 226, 70, 182], h_fsid = [122, 24, 89, 7, 61, 246, 73, 159, 162, 237, 208, 25, 249, 2, 16,
    181], h_bytenr = 30507008, h_flags = 72057594037927937, h_chunk_tree_uuid = [162, 17, 167, 137, 233, 254, 78,
    219, 165, 255, 59, 159, 111, 10, 41, 215], h_generation = 7, h_owner = 5, h_nritems = 12, h_level = 0 \<rparr>"

definition del_old_leaf_items :: "(disk_key \<times> bytes) list" where
  "del_old_leaf_items =
    [(\<lparr>k_objectid = 256, k_type = 1, k_offset = 0\<rparr>, [3, 0, 0, 0, 0, 0, 0, 0, 7, 0, 0, 0, 0, 0, 0, 0,
    36, 0, 0, 0, 0, 0, 0, 0, 0, 64, 0, 0, 0, 0, 0, 0, 0, 0, 0, 0, 0, 0, 0, 0, 1, 0, 0, 0, 0, 0, 0, 0, 0, 0, 0, 0,
    237, 65, 0, 0, 0, 0, 0, 0, 0, 0, 0, 0, 0, 0, 0, 0, 0, 0, 0, 0, 2, 0, 0, 0, 0, 0, 0, 0, 0, 0, 0, 0, 0, 0, 0, 0, 0,
    0, 0, 0, 0, 0, 0, 0, 0, 0, 0, 0, 0, 0, 0, 0, 0, 0, 0, 0, 0, 0, 0, 0, 8, 201, 84, 106, 0, 0, 0, 0, 0, 0, 0, 0, 8,
    201, 84, 106, 0, 0, 0, 0, 39, 111, 9, 16, 8, 201, 84, 106, 0, 0, 0, 0, 39, 111, 9, 16, 8, 201, 84, 106, 0, 0, 0,
    0, 0, 0, 0, 0]), (\<lparr>k_objectid = 256, k_type = 12, k_offset = 256\<rparr>, [0, 0, 0, 0, 0, 0, 0, 0, 2, 0,
    46, 46]), (\<lparr>k_objectid = 256, k_type = 84, k_offset = 3675468270\<rparr>, [1, 1, 0, 0, 0, 0, 0, 0, 1, 0,
    0, 0, 0, 0, 0, 0, 0, 7, 0, 0, 0, 0, 0, 0, 0, 0, 0, 10, 0, 1, 115, 101, 99, 114, 101, 116, 46, 116, 120, 116]),
    (\<lparr>k_objectid = 256, k_type = 84, k_offset = 4064529625\<rparr>, [2, 1, 0, 0, 0, 0, 0, 0, 1, 0, 0, 0, 0, 0,
    0, 0, 0, 7, 0, 0, 0, 0, 0, 0, 0, 0, 0, 8, 0, 1, 107, 101, 101, 112, 46, 116, 120, 116]), (\<lparr>k_objectid =
    256, k_type = 96, k_offset = 2\<rparr>, [1, 1, 0, 0, 0, 0, 0, 0, 1, 0, 0, 0, 0, 0, 0, 0, 0, 7, 0, 0, 0, 0, 0, 0,
    0, 0, 0, 10, 0, 1, 115, 101, 99, 114, 101, 116, 46, 116, 120, 116]), (\<lparr>k_objectid = 256, k_type = 96,
    k_offset = 3\<rparr>, [2, 1, 0, 0, 0, 0, 0, 0, 1, 0, 0, 0, 0, 0, 0, 0, 0, 7, 0, 0, 0, 0, 0, 0, 0, 0, 0, 8, 0, 1,
    107, 101, 101, 112, 46, 116, 120, 116]), (\<lparr>k_objectid = 257, k_type = 1, k_offset = 0\<rparr>, [7, 0, 0,
    0, 0, 0, 0, 0, 7, 0, 0, 0, 0, 0, 0, 0, 80, 0, 0, 0, 0, 0, 0, 0, 80, 0, 0, 0, 0, 0, 0, 0, 0, 0, 0, 0, 0, 0, 0, 0,
    1, 0, 0, 0, 0, 0, 0, 0, 0, 0, 0, 0, 128, 129, 0, 0, 0, 0, 0, 0, 0, 0, 0, 0, 0, 0, 0, 0, 0, 0, 0, 0, 2, 0, 0, 0,
    0, 0, 0, 0, 0, 0, 0, 0, 0, 0, 0, 0, 0, 0, 0, 0, 0, 0, 0, 0, 0, 0, 0, 0, 0, 0, 0, 0, 0, 0, 0, 0, 0, 0, 0, 0, 8,
    201, 84, 106, 0, 0, 0, 0, 103, 168, 219, 15, 8, 201, 84, 106, 0, 0, 0, 0, 167, 234, 234, 15, 8, 201, 84, 106, 0,
    0, 0, 0, 167, 234, 234, 15, 8, 201, 84, 106, 0, 0, 0, 0, 103, 168, 219, 15]), (\<lparr>k_objectid = 257, k_type =
    12, k_offset = 256\<rparr>, [2, 0, 0, 0, 0, 0, 0, 0, 10, 0, 115, 101, 99, 114, 101, 116, 46, 116, 120, 116]),
    (\<lparr>k_objectid = 257, k_type = 108, k_offset = 0\<rparr>, [7, 0, 0, 0, 0, 0, 0, 0, 80, 0, 0, 0, 0, 0, 0, 0,
    0, 0, 0, 0, 0, 83, 69, 67, 82, 69, 84, 32, 98, 116, 114, 102, 115, 32, 100, 101, 108, 101, 116, 101, 100, 45,
    102, 105, 108, 101, 32, 114, 101, 99, 111, 118, 101, 114, 121, 32, 111, 114, 97, 99, 108, 101, 32, 112, 97, 121,
    108, 111, 97, 100, 32, 226, 128, 148, 32, 67, 111, 87, 32, 114, 101, 116, 97, 105, 110, 115, 32, 116, 104, 101,
    32, 111, 108, 100, 32, 114, 111, 111, 116, 46, 10]), (\<lparr>k_objectid = 258, k_type = 1, k_offset = 0\<rparr>,
    [7, 0, 0, 0, 0, 0, 0, 0, 7, 0, 0, 0, 0, 0, 0, 0, 17, 0, 0, 0, 0, 0, 0, 0, 17, 0, 0, 0, 0, 0, 0, 0, 0, 0, 0, 0, 0,
    0, 0, 0, 1, 0, 0, 0, 0, 0, 0, 0, 0, 0, 0, 0, 128, 129, 0, 0, 0, 0, 0, 0, 0, 0, 0, 0, 0, 0, 0, 0, 0, 0, 0, 0, 4,
    0, 0, 0, 0, 0, 0, 0, 0, 0, 0, 0, 0, 0, 0, 0, 0, 0, 0, 0, 0, 0, 0, 0, 0, 0, 0, 0, 0, 0, 0, 0, 0, 0, 0, 0, 0, 0, 0,
    0, 8, 201, 84, 106, 0, 0, 0, 0, 39, 111, 9, 16, 8, 201, 84, 106, 0, 0, 0, 0, 39, 111, 9, 16, 8, 201, 84, 106, 0,
    0, 0, 0, 39, 111, 9, 16, 8, 201, 84, 106, 0, 0, 0, 0, 39, 111, 9, 16]), (\<lparr>k_objectid = 258, k_type = 12,
    k_offset = 256\<rparr>, [3, 0, 0, 0, 0, 0, 0, 0, 8, 0, 107, 101, 101, 112, 46, 116, 120, 116]),
    (\<lparr>k_objectid = 258, k_type = 108, k_offset = 0\<rparr>, [7, 0, 0, 0, 0, 0, 0, 0, 17, 0, 0, 0, 0, 0, 0, 0,
    0, 0, 0, 0, 0, 116, 104, 105, 115, 32, 102, 105, 108, 101, 32, 115, 116, 97, 121, 115, 46, 10])]"

text \<open>\<open>tests/data/btrfs_del_current_fs_tree_leaf.bin\<close>, its header and its items.\<close>

definition del_current_leaf :: bytes where
  "del_current_leaf = runs
    [(0, [173, 115, 18, 172]), (28, [122, 24, 89, 7, 61, 246, 73, 159, 162, 237, 208, 25, 249, 2, 16, 181, 0, 64,
    212, 1, 0, 0, 0, 0, 1, 0, 0, 0, 0, 0, 0, 1, 162, 17, 167, 137, 233, 254, 78, 219, 165, 255, 59, 159, 111, 10, 41,
    215, 8, 0, 0, 0, 0, 0, 0, 0, 5, 0, 0, 0, 0, 0, 0, 0, 7, 0, 0, 0, 0, 0, 1, 0, 0, 0, 0, 0, 0, 1, 0, 0, 0, 0, 0, 0,
    0, 0, 251, 62, 0, 0, 160, 0, 0, 0, 0, 1, 0, 0, 0, 0, 0, 0, 12, 0, 1, 0, 0, 0, 0, 0, 0, 239, 62, 0, 0, 12, 0, 0,
    0, 0, 1, 0, 0, 0, 0, 0, 0, 84, 217, 204, 67, 242, 0, 0, 0, 0, 201, 62, 0, 0, 38, 0, 0, 0, 0, 1, 0, 0, 0, 0, 0, 0,
    96, 3, 0, 0, 0, 0, 0, 0, 0, 163, 62, 0, 0, 38, 0, 0, 0, 2, 1, 0, 0, 0, 0, 0, 0, 1, 0, 0, 0, 0, 0, 0, 0, 0, 3, 62,
    0, 0, 160, 0, 0, 0, 2, 1, 0, 0, 0, 0, 0, 0, 12, 0, 1, 0, 0, 0, 0, 0, 0, 241, 61, 0, 0, 18, 0, 0, 0, 2, 1, 0, 0,
    0, 0, 0, 0, 108, 0, 0, 0, 0, 0, 0, 0, 0, 203, 61, 0, 0, 38, 0, 0, 0]), (15644, [7, 0, 0, 0, 0, 0, 0, 0, 17, 0, 0,
    0, 0, 0, 0, 0, 0, 0, 0, 0, 0, 116, 104, 105, 115, 32, 102, 105, 108, 101, 32, 115, 116, 97, 121, 115, 46, 10, 3,
    0, 0, 0, 0, 0, 0, 0, 8, 0, 107, 101, 101, 112, 46, 116, 120, 116, 7, 0, 0, 0, 0, 0, 0, 0, 7, 0, 0, 0, 0, 0, 0, 0,
    17, 0, 0, 0, 0, 0, 0, 0, 17, 0, 0, 0, 0, 0, 0, 0, 0, 0, 0, 0, 0, 0, 0, 0, 1, 0, 0, 0, 0, 0, 0, 0, 0, 0, 0, 0,
    128, 129]), (18, [4]), (39, [8, 201, 84, 106, 0, 0, 0, 0, 39, 111, 9, 16, 8, 201, 84, 106, 0, 0, 0, 0, 39, 111,
    9, 16, 8, 201, 84, 106, 0, 0, 0, 0, 39, 111, 9, 16, 8, 201, 84, 106, 0, 0, 0, 0, 39, 111, 9, 16, 2, 1, 0, 0, 0,
    0, 0, 0, 1, 0, 0, 0, 0, 0, 0, 0, 0, 7, 0, 0, 0, 0, 0, 0, 0, 0, 0, 8, 0, 1, 107, 101, 101, 112, 46, 116, 120, 116,
    2, 1, 0, 0, 0, 0, 0, 0, 1, 0, 0, 0, 0, 0, 0, 0, 0, 7, 0, 0, 0, 0, 0, 0, 0, 0, 0, 8, 0, 1, 107, 101, 101, 112, 46,
    116, 120, 116, 0, 0, 0, 0, 0, 0, 0, 0, 2, 0, 46, 46, 3, 0, 0, 0, 0, 0, 0, 0, 8, 0, 0, 0, 0, 0, 0, 0, 16, 0, 0, 0,
    0, 0, 0, 0, 0, 64, 0, 0, 0, 0, 0, 0, 0, 0, 0, 0, 0, 0, 0, 0, 1, 0, 0, 0, 0, 0, 0, 0, 0, 0, 0, 0, 237, 65]), (18,
    [3]), (39, [8, 201, 84, 106, 0, 0, 0, 0, 103, 249, 0, 18, 8, 201, 84, 106, 0, 0, 0, 0, 103, 2, 62, 18, 8, 201,
    84, 106, 0, 0, 0, 0, 103, 2, 62, 18, 8, 201, 84, 106, 0, 0, 0, 0, 0, 0, 0, 0])]"

definition del_current_leaf_header :: header where
  "del_current_leaf_header =
    \<lparr> h_csum = [173, 115, 18, 172], h_fsid = [122, 24, 89, 7, 61, 246, 73, 159, 162, 237, 208, 25, 249, 2, 16,
    181], h_bytenr = 30687232, h_flags = 72057594037927937, h_chunk_tree_uuid = [162, 17, 167, 137, 233, 254, 78,
    219, 165, 255, 59, 159, 111, 10, 41, 215], h_generation = 8, h_owner = 5, h_nritems = 7, h_level = 0 \<rparr>"

definition del_current_leaf_items :: "(disk_key \<times> bytes) list" where
  "del_current_leaf_items =
    [(\<lparr>k_objectid = 256, k_type = 1, k_offset = 0\<rparr>, [3, 0, 0, 0, 0, 0, 0, 0, 8, 0, 0, 0, 0, 0, 0, 0,
    16, 0, 0, 0, 0, 0, 0, 0, 0, 64, 0, 0, 0, 0, 0, 0, 0, 0, 0, 0, 0, 0, 0, 0, 1, 0, 0, 0, 0, 0, 0, 0, 0, 0, 0, 0,
    237, 65, 0, 0, 0, 0, 0, 0, 0, 0, 0, 0, 0, 0, 0, 0, 0, 0, 0, 0, 3, 0, 0, 0, 0, 0, 0, 0, 0, 0, 0, 0, 0, 0, 0, 0, 0,
    0, 0, 0, 0, 0, 0, 0, 0, 0, 0, 0, 0, 0, 0, 0, 0, 0, 0, 0, 0, 0, 0, 0, 8, 201, 84, 106, 0, 0, 0, 0, 103, 249, 0,
    18, 8, 201, 84, 106, 0, 0, 0, 0, 103, 2, 62, 18, 8, 201, 84, 106, 0, 0, 0, 0, 103, 2, 62, 18, 8, 201, 84, 106, 0,
    0, 0, 0, 0, 0, 0, 0]), (\<lparr>k_objectid = 256, k_type = 12, k_offset = 256\<rparr>, [0, 0, 0, 0, 0, 0, 0, 0,
    2, 0, 46, 46]), (\<lparr>k_objectid = 256, k_type = 84, k_offset = 4064529625\<rparr>, [2, 1, 0, 0, 0, 0, 0, 0,
    1, 0, 0, 0, 0, 0, 0, 0, 0, 7, 0, 0, 0, 0, 0, 0, 0, 0, 0, 8, 0, 1, 107, 101, 101, 112, 46, 116, 120, 116]),
    (\<lparr>k_objectid = 256, k_type = 96, k_offset = 3\<rparr>, [2, 1, 0, 0, 0, 0, 0, 0, 1, 0, 0, 0, 0, 0, 0, 0, 0,
    7, 0, 0, 0, 0, 0, 0, 0, 0, 0, 8, 0, 1, 107, 101, 101, 112, 46, 116, 120, 116]), (\<lparr>k_objectid = 258, k_type
    = 1, k_offset = 0\<rparr>, [7, 0, 0, 0, 0, 0, 0, 0, 7, 0, 0, 0, 0, 0, 0, 0, 17, 0, 0, 0, 0, 0, 0, 0, 17, 0, 0, 0,
    0, 0, 0, 0, 0, 0, 0, 0, 0, 0, 0, 0, 1, 0, 0, 0, 0, 0, 0, 0, 0, 0, 0, 0, 128, 129, 0, 0, 0, 0, 0, 0, 0, 0, 0, 0,
    0, 0, 0, 0, 0, 0, 0, 0, 4, 0, 0, 0, 0, 0, 0, 0, 0, 0, 0, 0, 0, 0, 0, 0, 0, 0, 0, 0, 0, 0, 0, 0, 0, 0, 0, 0, 0, 0,
    0, 0, 0, 0, 0, 0, 0, 0, 0, 0, 8, 201, 84, 106, 0, 0, 0, 0, 39, 111, 9, 16, 8, 201, 84, 106, 0, 0, 0, 0, 39, 111,
    9, 16, 8, 201, 84, 106, 0, 0, 0, 0, 39, 111, 9, 16, 8, 201, 84, 106, 0, 0, 0, 0, 39, 111, 9, 16]),
    (\<lparr>k_objectid = 258, k_type = 12, k_offset = 256\<rparr>, [3, 0, 0, 0, 0, 0, 0, 0, 8, 0, 107, 101, 101,
    112, 46, 116, 120, 116]), (\<lparr>k_objectid = 258, k_type = 108, k_offset = 0\<rparr>, [7, 0, 0, 0, 0, 0, 0, 0,
    17, 0, 0, 0, 0, 0, 0, 0, 0, 0, 0, 0, 0, 116, 104, 105, 115, 32, 102, 105, 108, 101, 32, 115, 116, 97, 121, 115,
    46, 10])]"

text \<open>\<open>tests/data/btrfs_hardlink_leaf.bin\<close>, its header and its items.\<close>

definition hardlink_leaf :: bytes where
  "hardlink_leaf = runs
    [(0, [135, 23, 67, 199]), (28, [117, 193, 225, 147, 243, 1, 70, 185, 167, 167, 224, 130, 245, 99, 81, 41, 0, 128,
    208, 1, 0, 0, 0, 0, 1, 0, 0, 0, 0, 0, 0, 1, 52, 56, 64, 183, 177, 8, 74, 45, 177, 22, 161, 26, 137, 204, 246, 56,
    7, 0, 0, 0, 0, 0, 0, 0, 5, 0, 0, 0, 0, 0, 0, 0, 21, 0, 0, 0, 0, 0, 1, 0, 0, 0, 0, 0, 0, 1, 0, 0, 0, 0, 0, 0, 0,
    0, 251, 62, 0, 0, 160, 0, 0, 0, 0, 1, 0, 0, 0, 0, 0, 0, 12, 0, 1, 0, 0, 0, 0, 0, 0, 239, 62, 0, 0, 12, 0, 0, 0,
    0, 1, 0, 0, 0, 0, 0, 0, 84, 31, 75, 172, 28, 0, 0, 0, 0, 206, 62, 0, 0, 33, 0, 0, 0, 0, 1, 0, 0, 0, 0, 0, 0, 84,
    77, 187, 17, 53, 0, 0, 0, 0, 164, 62, 0, 0, 42, 0, 0, 0, 0, 1, 0, 0, 0, 0, 0, 0, 84, 100, 212, 58, 97, 0, 0, 0,
    0, 125, 62, 0, 0, 39, 0, 0, 0, 0, 1, 0, 0, 0, 0, 0, 0, 84, 104, 27, 85, 226, 0, 0, 0, 0, 85, 62, 0, 0, 40, 0, 0,
    0, 0, 1, 0, 0, 0, 0, 0, 0, 96, 2, 0, 0, 0, 0, 0, 0, 0, 46, 62, 0, 0, 39, 0, 0, 0, 0, 1, 0, 0, 0, 0, 0, 0, 96, 3,
    0, 0, 0, 0, 0, 0, 0, 4, 62, 0, 0, 42, 0, 0, 0, 0, 1, 0, 0, 0, 0, 0, 0, 96, 4, 0, 0, 0, 0, 0, 0, 0, 227, 61, 0, 0,
    33, 0, 0, 0, 0, 1, 0, 0, 0, 0, 0, 0, 96, 5, 0, 0, 0, 0, 0, 0, 0, 187, 61, 0, 0, 40, 0, 0, 0, 3, 1, 224, 3, 0, 0,
    0, 0, 1, 0, 0, 0, 0, 0, 0, 0, 0, 27, 61, 0, 0, 160, 0, 0, 0, 3, 1, 224, 3, 0, 0, 0, 0, 12, 0, 1, 0, 0, 0, 0, 0,
    0, 14, 61, 0, 0, 13, 0, 0, 0, 3, 1, 224, 3, 0, 0, 0, 0, 84, 141, 251, 56, 84, 0, 0, 0, 0, 225, 60, 0, 0, 45, 0,
    0, 0, 3, 1, 224, 3, 0, 0, 0, 0, 96, 2, 0, 0, 0, 0, 0, 0, 0, 180, 60, 0, 0, 45, 0, 0, 0, 4, 1, 224, 3, 0, 0, 0, 0,
    1, 0, 0, 0, 0, 0, 0, 0, 0, 20, 60, 0, 0, 160, 0, 0, 0, 4, 1, 224, 3, 0, 0, 0, 0, 12, 0, 1, 0, 0, 0, 0, 0, 0, 234,
    59, 0, 0, 42, 0, 0, 0, 4, 1, 224, 3, 0, 0, 0, 0, 12, 3, 1, 224, 3, 0, 0, 0, 0, 209, 59, 0, 0, 25, 0, 0, 0, 4, 1,
    224, 3, 0, 0, 0, 0, 108, 0, 0, 0, 0, 0, 0, 0, 0, 168, 59, 0, 0, 41, 0, 0, 0, 5, 1, 224, 3, 0, 0, 0, 0, 1, 0, 0,
    0, 0, 0, 0, 0, 0, 8, 59, 0, 0, 160, 0, 0, 0, 5, 1, 224, 3, 0, 0, 0, 0, 12, 0, 1, 0, 0, 0, 0, 0, 0, 245, 58, 0, 0,
    19, 0, 0, 0, 5, 1, 224, 3, 0, 0, 0, 0, 108, 0, 0, 0, 0, 0, 0, 0, 0, 218, 58, 0, 0, 27, 0, 0, 0]), (14541, [7, 0,
    0, 0, 0, 0, 0, 0, 6, 0, 0, 0, 0, 0, 0, 0, 0, 0, 0, 0, 0, 112, 108, 97, 105, 110, 10, 2, 0, 0, 0, 0, 0, 0, 0, 9,
    0, 112, 108, 97, 105, 110, 46, 116, 120, 116, 7, 0, 0, 0, 0, 0, 0, 0, 0, 0, 0, 0, 0, 0, 0, 0, 6, 0, 0, 0, 0, 0,
    0, 0, 6, 0, 0, 0, 0, 0, 0, 0, 0, 0, 0, 0, 0, 0, 0, 0, 1, 0, 0, 0, 235, 3, 0, 0, 235, 3, 0, 0, 180, 129]), (58,
    [102, 191, 176, 106, 0, 0, 0, 0, 0, 0, 0, 0, 102, 191, 176, 106, 0, 0, 0, 0, 0, 0, 0, 0, 102, 191, 176, 106]),
    (20, [7, 0, 0, 0, 0, 0, 0, 0, 20, 0, 0, 0, 0, 0, 0, 0, 0, 0, 0, 0, 0, 104, 97, 114, 100, 45, 108, 105, 110, 107,
    101, 100, 32, 112, 97, 121, 108, 111, 97, 100, 10, 2, 0, 0, 0, 0, 0, 0, 0, 15, 0, 115, 101, 99, 111, 110, 100,
    95, 110, 97, 109, 101, 46, 116, 120, 116, 3, 0, 0, 0, 0, 0, 0, 0, 12, 0, 104, 97, 114, 100, 108, 105, 110, 107,
    46, 116, 120, 116, 5, 0, 0, 0, 0, 0, 0, 0, 10, 0, 116, 97, 114, 103, 101, 116, 46, 116, 120, 116, 7, 0, 0, 0, 0,
    0, 0, 0, 0, 0, 0, 0, 0, 0, 0, 0, 20, 0, 0, 0, 0, 0, 0, 0, 20, 0, 0, 0, 0, 0, 0, 0, 0, 0, 0, 0, 0, 0, 0, 0, 3, 0,
    0, 0, 235, 3, 0, 0, 235, 3, 0, 0, 180, 129]), (58, [102, 191, 176, 106, 0, 0, 0, 0, 0, 0, 0, 0, 102, 191, 176,
    106, 0, 0, 0, 0, 0, 0, 0, 0, 102, 191, 176, 106]), (20, [4, 1, 224, 3, 0, 0, 0, 0, 1, 0, 0, 0, 0, 0, 0, 0, 0, 0,
    0, 0, 0, 102, 191, 176, 106, 0, 0, 15, 0, 1, 115, 101, 99, 111, 110, 100, 95, 110, 97, 109, 101, 46, 116, 120,
    116, 4, 1, 224, 3, 0, 0, 0, 0, 1, 0, 0, 0, 0, 0, 0, 0, 0, 0, 0, 0, 0, 102, 191, 176, 106, 0, 0, 15, 0, 1, 115,
    101, 99, 111, 110, 100, 95, 110, 97, 109, 101, 46, 116, 120, 116, 4, 0, 0, 0, 0, 0, 0, 0, 3, 0, 100, 105, 114, 7,
    0, 0, 0, 0, 0, 0, 0, 0, 0, 0, 0, 0, 0, 0, 0, 30]), (23, [1, 0, 0, 0, 235, 3, 0, 0, 235, 3, 0, 0, 253, 65]), (58,
    [102, 191, 176, 106, 0, 0, 0, 0, 0, 0, 0, 0, 102, 191, 176, 106, 0, 0, 0, 0, 0, 0, 0, 0, 102, 191, 176, 106]),
    (20, [4, 1, 224, 3, 0, 0, 0, 0, 1, 0, 0, 0, 0, 0, 0, 0, 0, 191, 176, 106, 0, 0, 0, 0, 0, 0, 0, 10, 0, 1, 116, 97,
    114, 103, 101, 116, 46, 116, 120, 116, 3, 1, 224, 3, 0, 0, 0, 0, 1]), (18, [3, 0, 2, 100, 105, 114, 4, 1, 224, 3,
    0, 0, 0, 0, 1, 0, 0, 0, 0, 0, 0, 0, 0, 0, 102, 191, 176, 106, 0, 0, 0, 0, 0, 12, 0, 1, 104, 97, 114, 100, 108,
    105, 110, 107, 46, 116, 120, 116, 5, 1, 224, 3, 0, 0, 0, 0, 1]), (18, [9, 0, 1, 112, 108, 97, 105, 110, 46, 116,
    120, 116, 4, 1, 224, 3, 0, 0, 0, 0, 1]), (18, [10, 0, 1, 116, 97, 114, 103, 101, 116, 46, 116, 120, 116, 5, 1,
    224, 3, 0, 0, 0, 0, 1]), (18, [9, 0, 1, 112, 108, 97, 105, 110, 46, 116, 120, 116, 4, 1, 224, 3, 0, 0, 0, 0, 1]),
    (18, [12, 0, 1, 104, 97, 114, 100, 108, 105, 110, 107, 46, 116, 120, 116, 3, 1, 224, 3, 0, 0, 0, 0, 1, 0, 0, 0,
    0, 0, 0, 0, 0, 0, 12, 0, 1, 104, 97, 114, 100, 0, 0, 3, 0, 2, 100, 105, 114, 0, 0, 0, 0, 0, 0, 0, 0, 2, 0, 46,
    46, 3, 0, 0, 0, 0, 0, 0, 0, 0, 0, 0, 0, 0, 0, 0, 0, 68, 0, 0, 0, 0, 0, 0, 0, 0, 64, 0, 0, 0, 0, 0, 0, 0, 0, 0, 0,
    0, 0, 0, 0, 1, 0, 0, 0, 235, 3, 0, 0, 235, 3, 0, 0, 253, 65]), (58, [102, 191, 176, 106, 0, 0, 0, 0, 0, 0, 0, 0,
    102, 191, 176, 106, 0, 0, 0, 0, 0, 0, 0, 0, 102, 191, 176, 106]), (20, [])]"

definition hardlink_leaf_header :: header where
  "hardlink_leaf_header =
    \<lparr> h_csum = [135, 23, 67, 199], h_fsid = [117, 193, 225, 147, 243, 1, 70, 185, 167, 167, 224, 130, 245, 99,
    81, 41], h_bytenr = 30441472, h_flags = 72057594037927937, h_chunk_tree_uuid = [52, 56, 64, 183, 177, 8, 74, 45,
    177, 22, 161, 26, 137, 204, 246, 56], h_generation = 7, h_owner = 5, h_nritems = 21, h_level = 0 \<rparr>"

definition hardlink_leaf_items :: "(disk_key \<times> bytes) list" where
  "hardlink_leaf_items =
    [(\<lparr>k_objectid = 256, k_type = 1, k_offset = 0\<rparr>, [3, 0, 0, 0, 0, 0, 0, 0, 0, 0, 0, 0, 0, 0, 0, 0,
    68, 0, 0, 0, 0, 0, 0, 0, 0, 64, 0, 0, 0, 0, 0, 0, 0, 0, 0, 0, 0, 0, 0, 0, 1, 0, 0, 0, 235, 3, 0, 0, 235, 3, 0, 0,
    253, 65, 0, 0, 0, 0, 0, 0, 0, 0, 0, 0, 0, 0, 0, 0, 0, 0, 0, 0, 0, 0, 0, 0, 0, 0, 0, 0, 0, 0, 0, 0, 0, 0, 0, 0, 0,
    0, 0, 0, 0, 0, 0, 0, 0, 0, 0, 0, 0, 0, 0, 0, 0, 0, 0, 0, 0, 0, 0, 0, 102, 191, 176, 106, 0, 0, 0, 0, 0, 0, 0, 0,
    102, 191, 176, 106, 0, 0, 0, 0, 0, 0, 0, 0, 102, 191, 176, 106, 0, 0, 0, 0, 0, 0, 0, 0, 0, 0, 0, 0, 0, 0, 0, 0,
    0, 0, 0, 0]), (\<lparr>k_objectid = 256, k_type = 12, k_offset = 256\<rparr>, [0, 0, 0, 0, 0, 0, 0, 0, 2, 0, 46,
    46]), (\<lparr>k_objectid = 256, k_type = 84, k_offset = 481053471\<rparr>, [3, 1, 224, 3, 0, 0, 0, 0, 1, 0, 0,
    0, 0, 0, 0, 0, 0, 0, 12, 0, 1, 104, 97, 114, 100, 0, 0, 3, 0, 2, 100, 105, 114]), (\<lparr>k_objectid = 256,
    k_type = 84, k_offset = 890354509\<rparr>, [4, 1, 224, 3, 0, 0, 0, 0, 1, 0, 0, 0, 0, 0, 0, 0, 0, 0, 0, 0, 0, 0,
    0, 0, 0, 0, 0, 12, 0, 1, 104, 97, 114, 100, 108, 105, 110, 107, 46, 116, 120, 116]), (\<lparr>k_objectid = 256,
    k_type = 84, k_offset = 1631245412\<rparr>, [5, 1, 224, 3, 0, 0, 0, 0, 1, 0, 0, 0, 0, 0, 0, 0, 0, 0, 0, 0, 0, 0,
    0, 0, 0, 0, 0, 9, 0, 1, 112, 108, 97, 105, 110, 46, 116, 120, 116]), (\<lparr>k_objectid = 256, k_type = 84,
    k_offset = 3797228392\<rparr>, [4, 1, 224, 3, 0, 0, 0, 0, 1, 0, 0, 0, 0, 0, 0, 0, 0, 0, 0, 0, 0, 0, 0, 0, 0, 0,
    0, 10, 0, 1, 116, 97, 114, 103, 101, 116, 46, 116, 120, 116]), (\<lparr>k_objectid = 256, k_type = 96, k_offset =
    2\<rparr>, [5, 1, 224, 3, 0, 0, 0, 0, 1, 0, 0, 0, 0, 0, 0, 0, 0, 0, 0, 0, 0, 0, 0, 0, 0, 0, 0, 9, 0, 1, 112, 108,
    97, 105, 110, 46, 116, 120, 116]), (\<lparr>k_objectid = 256, k_type = 96, k_offset = 3\<rparr>, [4, 1, 224, 3,
    0, 0, 0, 0, 1, 0, 0, 0, 0, 0, 0, 0, 0, 0, 102, 191, 176, 106, 0, 0, 0, 0, 0, 12, 0, 1, 104, 97, 114, 100, 108,
    105, 110, 107, 46, 116, 120, 116]), (\<lparr>k_objectid = 256, k_type = 96, k_offset = 4\<rparr>, [3, 1, 224, 3,
    0, 0, 0, 0, 1, 0, 0, 0, 0, 0, 0, 0, 0, 0, 0, 0, 0, 0, 0, 0, 0, 0, 0, 3, 0, 2, 100, 105, 114]),
    (\<lparr>k_objectid = 256, k_type = 96, k_offset = 5\<rparr>, [4, 1, 224, 3, 0, 0, 0, 0, 1, 0, 0, 0, 0, 0, 0, 0,
    0, 191, 176, 106, 0, 0, 0, 0, 0, 0, 0, 10, 0, 1, 116, 97, 114, 103, 101, 116, 46, 116, 120, 116]),
    (\<lparr>k_objectid = 65011971, k_type = 1, k_offset = 0\<rparr>, [7, 0, 0, 0, 0, 0, 0, 0, 0, 0, 0, 0, 0, 0, 0,
    0, 30, 0, 0, 0, 0, 0, 0, 0, 0, 0, 0, 0, 0, 0, 0, 0, 0, 0, 0, 0, 0, 0, 0, 0, 1, 0, 0, 0, 235, 3, 0, 0, 235, 3, 0,
    0, 253, 65, 0, 0, 0, 0, 0, 0, 0, 0, 0, 0, 0, 0, 0, 0, 0, 0, 0, 0, 0, 0, 0, 0, 0, 0, 0, 0, 0, 0, 0, 0, 0, 0, 0, 0,
    0, 0, 0, 0, 0, 0, 0, 0, 0, 0, 0, 0, 0, 0, 0, 0, 0, 0, 0, 0, 0, 0, 0, 0, 102, 191, 176, 106, 0, 0, 0, 0, 0, 0, 0,
    0, 102, 191, 176, 106, 0, 0, 0, 0, 0, 0, 0, 0, 102, 191, 176, 106, 0, 0, 0, 0, 0, 0, 0, 0, 0, 0, 0, 0, 0, 0, 0,
    0, 0, 0, 0, 0]), (\<lparr>k_objectid = 65011971, k_type = 12, k_offset = 256\<rparr>, [4, 0, 0, 0, 0, 0, 0, 0, 3,
    0, 100, 105, 114]), (\<lparr>k_objectid = 65011971, k_type = 84, k_offset = 1413020557\<rparr>, [4, 1, 224, 3, 0,
    0, 0, 0, 1, 0, 0, 0, 0, 0, 0, 0, 0, 0, 0, 0, 0, 102, 191, 176, 106, 0, 0, 15, 0, 1, 115, 101, 99, 111, 110, 100,
    95, 110, 97, 109, 101, 46, 116, 120, 116]), (\<lparr>k_objectid = 65011971, k_type = 96, k_offset = 2\<rparr>,
    [4, 1, 224, 3, 0, 0, 0, 0, 1, 0, 0, 0, 0, 0, 0, 0, 0, 0, 0, 0, 0, 102, 191, 176, 106, 0, 0, 15, 0, 1, 115, 101,
    99, 111, 110, 100, 95, 110, 97, 109, 101, 46, 116, 120, 116]), (\<lparr>k_objectid = 65011972, k_type = 1,
    k_offset = 0\<rparr>, [7, 0, 0, 0, 0, 0, 0, 0, 0, 0, 0, 0, 0, 0, 0, 0, 20, 0, 0, 0, 0, 0, 0, 0, 20, 0, 0, 0, 0,
    0, 0, 0, 0, 0, 0, 0, 0, 0, 0, 0, 3, 0, 0, 0, 235, 3, 0, 0, 235, 3, 0, 0, 180, 129, 0, 0, 0, 0, 0, 0, 0, 0, 0, 0,
    0, 0, 0, 0, 0, 0, 0, 0, 0, 0, 0, 0, 0, 0, 0, 0, 0, 0, 0, 0, 0, 0, 0, 0, 0, 0, 0, 0, 0, 0, 0, 0, 0, 0, 0, 0, 0, 0,
    0, 0, 0, 0, 0, 0, 0, 0, 0, 0, 102, 191, 176, 106, 0, 0, 0, 0, 0, 0, 0, 0, 102, 191, 176, 106, 0, 0, 0, 0, 0, 0,
    0, 0, 102, 191, 176, 106, 0, 0, 0, 0, 0, 0, 0, 0, 0, 0, 0, 0, 0, 0, 0, 0, 0, 0, 0, 0]), (\<lparr>k_objectid =
    65011972, k_type = 12, k_offset = 256\<rparr>, [3, 0, 0, 0, 0, 0, 0, 0, 12, 0, 104, 97, 114, 100, 108, 105, 110,
    107, 46, 116, 120, 116, 5, 0, 0, 0, 0, 0, 0, 0, 10, 0, 116, 97, 114, 103, 101, 116, 46, 116, 120, 116]),
    (\<lparr>k_objectid = 65011972, k_type = 12, k_offset = 65011971\<rparr>, [2, 0, 0, 0, 0, 0, 0, 0, 15, 0, 115,
    101, 99, 111, 110, 100, 95, 110, 97, 109, 101, 46, 116, 120, 116]), (\<lparr>k_objectid = 65011972, k_type = 108,
    k_offset = 0\<rparr>, [7, 0, 0, 0, 0, 0, 0, 0, 20, 0, 0, 0, 0, 0, 0, 0, 0, 0, 0, 0, 0, 104, 97, 114, 100, 45,
    108, 105, 110, 107, 101, 100, 32, 112, 97, 121, 108, 111, 97, 100, 10]), (\<lparr>k_objectid = 65011973, k_type =
    1, k_offset = 0\<rparr>, [7, 0, 0, 0, 0, 0, 0, 0, 0, 0, 0, 0, 0, 0, 0, 0, 6, 0, 0, 0, 0, 0, 0, 0, 6, 0, 0, 0, 0,
    0, 0, 0, 0, 0, 0, 0, 0, 0, 0, 0, 1, 0, 0, 0, 235, 3, 0, 0, 235, 3, 0, 0, 180, 129, 0, 0, 0, 0, 0, 0, 0, 0, 0, 0,
    0, 0, 0, 0, 0, 0, 0, 0, 0, 0, 0, 0, 0, 0, 0, 0, 0, 0, 0, 0, 0, 0, 0, 0, 0, 0, 0, 0, 0, 0, 0, 0, 0, 0, 0, 0, 0, 0,
    0, 0, 0, 0, 0, 0, 0, 0, 0, 0, 102, 191, 176, 106, 0, 0, 0, 0, 0, 0, 0, 0, 102, 191, 176, 106, 0, 0, 0, 0, 0, 0,
    0, 0, 102, 191, 176, 106, 0, 0, 0, 0, 0, 0, 0, 0, 0, 0, 0, 0, 0, 0, 0, 0, 0, 0, 0, 0]), (\<lparr>k_objectid =
    65011973, k_type = 12, k_offset = 256\<rparr>, [2, 0, 0, 0, 0, 0, 0, 0, 9, 0, 112, 108, 97, 105, 110, 46, 116,
    120, 116]), (\<lparr>k_objectid = 65011973, k_type = 108, k_offset = 0\<rparr>, [7, 0, 0, 0, 0, 0, 0, 0, 6, 0, 0,
    0, 0, 0, 0, 0, 0, 0, 0, 0, 0, 112, 108, 97, 105, 110, 10])]"

section \<open>Their layout\<close>

lemma zeros_small:
  "zeros 0 = []"
  "zeros 1 = [0]"
  "zeros 3 = [0, 0, 0]"
  "zeros 18 = [0, 0, 0, 0, 0, 0, 0, 0, 0, 0, 0, 0, 0, 0, 0, 0, 0, 0]"
  "zeros 20 = [0, 0, 0, 0, 0, 0, 0, 0, 0, 0, 0, 0, 0, 0, 0, 0, 0, 0, 0, 0]"
  "zeros 23 = [0, 0, 0, 0, 0, 0, 0, 0, 0, 0, 0, 0, 0, 0, 0, 0, 0, 0, 0, 0, 0, 0, 0]"
  "zeros 32 = [0, 0, 0, 0, 0, 0, 0, 0, 0, 0, 0, 0, 0, 0, 0, 0, 0, 0, 0, 0, 0, 0, 0, 0, 0, 0, 0, 0, 0, 0, 0, 0]"
  "zeros 39 = [0, 0, 0, 0, 0, 0, 0, 0, 0, 0, 0, 0, 0, 0, 0, 0, 0, 0, 0, 0, 0, 0, 0, 0, 0, 0, 0, 0, 0, 0, 0, 0, 0, 0, 0, 0, 0, 0, 0]"
  "zeros 58 = [0, 0, 0, 0, 0, 0, 0, 0, 0, 0, 0, 0, 0, 0, 0, 0, 0, 0, 0, 0, 0, 0, 0, 0, 0, 0, 0, 0, 0, 0, 0, 0, 0, 0, 0, 0, 0, 0, 0, 0, 0, 0, 0, 0, 0, 0, 0, 0, 0, 0, 0, 0, 0, 0, 0, 0, 0, 0]"
  by (simp_all add: zeros_def numeral_eq_Suc)

lemmas layout_simps = runs_def zeros_small encode_leaf_def encode_header_def encode_item_header_def
  encode_disk_key_def data_size_def to_le_bytes_def nat_le_numeral

definition chunk_root_leaf_gap :: bytes where
  "chunk_root_leaf_gap =
    runs [(1, [1, 0, 0, 0, 0, 0, 0, 228, 0, 0, 208, 1, 0, 0, 0, 0, 9, 62, 0, 0, 112, 0, 0, 0, 0, 1, 0, 0, 0, 0, 0, 0,
    228, 0, 0, 208, 1, 0, 0, 0, 0, 185, 61, 0, 0, 112]), (15577, [2, 0, 0, 0, 0, 2, 0, 0, 0, 0, 0, 0, 0, 0, 0, 1, 0,
    0, 0, 0, 0, 36, 0, 0, 0, 0, 0, 0, 0, 0, 0, 1, 0, 0, 0, 1, 0, 0, 16, 0, 0, 2, 0, 1, 0, 1, 0, 0, 0, 0, 0, 0, 0, 0,
    0, 80, 2, 0, 0, 0, 0, 225, 239, 233, 78, 98, 144, 70, 158, 185, 123, 112, 62, 72, 66, 127, 101, 0, 0, 0, 2, 0, 0,
    0, 0, 2, 0, 0, 0, 0, 0, 0, 0, 0, 0, 1, 0, 0, 0, 0, 0, 36, 0, 0, 0, 0, 0, 0, 0, 0, 0, 1, 0, 0, 0, 1, 0, 0, 16, 0,
    0, 2, 0, 1, 0, 1, 0, 0, 0, 0, 0, 0, 0, 0, 0, 80, 2, 0, 0, 0, 0, 225, 239, 233, 78, 98, 144, 70, 158, 185, 123,
    112, 62, 72, 66, 127, 101])]"

lemma chunk_root_leaf_layout: "chunk_root_leaf = encode_leaf chunk_root_leaf_header chunk_root_leaf_gap chunk_root_leaf_items"
  by (simp add: chunk_root_leaf_def chunk_root_leaf_header_def chunk_root_leaf_items_def chunk_root_leaf_gap_def layout_simps)

lemma del_old_leaf_layout: "del_old_leaf = encode_leaf del_old_leaf_header (zeros 15158) del_old_leaf_items"
  by (simp add: del_old_leaf_def del_old_leaf_header_def del_old_leaf_items_def layout_simps)

lemma del_current_leaf_layout: "del_current_leaf = encode_leaf del_current_leaf_header (zeros 15644) del_current_leaf_items"
  by (simp add: del_current_leaf_def del_current_leaf_header_def del_current_leaf_items_def layout_simps)

lemma hardlink_leaf_layout: "hardlink_leaf = encode_leaf hardlink_leaf_header (zeros 14541) hardlink_leaf_items"
  by (simp add: hardlink_leaf_def hardlink_leaf_header_def hardlink_leaf_items_def layout_simps)

section \<open>Their checksums\<close>

lemma chunk_root_leaf_digest: "crc32c_ref (drop 32 chunk_root_leaf) = from_le_bytes (h_csum chunk_root_leaf_header)"
  unfolding chunk_root_leaf_def by (subst crc32c_block) (simp_all add: crc_eval chunk_root_leaf_header_def from_le_bytes_def)

lemma del_old_leaf_digest: "crc32c_ref (drop 32 del_old_leaf) = from_le_bytes (h_csum del_old_leaf_header)"
  unfolding del_old_leaf_def by (subst crc32c_block) (simp_all add: crc_eval del_old_leaf_header_def from_le_bytes_def)

lemma del_current_leaf_digest: "crc32c_ref (drop 32 del_current_leaf) = from_le_bytes (h_csum del_current_leaf_header)"
  unfolding del_current_leaf_def by (subst crc32c_block) (simp_all add: crc_eval del_current_leaf_header_def from_le_bytes_def)

lemma oracle_superblock_digest: "crc32c_ref (drop 32 oracle_superblock) = from_le_bytes [217, 19, 111, 96]"
  unfolding oracle_superblock_def by (subst crc32c_block) (simp_all add: crc_eval from_le_bytes_def)

section \<open>Reading such a leaf\<close>

lemma leaf_of_layout:
  assumes layout: "block = encode_leaf h gap its" and wf: "wf_leaf h gap its"
    and digest: "crc32c_ref (drop 32 block) = from_le_bytes (h_csum h)"
  obtains n where "node_parse crc32c_ref block = Inr n" and "n_header n = h" and "leaf_items n = its"
    and "is_leaf n" and "n_crc_valid n = Some True"
proof -
  obtain n where n: "node_parse crc32c_ref (encode_leaf h gap its) = Inr n"
    using leaf_roundtrip [OF wf] by blast
  note parsed = encode_leaf_items [OF wf n]
  have "take 4 block = h_csum h" "32 < length block"
    using wf by (simp_all add: layout encode_leaf_def encode_header_def wf_leaf_def wf_header_def)
  moreover from this have "verify_superblock_crc32c crc32c_ref block (length block)"
    using wf digest by (simp add: verify_iff wf_leaf_def wf_header_def to_from_le_bytes)
  ultimately show thesis
    using that n parsed by (simp add: layout node_parse_Inr_iff)
qed

lemma chunk_root_leaf_node:
  obtains n where "node_parse crc32c_ref chunk_root_leaf = Inr n" and "n_header n = chunk_root_leaf_header" and "leaf_items n = chunk_root_leaf_items"
    and "is_leaf n" and "n_crc_valid n = Some True"
proof (rule leaf_of_layout [OF chunk_root_leaf_layout _ chunk_root_leaf_digest])
  show "wf_leaf chunk_root_leaf_header chunk_root_leaf_gap chunk_root_leaf_items"
    by (simp add: wf_leaf_def wf_header_def data_size_def chunk_root_leaf_header_def chunk_root_leaf_items_def chunk_root_leaf_gap_def runs_def)
qed (use that in blast)

lemma del_old_leaf_node:
  obtains n where "node_parse crc32c_ref del_old_leaf = Inr n" and "n_header n = del_old_leaf_header" and "leaf_items n = del_old_leaf_items"
    and "is_leaf n" and "n_crc_valid n = Some True"
proof (rule leaf_of_layout [OF del_old_leaf_layout _ del_old_leaf_digest])
  show "wf_leaf del_old_leaf_header (zeros 15158) del_old_leaf_items"
    by (simp add: wf_leaf_def wf_header_def data_size_def del_old_leaf_header_def del_old_leaf_items_def)
qed (use that in blast)

lemma del_current_leaf_node:
  obtains n where "node_parse crc32c_ref del_current_leaf = Inr n" and "n_header n = del_current_leaf_header" and "leaf_items n = del_current_leaf_items"
    and "is_leaf n" and "n_crc_valid n = Some True"
proof (rule leaf_of_layout [OF del_current_leaf_layout _ del_current_leaf_digest])
  show "wf_leaf del_current_leaf_header (zeros 15644) del_current_leaf_items"
    by (simp add: wf_leaf_def wf_header_def data_size_def del_current_leaf_header_def del_current_leaf_items_def)
qed (use that in blast)

end
