(* ===== verification/Oracle_Fs_Data.thy ===== *)
theory Oracle_Fs_Data
  imports Oracle_Data
begin

text \<open>
  Two more leaves of real disks: the FS tree of the disk that the listing and reading tests use, and one with
  extended attributes, among them one of 2000 bytes.
\<close>

section \<open>An FS tree\<close>

text \<open>\<open>tests/data/btrfs_fs_tree_leaf.bin\<close>, its header and its items.\<close>

definition fs_tree_leaf :: bytes where
  "fs_tree_leaf = runs
    [(0, [197, 110, 211, 46]), (28, [254, 149, 153, 203, 226, 9, 77, 92, 183, 52, 100, 44, 69, 127, 188, 1, 0, 192,
    211, 1, 0, 0, 0, 0, 1, 0, 0, 0, 0, 0, 0, 1, 5, 236, 128, 70, 51, 89, 67, 21, 166, 195, 133, 73, 85, 59, 43, 235,
    8, 0, 0, 0, 0, 0, 0, 0, 5, 0, 0, 0, 0, 0, 0, 0, 25, 0, 0, 0, 0, 0, 1, 0, 0, 0, 0, 0, 0, 1, 0, 0, 0, 0, 0, 0, 0,
    0, 251, 62, 0, 0, 160, 0, 0, 0, 0, 1, 0, 0, 0, 0, 0, 0, 12, 0, 1, 0, 0, 0, 0, 0, 0, 239, 62, 0, 0, 12, 0, 0, 0,
    0, 1, 0, 0, 0, 0, 0, 0, 84, 92, 38, 78, 28, 0, 0, 0, 0, 200, 62, 0, 0, 39, 0, 0, 0, 0, 1, 0, 0, 0, 0, 0, 0, 84,
    31, 75, 172, 28, 0, 0, 0, 0, 167, 62, 0, 0, 33, 0, 0, 0, 0, 1, 0, 0, 0, 0, 0, 0, 84, 173, 104, 100, 111, 0, 0, 0,
    0, 130, 62, 0, 0, 37, 0, 0, 0, 0, 1, 0, 0, 0, 0, 0, 0, 96, 2, 0, 0, 0, 0, 0, 0, 0, 91, 62, 0, 0, 39, 0, 0, 0, 0,
    1, 0, 0, 0, 0, 0, 0, 96, 3, 0, 0, 0, 0, 0, 0, 0, 54, 62, 0, 0, 37, 0, 0, 0, 0, 1, 0, 0, 0, 0, 0, 0, 96, 4, 0, 0,
    0, 0, 0, 0, 0, 21, 62, 0, 0, 33, 0, 0, 0, 1, 1, 0, 0, 0, 0, 0, 0, 1, 0, 0, 0, 0, 0, 0, 0, 0, 117, 61, 0, 0, 160,
    0, 0, 0, 1, 1, 0, 0, 0, 0, 0, 0, 12, 0, 1, 0, 0, 0, 0, 0, 0, 98, 61, 0, 0, 19, 0, 0, 0, 1, 1, 0, 0, 0, 0, 0, 0,
    108, 0, 0, 0, 0, 0, 0, 0, 0, 51, 61, 0, 0, 47, 0, 0, 0, 2, 1, 0, 0, 0, 0, 0, 0, 1, 0, 0, 0, 0, 0, 0, 0, 0, 147,
    60, 0, 0, 160, 0, 0, 0, 2, 1, 0, 0, 0, 0, 0, 0, 12, 0, 1, 0, 0, 0, 0, 0, 0, 130, 60, 0, 0, 17, 0, 0, 0, 2, 1, 0,
    0, 0, 0, 0, 0, 108, 0, 0, 0, 0, 0, 0, 0, 0, 77, 60, 0, 0, 53, 0, 0, 0, 3, 1, 0, 0, 0, 0, 0, 0, 1, 0, 0, 0, 0, 0,
    0, 0, 0, 173, 59, 0, 0, 160, 0, 0, 0, 3, 1, 0, 0, 0, 0, 0, 0, 12, 0, 1, 0, 0, 0, 0, 0, 0, 160, 59, 0, 0, 13, 0,
    0, 0, 3, 1, 0, 0, 0, 0, 0, 0, 84, 118, 198, 251, 228, 0, 0, 0, 0, 127, 59, 0, 0, 33, 0, 0, 0, 3, 1, 0, 0, 0, 0,
    0, 0, 96, 2, 0, 0, 0, 0, 0, 0, 0, 94, 59, 0, 0, 33, 0, 0, 0, 4, 1, 0, 0, 0, 0, 0, 0, 1, 0, 0, 0, 0, 0, 0, 0, 0,
    190, 58, 0, 0, 160, 0, 0, 0, 4, 1, 0, 0, 0, 0, 0, 0, 12, 3, 1, 0, 0, 0, 0, 0, 0, 177, 58, 0, 0, 13, 0, 0, 0, 4,
    1, 0, 0, 0, 0, 0, 0, 84, 145, 254, 170, 165, 0, 0, 0, 0, 139, 58, 0, 0, 38, 0, 0, 0, 4, 1, 0, 0, 0, 0, 0, 0, 96,
    2, 0, 0, 0, 0, 0, 0, 0, 101, 58, 0, 0, 38, 0, 0, 0, 5, 1, 0, 0, 0, 0, 0, 0, 1, 0, 0, 0, 0, 0, 0, 0, 0, 197, 57,
    0, 0, 160, 0, 0, 0, 5, 1, 0, 0, 0, 0, 0, 0, 12, 4, 1, 0, 0, 0, 0, 0, 0, 179, 57, 0, 0, 18, 0, 0, 0, 5, 1, 0, 0,
    0, 0, 0, 0, 108, 0, 0, 0, 0, 0, 0, 0, 0, 138, 57, 0, 0, 41, 0, 0, 0]), (14105, [7, 0, 0, 0, 0, 0, 0, 0, 20, 0, 0,
    0, 0, 0, 0, 0, 0, 0, 0, 0, 0, 110, 101, 115, 116, 101, 100, 32, 108, 101, 97, 102, 32, 99, 111, 110, 116, 101,
    110, 116, 10, 2, 0, 0, 0, 0, 0, 0, 0, 8, 0, 108, 101, 97, 102, 46, 116, 120, 116, 7, 0, 0, 0, 0, 0, 0, 0, 8, 0,
    0, 0, 0, 0, 0, 0, 20, 0, 0, 0, 0, 0, 0, 0, 20, 0, 0, 0, 0, 0, 0, 0, 0, 0, 0, 0, 0, 0, 0, 0, 1, 0, 0, 0, 0, 0, 0,
    0, 0, 0, 0, 0, 164, 129]), (18, [1]), (39, [236, 145, 84, 106, 0, 0, 0, 0, 159, 238, 5, 15, 236, 145, 84, 106, 0,
    0, 0, 0, 95, 127, 197, 13, 236, 145, 84, 106, 0, 0, 0, 0, 95, 127, 197, 13, 236, 145, 84, 106, 0, 0, 0, 0, 95,
    127, 197, 13, 5, 1, 0, 0, 0, 0, 0, 0, 1, 0, 0, 0, 0, 0, 0, 0, 0, 7, 0, 0, 0, 0, 0, 0, 0, 0, 0, 8, 0, 1, 108, 101,
    97, 102, 46, 116, 120, 116, 5, 1, 0, 0, 0, 0, 0, 0, 1, 0, 0, 0, 0, 0, 0, 0, 0, 7, 0, 0, 0, 0, 0, 0, 0, 0, 0, 8,
    0, 1, 108, 101, 97, 102, 46, 116, 120, 116, 2, 0, 0, 0, 0, 0, 0, 0, 3, 0, 115, 117, 98, 7, 0, 0, 0, 0, 0, 0, 0,
    8, 0, 0, 0, 0, 0, 0, 0, 16]), (23, [1, 0, 0, 0, 0, 0, 0, 0, 0, 0, 0, 0, 237, 65]), (18, [1]), (39, [236, 145, 84,
    106, 0, 0, 0, 0, 95, 172, 246, 14, 236, 145, 84, 106, 0, 0, 0, 0, 95, 127, 197, 13, 236, 145, 84, 106, 0, 0, 0,
    0, 95, 127, 197, 13, 236, 145, 84, 106, 0, 0, 0, 0, 31, 52, 121, 13, 4, 1, 0, 0, 0, 0, 0, 0, 1, 0, 0, 0, 0, 0, 0,
    0, 0, 7, 0, 0, 0, 0, 0, 0, 0, 0, 0, 3, 0, 2, 115, 117, 98, 4, 1, 0, 0, 0, 0, 0, 0, 1, 0, 0, 0, 0, 0, 0, 0, 0, 7,
    0, 0, 0, 0, 0, 0, 0, 0, 0, 3, 0, 2, 115, 117, 98, 4, 0, 0, 0, 0, 0, 0, 0, 3, 0, 100, 105, 114, 7, 0, 0, 0, 0, 0,
    0, 0, 8, 0, 0, 0, 0, 0, 0, 0, 6]), (23, [1, 0, 0, 0, 0, 0, 0, 0, 0, 0, 0, 0, 237, 65]), (18, [1]), (39, [236,
    145, 84, 106, 0, 0, 0, 0, 95, 172, 246, 14, 236, 145, 84, 106, 0, 0, 0, 0, 31, 52, 121, 13, 236, 145, 84, 106, 0,
    0, 0, 0, 31, 52, 121, 13, 236, 145, 84, 106, 0, 0, 0, 0, 223, 241, 105, 13, 7, 0, 0, 0, 0, 0, 0, 0, 0, 0, 1, 0,
    0, 0, 0, 0, 0, 0, 0, 0, 1, 0, 0, 208, 0, 0, 0, 0, 0, 0, 0, 1, 0, 0, 0, 0, 0, 0, 0, 0, 0, 0, 0, 0, 0, 0, 0, 1, 0,
    0, 0, 0, 0, 3, 0, 0, 0, 0, 0, 0, 0, 7, 0, 109, 105, 100, 46, 98, 105, 110, 7, 0, 0, 0, 0, 0, 0, 0, 8, 0, 0, 0, 0,
    0, 0, 0, 0, 0, 1, 0, 0, 0, 0, 0, 0, 0, 1, 0, 0, 0, 0, 0, 0, 0, 0, 0, 0, 0, 0, 0, 1, 0, 0, 0, 0, 0, 0, 0, 0, 0, 0,
    0, 164, 129]), (18, [15]), (39, [236, 145, 84, 106, 0, 0, 0, 0, 95, 172, 246, 14, 236, 145, 84, 106, 0, 0, 0, 0,
    159, 157, 224, 12, 236, 145, 84, 106, 0, 0, 0, 0, 159, 157, 224, 12, 236, 145, 84, 106, 0, 0, 0, 0, 95, 91, 209,
    12, 7, 0, 0, 0, 0, 0, 0, 0, 26, 0, 0, 0, 0, 0, 0, 0, 0, 0, 0, 0, 0, 104, 101, 108, 108, 111, 32, 105, 110, 108,
    105, 110, 101, 32, 98, 116, 114, 102, 115, 32, 111, 114, 97, 99, 108, 101, 10, 2, 0, 0, 0, 0, 0, 0, 0, 9, 0, 115,
    109, 97, 108, 108, 46, 116, 120, 116, 7, 0, 0, 0, 0, 0, 0, 0, 8, 0, 0, 0, 0, 0, 0, 0, 26, 0, 0, 0, 0, 0, 0, 0,
    26, 0, 0, 0, 0, 0, 0, 0, 0, 0, 0, 0, 0, 0, 0, 0, 1, 0, 0, 0, 0, 0, 0, 0, 0, 0, 0, 0, 164, 129]), (18, [1]), (39,
    [236, 145, 84, 106, 0, 0, 0, 0, 95, 172, 246, 14, 236, 145, 84, 106, 0, 0, 0, 0, 31, 7, 72, 12, 236, 145, 84,
    106, 0, 0, 0, 0, 31, 7, 72, 12, 236, 145, 84, 106, 0, 0, 0, 0, 31, 7, 72, 12, 3, 1, 0, 0, 0, 0, 0, 0, 1, 0, 0, 0,
    0, 0, 0, 0, 0, 7, 0, 0, 0, 0, 0, 0, 0, 0, 0, 3, 0, 2, 100, 105, 114, 2, 1, 0, 0, 0, 0, 0, 0, 1, 0, 0, 0, 0, 0, 0,
    0, 0, 7, 0, 0, 0, 0, 0, 0, 0, 0, 0, 7, 0, 1, 109, 105, 100, 46, 98, 105, 110, 1, 1, 0, 0, 0, 0, 0, 0, 1, 0, 0, 0,
    0, 0, 0, 0, 0, 7, 0, 0, 0, 0, 0, 0, 0, 0, 0, 9, 0, 1, 115, 109, 97, 108, 108, 46, 116, 120, 116, 2, 1, 0, 0, 0,
    0, 0, 0, 1, 0, 0, 0, 0, 0, 0, 0, 0, 7, 0, 0, 0, 0, 0, 0, 0, 0, 0, 7, 0, 1, 109, 105, 100, 46, 98, 105, 110, 3, 1,
    0, 0, 0, 0, 0, 0, 1, 0, 0, 0, 0, 0, 0, 0, 0, 7, 0, 0, 0, 0, 0, 0, 0, 0, 0, 3, 0, 2, 100, 105, 114, 1, 1, 0, 0, 0,
    0, 0, 0, 1, 0, 0, 0, 0, 0, 0, 0, 0, 7, 0, 0, 0, 0, 0, 0, 0, 0, 0, 9, 0, 1, 115, 109, 97, 108, 108, 46, 116, 120,
    116, 0, 0, 0, 0, 0, 0, 0, 0, 2, 0, 46, 46, 3, 0, 0, 0, 0, 0, 0, 0, 8, 0, 0, 0, 0, 0, 0, 0, 38, 0, 0, 0, 0, 0, 0,
    0, 0, 64, 0, 0, 0, 0, 0, 0, 0, 0, 0, 0, 0, 0, 0, 0, 1, 0, 0, 0, 0, 0, 0, 0, 0, 0, 0, 0, 237, 65]), (18, [3]),
    (39, [236, 145, 84, 106, 0, 0, 0, 0, 31, 106, 231, 14, 236, 145, 84, 106, 0, 0, 0, 0, 223, 241, 105, 13, 236,
    145, 84, 106, 0, 0, 0, 0, 223, 241, 105, 13, 236, 145, 84, 106, 0, 0, 0, 0, 0, 0, 0, 0])]"

definition fs_tree_leaf_header :: header where
  "fs_tree_leaf_header =
    \<lparr> h_csum = [197, 110, 211, 46], h_fsid = [254, 149, 153, 203, 226, 9, 77, 92, 183, 52, 100, 44, 69, 127,
    188, 1], h_bytenr = 30654464, h_flags = 72057594037927937, h_chunk_tree_uuid = [5, 236, 128, 70, 51, 89, 67, 21,
    166, 195, 133, 73, 85, 59, 43, 235], h_generation = 8, h_owner = 5, h_nritems = 25, h_level = 0 \<rparr>"

definition fs_tree_leaf_items :: "(disk_key \<times> bytes) list" where
  "fs_tree_leaf_items =
    [(\<lparr>k_objectid = 256, k_type = 1, k_offset = 0\<rparr>, [3, 0, 0, 0, 0, 0, 0, 0, 8, 0, 0, 0, 0, 0, 0, 0,
    38, 0, 0, 0, 0, 0, 0, 0, 0, 64, 0, 0, 0, 0, 0, 0, 0, 0, 0, 0, 0, 0, 0, 0, 1, 0, 0, 0, 0, 0, 0, 0, 0, 0, 0, 0,
    237, 65, 0, 0, 0, 0, 0, 0, 0, 0, 0, 0, 0, 0, 0, 0, 0, 0, 0, 0, 3, 0, 0, 0, 0, 0, 0, 0, 0, 0, 0, 0, 0, 0, 0, 0, 0,
    0, 0, 0, 0, 0, 0, 0, 0, 0, 0, 0, 0, 0, 0, 0, 0, 0, 0, 0, 0, 0, 0, 0, 236, 145, 84, 106, 0, 0, 0, 0, 31, 106, 231,
    14, 236, 145, 84, 106, 0, 0, 0, 0, 223, 241, 105, 13, 236, 145, 84, 106, 0, 0, 0, 0, 223, 241, 105, 13, 236, 145,
    84, 106, 0, 0, 0, 0, 0, 0, 0, 0]), (\<lparr>k_objectid = 256, k_type = 12, k_offset = 256\<rparr>, [0, 0, 0, 0,
    0, 0, 0, 0, 2, 0, 46, 46]), (\<lparr>k_objectid = 256, k_type = 84, k_offset = 474883676\<rparr>, [1, 1, 0, 0, 0,
    0, 0, 0, 1, 0, 0, 0, 0, 0, 0, 0, 0, 7, 0, 0, 0, 0, 0, 0, 0, 0, 0, 9, 0, 1, 115, 109, 97, 108, 108, 46, 116, 120,
    116]), (\<lparr>k_objectid = 256, k_type = 84, k_offset = 481053471\<rparr>, [3, 1, 0, 0, 0, 0, 0, 0, 1, 0, 0, 0,
    0, 0, 0, 0, 0, 7, 0, 0, 0, 0, 0, 0, 0, 0, 0, 3, 0, 2, 100, 105, 114]), (\<lparr>k_objectid = 256, k_type = 84,
    k_offset = 1868851373\<rparr>, [2, 1, 0, 0, 0, 0, 0, 0, 1, 0, 0, 0, 0, 0, 0, 0, 0, 7, 0, 0, 0, 0, 0, 0, 0, 0, 0,
    7, 0, 1, 109, 105, 100, 46, 98, 105, 110]), (\<lparr>k_objectid = 256, k_type = 96, k_offset = 2\<rparr>, [1, 1,
    0, 0, 0, 0, 0, 0, 1, 0, 0, 0, 0, 0, 0, 0, 0, 7, 0, 0, 0, 0, 0, 0, 0, 0, 0, 9, 0, 1, 115, 109, 97, 108, 108, 46,
    116, 120, 116]), (\<lparr>k_objectid = 256, k_type = 96, k_offset = 3\<rparr>, [2, 1, 0, 0, 0, 0, 0, 0, 1, 0, 0,
    0, 0, 0, 0, 0, 0, 7, 0, 0, 0, 0, 0, 0, 0, 0, 0, 7, 0, 1, 109, 105, 100, 46, 98, 105, 110]), (\<lparr>k_objectid =
    256, k_type = 96, k_offset = 4\<rparr>, [3, 1, 0, 0, 0, 0, 0, 0, 1, 0, 0, 0, 0, 0, 0, 0, 0, 7, 0, 0, 0, 0, 0, 0,
    0, 0, 0, 3, 0, 2, 100, 105, 114]), (\<lparr>k_objectid = 257, k_type = 1, k_offset = 0\<rparr>, [7, 0, 0, 0, 0,
    0, 0, 0, 8, 0, 0, 0, 0, 0, 0, 0, 26, 0, 0, 0, 0, 0, 0, 0, 26, 0, 0, 0, 0, 0, 0, 0, 0, 0, 0, 0, 0, 0, 0, 0, 1, 0,
    0, 0, 0, 0, 0, 0, 0, 0, 0, 0, 164, 129, 0, 0, 0, 0, 0, 0, 0, 0, 0, 0, 0, 0, 0, 0, 0, 0, 0, 0, 1, 0, 0, 0, 0, 0,
    0, 0, 0, 0, 0, 0, 0, 0, 0, 0, 0, 0, 0, 0, 0, 0, 0, 0, 0, 0, 0, 0, 0, 0, 0, 0, 0, 0, 0, 0, 0, 0, 0, 0, 236, 145,
    84, 106, 0, 0, 0, 0, 95, 172, 246, 14, 236, 145, 84, 106, 0, 0, 0, 0, 31, 7, 72, 12, 236, 145, 84, 106, 0, 0, 0,
    0, 31, 7, 72, 12, 236, 145, 84, 106, 0, 0, 0, 0, 31, 7, 72, 12]), (\<lparr>k_objectid = 257, k_type = 12,
    k_offset = 256\<rparr>, [2, 0, 0, 0, 0, 0, 0, 0, 9, 0, 115, 109, 97, 108, 108, 46, 116, 120, 116]),
    (\<lparr>k_objectid = 257, k_type = 108, k_offset = 0\<rparr>, [7, 0, 0, 0, 0, 0, 0, 0, 26, 0, 0, 0, 0, 0, 0, 0,
    0, 0, 0, 0, 0, 104, 101, 108, 108, 111, 32, 105, 110, 108, 105, 110, 101, 32, 98, 116, 114, 102, 115, 32, 111,
    114, 97, 99, 108, 101, 10]), (\<lparr>k_objectid = 258, k_type = 1, k_offset = 0\<rparr>, [7, 0, 0, 0, 0, 0, 0,
    0, 8, 0, 0, 0, 0, 0, 0, 0, 0, 0, 1, 0, 0, 0, 0, 0, 0, 0, 1, 0, 0, 0, 0, 0, 0, 0, 0, 0, 0, 0, 0, 0, 1, 0, 0, 0, 0,
    0, 0, 0, 0, 0, 0, 0, 164, 129, 0, 0, 0, 0, 0, 0, 0, 0, 0, 0, 0, 0, 0, 0, 0, 0, 0, 0, 15, 0, 0, 0, 0, 0, 0, 0, 0,
    0, 0, 0, 0, 0, 0, 0, 0, 0, 0, 0, 0, 0, 0, 0, 0, 0, 0, 0, 0, 0, 0, 0, 0, 0, 0, 0, 0, 0, 0, 0, 236, 145, 84, 106,
    0, 0, 0, 0, 95, 172, 246, 14, 236, 145, 84, 106, 0, 0, 0, 0, 159, 157, 224, 12, 236, 145, 84, 106, 0, 0, 0, 0,
    159, 157, 224, 12, 236, 145, 84, 106, 0, 0, 0, 0, 95, 91, 209, 12]), (\<lparr>k_objectid = 258, k_type = 12,
    k_offset = 256\<rparr>, [3, 0, 0, 0, 0, 0, 0, 0, 7, 0, 109, 105, 100, 46, 98, 105, 110]), (\<lparr>k_objectid =
    258, k_type = 108, k_offset = 0\<rparr>, [7, 0, 0, 0, 0, 0, 0, 0, 0, 0, 1, 0, 0, 0, 0, 0, 0, 0, 0, 0, 1, 0, 0,
    208, 0, 0, 0, 0, 0, 0, 0, 1, 0, 0, 0, 0, 0, 0, 0, 0, 0, 0, 0, 0, 0, 0, 0, 1, 0, 0, 0, 0, 0]), (\<lparr>k_objectid
    = 259, k_type = 1, k_offset = 0\<rparr>, [7, 0, 0, 0, 0, 0, 0, 0, 8, 0, 0, 0, 0, 0, 0, 0, 6, 0, 0, 0, 0, 0, 0, 0,
    0, 0, 0, 0, 0, 0, 0, 0, 0, 0, 0, 0, 0, 0, 0, 0, 1, 0, 0, 0, 0, 0, 0, 0, 0, 0, 0, 0, 237, 65, 0, 0, 0, 0, 0, 0, 0,
    0, 0, 0, 0, 0, 0, 0, 0, 0, 0, 0, 1, 0, 0, 0, 0, 0, 0, 0, 0, 0, 0, 0, 0, 0, 0, 0, 0, 0, 0, 0, 0, 0, 0, 0, 0, 0, 0,
    0, 0, 0, 0, 0, 0, 0, 0, 0, 0, 0, 0, 0, 236, 145, 84, 106, 0, 0, 0, 0, 95, 172, 246, 14, 236, 145, 84, 106, 0, 0,
    0, 0, 31, 52, 121, 13, 236, 145, 84, 106, 0, 0, 0, 0, 31, 52, 121, 13, 236, 145, 84, 106, 0, 0, 0, 0, 223, 241,
    105, 13]), (\<lparr>k_objectid = 259, k_type = 12, k_offset = 256\<rparr>, [4, 0, 0, 0, 0, 0, 0, 0, 3, 0, 100,
    105, 114]), (\<lparr>k_objectid = 259, k_type = 84, k_offset = 3841705590\<rparr>, [4, 1, 0, 0, 0, 0, 0, 0, 1, 0,
    0, 0, 0, 0, 0, 0, 0, 7, 0, 0, 0, 0, 0, 0, 0, 0, 0, 3, 0, 2, 115, 117, 98]), (\<lparr>k_objectid = 259, k_type =
    96, k_offset = 2\<rparr>, [4, 1, 0, 0, 0, 0, 0, 0, 1, 0, 0, 0, 0, 0, 0, 0, 0, 7, 0, 0, 0, 0, 0, 0, 0, 0, 0, 3, 0,
    2, 115, 117, 98]), (\<lparr>k_objectid = 260, k_type = 1, k_offset = 0\<rparr>, [7, 0, 0, 0, 0, 0, 0, 0, 8, 0, 0,
    0, 0, 0, 0, 0, 16, 0, 0, 0, 0, 0, 0, 0, 0, 0, 0, 0, 0, 0, 0, 0, 0, 0, 0, 0, 0, 0, 0, 0, 1, 0, 0, 0, 0, 0, 0, 0,
    0, 0, 0, 0, 237, 65, 0, 0, 0, 0, 0, 0, 0, 0, 0, 0, 0, 0, 0, 0, 0, 0, 0, 0, 1, 0, 0, 0, 0, 0, 0, 0, 0, 0, 0, 0, 0,
    0, 0, 0, 0, 0, 0, 0, 0, 0, 0, 0, 0, 0, 0, 0, 0, 0, 0, 0, 0, 0, 0, 0, 0, 0, 0, 0, 236, 145, 84, 106, 0, 0, 0, 0,
    95, 172, 246, 14, 236, 145, 84, 106, 0, 0, 0, 0, 95, 127, 197, 13, 236, 145, 84, 106, 0, 0, 0, 0, 95, 127, 197,
    13, 236, 145, 84, 106, 0, 0, 0, 0, 31, 52, 121, 13]), (\<lparr>k_objectid = 260, k_type = 12, k_offset =
    259\<rparr>, [2, 0, 0, 0, 0, 0, 0, 0, 3, 0, 115, 117, 98]), (\<lparr>k_objectid = 260, k_type = 84, k_offset =
    2779446929\<rparr>, [5, 1, 0, 0, 0, 0, 0, 0, 1, 0, 0, 0, 0, 0, 0, 0, 0, 7, 0, 0, 0, 0, 0, 0, 0, 0, 0, 8, 0, 1,
    108, 101, 97, 102, 46, 116, 120, 116]), (\<lparr>k_objectid = 260, k_type = 96, k_offset = 2\<rparr>, [5, 1, 0,
    0, 0, 0, 0, 0, 1, 0, 0, 0, 0, 0, 0, 0, 0, 7, 0, 0, 0, 0, 0, 0, 0, 0, 0, 8, 0, 1, 108, 101, 97, 102, 46, 116, 120,
    116]), (\<lparr>k_objectid = 261, k_type = 1, k_offset = 0\<rparr>, [7, 0, 0, 0, 0, 0, 0, 0, 8, 0, 0, 0, 0, 0, 0,
    0, 20, 0, 0, 0, 0, 0, 0, 0, 20, 0, 0, 0, 0, 0, 0, 0, 0, 0, 0, 0, 0, 0, 0, 0, 1, 0, 0, 0, 0, 0, 0, 0, 0, 0, 0, 0,
    164, 129, 0, 0, 0, 0, 0, 0, 0, 0, 0, 0, 0, 0, 0, 0, 0, 0, 0, 0, 1, 0, 0, 0, 0, 0, 0, 0, 0, 0, 0, 0, 0, 0, 0, 0,
    0, 0, 0, 0, 0, 0, 0, 0, 0, 0, 0, 0, 0, 0, 0, 0, 0, 0, 0, 0, 0, 0, 0, 0, 236, 145, 84, 106, 0, 0, 0, 0, 159, 238,
    5, 15, 236, 145, 84, 106, 0, 0, 0, 0, 95, 127, 197, 13, 236, 145, 84, 106, 0, 0, 0, 0, 95, 127, 197, 13, 236,
    145, 84, 106, 0, 0, 0, 0, 95, 127, 197, 13]), (\<lparr>k_objectid = 261, k_type = 12, k_offset = 260\<rparr>, [2,
    0, 0, 0, 0, 0, 0, 0, 8, 0, 108, 101, 97, 102, 46, 116, 120, 116]), (\<lparr>k_objectid = 261, k_type = 108,
    k_offset = 0\<rparr>, [7, 0, 0, 0, 0, 0, 0, 0, 20, 0, 0, 0, 0, 0, 0, 0, 0, 0, 0, 0, 0, 110, 101, 115, 116, 101,
    100, 32, 108, 101, 97, 102, 32, 99, 111, 110, 116, 101, 110, 116, 10])]"

section \<open>A leaf with attributes\<close>

text \<open>\<open>tests/data/btrfs_xattr_leaf.bin\<close>, its header and its items.\<close>

definition xattr_leaf :: bytes where
  "xattr_leaf = runs
    [(0, [216, 232, 16, 32]), (28, [217, 66, 41, 43, 178, 4, 74, 78, 131, 176, 201, 91, 223, 212, 149, 44, 0, 192,
    208, 1, 0, 0, 0, 0, 1, 0, 0, 0, 0, 0, 0, 1, 227, 100, 180, 145, 30, 226, 73, 57, 160, 229, 89, 62, 101, 87, 75,
    182, 9, 0, 0, 0, 0, 0, 0, 0, 5, 0, 0, 0, 0, 0, 0, 0, 16, 0, 0, 0, 0, 0, 1, 0, 0, 0, 0, 0, 0, 1, 0, 0, 0, 0, 0, 0,
    0, 0, 251, 62, 0, 0, 160, 0, 0, 0, 0, 1, 0, 0, 0, 0, 0, 0, 12, 0, 1, 0, 0, 0, 0, 0, 0, 239, 62, 0, 0, 12, 0, 0,
    0, 0, 1, 0, 0, 0, 0, 0, 0, 84, 2, 204, 212, 235, 0, 0, 0, 0, 201, 62, 0, 0, 38, 0, 0, 0, 0, 1, 0, 0, 0, 0, 0, 0,
    84, 176, 122, 109, 237, 0, 0, 0, 0, 167, 62, 0, 0, 34, 0, 0, 0, 1, 1, 0, 0, 0, 0, 0, 0, 1, 0, 0, 0, 0, 0, 0, 0,
    0, 7, 62, 0, 0, 160, 0, 0, 0, 1, 1, 0, 0, 0, 0, 0, 0, 12, 0, 1, 0, 0, 0, 0, 0, 0, 245, 61, 0, 0, 18, 0, 0, 0, 1,
    1, 0, 0, 0, 0, 0, 0, 24, 219, 34, 183, 5, 0, 0, 0, 0, 195, 61, 0, 0, 50, 0, 0, 0, 1, 1, 0, 0, 0, 0, 0, 0, 24,
    144, 207, 248, 84, 0, 0, 0, 0, 143, 61, 0, 0, 52, 0, 0, 0, 1, 1, 0, 0, 0, 0, 0, 0, 24, 219, 214, 142, 144, 0, 0,
    0, 0, 153, 53, 0, 0, 246, 7, 0, 0, 1, 1, 0, 0, 0, 0, 0, 0, 24, 26, 192, 129, 179, 0, 0, 0, 0, 93, 53, 0, 0, 60,
    0, 0, 0, 1, 1, 0, 0, 0, 0, 0, 0, 24, 67, 76, 142, 227, 0, 0, 0, 0, 10, 53, 0, 0, 83, 0, 0, 0, 1, 1, 0, 0, 0, 0,
    0, 0, 108, 0, 0, 0, 0, 0, 0, 0, 0, 233, 52, 0, 0, 33, 0, 0, 0, 2, 1, 0, 0, 0, 0, 0, 0, 1, 0, 0, 0, 0, 0, 0, 0, 0,
    73, 52, 0, 0, 160, 0, 0, 0, 2, 1, 0, 0, 0, 0, 0, 0, 12, 0, 1, 0, 0, 0, 0, 0, 0, 59, 52, 0, 0, 14, 0, 0, 0, 2, 1,
    0, 0, 0, 0, 0, 0, 24, 151, 200, 4, 23, 0, 0, 0, 0, 5, 52, 0, 0, 54, 0, 0, 0, 2, 1, 0, 0, 0, 0, 0, 0, 24, 67, 76,
    142, 227, 0, 0, 0, 0, 178, 51, 0, 0, 83, 0, 0, 0]), (12834, []), (17, [9, 0, 0, 0, 0, 0, 0, 0, 37, 0, 16, 0, 8,
    115, 101, 99, 117, 114, 105, 116, 121, 46, 115, 101, 108, 105, 110, 117, 120, 117, 110, 99, 111, 110, 102, 105,
    110, 101, 100, 95, 117, 58, 111, 98, 106, 101, 99, 116, 95, 114, 58, 117, 110, 108, 97, 98, 101, 108, 101, 100,
    95, 116, 58, 115, 48]), (18, [9, 0, 0, 0, 0, 0, 0, 0, 14, 0, 10, 0, 8, 117, 115, 101, 114, 46, 111, 110, 100,
    105, 114, 111, 110, 45, 97, 45, 100, 105, 114, 101, 99, 116, 111, 114, 121, 3, 0, 0, 0, 0, 0, 0, 0, 4, 0, 97,
    100, 105, 114, 9, 0, 0, 0, 0, 0, 0, 0, 9]), (31, [1, 0, 0, 0, 0, 0, 0, 0, 0, 0, 0, 0, 237, 65]), (58, [48, 176,
    171, 106, 0, 0, 0, 0, 57, 238, 201, 38, 48, 176, 171, 106, 0, 0, 0, 0, 57, 238, 201, 38, 48, 176, 171, 106, 0, 0,
    0, 0, 57, 238, 201, 38, 48, 176, 171, 106, 0, 0, 0, 0, 57, 238, 201, 38, 9, 0, 0, 0, 0, 0, 0, 0, 12, 0, 0, 0, 0,
    0, 0, 0, 0, 0, 0, 0, 0, 104, 101, 108, 108, 111, 32, 98, 116, 114, 102, 115, 10]), (17, [9, 0, 0, 0, 0, 0, 0, 0,
    37, 0, 16, 0, 8, 115, 101, 99, 117, 114, 105, 116, 121, 46, 115, 101, 108, 105, 110, 117, 120, 117, 110, 99, 111,
    110, 102, 105, 110, 101, 100, 95, 117, 58, 111, 98, 106, 101, 99, 116, 95, 114, 58, 117, 110, 108, 97, 98, 101,
    108, 101, 100, 95, 116, 58, 115, 48]), (18, [9, 0, 0, 0, 0, 0, 0, 0, 18, 0, 12, 0, 8, 117, 115, 101, 114, 46, 99,
    111, 109, 109, 101, 110, 116, 97, 32, 115, 101, 99, 111, 110, 100, 32, 97, 116, 116, 114, 105, 98, 117, 116,
    101]), (17, [9, 0, 0, 0, 0, 0, 0, 0, 208, 7, 8, 0, 8, 117, 115, 101, 114, 46, 98, 105, 103])]
    @ replicate 2000 66 @ runs
    [(17, [9, 0, 0, 0, 0, 0, 0, 0, 13, 0, 9, 0, 8, 116, 114, 117, 115, 116, 101, 100, 46, 116, 116, 114, 117, 115,
    116, 101, 100, 45, 118, 97, 108, 117, 101]), (17, [9, 0, 0, 0, 0, 0, 0, 0, 10, 0, 10, 0, 8, 117, 115, 101, 114,
    46, 115, 109, 97, 108, 108, 116, 105, 110, 121, 45, 118, 97, 108, 117, 101, 2, 0, 0, 0, 0, 0, 0, 0, 8, 0, 102,
    105, 108, 101, 46, 116, 120, 116, 9, 0, 0, 0, 0, 0, 0, 0, 9]), (31, [1, 0, 0, 0, 0, 0, 0, 0, 0, 0, 0, 0, 164,
    129]), (58, [48, 176, 171, 106, 0, 0, 0, 0, 52, 204, 57, 36, 48, 176, 171, 106, 0, 0, 0, 0, 52, 204, 57, 36, 48,
    176, 171, 106, 0, 0, 0, 0, 52, 204, 57, 36, 48, 176, 171, 106, 0, 0, 0, 0, 52, 204, 57, 36, 2, 1, 0, 0, 0, 0, 0,
    0, 1, 0, 0, 0, 0, 0, 0, 0, 0, 9, 0, 0, 0, 0, 0, 0, 0, 0, 0, 4, 0, 2, 97, 100, 105, 114, 1, 1, 0, 0, 0, 0, 0, 0,
    1, 0, 0, 0, 0, 0, 0, 0, 0, 9, 0, 0, 0, 0, 0, 0, 0, 0, 0, 8, 0, 1, 102, 105, 108, 101, 46, 116, 120, 116, 0, 0, 0,
    0, 0, 0, 0, 0, 2, 0, 46, 46, 3]), (24, [64, 0, 0, 0, 0, 0, 0, 0, 0, 0, 0, 0, 0, 0, 0, 1, 0, 0, 0, 0, 0, 0, 0, 0,
    0, 0, 0, 237, 65]), (58, [48, 176, 171, 106, 0, 0, 0, 0, 0, 0, 0, 0, 48, 176, 171, 106, 0, 0, 0, 0, 0, 0, 0, 0,
    48, 176, 171, 106, 0, 0, 0, 0, 0, 0, 0, 0, 48, 176, 171, 106, 0, 0, 0, 0, 0, 0, 0, 0])]"

definition xattr_leaf_header :: header where
  "xattr_leaf_header =
    \<lparr> h_csum = [216, 232, 16, 32], h_fsid = [217, 66, 41, 43, 178, 4, 74, 78, 131, 176, 201, 91, 223, 212,
    149, 44], h_bytenr = 30457856, h_flags = 72057594037927937, h_chunk_tree_uuid = [227, 100, 180, 145, 30, 226, 73,
    57, 160, 229, 89, 62, 101, 87, 75, 182], h_generation = 9, h_owner = 5, h_nritems = 16, h_level = 0 \<rparr>"

definition xattr_leaf_items :: "(disk_key \<times> bytes) list" where
  "xattr_leaf_items =
    [(\<lparr>k_objectid = 256, k_type = 1, k_offset = 0\<rparr>, [3, 0, 0, 0, 0, 0, 0, 0, 0, 0, 0, 0, 0, 0, 0, 0, 0,
    0, 0, 0, 0, 0, 0, 0, 0, 64, 0, 0, 0, 0, 0, 0, 0, 0, 0, 0, 0, 0, 0, 0, 1, 0, 0, 0, 0, 0, 0, 0, 0, 0, 0, 0, 237,
    65, 0, 0, 0, 0, 0, 0, 0, 0, 0, 0, 0, 0, 0, 0, 0, 0, 0, 0, 0, 0, 0, 0, 0, 0, 0, 0, 0, 0, 0, 0, 0, 0, 0, 0, 0, 0,
    0, 0, 0, 0, 0, 0, 0, 0, 0, 0, 0, 0, 0, 0, 0, 0, 0, 0, 0, 0, 0, 0, 48, 176, 171, 106, 0, 0, 0, 0, 0, 0, 0, 0, 48,
    176, 171, 106, 0, 0, 0, 0, 0, 0, 0, 0, 48, 176, 171, 106, 0, 0, 0, 0, 0, 0, 0, 0, 48, 176, 171, 106, 0, 0, 0, 0,
    0, 0, 0, 0]), (\<lparr>k_objectid = 256, k_type = 12, k_offset = 256\<rparr>, [0, 0, 0, 0, 0, 0, 0, 0, 2, 0, 46,
    46]), (\<lparr>k_objectid = 256, k_type = 84, k_offset = 3956591618\<rparr>, [1, 1, 0, 0, 0, 0, 0, 0, 1, 0, 0, 0,
    0, 0, 0, 0, 0, 9, 0, 0, 0, 0, 0, 0, 0, 0, 0, 8, 0, 1, 102, 105, 108, 101, 46, 116, 120, 116]),
    (\<lparr>k_objectid = 256, k_type = 84, k_offset = 3983375024\<rparr>, [2, 1, 0, 0, 0, 0, 0, 0, 1, 0, 0, 0, 0, 0,
    0, 0, 0, 9, 0, 0, 0, 0, 0, 0, 0, 0, 0, 4, 0, 2, 97, 100, 105, 114]), (\<lparr>k_objectid = 257, k_type = 1,
    k_offset = 0\<rparr>, [9, 0, 0, 0, 0, 0, 0, 0, 9, 0, 0, 0, 0, 0, 0, 0, 0, 0, 0, 0, 0, 0, 0, 0, 0, 0, 0, 0, 0, 0,
    0, 0, 0, 0, 0, 0, 0, 0, 0, 0, 1, 0, 0, 0, 0, 0, 0, 0, 0, 0, 0, 0, 164, 129, 0, 0, 0, 0, 0, 0, 0, 0, 0, 0, 0, 0,
    0, 0, 0, 0, 0, 0, 0, 0, 0, 0, 0, 0, 0, 0, 0, 0, 0, 0, 0, 0, 0, 0, 0, 0, 0, 0, 0, 0, 0, 0, 0, 0, 0, 0, 0, 0, 0, 0,
    0, 0, 0, 0, 0, 0, 0, 0, 48, 176, 171, 106, 0, 0, 0, 0, 52, 204, 57, 36, 48, 176, 171, 106, 0, 0, 0, 0, 52, 204,
    57, 36, 48, 176, 171, 106, 0, 0, 0, 0, 52, 204, 57, 36, 48, 176, 171, 106, 0, 0, 0, 0, 52, 204, 57, 36]),
    (\<lparr>k_objectid = 257, k_type = 12, k_offset = 256\<rparr>, [2, 0, 0, 0, 0, 0, 0, 0, 8, 0, 102, 105, 108,
    101, 46, 116, 120, 116]), (\<lparr>k_objectid = 257, k_type = 24, k_offset = 95888091\<rparr>, [0, 0, 0, 0, 0, 0,
    0, 0, 0, 0, 0, 0, 0, 0, 0, 0, 0, 9, 0, 0, 0, 0, 0, 0, 0, 10, 0, 10, 0, 8, 117, 115, 101, 114, 46, 115, 109, 97,
    108, 108, 116, 105, 110, 121, 45, 118, 97, 108, 117, 101]), (\<lparr>k_objectid = 257, k_type = 24, k_offset =
    1425592208\<rparr>, [0, 0, 0, 0, 0, 0, 0, 0, 0, 0, 0, 0, 0, 0, 0, 0, 0, 9, 0, 0, 0, 0, 0, 0, 0, 13, 0, 9, 0, 8,
    116, 114, 117, 115, 116, 101, 100, 46, 116, 116, 114, 117, 115, 116, 101, 100, 45, 118, 97, 108, 117, 101]),
    (\<lparr>k_objectid = 257, k_type = 24, k_offset = 2425280219\<rparr>, [0, 0, 0, 0, 0, 0, 0, 0, 0, 0, 0, 0, 0, 0,
    0, 0, 0, 9, 0, 0, 0, 0, 0, 0, 0, 208, 7, 8, 0, 8, 117, 115, 101, 114, 46, 98, 105, 103] @ replicate 2000 66),
    (\<lparr>k_objectid = 257, k_type = 24, k_offset = 3011624986\<rparr>, [0, 0, 0, 0, 0, 0, 0, 0, 0, 0, 0, 0, 0, 0,
    0, 0, 0, 9, 0, 0, 0, 0, 0, 0, 0, 18, 0, 12, 0, 8, 117, 115, 101, 114, 46, 99, 111, 109, 109, 101, 110, 116, 97,
    32, 115, 101, 99, 111, 110, 100, 32, 97, 116, 116, 114, 105, 98, 117, 116, 101]), (\<lparr>k_objectid = 257,
    k_type = 24, k_offset = 3817753667\<rparr>, [0, 0, 0, 0, 0, 0, 0, 0, 0, 0, 0, 0, 0, 0, 0, 0, 0, 9, 0, 0, 0, 0, 0,
    0, 0, 37, 0, 16, 0, 8, 115, 101, 99, 117, 114, 105, 116, 121, 46, 115, 101, 108, 105, 110, 117, 120, 117, 110,
    99, 111, 110, 102, 105, 110, 101, 100, 95, 117, 58, 111, 98, 106, 101, 99, 116, 95, 114, 58, 117, 110, 108, 97,
    98, 101, 108, 101, 100, 95, 116, 58, 115, 48, 0]), (\<lparr>k_objectid = 257, k_type = 108, k_offset = 0\<rparr>,
    [9, 0, 0, 0, 0, 0, 0, 0, 12, 0, 0, 0, 0, 0, 0, 0, 0, 0, 0, 0, 0, 104, 101, 108, 108, 111, 32, 98, 116, 114, 102,
    115, 10]), (\<lparr>k_objectid = 258, k_type = 1, k_offset = 0\<rparr>, [9, 0, 0, 0, 0, 0, 0, 0, 9, 0, 0, 0, 0,
    0, 0, 0, 0, 0, 0, 0, 0, 0, 0, 0, 0, 0, 0, 0, 0, 0, 0, 0, 0, 0, 0, 0, 0, 0, 0, 0, 1, 0, 0, 0, 0, 0, 0, 0, 0, 0, 0,
    0, 237, 65, 0, 0, 0, 0, 0, 0, 0, 0, 0, 0, 0, 0, 0, 0, 0, 0, 0, 0, 0, 0, 0, 0, 0, 0, 0, 0, 0, 0, 0, 0, 0, 0, 0, 0,
    0, 0, 0, 0, 0, 0, 0, 0, 0, 0, 0, 0, 0, 0, 0, 0, 0, 0, 0, 0, 0, 0, 0, 0, 48, 176, 171, 106, 0, 0, 0, 0, 57, 238,
    201, 38, 48, 176, 171, 106, 0, 0, 0, 0, 57, 238, 201, 38, 48, 176, 171, 106, 0, 0, 0, 0, 57, 238, 201, 38, 48,
    176, 171, 106, 0, 0, 0, 0, 57, 238, 201, 38]), (\<lparr>k_objectid = 258, k_type = 12, k_offset = 256\<rparr>,
    [3, 0, 0, 0, 0, 0, 0, 0, 4, 0, 97, 100, 105, 114]), (\<lparr>k_objectid = 258, k_type = 24, k_offset =
    386189463\<rparr>, [0, 0, 0, 0, 0, 0, 0, 0, 0, 0, 0, 0, 0, 0, 0, 0, 0, 9, 0, 0, 0, 0, 0, 0, 0, 14, 0, 10, 0, 8,
    117, 115, 101, 114, 46, 111, 110, 100, 105, 114, 111, 110, 45, 97, 45, 100, 105, 114, 101, 99, 116, 111, 114,
    121]), (\<lparr>k_objectid = 258, k_type = 24, k_offset = 3817753667\<rparr>, [0, 0, 0, 0, 0, 0, 0, 0, 0, 0, 0,
    0, 0, 0, 0, 0, 0, 9, 0, 0, 0, 0, 0, 0, 0, 37, 0, 16, 0, 8, 115, 101, 99, 117, 114, 105, 116, 121, 46, 115, 101,
    108, 105, 110, 117, 120, 117, 110, 99, 111, 110, 102, 105, 110, 101, 100, 95, 117, 58, 111, 98, 106, 101, 99,
    116, 95, 114, 58, 117, 110, 108, 97, 98, 101, 108, 101, 100, 95, 116, 58, 115, 48, 0])]"

section \<open>Their layout\<close>

lemma zeros_few:
  "zeros 17 = [0, 0, 0, 0, 0, 0, 0, 0, 0, 0, 0, 0, 0, 0, 0, 0, 0]"
  "zeros 24 = [0, 0, 0, 0, 0, 0, 0, 0, 0, 0, 0, 0, 0, 0, 0, 0, 0, 0, 0, 0, 0, 0, 0, 0]"
  "zeros 28 = [0, 0, 0, 0, 0, 0, 0, 0, 0, 0, 0, 0, 0, 0, 0, 0, 0, 0, 0, 0, 0, 0, 0, 0, 0, 0, 0, 0]"
  "zeros 31 = [0, 0, 0, 0, 0, 0, 0, 0, 0, 0, 0, 0, 0, 0, 0, 0, 0, 0, 0, 0, 0, 0, 0, 0, 0, 0, 0, 0, 0, 0, 0]"
  by (simp_all add: zeros_def numeral_eq_Suc)

lemma fs_tree_leaf_layout: "fs_tree_leaf = encode_leaf fs_tree_leaf_header (zeros 14105) fs_tree_leaf_items"
  by (simp add: fs_tree_leaf_def fs_tree_leaf_header_def fs_tree_leaf_items_def layout_simps)

lemma xattr_leaf_layout: "xattr_leaf = encode_leaf xattr_leaf_header (zeros 12834) xattr_leaf_items"
  by (simp add: xattr_leaf_def xattr_leaf_header_def xattr_leaf_items_def layout_simps zeros_few)

lemma fs_tree_leaf_digest: "crc32c_ref (drop 32 fs_tree_leaf) = from_le_bytes (h_csum fs_tree_leaf_header)"
  unfolding fs_tree_leaf_def by (subst crc32c_block) (simp_all add: crc_eval fs_tree_leaf_header_def from_le_bytes_def)

lemma fs_tree_leaf_node:
  obtains n where "node_parse crc32c_ref fs_tree_leaf = Inr n" and "n_header n = fs_tree_leaf_header"
    and "leaf_items n = fs_tree_leaf_items" and "is_leaf n" and "n_crc_valid n = Some True"
proof (rule leaf_of_layout [OF fs_tree_leaf_layout _ fs_tree_leaf_digest])
  show "wf_leaf fs_tree_leaf_header (zeros 14105) fs_tree_leaf_items"
    by (simp add: wf_leaf_def wf_header_def data_size_def fs_tree_leaf_header_def fs_tree_leaf_items_def)
qed (use that in blast)

lemma xattr_leaf_node:
  obtains n where "node_parse crc xattr_leaf = Inr n" and "leaf_items n = xattr_leaf_items"
proof -
  have "wf_leaf xattr_leaf_header (zeros 12834) xattr_leaf_items"
    by (simp add: wf_leaf_def wf_header_def data_size_def xattr_leaf_header_def xattr_leaf_items_def)
  then show thesis
    using leaf_roundtrip [of xattr_leaf_header "zeros 12834" xattr_leaf_items crc] that
    by (auto simp: xattr_leaf_layout)
qed

end
