(* ===== verification/Oracle_Hash.thy ===== *)
theory Oracle_Hash
  imports Sha256
begin

text \<open>
  The content of \<open>secret.txt\<close>, the file that was deleted on the disk of \<open>tests/data/btrfs_del_*\<close>, and its
  SHA-256, evaluated block by block: it is the digest that was taken before the file was deleted.
\<close>

definition secret_txt :: bytes where
  "secret_txt =
    [83, 69, 67, 82, 69, 84, 32, 98, 116, 114, 102, 115, 32, 100, 101, 108, 101, 116, 101, 100, 45, 102, 105, 108,
    101, 32, 114, 101, 99, 111, 118, 101, 114, 121, 32, 111, 114, 97, 99, 108, 101, 32, 112, 97, 121, 108, 111, 97,
    100, 32, 226, 128, 148, 32, 67, 111, 87, 32, 114, 101, 116, 97, 105, 110, 115, 32, 116, 104, 101, 32, 111, 108,
    100, 32, 114, 111, 111, 116, 46, 10]"

definition secret_block1 :: bytes where
  "secret_block1 =
    [83, 69, 67, 82, 69, 84, 32, 98, 116, 114, 102, 115, 32, 100, 101, 108, 101, 116, 101, 100, 45, 102, 105, 108,
    101, 32, 114, 101, 99, 111, 118, 101, 114, 121, 32, 111, 114, 97, 99, 108, 101, 32, 112, 97, 121, 108, 111, 97,
    100, 32, 226, 128, 148, 32, 67, 111, 87, 32, 114, 101, 116, 97, 105, 110]"

definition secret_block2 :: bytes where
  "secret_block2 =
    [115, 32, 116, 104, 101, 32, 111, 108, 100, 32, 114, 111, 111, 116, 46, 10, 128, 0, 0, 0, 0, 0, 0, 0, 0, 0, 0, 0,
    0, 0, 0, 0, 0, 0, 0, 0, 0, 0, 0, 0, 0, 0, 0, 0, 0, 0, 0, 0, 0, 0, 0, 0, 0, 0, 0, 0, 0, 0, 0, 0, 0, 0, 2, 128]"

lemma secret_blocks: "chunks_exact 64 (sha_pad secret_txt) = [secret_block1, secret_block2]"
proof -
  have len: "to_be_bytes (640 :: u64) = [0, 0, 0, 0, 0, 0, 2, 128]"
    by (simp add: to_be_bytes_def to_le_bytes_def nat_le_numeral)
  have "sha_pad secret_txt = secret_block1 @ secret_block2"
    by (simp add: sha_pad_eq pad_gap_def secret_txt_def secret_block1_def secret_block2_def len replicate_num)
  moreover have "[0..<2] = [0, 1 :: nat]" by (simp add: upt_rec)
  ultimately show ?thesis
    by (simp add: chunks_exact_blocks secret_block1_def secret_block2_def)
qed

definition secret_schedule1 :: "u32 list" where
  "secret_schedule1 =
    [1397048146, 1163141218, 1953654387, 543450476, 1702126948, 761686380, 1696625253, 1668249189, 1920540783,
    1918985068, 1696624737, 2037149537, 1679876736, 2485142383, 1461744229, 1952541038, 3242929471, 3052860103,
    2784914585, 148444960, 1027099988, 150218467, 600054774, 1427801828, 1165044229, 4270968376, 4099139910,
    3396716091, 3561187231, 4036983754, 327380128, 3109460132, 3238184353, 109433449, 2945146336, 3978098723,
    3254196397, 3999851342, 2956872244, 3434615694, 1443423223, 584459733, 1851148092, 1603043020, 51308550,
    3943005395, 2175783674, 200471511, 2636338900, 2688944325, 891342911, 991220523, 3621011381, 1375834113,
    1429775266, 1082148289, 1667840787, 1729699409, 4049314501, 2596427708, 3751340055, 3000341682, 1057719329,
    1466627198]"

lemma secret_schedule1: "sha_schedule secret_block1 = secret_schedule1"
proof -
  have load: "sha_load secret_block1 = [1397048146, 1163141218, 1953654387, 543450476, 1702126948, 761686380, 1696625253, 1668249189, 1920540783, 1918985068, 1696624737, 2037149537, 1679876736, 2485142383, 1461744229, 1952541038] @ replicate 48 0"
    by (simp add: sha_load_def upt_from_0 upt_rec_numeral secret_block1_def from_be_bytes_def from_le_bytes_def)
  show ?thesis
    by (simp add: sha_schedule_def load replicate_num upt_rec_numeral sha_eval Let_def secret_schedule1_def)
qed

lemma secret_rounds1: "foldl (sha_round secret_schedule1) SHA_H0 [0..<64] =
    [2298292903, 3791366904, 3742844832, 2859294569, 1324619065, 1413768641, 1835518802, 711815491]"
  by (simp add: upt_from_0 upt_rec_numeral Let_def sha_eval SHA_H0_def SHA_K_def secret_schedule1_def)

definition secret_schedule2 :: "u32 list" where
  "secret_schedule2 =
    [1931506792, 1696624492, 1679848047, 1869884938, 2147483648, 0, 0, 0, 0, 0, 0, 0, 0, 0, 0, 640, 1121306851,
    889718541, 3562071281, 2212416558, 4006855835, 3216139815, 2598715586, 3268316569, 1030205067, 1805668238,
    2793041186, 486528338, 986644368, 2867442391, 1671640943, 3916107144, 3368102790, 2196795341, 2689207391,
    3557735849, 2722788869, 1929655519, 2197127766, 585975267, 869932578, 3774528327, 441800219, 1661324001,
    2253963049, 2843511336, 2659086602, 1344823156, 820508627, 3924077423, 4004732575, 2647957620, 3458201784,
    3009759828, 1777833352, 632672080, 2470275025, 2398247935, 2474579255, 64427223, 147795872, 387402080, 735233641,
    2391380268]"

lemma secret_schedule2: "sha_schedule secret_block2 = secret_schedule2"
proof -
  have load: "sha_load secret_block2 = [1931506792, 1696624492, 1679848047, 1869884938, 2147483648, 0, 0, 0, 0, 0, 0, 0, 0, 0, 0, 640] @ replicate 48 0"
    by (simp add: sha_load_def upt_from_0 upt_rec_numeral secret_block2_def from_be_bytes_def from_le_bytes_def)
  show ?thesis
    by (simp add: sha_schedule_def load replicate_num upt_rec_numeral sha_eval Let_def secret_schedule2_def)
qed

lemma secret_rounds2: "foldl (sha_round secret_schedule2) [4077326606, 2640533885, 461781778, 1337808035, 2684512184, 4014591565, 2364253437, 2253274716] [0..<64] =
    [1556542969, 1501070406, 3354588907, 642184127, 4154160363, 3905014166, 2871909004, 261788854]"
  by (simp add: upt_from_0 upt_rec_numeral Let_def sha_eval SHA_H0_def SHA_K_def secret_schedule2_def)

theorem secret_sha256:
  "sha256_hex secret_txt = str ''4fce0707f6dbddc3e37931fd76044862979ddca3d80b97e338197f8995e8d312''"
proof -
  have one: "sha_block SHA_H0 secret_block1 = [4077326606, 2640533885, 461781778, 1337808035, 2684512184, 4014591565, 2364253437, 2253274716]"
    by (simp only: sha_block_def secret_schedule1 secret_rounds1 Let_def) (simp add: SHA_H0_def)
  have two: "sha_block [4077326606, 2640533885, 461781778, 1337808035, 2684512184, 4014591565, 2364253437, 2253274716] secret_block2 = [1338902279, 4141604291, 3816370685, 1979992162, 2543705251, 3624638435, 941195145, 2515063570]"
    by (simp only: sha_block_def secret_schedule2 secret_rounds2 Let_def) simp
  have "sha256_hex secret_txt = concat (map hex_u32 [1338902279, 4141604291, 3816370685, 1979992162, 2543705251, 3624638435, 941195145, 2515063570])"
    by (simp only: sha256_hex_def secret_blocks foldl.simps one two Let_def)
  also have "\<dots> = str ''4fce0707f6dbddc3e37931fd76044862979ddca3d80b97e338197f8995e8d312''"
    by (simp add: hex_u32_def hex_pad_numeral hex_digit_def str_def)
  finally show ?thesis .
qed

end
