(* ===== verification/Oracle_Fs_Hash.thy ===== *)
theory Oracle_Fs_Hash
  imports Oracle_Hash
begin

text \<open>
  The two inline files of the disk of \<open>tests/data/btrfs_fs_tree_leaf.bin\<close>, \<open>small.txt\<close> and
  \<open>dir/sub/leaf.txt\<close>, and their SHA-256: the digests taken on the mounted file system.
\<close>

section \<open>small.txt\<close>

definition small_txt :: bytes where
  "small_txt =
    [104, 101, 108, 108, 111, 32, 105, 110, 108, 105, 110, 101, 32, 98, 116, 114, 102, 115, 32, 111, 114, 97, 99,
    108, 101, 10]"

definition small_block :: bytes where
  "small_block =
    [104, 101, 108, 108, 111, 32, 105, 110, 108, 105, 110, 101, 32, 98, 116, 114, 102, 115, 32, 111, 114, 97, 99,
    108, 101, 10, 128, 0, 0, 0, 0, 0, 0, 0, 0, 0, 0, 0, 0, 0, 0, 0, 0, 0, 0, 0, 0, 0, 0, 0, 0, 0, 0, 0, 0, 0, 0, 0,
    0, 0, 0, 0, 0, 208]"

lemma small_blocks: "chunks_exact 64 (sha_pad small_txt) = [small_block]"
proof -
  have len: "to_be_bytes (208 :: u64) = [0, 0, 0, 0, 0, 0, 0, 208]"
    by (simp add: to_be_bytes_def to_le_bytes_def nat_le_numeral)
  have "sha_pad small_txt = small_block"
    by (simp add: sha_pad_eq pad_gap_def small_txt_def small_block_def len replicate_num)
  then show ?thesis
    by (simp add: chunks_exact_blocks small_block_def)
qed

definition small_schedule :: "u32 list" where
  "small_schedule =
    [1751477356, 1864395118, 1818848869, 543323250, 1718820975, 1918985068, 1695186944, 0, 0, 0, 0, 0, 0, 0, 0, 208,
    868696739, 207555960, 851607342, 2710298794, 1701151304, 2872387002, 3598641230, 1778913368, 3044686786,
    1023424879, 4232065862, 2163915638, 3408516958, 3782514458, 3685910263, 529029219, 3072905922, 4124022412,
    3760899487, 2740236759, 2860287028, 2471637731, 2185275562, 2641326266, 3291225007, 305757938, 2179659992,
    2369773629, 2382231623, 3312204739, 2415991886, 630791006, 1507736714, 3106616527, 3733360067, 2335788716,
    1632304148, 559586989, 2216970728, 1438595502, 3844048303, 2344634091, 3526521305, 4207593569, 3088295179,
    1321630698, 2314903065, 2382327249]"

lemma small_schedule: "sha_schedule small_block = small_schedule"
proof -
  have load: "sha_load small_block = [1751477356, 1864395118, 1818848869, 543323250, 1718820975, 1918985068, 1695186944, 0, 0, 0, 0, 0, 0, 0, 0, 208] @ replicate 48 0"
    by (simp add: sha_load_def upt_from_0 upt_rec_numeral small_block_def from_be_bytes_def from_le_bytes_def)
  show ?thesis
    by (simp add: sha_schedule_def load replicate_num upt_rec_numeral sha_eval Let_def small_schedule_def)
qed

lemma small_rounds: "foldl (sha_round small_schedule) SHA_H0 [0..<64] =
    [848748739, 2903223953, 3445617791, 12310598, 1854236414, 513222828, 1746981688, 3845190643]"
  by (simp add: upt_from_0 upt_rec_numeral Let_def sha_eval SHA_H0_def SHA_K_def small_schedule_def)

theorem small_sha256:
  "sha256_hex small_txt = str ''9ca0c72a68735d1609cee7f1a60bcd80bf93b97db99c913887a4ace34111c10c''"
proof -
  have one: "sha_block SHA_H0 small_block = [2627782442, 1752390934, 164554737, 2785791360, 3214129533, 3114045752, 2275716323, 1091682572]"
    by (simp only: sha_block_def small_schedule small_rounds Let_def) (simp add: SHA_H0_def)
  have "sha256_hex small_txt = concat (map hex_u32 [2627782442, 1752390934, 164554737, 2785791360, 3214129533, 3114045752, 2275716323, 1091682572])"
    by (simp only: sha256_hex_def small_blocks foldl.simps one Let_def)
  also have "\<dots> = str ''9ca0c72a68735d1609cee7f1a60bcd80bf93b97db99c913887a4ace34111c10c''"
    by (simp add: hex_u32_def hex_pad_numeral hex_digit_def str_def)
  finally show ?thesis .
qed

section \<open>dir/sub/leaf.txt\<close>

definition nested_txt :: bytes where
  "nested_txt =
    [110, 101, 115, 116, 101, 100, 32, 108, 101, 97, 102, 32, 99, 111, 110, 116, 101, 110, 116, 10]"

definition nested_block :: bytes where
  "nested_block =
    [110, 101, 115, 116, 101, 100, 32, 108, 101, 97, 102, 32, 99, 111, 110, 116, 101, 110, 116, 10, 128, 0, 0, 0, 0,
    0, 0, 0, 0, 0, 0, 0, 0, 0, 0, 0, 0, 0, 0, 0, 0, 0, 0, 0, 0, 0, 0, 0, 0, 0, 0, 0, 0, 0, 0, 0, 0, 0, 0, 0, 0, 0, 0,
    160]"

lemma nested_blocks: "chunks_exact 64 (sha_pad nested_txt) = [nested_block]"
proof -
  have len: "to_be_bytes (160 :: u64) = [0, 0, 0, 0, 0, 0, 0, 160]"
    by (simp add: to_be_bytes_def to_le_bytes_def nat_le_numeral)
  have "sha_pad nested_txt = nested_block"
    by (simp add: sha_pad_eq pad_gap_def nested_txt_def nested_block_def len replicate_num)
  then show ?thesis
    by (simp add: chunks_exact_blocks nested_block_def)
qed

definition nested_schedule :: "u32 list" where
  "nested_schedule =
    [1852142452, 1701060716, 1700881952, 1668247156, 1701737482, 2147483648, 0, 0, 0, 0, 0, 0, 0, 0, 0, 160,
    1256376456, 2073499580, 3789497992, 1376538914, 3994791719, 581034067, 2722925765, 386803204, 1399459336,
    3114692983, 2564704893, 3839291810, 251210041, 1227401234, 149831426, 1081001083, 2404879137, 2473760943,
    1446658514, 977476360, 2047933925, 3602385430, 3344614660, 1143689653, 2232041811, 1301464953, 553656603,
    3551883292, 34323983, 2978555307, 1165248894, 738332721, 1976523928, 1017648646, 1102112062, 1089154462,
    3485625695, 2948465459, 620048726, 2748234207, 1261596934, 1432702728, 1483956010, 2746152711, 2120816574,
    1648760320, 1984854847, 713135742]"

lemma nested_schedule: "sha_schedule nested_block = nested_schedule"
proof -
  have load: "sha_load nested_block = [1852142452, 1701060716, 1700881952, 1668247156, 1701737482, 2147483648, 0, 0, 0, 0, 0, 0, 0, 0, 0, 160] @ replicate 48 0"
    by (simp add: sha_load_def upt_from_0 upt_rec_numeral nested_block_def from_be_bytes_def from_le_bytes_def)
  show ?thesis
    by (simp add: sha_schedule_def load replicate_num upt_rec_numeral sha_eval Let_def nested_schedule_def)
qed

lemma nested_rounds: "foldl (sha_round nested_schedule) SHA_H0 [0..<64] =
    [1570333676, 1778339006, 921955677, 862562370, 2625791026, 2620121098, 1108521216, 760991636]"
  by (simp add: upt_from_0 upt_rec_numeral Let_def sha_eval SHA_H0_def SHA_K_def nested_schedule_def)

theorem nested_sha256:
  "sha256_hex nested_txt = str ''c7a34a532566fb437362e0cfd8b99d7ced90b6b13731489661968aab893c9cad''"
proof -
  have one: "sha_block SHA_H0 nested_block = [3349367379, 627505987, 1935859919, 3636043132, 3985684145, 925976726, 1637255851, 2302450861]"
    by (simp only: sha_block_def nested_schedule nested_rounds Let_def) (simp add: SHA_H0_def)
  have "sha256_hex nested_txt = concat (map hex_u32 [3349367379, 627505987, 1935859919, 3636043132, 3985684145, 925976726, 1637255851, 2302450861])"
    by (simp only: sha256_hex_def nested_blocks foldl.simps one Let_def)
  also have "\<dots> = str ''c7a34a532566fb437362e0cfd8b99d7ced90b6b13731489661968aab893c9cad''"
    by (simp add: hex_u32_def hex_pad_numeral hex_digit_def str_def)
  finally show ?thesis .
qed

end
