(* ===== verification/Oracle_Superblock.thy ===== *)
theory Oracle_Superblock
  imports Oracle_Data Unit_Tests
begin

text \<open>
  The superblock of a disk that mkfs made, as its tools print it, against the parser: the tests of
  \<open>core/tests/superblock.rs\<close> that need no whole image.
\<close>

section \<open>core/tests/superblock.rs\<close>

definition assert_oracle_fields :: "superblock \<Rightarrow> bool" where
  "assert_oracle_fields sb \<longleftrightarrow>
     sb_magic sb = BTRFS_MAGIC \<and> sb_csum sb = [0xd9, 0x13, 0x6f, 0x60] \<and>
     fsid_string sb = str ''fe9599cb-e209-4d5c-b734-642c457fbc01'' \<and>
     sb_bytenr sb = 65536 \<and> sb_flags sb = 0x1 \<and> sb_generation sb = 9 \<and> sb_root sb = 30720000 \<and>
     sb_chunk_root sb = 22036480 \<and> sb_log_root sb = 0 \<and> sb_total_bytes sb = 536870912 \<and>
     sb_bytes_used sb = 212992 \<and> sb_root_dir_objectid sb = 6 \<and> sb_num_devices sb = 1 \<and>
     sb_sectorsize sb = 4096 \<and> sb_nodesize sb = 16384 \<and> sb_stripesize sb = 4096 \<and>
     sb_sys_chunk_array_size sb = 129 \<and> sb_chunk_root_generation sb = 6 \<and> sb_compat_flags sb = 0x0 \<and>
     sb_compat_ro_flags sb = 0x3 \<and> sb_incompat_flags sb = 0x361 \<and> sb_csum_type sb = Crc32c \<and>
     sb_root_level sb = 0 \<and> sb_chunk_root_level sb = 0 \<and> sb_log_root_level sb = 0 \<and>
     sb_label sb = str ''BTRFS_ORACLE'' \<and> length (sb_sys_chunks sb) = 1 \<and>
     (let c = sb_sys_chunks sb ! 0 in
        k_objectid (sc_key c) = 256 \<and> k_type (sc_key c) = CHUNK_ITEM_KEY \<and> k_offset (sc_key c) = 22020096 \<and>
        sc_length c = 8388608 \<and> sc_owner c = 2 \<and> sc_type c = 0x22 \<and> sc_num_stripes c = 2 \<and>
        sc_sub_stripes c = 1 \<and> length (sc_stripes c) = 2 \<and>
        s_devid (sc_stripes c ! 0) = 1 \<and> s_offset (sc_stripes c ! 0) = 22020096 \<and>
        s_devid (sc_stripes c ! 1) = 1 \<and> s_offset (sc_stripes c ! 1) = 30408704 \<and>
        sys_chunk_l2p c 22020096 = Some 22020096 \<and> sys_chunk_l2p c 22036480 = Some 22036480 \<and>
        sys_chunk_l2p c 9999999 = None) \<and>
     sb_crc_valid sb = Some True"

definition fixture_superblock_matches_oracle :: bool where
  "fixture_superblock_matches_oracle \<longleftrightarrow>
     expecting (superblock_parse crc32c_ref oracle_superblock) assert_oracle_fields"

definition bad_magic_fails_loud_with_offending_bytes :: bool where
  "bad_magic_fails_loud_with_offending_bytes \<longleftrightarrow>
     (let data = overwrite (zeros BTRFS_SUPER_INFO_SIZE) 0x40 [0xDE, 0xAD, 0xBE, 0xEF, 0x00, 0x11, 0x22, 0x33]
      in superblock_parse crc32c_ref data = Inl (BadMagic [0xDE, 0xAD, 0xBE, 0xEF, 0x00, 0x11, 0x22, 0x33]))"

definition truncated_buffer_does_not_panic :: bool where
  "truncated_buffer_does_not_panic \<longleftrightarrow>
     (case superblock_parse crc32c_ref (overwrite (zeros 0x50) 0x40 BTRFS_MAGIC) of
        Inl (Truncated _ _ _) \<Rightarrow> True | _ \<Rightarrow> False)"

definition empty_buffer_does_not_panic :: bool where
  "empty_buffer_does_not_panic \<longleftrightarrow> superblock_parse crc32c_ref [] = Inl (BadMagic (replicate 8 0))"

section \<open>They hold\<close>

lemmas read_bytes = le_u16_def le_u32_def le_u64_def u8_at_def get_range_def from_le_bytes_def

lemma zeros_28: "zeros 28 = [0, 0, 0, 0, 0, 0, 0, 0, 0, 0, 0, 0, 0, 0, 0, 0, 0, 0, 0, 0, 0, 0, 0, 0, 0, 0, 0, 0]"
  by (simp add: zeros_def numeral_eq_Suc)

lemmas superblock_bytes = oracle_superblock_def runs_def zeros_small zeros_28 zeros_def [of 248] zeros_def [of 252]

lemma superblock_fields:
  "bytes_at oracle_superblock 0x40 8 = str ''_BHRfS_M''"
  "bytes_at oracle_superblock 0 4 = [0xd9, 0x13, 0x6f, 0x60]"
  "bytes_at oracle_superblock 0x20 16 = [254, 149, 153, 203, 226, 9, 77, 92, 183, 52, 100, 44, 69, 127, 188, 1]"
  "le_u64 oracle_superblock 0x30 = 65536" "le_u64 oracle_superblock 0x38 = 1"
  "le_u64 oracle_superblock 0x48 = 9" "le_u64 oracle_superblock 0x50 = 30720000"
  "le_u64 oracle_superblock 0x58 = 22036480" "le_u64 oracle_superblock 0x60 = 0"
  "le_u64 oracle_superblock 0x70 = 536870912" "le_u64 oracle_superblock 0x78 = 212992"
  "le_u64 oracle_superblock 0x80 = 6" "le_u64 oracle_superblock 0x88 = 1"
  "le_u32 oracle_superblock 0x90 = 4096" "le_u32 oracle_superblock 0x94 = 16384"
  "le_u32 oracle_superblock 0x9c = 4096" "le_u32 oracle_superblock 0xa0 = 129"
  "le_u64 oracle_superblock 0xa4 = 6" "le_u64 oracle_superblock 0xac = 0"
  "le_u64 oracle_superblock 0xb4 = 3" "le_u64 oracle_superblock 0xbc = 0x361"
  "le_u16 oracle_superblock 0xc4 = 0" "u8_at oracle_superblock 0xc6 = 0"
  "u8_at oracle_superblock 0xc7 = 0" "u8_at oracle_superblock 0xc8 = 0"
  "length oracle_superblock = 4096"
  by (simp_all add: superblock_bytes read_bytes bytes_at_in_range str_def)

lemma superblock_label: "decode_label oracle_superblock 0x12b = str ''BTRFS_ORACLE''"
proof -
  have "takeWhile (\<lambda>b. b \<noteq> 0) (take 256 (drop 299 oracle_superblock)) = str ''BTRFS_ORACLE''"
    by (simp add: superblock_bytes str_def)
  then show ?thesis
    by (simp add: decode_label_def Let_def sat_add_def usize_max_def super_consts get_range_def superblock_fields(26)
        str_def from_utf8_lossy_ascii)
qed

definition system_chunk :: "sys_chunk \<Rightarrow> bool" where
  "system_chunk c \<longleftrightarrow> sc_key c = \<lparr>k_objectid = 256, k_type = 228, k_offset = 22020096\<rparr> \<and>
     sc_length c = 8388608 \<and> sc_owner c = 2 \<and> sc_type c = 0x22 \<and> sc_num_stripes c = 2 \<and> sc_sub_stripes c = 1 \<and>
     (\<exists>s1 s2. sc_stripes c = [s1, s2] \<and> s_devid s1 = 1 \<and> s_offset s1 = 22020096 \<and>
        s_devid s2 = 1 \<and> s_offset s2 = 30408704)"

lemma superblock_entry:
  "\<exists>c. sys_chunk_entry oracle_superblock 940 811 = Some (c, 940) \<and> system_chunk c"
proof -
  have fields: "disk_key_parse oracle_superblock 811 = \<lparr>k_objectid = 256, k_type = 228, k_offset = 22020096\<rparr>"
    "le_u64 oracle_superblock 828 = 8388608" "le_u64 oracle_superblock 836 = 2" "le_u64 oracle_superblock 852 = 0x22"
    "le_u16 oracle_superblock 872 = 2" "le_u16 oracle_superblock 874 = 1"
    "le_u64 oracle_superblock 876 = 1" "le_u64 oracle_superblock 884 = 22020096"
    "le_u64 oracle_superblock 908 = 1" "le_u64 oracle_superblock 916 = 30408704"
    by (simp_all add: superblock_bytes read_bytes disk_key_parse_def nth_append)
  have two: "parse_stripes oracle_superblock 876 2 =
      [stripe_at oracle_superblock 876, stripe_at oracle_superblock 908]"
    by (simp add: numeral_2_eq_2 sat_add_def usize_max_def chunk_consts)
  show ?thesis
    by (simp add: sys_chunk_entry_def sat_add_def sat_mul_def usize_max_def chunk_consts Let_def fields two stripe_at_def system_chunk_def)
qed

lemma superblock_chunks:
  "\<exists>c. parse_array oracle_superblock 811 129 = [c] \<and> system_chunk c"
proof -
  have "sys_chunk_entry oracle_superblock 940 940 = None"
    by (simp add: sys_chunk_entry_def sat_add_def usize_max_def chunk_consts)
  then show ?thesis
    using superblock_entry
    by (auto simp: parse_array_def sat_add_def usize_max_def superblock_fields(26)
        parse_array_from.simps [of oracle_superblock 940 811] parse_array_from.simps [of oracle_superblock 940 940])
qed

lemma superblock_test: "fixture_superblock_matches_oracle"
proof -
  obtain c where array: "parse_array oracle_superblock 811 129 = [c]" and "system_chunk c"
    using superblock_chunks by blast
  from this(2) obtain s1 s2 where c: "sc_key c = \<lparr>k_objectid = 256, k_type = 228, k_offset = 22020096\<rparr>"
      "sc_length c = 8388608" "sc_owner c = 2" "sc_type c = 0x22" "sc_num_stripes c = 2" "sc_sub_stripes c = 1"
      "sc_stripes c = [s1, s2]" "s_devid s1 = 1" "s_offset s1 = 22020096" "s_devid s2 = 1" "s_offset s2 = 30408704"
    unfolding system_chunk_def by blast
  have "take 4 oracle_superblock = [0xd9, 0x13, 0x6f, 0x60]"
    using superblock_fields(2) by (simp add: bytes_at_in_range superblock_fields(26))
  then have "verify_superblock_crc32c crc32c_ref oracle_superblock 4096"
    by (simp add: verify_iff superblock_fields(26) oracle_superblock_digest to_from_le_bytes)
  moreover have "uuid_string [254, 149, 153, 203, 226, 9, 77, 92, 183, 52, 100, 44, 69, 127, 188, 1] =
      str ''fe9599cb-e209-4d5c-b734-642c457fbc01''"
    by (simp add: uuid_string_def hex_u8_def hex_pad_numeral hex_digit_def str_def Let_def)
  moreover have "sys_chunk_l2p c 22020096 = Some 22020096" "sys_chunk_l2p c 22036480 = Some 22036480"
      "sys_chunk_l2p c 9999999 = None"
    using c by (simp_all add: sys_chunk_l2p_def u64_checked_add_def Let_def)
  ultimately show ?thesis
    using c by (simp add: fixture_superblock_matches_oracle_def superblock_parse_def assert_oracle_fields_def
        array superblock_fields superblock_label super_consts SYS_CHUNK_ARRAY_OFFSET_def CHUNK_ITEM_KEY_def csum_from_code_def
        superblock_crc_status_def BTRFS_CSUM_SIZE_def BTRFS_MAGIC_def fsid_string_def Let_def)
qed

lemma superblock_error_tests:
  "bad_magic_fails_loud_with_offending_bytes" "truncated_buffer_does_not_panic" "empty_buffer_does_not_panic"
proof -
  have "bytes_at (overwrite (zeros 4096) 0x40 [0xDE, 0xAD, 0xBE, 0xEF, 0x00, 0x11, 0x22, 0x33]) 0x40 8 =
      [0xDE, 0xAD, 0xBE, 0xEF, 0x00, 0x11, 0x22, 0x33]"
    by (simp add: bytes_at_in_range overwrite_def)
  then show "bad_magic_fails_loud_with_offending_bytes"
    by (simp add: bad_magic_fails_loud_with_offending_bytes_def superblock_parse_def super_consts BTRFS_MAGIC_def str_def)
  have "bytes_at (overwrite (zeros 80) 0x40 BTRFS_MAGIC) 0x40 8 = BTRFS_MAGIC"
    by (simp add: bytes_at_in_range overwrite_def BTRFS_MAGIC_def str_def)
  then show "truncated_buffer_does_not_panic"
    by (simp add: truncated_buffer_does_not_panic_def superblock_parse_def super_consts BTRFS_MAGIC_def str_def)
  have "bytes_at [] 64 8 = replicate 8 0"
    by (simp add: bytes_at_def u8_at_def map_replicate_const)
  then show "empty_buffer_does_not_panic"
    by (simp add: empty_buffer_does_not_panic_def superblock_parse_def super_consts BTRFS_MAGIC_def str_def replicate_num)
qed

end
