(* ===== verification/Oracle_Tests.thy ===== *)
theory Oracle_Tests
  imports Oracle_Superblock Oracle_Hash
begin

text \<open>
  The always-on integration tests of \<open>core/tests\<close> and \<open>forensic/tests\<close> that read blocks of real disks: what
  they assert, field by field, is what the tools of the kernel print for the same blocks. They hold of the
  model with the reference CRC32c, so the layouts and the readers here are those of real disks. Where a test
  carries a hash function of its own to compare with, \<open>sha256_hex\<close> stands for it.
\<close>

section \<open>core/tests/node.rs\<close>

definition header_size_is_101_bytes :: bool where
  "header_size_is_101_bytes \<longleftrightarrow> BTRFS_HEADER_SIZE = 101"

definition chunk_root_header_matches_dump_tree :: bool where
  "chunk_root_header_matches_dump_tree \<longleftrightarrow>
     expecting (node_parse crc32c_ref chunk_root_leaf) (\<lambda>node.
       h_bytenr (n_header node) = 22036480 \<and> h_generation (n_header node) = 6 \<and> h_owner (n_header node) = 3 \<and>
       h_nritems (n_header node) = 4 \<and> h_level (n_header node) = 0 \<and> is_leaf node)"

definition chunk_root_leaf_items_iterate_in_bounds :: bool where
  "chunk_root_leaf_items_iterate_in_bounds \<longleftrightarrow>
     expecting (node_parse crc32c_ref chunk_root_leaf) (\<lambda>node.
       let items = leaf_items node in
       length items = 4 \<and>
       k_objectid (fst (items ! 0)) = 1 \<and> k_type (fst (items ! 0)) = 216 \<and> k_offset (fst (items ! 0)) = 1 \<and>
       length (snd (items ! 0)) = 98 \<and>
       k_objectid (fst (items ! 1)) = 256 \<and> k_type (fst (items ! 1)) = CHUNK_ITEM_KEY \<and>
       k_offset (fst (items ! 1)) = 13631488 \<and> length (snd (items ! 1)) = 80 \<and>
       k_offset (fst (items ! 2)) = 22020096 \<and> length (snd (items ! 2)) = 112 \<and>
       k_offset (fst (items ! 3)) = 30408704 \<and> length (snd (items ! 3)) = 112)"

definition chunk_items_decode_geometry_and_stripes :: bool where
  "chunk_items_decode_geometry_and_stripes \<longleftrightarrow>
     expecting (node_parse crc32c_ref chunk_root_leaf) (\<lambda>node.
       let chunks = chunk_items node in
       length chunks = 3 \<and>
       (case chunks ! 0 of (logical, c) \<Rightarrow>
          logical = 13631488 \<and> ck_length c = 8388608 \<and> ck_stripe_len c = 65536 \<and> ck_type c = 0x1 \<and>
          ck_num_stripes c = 1 \<and> length (ck_stripes c) = 1 \<and> s_devid (ck_stripes c ! 0) = 1 \<and>
          s_offset (ck_stripes c ! 0) = 13631488) \<and>
       (case chunks ! 1 of (logical, c) \<Rightarrow>
          logical = 22020096 \<and> ck_type c = 0x22 \<and> ck_num_stripes c = 2 \<and>
          s_offset (ck_stripes c ! 0) = 22020096 \<and> s_offset (ck_stripes c ! 1) = 30408704) \<and>
       (case chunks ! 2 of (logical, c) \<Rightarrow>
          logical = 30408704 \<and> ck_length c = 33554432 \<and> ck_type c = 0x24 \<and>
          s_offset (ck_stripes c ! 0) = 38797312 \<and> s_offset (ck_stripes c ! 1) = 72351744))"

definition node_crc32c_verifies_on_clean_fixture :: bool where
  "node_crc32c_verifies_on_clean_fixture \<longleftrightarrow>
     expecting (node_parse crc32c_ref chunk_root_leaf) (\<lambda>node. n_crc_valid node = Some True)"

definition node_crc32c_fails_on_byte_flip :: bool where
  "node_crc32c_fails_on_byte_flip \<longleftrightarrow>
     (let raw = chunk_root_leaf[200 := chunk_root_leaf ! 200 XOR 0xFF] in
      expecting (node_parse crc32c_ref raw) (\<lambda>node. n_crc_valid node = Some False))"

definition chunk_map_from_chunk_root_node_maps_logical_addresses :: bool where
  "chunk_map_from_chunk_root_node_maps_logical_addresses \<longleftrightarrow>
     expecting (node_parse crc32c_ref chunk_root_leaf) (\<lambda>node.
       let map = add_from_node map_new node in
       map_l2p map 22036480 = Some (1, 22036480) \<and> map_l2p map 30720000 = Some (1, 39108608) \<and>
       map_l2p map 13631488 = Some (1, 13631488) \<and> map_l2p map 0 = None \<and> map_l2p map (- 1) = None)"

section \<open>core/tests/hardlinks.rs\<close>

definition LINKED_INO :: u64 where "LINKED_INO = 65011972"
definition PLAIN_INO :: u64 where "PLAIN_INO = 65011973"
definition ROOT_DIR :: u64 where "ROOT_DIR = 256"
definition SUBDIR :: u64 where "SUBDIR = 65011971"

definition a_hard_linked_inode_reports_every_name_with_its_parent_tier1 :: "(bytes \<Rightarrow> u32) \<Rightarrow> bool" where
  "a_hard_linked_inode_reports_every_name_with_its_parent_tier1 crc \<longleftrightarrow>
     expecting (node_parse crc hardlink_leaf) (\<lambda>node.
       sort (map (\<lambda>r. (ir_parent r, ir_name r)) (list_inode_refs node LINKED_INO)) =
         [(ROOT_DIR, str ''hardlink.txt''), (ROOT_DIR, str ''target.txt''), (SUBDIR, str ''second_name.txt'')])"

definition two_names_packed_in_one_inode_ref_item_are_both_returned :: "(bytes \<Rightarrow> u32) \<Rightarrow> bool" where
  "two_names_packed_in_one_inode_ref_item_are_both_returned crc \<longleftrightarrow>
     expecting (node_parse crc hardlink_leaf) (\<lambda>node.
       sort (map ir_name (filter (\<lambda>r. ir_parent r = ROOT_DIR) (list_inode_refs node LINKED_INO))) =
         [str ''hardlink.txt'', str ''target.txt''])"

definition a_singly_linked_file_reports_exactly_one_name :: "(bytes \<Rightarrow> u32) \<Rightarrow> bool" where
  "a_singly_linked_file_reports_exactly_one_name crc \<longleftrightarrow>
     expecting (node_parse crc hardlink_leaf) (\<lambda>node.
       let refs = list_inode_refs node PLAIN_INO in
       length refs = 1 \<and> ir_name (refs ! 0) = str ''plain.txt'' \<and> ir_parent (refs ! 0) = ROOT_DIR)"

definition an_inode_absent_from_the_leaf_yields_no_names :: "(bytes \<Rightarrow> u32) \<Rightarrow> bool" where
  "an_inode_absent_from_the_leaf_yields_no_names crc \<longleftrightarrow>
     expecting (node_parse crc hardlink_leaf) (\<lambda>node. list_inode_refs node 999999999 = [])"

section \<open>forensic/tests/f_carve.rs\<close>

definition DELETED_SECRET_SHA256 :: rstring where
  "DELETED_SECRET_SHA256 = str ''4fce0707f6dbddc3e37931fd76044862979ddca3d80b97e338197f8995e8d312''"

definition recovers_deleted_inline_file_from_old_generation_leaf :: "codecs \<Rightarrow> bool" where
  "recovers_deleted_inline_file_from_old_generation_leaf c \<longleftrightarrow>
     expecting (node_parse crc32c_ref del_old_leaf) (\<lambda>old.
     expecting (node_parse crc32c_ref del_current_leaf) (\<lambda>current.
       unwrapping (find (\<lambda>r. rf_inode r = 257) (recover_deleted_from_leaves c old current [] map_new 4096)) (\<lambda>hit.
         rf_path hit = str ''secret.txt'' \<and> rf_size hit = 80 \<and> rf_generation hit = 7 \<and>
         length (rf_content hit) = 80 \<and> rf_content_sha256 hit = DELETED_SECRET_SHA256 \<and>
         sha256_hex (rf_content hit) = DELETED_SECRET_SHA256)))"

definition kept_file_is_not_reported_as_deleted :: "codecs \<Rightarrow> bool" where
  "kept_file_is_not_reported_as_deleted c \<longleftrightarrow>
     expecting (node_parse crc32c_ref del_old_leaf) (\<lambda>old.
     expecting (node_parse crc32c_ref del_current_leaf) (\<lambda>current.
       let recovered = recover_deleted_from_leaves c old current [] map_new 4096 in
       list_all (\<lambda>r. rf_inode r \<noteq> 258) recovered \<and> length recovered = 1))"

definition identical_leaves_recover_nothing :: "codecs \<Rightarrow> bool" where
  "identical_leaves_recover_nothing c \<longleftrightarrow>
     expecting (node_parse crc32c_ref del_old_leaf) (\<lambda>old.
       recover_deleted_from_leaves c old old [] map_new 4096 = [])"

section \<open>They hold\<close>

lemma node_tests:
  "header_size_is_101_bytes" "chunk_root_header_matches_dump_tree" "chunk_root_leaf_items_iterate_in_bounds"
  "node_crc32c_verifies_on_clean_fixture"
proof -
  obtain n where n: "node_parse crc32c_ref chunk_root_leaf = Inr n" "n_header n = chunk_root_leaf_header"
      "leaf_items n = chunk_root_leaf_items" "is_leaf n" "n_crc_valid n = Some True"
    by (rule chunk_root_leaf_node)
  show "header_size_is_101_bytes"
    by (simp add: header_size_is_101_bytes_def node_consts)
  show "chunk_root_header_matches_dump_tree"
    using n by (simp add: chunk_root_header_matches_dump_tree_def chunk_root_leaf_header_def)
  show "chunk_root_leaf_items_iterate_in_bounds"
    using n by (simp add: chunk_root_leaf_items_iterate_in_bounds_def chunk_root_leaf_items_def CHUNK_ITEM_KEY_def Let_def)
  show "node_crc32c_verifies_on_clean_fixture"
    using n by (simp add: node_crc32c_verifies_on_clean_fixture_def)
qed

lemma upt_small: "[0..<Suc 0] = [0]" "[0..<2] = [0, Suc 0]"
  by (simp_all add: upt_rec)

lemmas chunk_eval = chunk_parse_def chunk_stripes_def stripe_at_def chunk_consts upt_small read_bytes bytes_at_def Let_def

lemma chunk_root_map:
  assumes "leaf_items n = chunk_root_leaf_items"
  shows "add_from_node map_new n = [\<lparr>me_start = 13631488, me_length = 8388608, me_stripes = [(1, 13631488)]\<rparr>,
      \<lparr>me_start = 22020096, me_length = 8388608, me_stripes = [(1, 22020096), (1, 30408704)]\<rparr>,
      \<lparr>me_start = 30408704, me_length = 33554432, me_stripes = [(1, 38797312), (1, 72351744)]\<rparr>]"
  by (simp add: add_from_node_def map_new_def entry_of_chunk_def assms chunk_items_def chunk_root_leaf_items_def
      CHUNK_ITEM_KEY_def chunk_eval)

lemma chunk_item_tests:
  "chunk_items_decode_geometry_and_stripes" "chunk_map_from_chunk_root_node_maps_logical_addresses"
proof -
  obtain n where n: "node_parse crc32c_ref chunk_root_leaf = Inr n" "leaf_items n = chunk_root_leaf_items"
    by (rule chunk_root_leaf_node)
  show "chunk_items_decode_geometry_and_stripes"
    by (simp add: chunk_items_decode_geometry_and_stripes_def n chunk_items_def chunk_root_leaf_items_def
        CHUNK_ITEM_KEY_def chunk_eval)
  show "chunk_map_from_chunk_root_node_maps_logical_addresses"
    by (simp add: chunk_map_from_chunk_root_node_maps_logical_addresses_def n(1) chunk_root_map [OF n(2)]
        u64_checked_add_def Let_def)
qed

lemma flip_test: "node_crc32c_fails_on_byte_flip"
proof -
  obtain n where n: "node_parse crc32c_ref chunk_root_leaf = Inr n" "n_crc_valid n = Some True"
    by (rule chunk_root_leaf_node)
  let ?b = "chunk_root_leaf" and ?x = "chunk_root_leaf ! 200 XOR 0xFF"
  have len: "length ?b = 16384" by (simp add: chunk_root_leaf_def runs_def)
  have ok: "verify_superblock_crc32c crc32c_ref ?b 16384"
    using n len by (simp add: node_parse_Inr_iff)
  have "?x \<noteq> ?b ! 200"
  proof
    assume "?x = ?b ! 200"
    then have "?b ! 200 XOR ?x = 0" by simp
    then show False by (simp flip: xor.assoc)
  qed
  then have "?b[200 := ?x] \<noteq> ?b"
    using nth_list_update_eq [of 200 ?b ?x] len by (intro notI) simp
  moreover have edit: "overwrite ?b 200 [?x] = ?b[200 := ?x]"
    using len by (simp add: overwrite_def upd_conv_take_nth_drop)
  ultimately have "\<not> verify_superblock_crc32c crc32c_ref (?b[200 := ?x]) 16384"
    using ref.edit_detected [OF ok, of 200 "[?x]"] by simp
  moreover obtain m where m: "node_parse crc32c_ref (?b[200 := ?x]) = Inr m"
    using node_parse_ok_iff [of crc32c_ref "?b[200 := ?x]"] len by auto
  ultimately have "n_crc_valid m = Some False"
    using len by (simp add: node_parse_Inr_iff)
  with m show ?thesis by (simp add: node_crc32c_fails_on_byte_flip_def Let_def)
qed

lemma hardlink_tests:
  "a_hard_linked_inode_reports_every_name_with_its_parent_tier1 crc"
  "two_names_packed_in_one_inode_ref_item_are_both_returned crc"
  "a_singly_linked_file_reports_exactly_one_name crc" "an_inode_absent_from_the_leaf_yields_no_names crc"
proof -
  have "wf_leaf hardlink_leaf_header (zeros 14541) hardlink_leaf_items"
    by (simp add: wf_leaf_def wf_header_def data_size_def hardlink_leaf_header_def hardlink_leaf_items_def)
  then obtain n where n: "node_parse crc hardlink_leaf = Inr n" and its: "leaf_items n = hardlink_leaf_items"
    using leaf_roundtrip [of hardlink_leaf_header "zeros 14541" hardlink_leaf_items crc]
    by (auto simp: hardlink_leaf_layout)
  have walk: "packed_walk (parse_inode_ref p) (concat (map encode_inode_ref rs)) 0 = rs"
    if "list_all (\<lambda>r. wf_inode_ref p r) rs" for p rs
    using irefs.walk_encode [of rs p "[]"] that by (simp add: list_all_iff)
  let ?ref = "\<lambda>p i name. \<lparr> ir_parent = p, ir_index = i, ir_name = name \<rparr>"
  note encode = encode_inode_ref_def wf_inode_ref_def valid_utf8_ascii to_le_bytes_def nat_le_numeral str_def
  have two: "packed_walk (parse_inode_ref 256) [3, 0, 0, 0, 0, 0, 0, 0, 12, 0, 104, 97, 114, 100, 108, 105, 110, 107, 46, 116, 120, 116, 5, 0, 0, 0, 0, 0, 0, 0, 10, 0, 116, 97, 114, 103, 101, 116, 46, 116, 120, 116] 0 =
      [?ref 256 3 (str ''hardlink.txt''), ?ref 256 5 (str ''target.txt'')]"
    using walk [of 256 "[?ref 256 3 (str ''hardlink.txt''), ?ref 256 5 (str ''target.txt'')]"] by (simp add: encode)
  have second: "packed_walk (parse_inode_ref 65011971) [2, 0, 0, 0, 0, 0, 0, 0, 15, 0, 115, 101, 99, 111, 110, 100, 95, 110, 97, 109, 101, 46, 116, 120, 116] 0 = [?ref 65011971 2 (str ''second_name.txt'')]"
    using walk [of 65011971 "[?ref 65011971 2 (str ''second_name.txt'')]"] by (simp add: encode)
  have plain: "packed_walk (parse_inode_ref 256) [2, 0, 0, 0, 0, 0, 0, 0, 9, 0, 112, 108, 97, 105, 110, 46, 116, 120, 116] 0 =
      [?ref 256 2 (str ''plain.txt'')]"
    using walk [of 256 "[?ref 256 2 (str ''plain.txt'')]"] by (simp add: encode)
  note refs = list_inode_refs_def its hardlink_leaf_items_def INODE_REF_KEY_def
  have linked: "list_inode_refs n LINKED_INO =
      [?ref 256 3 (str ''hardlink.txt''), ?ref 256 5 (str ''target.txt''), ?ref 65011971 2 (str ''second_name.txt'')]"
    by (simp add: refs LINKED_INO_def two second del: str_Cons)
  show "a_hard_linked_inode_reports_every_name_with_its_parent_tier1 crc"
    by (simp add: a_hard_linked_inode_reports_every_name_with_its_parent_tier1_def n linked ROOT_DIR_def SUBDIR_def
        insort_key_def str_def)
  show "two_names_packed_in_one_inode_ref_item_are_both_returned crc"
    by (simp add: two_names_packed_in_one_inode_ref_item_are_both_returned_def n linked ROOT_DIR_def str_def)
  show "a_singly_linked_file_reports_exactly_one_name crc"
    by (simp add: a_singly_linked_file_reports_exactly_one_name_def n refs PLAIN_INO_def ROOT_DIR_def plain)
  show "an_inode_absent_from_the_leaf_yields_no_names crc"
    by (simp add: an_inode_absent_from_the_leaf_yields_no_names_def n refs)
qed

text \<open>A file of one inline extent of generation 7.\<close>

lemma inline_file_content:
  assumes "file_size leaf ino = Some (of_nat (length payload))"
    and "file_extents leaf ino = [(0, inline_bytes 7 payload)]" and "length payload \<le> 1000"
  shows "read_file_from_leaf c leaf img m ss ino = Inr payload"
proof -
  have "(of_nat (length payload) :: u64) \<le> 0x4000000"
    using assms(3) by (simp add: word_le_nat_alt unat_of_nat)
  then have "(of_nat (length payload) :: u64) \<le> logical_bound img"
    by (simp add: logical_bound_def LOGICAL_ALLOC_FLOOR_def le_max_iff_disj)
  moreover have "pieces_of c img m ss (logical_bound img) (file_extents leaf ino) [payload]"
    using assms(2,3) by (simp add: pieces_of_def extent_bytes_inline_bytes)
  ultimately show ?thesis
    unfolding read_file_from_leaf_Inr_iff using assms(1,3)
    by (intro exI [of _ "of_nat (length payload)"] exI [of _ "[payload]"]) (simp add: unat_of_nat)
qed

lemmas inline_eval = inline_bytes_def to_le_bytes_def nat_le_numeral zeros_def [of 5] replicate_num

lemma secret_length: "length secret_txt = 80"
  by (simp add: secret_txt_def)

lemma secret_content:
  assumes "leaf_items old = del_old_leaf_items"
  shows "read_file_from_leaf c old img m ss 257 = Inr secret_txt"
proof (rule inline_file_content)
  show "file_size old 257 = Some (of_nat (length secret_txt))"
    by (simp add: file_size_def assms del_old_leaf_items_def fs_consts read_bytes secret_length)
  show "file_extents old 257 = [(0, inline_bytes 7 secret_txt)]"
    by (simp add: file_extents_def assms del_old_leaf_items_def EXTENT_DATA_KEY_def secret_txt_def inline_eval)
qed (simp add: secret_length)

lemma secret_name:
  assumes "leaf_items old = del_old_leaf_items"
  shows "old_name old 257 = str ''secret.txt''"
proof -
  let ?item = "[1, 1, 0, 0, 0, 0, 0, 0, 1, 0, 0, 0, 0, 0, 0, 0, 0, 7, 0, 0, 0, 0, 0, 0, 0, 0, 0, 10, 0, 1,
      115, 101, 99, 114, 101, 116, 46, 116, 120, 116]"
  have "parse_dir_item ?item = Some \<lparr> de_name = str ''secret.txt'', de_child = 257, de_type = FileItem \<rparr>"
    by (simp add: parse_dir_item_def dir_offsets read_bytes Let_def from_utf8_lossy_ascii dir_item_type_from_byte_def
        unwrap_or_def str_def)
  then show ?thesis
    by (simp add: old_name_def assms del_old_leaf_items_def leaf_dir_entries_def List.map_filter_simps)
qed

lemma secret_carved:
  assumes "leaf_items old = del_old_leaf_items" "n_header old = del_old_leaf_header"
  shows "carved c old img m ss (\<lparr> k_objectid = 257, k_type = 1, k_offset = 0 \<rparr>, data) =
    \<lparr> rf_path = str ''secret.txt'', rf_inode = 257, rf_generation = 7, rf_size = i_size (inode_parse 257 data),
      rf_content = secret_txt,
      rf_content_sha256 = str ''4fce0707f6dbddc3e37931fd76044862979ddca3d80b97e338197f8995e8d312'' \<rparr>"
  using assms by (simp add: carved_def secret_name secret_content old_content_def secret_sha256 del_old_leaf_header_def del: str_Cons)

lemma deletion_pair:
  assumes "n_header old = del_old_leaf_header" "leaf_items old = del_old_leaf_items"
    and "leaf_items current = del_current_leaf_items"
  shows "recover_deleted_from_leaves c old current img m ss =
    [\<lparr> rf_path = str ''secret.txt'', rf_inode = 257, rf_generation = 7, rf_size = 80, rf_content = secret_txt,
       rf_content_sha256 = DELETED_SECRET_SHA256 \<rparr>]"
proof -
  have "h_owner del_old_leaf_header = 5" by (simp add: del_old_leaf_header_def)
  moreover have "\<exists>data. filter (deleted_since old current) (leaf_items old) =
      [(\<lparr> k_objectid = 257, k_type = 1, k_offset = 0 \<rparr>, data)] \<and> i_size (inode_parse 257 data) = 80"
    by (simp add: deleted_since_def assms del_old_leaf_items_def del_current_leaf_items_def inode_parse_def
        fs_consts read_bytes)
  ultimately show ?thesis
    using assms(1,2) by (auto simp: recover_pair_eq secret_carved DELETED_SECRET_SHA256_def simp del: str_Cons)
qed

text \<open>The items of the deleted file, as layouts.\<close>

definition secret_inode :: inode where
  "secret_inode = \<lparr> i_objectid = 257, i_generation = 7, i_transid = 7, i_size = 80, i_nbytes = 80, i_nlink = 1,
     i_uid = 0, i_gid = 0, i_mode = 33152, i_flags = 0,
     i_atime = \<lparr> t_sec = 1783941384, t_nsec = 266053735 \<rparr>, i_ctime = \<lparr> t_sec = 1783941384, t_nsec = 267053735 \<rparr>,
     i_mtime = \<lparr> t_sec = 1783941384, t_nsec = 267053735 \<rparr>, i_otime = \<lparr> t_sec = 1783941384, t_nsec = 266053735 \<rparr> \<rparr>"

definition secret_entry :: dir_entry where
  "secret_entry = \<lparr> de_name = str ''secret.txt'', de_child = 257, de_type = FileItem \<rparr>"

lemma secret_layouts:
  "inode_item_bytes 0 0 2 secret_inode = snd (del_old_leaf_items ! 6)"
  "dir_item_bytes 1 0 7 secret_entry = snd (del_old_leaf_items ! 2)"
  "inline_bytes 7 secret_txt = snd (del_old_leaf_items ! 8)"
  by (simp_all add: inode_item_bytes_def secret_inode_def dir_item_bytes_def secret_entry_def inline_eval
      encode_timestamp_def del_old_leaf_items_def secret_txt_def zeros_def [of 32] str_def)

section \<open>Properties\<close>

text \<open>
  Claim C9. The deletion of the repository's oracle disk is undone. The two leaves the kernel wrote, before and
  after \<open>secret.txt\<close> was removed, parse with verified checksums, and from them, with any image, chunk map and
  decoders, exactly that file comes back: its name, inode, generation and size, its 80 bytes, and the SHA-256
  that was taken before the deletion. All of the tests over these leaves hold.
\<close>

theorem real_deletion_recovered:
  "(\<exists>old current. node_parse crc32c_ref del_old_leaf = Inr old \<and> n_crc_valid old = Some True \<and>
      node_parse crc32c_ref del_current_leaf = Inr current \<and> n_crc_valid current = Some True \<and>
      (\<forall>img m ss. recover_deleted_from_leaves c old current img m ss =
         [\<lparr> rf_path = str ''secret.txt'', rf_inode = 257, rf_generation = 7, rf_size = 80, rf_content = secret_txt,
            rf_content_sha256 = DELETED_SECRET_SHA256 \<rparr>])) \<and>
   recovers_deleted_inline_file_from_old_generation_leaf c \<and> kept_file_is_not_reported_as_deleted c \<and>
   identical_leaves_recover_nothing c"
proof -
  obtain old where old: "node_parse crc32c_ref del_old_leaf = Inr old" "n_header old = del_old_leaf_header"
      "leaf_items old = del_old_leaf_items" "n_crc_valid old = Some True"
    by (rule del_old_leaf_node)
  obtain current where current: "node_parse crc32c_ref del_current_leaf = Inr current"
      "leaf_items current = del_current_leaf_items" "n_crc_valid current = Some True"
    by (rule del_current_leaf_node)
  note pair = deletion_pair [OF old(2,3) current(2), of c]
  have "recovers_deleted_inline_file_from_old_generation_leaf c"
    by (simp add: recovers_deleted_inline_file_from_old_generation_leaf_def old current pair secret_length
        secret_sha256 DELETED_SECRET_SHA256_def del: str_Cons)
  moreover have "kept_file_is_not_reported_as_deleted c"
    by (simp add: kept_file_is_not_reported_as_deleted_def old current pair)
  moreover have "filter (deleted_since old old) (leaf_items old) = []"
    by (auto simp: filter_empty_conv deleted_since_def)
  then have "identical_leaves_recover_nothing c"
    by (simp add: identical_leaves_recover_nothing_def old recover_pair_eq)
  ultimately show ?thesis
    using old(1,4) current(1,3) pair by blast
qed
text \<open>The kernel's leaves are an instance of the theorem on deleted files.\<close>

theorem deleted_file_content_witness:
  "\<exists>old current. node_parse crc32c_ref del_old_leaf = Inr old \<and> node_parse crc32c_ref del_current_leaf = Inr current \<and>
     \<lparr> rf_path = str ''secret.txt'', rf_inode = 257, rf_generation = 7, rf_size = 80, rf_content = secret_txt,
       rf_content_sha256 = sha256_hex secret_txt \<rparr>
     \<in> set (recover_deleted_from_leaves demo_codecs old current [] [] 4096)"
proof -
  obtain old where old: "node_parse crc32c_ref del_old_leaf = Inr old" "n_header old = del_old_leaf_header"
      "leaf_items old = del_old_leaf_items"
    by (rule del_old_leaf_node)
  obtain current where current: "node_parse crc32c_ref del_current_leaf = Inr current"
      "leaf_items current = del_current_leaf_items"
    by (rule del_current_leaf_node)
  have "\<lparr> rf_path = de_name secret_entry, rf_inode = 257, rf_generation = h_generation (n_header old),
      rf_size = i_size secret_inode, rf_content = secret_txt, rf_content_sha256 = sha256_hex secret_txt \<rparr>
    \<in> set (recover_deleted_from_leaves demo_codecs old current [] [] 4096)"
  proof (rule deleted_file_content [where e = secret_entry and i = secret_inode and payload = secret_txt])
    show "h_owner (n_header old) = 5"
      by (simp add: old del_old_leaf_header_def)
    show "find (\<lambda>(k, _). k_objectid k = 257 \<and> k_type k = 1) (leaf_items old) =
        Some (\<lparr>k_objectid = 257, k_type = 1, k_offset = 0\<rparr>, inode_item_bytes 0 0 2 secret_inode)"
      unfolding secret_layouts old by (simp add: del_old_leaf_items_def)
    show "filter (\<lambda>(k, _). k_objectid k = 257 \<and> k_type k = 108) (leaf_items old) =
        [(\<lparr>k_objectid = 257, k_type = 108, k_offset = 0\<rparr>, inline_bytes 7 secret_txt)]"
      unfolding secret_layouts old by (simp add: del_old_leaf_items_def)
    show "leaf_items old = take 2 del_old_leaf_items @
        (\<lparr>k_objectid = 256, k_type = 84, k_offset = 3675468270\<rparr>, dir_item_bytes 1 0 7 secret_entry) #
        drop 3 del_old_leaf_items"
      unfolding secret_layouts old by (simp add: del_old_leaf_items_def)
    show "\<forall>d\<in>set (leaf_dir_entries (take 2 del_old_leaf_items)). de_child d \<noteq> 257"
      by (simp add: del_old_leaf_items_def leaf_dir_entries_def List.map_filter_simps)
    show "\<forall>it\<in>set (leaf_items current). k_objectid (fst it) \<noteq> 257 \<or> k_type (fst it) \<noteq> 1"
      by (simp add: current del_current_leaf_items_def)
  qed (simp_all add: secret_entry_def secret_inode_def secret_length wf_dir_entry_def str_def valid_utf8_ascii)
  then show ?thesis
    using old current by (auto simp: secret_entry_def secret_inode_def del_old_leaf_header_def simp del: str_Cons)
qed

end
