(* ===== verification/Oracle_Fs_Tests.thy ===== *)
theory Oracle_Fs_Tests
  imports Oracle_Fs_Data Oracle_Fs_Hash Oracle_Tests
begin

text \<open>
  The always-on tests of \<open>core/tests/fstree.rs\<close>, \<open>core/tests/extent.rs\<close> and \<open>core/tests/xattr.rs\<close> over leaves of
  real disks: inodes, listings, paths, contents and attributes as the kernel and its tools report them.
\<close>

section \<open>core/tests/fstree.rs\<close>

definition FS_TREE_LEAF_LOGICAL :: u64 where "FS_TREE_LEAF_LOGICAL = 30654464"

definition fs_tree_leaf_header_matches_dump_tree :: bool where
  "fs_tree_leaf_header_matches_dump_tree \<longleftrightarrow>
     expecting (node_parse crc32c_ref fs_tree_leaf) (\<lambda>node.
       h_bytenr (n_header node) = FS_TREE_LEAF_LOGICAL \<and> h_generation (n_header node) = 8 \<and>
       h_owner (n_header node) = FS_TREE_OBJECTID \<and> h_nritems (n_header node) = 25 \<and>
       h_level (n_header node) = 0 \<and> n_crc_valid node = Some True)"

definition known_inodes_decode_size_mode_and_mtime :: bool where
  "known_inodes_decode_size_mode_and_mtime \<longleftrightarrow>
     expecting (node_parse crc32c_ref fs_tree_leaf) (\<lambda>node.
       unwrapping (read_inode node 257) (\<lambda>small.
         i_size small = 26 \<and> i_mode small = 0x81A4 \<and> i_nlink small = 1 \<and> is_file small \<and> \<not> is_dir small \<and>
         t_sec (i_mtime small) = 1783927276 \<and> t_nsec (i_mtime small) = 206047007 \<and>
         t_nsec (i_ctime small) = 206047007 \<and> t_nsec (i_atime small) = 251047007 \<and>
         t_nsec (i_otime small) = 206047007 \<and> i_generation small = 7) \<and>
       unwrapping (read_inode node 258) (\<lambda>mid.
         i_size mid = 65536 \<and> i_mode mid = 0x81A4 \<and> t_nsec (i_mtime mid) = 216047007) \<and>
       unwrapping (read_inode node 259) (\<lambda>dir.
         i_size dir = 6 \<and> i_mode dir = 0x41ED \<and> is_dir dir \<and> \<not> is_file dir \<and>
         t_nsec (i_mtime dir) = 226047007) \<and>
       unwrapping (read_inode node 260) (\<lambda>sub.
         i_size sub = 16 \<and> i_mode sub = 0x41ED \<and> t_nsec (i_mtime sub) = 231047007) \<and>
       unwrapping (read_inode node 261) (\<lambda>leaf.
         i_size leaf = 20 \<and> i_mode leaf = 0x81A4 \<and> t_nsec (i_mtime leaf) = 231047007) \<and>
       unwrapping (read_inode node FS_TREE_ROOT_DIR_OBJECTID) (\<lambda>root.
         i_size root = 38 \<and> i_mode root = 0x41ED \<and> is_dir root))"

definition read_inode_absent_objectid_is_none :: bool where
  "read_inode_absent_objectid_is_none \<longleftrightarrow>
     expecting (node_parse crc32c_ref fs_tree_leaf) (\<lambda>node. read_inode node 9999 = None)"

definition list_dir_root_matches_ls_i :: bool where
  "list_dir_root_matches_ls_i \<longleftrightarrow>
     expecting (node_parse crc32c_ref fs_tree_leaf) (\<lambda>node.
       let entries = list_dir node FS_TREE_ROOT_DIR_OBJECTID;
           by_name = sort_key fst (map (\<lambda>e. (de_name e, de_child e, de_type e)) entries) in
       by_name = [(str ''dir'', 259, DirItem), (str ''mid.bin'', 258, FileItem), (str ''small.txt'', 257, FileItem)])"

definition list_dir_subdir_matches_ls_i :: bool where
  "list_dir_subdir_matches_ls_i \<longleftrightarrow>
     expecting (node_parse crc32c_ref fs_tree_leaf) (\<lambda>node.
       let dir_entries = list_dir node 259; sub_entries = list_dir node 260 in
       length dir_entries = 1 \<and> de_name (dir_entries ! 0) = str ''sub'' \<and>
       de_child (dir_entries ! 0) = 260 \<and> de_type (dir_entries ! 0) = DirItem \<and>
       length sub_entries = 1 \<and> de_name (sub_entries ! 0) = str ''leaf.txt'' \<and>
       de_child (sub_entries ! 0) = 261 \<and> de_type (sub_entries ! 0) = FileItem)"

definition list_dir_of_a_file_or_absent_dir_is_empty :: bool where
  "list_dir_of_a_file_or_absent_dir_is_empty \<longleftrightarrow>
     expecting (node_parse crc32c_ref fs_tree_leaf) (\<lambda>node. list_dir node 257 = [] \<and> list_dir node 4242 = [])"

definition read_by_path_resolves_known_files :: bool where
  "read_by_path_resolves_known_files \<longleftrightarrow>
     expecting (node_parse crc32c_ref fs_tree_leaf) (\<lambda>node.
       unwrapping (read_by_path node (str ''/small.txt'')) (\<lambda>(ino, i). ino = 257 \<and> i_size i = 26 \<and> is_file i) \<and>
       unwrapping (read_by_path node (str ''/dir'')) (\<lambda>(ino, i). ino = 259 \<and> is_dir i) \<and>
       unwrapping (read_by_path node (str ''/dir/sub'')) (\<lambda>(ino, _). ino = 260) \<and>
       unwrapping (read_by_path node (str ''/dir/sub/leaf.txt'')) (\<lambda>(ino, i).
         ino = 261 \<and> i_size i = 20 \<and> is_file i) \<and>
       unwrapping (read_by_path node (str ''/'')) (\<lambda>(ino, i). ino = FS_TREE_ROOT_DIR_OBJECTID \<and> is_dir i))"

definition read_by_path_missing_component_is_none :: bool where
  "read_by_path_missing_component_is_none \<longleftrightarrow>
     expecting (node_parse crc32c_ref fs_tree_leaf) (\<lambda>node.
       read_by_path node (str ''/nope'') = None \<and> read_by_path node (str ''/dir/missing'') = None \<and>
       read_by_path node (str ''/small.txt/deeper'') = None)"

definition read_by_path_tolerates_extra_and_trailing_slashes :: bool where
  "read_by_path_tolerates_extra_and_trailing_slashes \<longleftrightarrow>
     expecting (node_parse crc32c_ref fs_tree_leaf) (\<lambda>node.
       map_option fst (read_by_path node (str ''/dir/sub/'')) = Some 260 \<and>
       map_option fst (read_by_path node (str ''//dir//sub'')) = Some 260 \<and>
       map_option fst (read_by_path node (str ''small.txt'')) = Some 257)"

definition key_type_constants_match_the_on_disk_values :: bool where
  "key_type_constants_match_the_on_disk_values \<longleftrightarrow>
     INODE_ITEM_KEY = 1 \<and> INODE_REF_KEY = 12 \<and> FS_TREE_OBJECTID = 5 \<and> FS_TREE_ROOT_DIR_OBJECTID = 256"

section \<open>core/tests/extent.rs\<close>

definition SECTORSIZE :: u32 where "SECTORSIZE = 4096"

definition SMALL_TXT_SHA :: rstring where
  "SMALL_TXT_SHA = str ''9ca0c72a68735d1609cee7f1a60bcd80bf93b97db99c913887a4ace34111c10c''"

definition LEAF_TXT_SHA :: rstring where
  "LEAF_TXT_SHA = str ''c7a34a532566fb437362e0cfd8b99d7ced90b6b13731489661968aab893c9cad''"

definition read_inline_file_small_txt_matches_mount_sha256 :: "codecs \<Rightarrow> bool" where
  "read_inline_file_small_txt_matches_mount_sha256 c \<longleftrightarrow>
     expecting (node_parse crc32c_ref fs_tree_leaf) (\<lambda>node.
     expecting (read_file_from_leaf c node [] map_new SECTORSIZE 257) (\<lambda>bytes.
       length bytes = 26 \<and> bytes = str ''hello inline btrfs oracle'' @ [10] \<and> sha256_hex bytes = SMALL_TXT_SHA))"

definition read_inline_nested_leaf_txt_matches_mount_sha256 :: "codecs \<Rightarrow> bool" where
  "read_inline_nested_leaf_txt_matches_mount_sha256 c \<longleftrightarrow>
     expecting (node_parse crc32c_ref fs_tree_leaf) (\<lambda>node.
     expecting (read_file_from_leaf c node [] map_new SECTORSIZE 261) (\<lambda>bytes.
       length bytes = 20 \<and> bytes = str ''nested leaf content'' @ [10] \<and> sha256_hex bytes = LEAF_TXT_SHA))"

definition read_file_of_absent_inode_is_a_loud_error :: "codecs \<Rightarrow> bool" where
  "read_file_of_absent_inode_is_a_loud_error c \<longleftrightarrow>
     expecting (node_parse crc32c_ref fs_tree_leaf) (\<lambda>node.
       case read_file_from_leaf c node [] map_new SECTORSIZE 9999 of Inl (Truncated _ _ _) \<Rightarrow> True | _ \<Rightarrow> False)"

section \<open>core/tests/xattr.rs\<close>

definition FILE_OBJECTID :: u64 where "FILE_OBJECTID = 257"
definition DIR_OBJECTID :: u64 where "DIR_OBJECTID = 258"

definition xattr_items_are_listed_with_full_names :: "(bytes \<Rightarrow> u32) \<Rightarrow> bool" where
  "xattr_items_are_listed_with_full_names crc \<longleftrightarrow>
     expecting (node_parse crc xattr_leaf) (\<lambda>node.
       let attrs = list_xattrs node FILE_OBJECTID; names = map xa_name attrs in
       length attrs = 5 \<and>
       list_all (\<lambda>want. want \<in> set names)
         [str ''user.small'', str ''user.comment'', str ''user.big'', str ''trusted.t'', str ''security.selinux''])"

definition values_are_byte_exact :: "(bytes \<Rightarrow> u32) \<Rightarrow> bool" where
  "values_are_byte_exact crc \<longleftrightarrow>
     expecting (node_parse crc xattr_leaf) (\<lambda>node.
       let attrs = list_xattrs node FILE_OBJECTID;
           value_of = (\<lambda>n. map_option xa_value (find (\<lambda>x. xa_name x = n) attrs)) in
       value_of (str ''user.small'') = Some (str ''tiny-value'') \<and>
       value_of (str ''user.comment'') = Some (str ''a second attribute'') \<and>
       value_of (str ''trusted.t'') = Some (str ''trusted-value'') \<and>
       value_of (str ''user.big'') = Some (replicate 2000 66))"

definition attributes_are_scoped_to_their_own_inode :: "(bytes \<Rightarrow> u32) \<Rightarrow> bool" where
  "attributes_are_scoped_to_their_own_inode crc \<longleftrightarrow>
     expecting (node_parse crc xattr_leaf) (\<lambda>node.
       let names = map xa_name (list_xattrs node DIR_OBJECTID) in
       str ''user.ondir'' \<in> set names \<and> str ''user.small'' \<notin> set names)"

definition an_inode_without_attributes_lists_nothing :: "(bytes \<Rightarrow> u32) \<Rightarrow> bool" where
  "an_inode_without_attributes_lists_nothing crc \<longleftrightarrow>
     expecting (node_parse crc xattr_leaf) (\<lambda>node. list_xattrs node 999999 = [])"

section \<open>They hold\<close>

lemma dir_items:
    "parse_dir_item [1, 1, 0, 0, 0, 0, 0, 0, 1, 0, 0, 0, 0, 0, 0, 0, 0, 7, 0, 0, 0, 0, 0, 0, 0, 0, 0, 9, 0, 1, 115,
    109, 97, 108, 108, 46, 116, 120, 116] =
    Some \<lparr> de_name = str ''small.txt'', de_child = 257, de_type =
    FileItem \<rparr>"
    "parse_dir_item [3, 1, 0, 0, 0, 0, 0, 0, 1, 0, 0, 0, 0, 0, 0, 0, 0, 7, 0, 0, 0, 0, 0, 0, 0, 0, 0, 3, 0, 2, 100,
    105, 114] =
    Some \<lparr> de_name = str ''dir'', de_child = 259, de_type = DirItem \<rparr>"
    "parse_dir_item [2, 1, 0, 0, 0, 0, 0, 0, 1, 0, 0, 0, 0, 0, 0, 0, 0, 7, 0, 0, 0, 0, 0, 0, 0, 0, 0, 7, 0, 1, 109,
    105, 100, 46, 98, 105, 110] =
    Some \<lparr> de_name = str ''mid.bin'', de_child = 258, de_type = FileItem
    \<rparr>"
    "parse_dir_item [4, 1, 0, 0, 0, 0, 0, 0, 1, 0, 0, 0, 0, 0, 0, 0, 0, 7, 0, 0, 0, 0, 0, 0, 0, 0, 0, 3, 0, 2, 115,
    117, 98] =
    Some \<lparr> de_name = str ''sub'', de_child = 260, de_type = DirItem \<rparr>"
    "parse_dir_item [5, 1, 0, 0, 0, 0, 0, 0, 1, 0, 0, 0, 0, 0, 0, 0, 0, 7, 0, 0, 0, 0, 0, 0, 0, 0, 0, 8, 0, 1, 108,
    101, 97, 102, 46, 116, 120, 116] =
    Some \<lparr> de_name = str ''leaf.txt'', de_child = 261, de_type =
    FileItem \<rparr>"
  by (simp_all add: parse_dir_item_def dir_offsets read_bytes Let_def from_utf8_lossy_ascii dir_item_type_from_byte_def
      unwrap_or_def str_def)

lemma oracle_listing:
  assumes "leaf_items n = fs_tree_leaf_items"
  shows "list_dir n 256 = [\<lparr> de_name = str ''small.txt'', de_child = 257, de_type = FileItem \<rparr>,
      \<lparr> de_name = str ''dir'', de_child = 259, de_type = DirItem \<rparr>,
      \<lparr> de_name = str ''mid.bin'', de_child = 258, de_type = FileItem \<rparr>]"
    and "list_dir n 259 = [\<lparr> de_name = str ''sub'', de_child = 260, de_type = DirItem \<rparr>]"
    and "list_dir n 260 = [\<lparr> de_name = str ''leaf.txt'', de_child = 261, de_type = FileItem \<rparr>]"
    and "list_dir n 257 = []" and "list_dir n 4242 = []"
  by (simp_all add: list_dir_eq assms fs_tree_leaf_items_def dir_item_entries_def is_dir_key_def fs_consts
      List.map_filter_simps dir_items name_child_def)

lemmas oracle_inode_eval = read_inode_def fs_tree_leaf_items_def fs_consts inode_parse_def timestamp_parse_def
  read_bytes is_file_def is_dir_def S_IFMT_def S_IFREG_def S_IFDIR_def

lemma inode_tests:
  "fs_tree_leaf_header_matches_dump_tree" "known_inodes_decode_size_mode_and_mtime"
  "read_inode_absent_objectid_is_none" "key_type_constants_match_the_on_disk_values"
proof -
  obtain n where n: "node_parse crc32c_ref fs_tree_leaf = Inr n" "n_header n = fs_tree_leaf_header"
      "leaf_items n = fs_tree_leaf_items" "n_crc_valid n = Some True"
    by (rule fs_tree_leaf_node)
  show "fs_tree_leaf_header_matches_dump_tree"
    by (simp add: fs_tree_leaf_header_matches_dump_tree_def n fs_tree_leaf_header_def FS_TREE_LEAF_LOGICAL_def fs_consts)
  show "known_inodes_decode_size_mode_and_mtime"
    by (simp add: known_inodes_decode_size_mode_and_mtime_def n oracle_inode_eval)
  show "read_inode_absent_objectid_is_none"
    by (simp add: read_inode_absent_objectid_is_none_def n oracle_inode_eval)
  show "key_type_constants_match_the_on_disk_values"
    by (simp add: key_type_constants_match_the_on_disk_values_def fs_consts)
qed

lemma listing_tests:
  "list_dir_root_matches_ls_i" "list_dir_subdir_matches_ls_i" "list_dir_of_a_file_or_absent_dir_is_empty"
proof -
  obtain n where n: "node_parse crc32c_ref fs_tree_leaf = Inr n" "leaf_items n = fs_tree_leaf_items"
    by (rule fs_tree_leaf_node)
  note listing = oracle_listing [OF n(2)]
  show "list_dir_root_matches_ls_i"
    by (simp add: list_dir_root_matches_ls_i_def n(1) listing FS_TREE_ROOT_DIR_OBJECTID_def str_def)
  show "list_dir_subdir_matches_ls_i"
    by (simp add: list_dir_subdir_matches_ls_i_def n(1) listing Let_def)
  show "list_dir_of_a_file_or_absent_dir_is_empty"
    by (simp add: list_dir_of_a_file_or_absent_dir_is_empty_def n(1) listing)
qed

lemma path_tests:
  "read_by_path_resolves_known_files" "read_by_path_missing_component_is_none"
  "read_by_path_tolerates_extra_and_trailing_slashes"
proof -
  obtain n where n: "node_parse crc32c_ref fs_tree_leaf = Inr n" "leaf_items n = fs_tree_leaf_items"
    by (rule fs_tree_leaf_node)
  obtain root small dir sub leaf where i: "read_inode n 256 = Some root" "read_inode n 257 = Some small"
      "read_inode n 259 = Some dir" "read_inode n 260 = Some sub" "read_inode n 261 = Some leaf"
    and k: "is_dir root" "\<not> is_dir small" "is_dir dir" "is_dir sub" "is_file small" "is_file leaf"
      "i_size small = 26" "i_size leaf = 20"
    by (simp add: n oracle_inode_eval)
  note eval = read_by_path_def components_def oracle_listing [OF n(2)] i k n(1) FS_TREE_ROOT_DIR_OBJECTID_def str_def
  show "read_by_path_resolves_known_files"
    by (simp add: read_by_path_resolves_known_files_def eval)
  show "read_by_path_missing_component_is_none"
    by (simp add: read_by_path_missing_component_is_none_def eval)
  show "read_by_path_tolerates_extra_and_trailing_slashes"
    by (simp add: read_by_path_tolerates_extra_and_trailing_slashes_def eval)
qed

lemma inline_content_tests:
  "read_inline_file_small_txt_matches_mount_sha256 c" "read_inline_nested_leaf_txt_matches_mount_sha256 c"
  "read_file_of_absent_inode_is_a_loud_error c"
proof -
  obtain n where n: "node_parse crc32c_ref fs_tree_leaf = Inr n" "leaf_items n = fs_tree_leaf_items"
    by (rule fs_tree_leaf_node)
  have len: "length small_txt = 26" "length nested_txt = 20"
    by (simp_all add: small_txt_def nested_txt_def)
  have "read_file_from_leaf c n [] map_new SECTORSIZE 257 = Inr small_txt"
  proof (rule inline_file_content)
    show "file_size n 257 = Some (of_nat (length small_txt))"
      by (simp add: file_size_def n fs_tree_leaf_items_def fs_consts read_bytes len)
    show "file_extents n 257 = [(0, inline_bytes 7 small_txt)]"
      by (simp add: file_extents_def n fs_tree_leaf_items_def EXTENT_DATA_KEY_def small_txt_def inline_eval)
  qed (simp add: len)
  then show "read_inline_file_small_txt_matches_mount_sha256 c"
    by (simp add: read_inline_file_small_txt_matches_mount_sha256_def n small_sha256 SMALL_TXT_SHA_def len)
      (simp add: small_txt_def str_def)
  have "read_file_from_leaf c n [] map_new SECTORSIZE 261 = Inr nested_txt"
  proof (rule inline_file_content)
    show "file_size n 261 = Some (of_nat (length nested_txt))"
      by (simp add: file_size_def n fs_tree_leaf_items_def fs_consts read_bytes len)
    show "file_extents n 261 = [(0, inline_bytes 7 nested_txt)]"
      by (simp add: file_extents_def n fs_tree_leaf_items_def EXTENT_DATA_KEY_def nested_txt_def inline_eval)
  qed (simp add: len)
  then show "read_inline_nested_leaf_txt_matches_mount_sha256 c"
    by (simp add: read_inline_nested_leaf_txt_matches_mount_sha256_def n nested_sha256 LEAF_TXT_SHA_def len)
      (simp add: nested_txt_def str_def)
  have "file_size n 9999 = None"
    by (simp add: file_size_def n fs_tree_leaf_items_def fs_consts)
  then show "read_file_of_absent_inode_is_a_loud_error c"
    by (simp add: read_file_of_absent_inode_is_a_loud_error_def n read_file_from_leaf_def)
qed

lemma one_xattr:
  assumes "parse_xattr_item d = Some (x, length d)"
  shows "packed_walk parse_xattr_item d 0 = [x]"
  using xattrs.walk_Some [OF assms] by simp

lemma xattr_records:
    "packed_walk parse_xattr_item ([0, 0, 0, 0, 0, 0, 0, 0, 0, 0, 0, 0, 0, 0, 0, 0, 0, 9, 0, 0, 0, 0, 0, 0, 0, 10,
    0, 10, 0, 8, 117, 115, 101, 114, 46, 115, 109, 97, 108, 108, 116, 105, 110, 121, 45, 118, 97, 108, 117, 101]) 0
    =
    [\<lparr> xa_name = str ''user.small'', xa_value = [116, 105, 110, 121, 45, 118, 97, 108, 117, 101]
    \<rparr>]"
    "packed_walk parse_xattr_item ([0, 0, 0, 0, 0, 0, 0, 0, 0, 0, 0, 0, 0, 0, 0, 0, 0, 9, 0, 0, 0, 0, 0, 0, 0, 13,
    0, 9, 0, 8, 116, 114, 117, 115, 116, 101, 100, 46, 116, 116, 114, 117, 115, 116, 101, 100, 45, 118, 97, 108, 117,
    101]) 0 =
    [\<lparr> xa_name = str ''trusted.t'', xa_value = [116, 114, 117, 115, 116, 101, 100, 45, 118, 97,
    108, 117, 101] \<rparr>]"
    "packed_walk parse_xattr_item ([0, 0, 0, 0, 0, 0, 0, 0, 0, 0, 0, 0, 0, 0, 0, 0, 0, 9, 0, 0, 0, 0, 0, 0, 0, 208,
    7, 8, 0, 8, 117, 115, 101, 114, 46, 98, 105, 103] @ replicate 2000 66) 0 =
    [\<lparr> xa_name = str
    ''user.big'', xa_value = replicate 2000 66 \<rparr>]"
    "packed_walk parse_xattr_item ([0, 0, 0, 0, 0, 0, 0, 0, 0, 0, 0, 0, 0, 0, 0, 0, 0, 9, 0, 0, 0, 0, 0, 0, 0, 18,
    0, 12, 0, 8, 117, 115, 101, 114, 46, 99, 111, 109, 109, 101, 110, 116, 97, 32, 115, 101, 99, 111, 110, 100, 32,
    97, 116, 116, 114, 105, 98, 117, 116, 101]) 0 =
    [\<lparr> xa_name = str ''user.comment'', xa_value = [97, 32,
    115, 101, 99, 111, 110, 100, 32, 97, 116, 116, 114, 105, 98, 117, 116, 101] \<rparr>]"
    "packed_walk parse_xattr_item ([0, 0, 0, 0, 0, 0, 0, 0, 0, 0, 0, 0, 0, 0, 0, 0, 0, 9, 0, 0, 0, 0, 0, 0, 0, 37,
    0, 16, 0, 8, 115, 101, 99, 117, 114, 105, 116, 121, 46, 115, 101, 108, 105, 110, 117, 120, 117, 110, 99, 111,
    110, 102, 105, 110, 101, 100, 95, 117, 58, 111, 98, 106, 101, 99, 116, 95, 114, 58, 117, 110, 108, 97, 98, 101,
    108, 101, 100, 95, 116, 58, 115, 48, 0]) 0 =
    [\<lparr> xa_name = str ''security.selinux'', xa_value = [117,
    110, 99, 111, 110, 102, 105, 110, 101, 100, 95, 117, 58, 111, 98, 106, 101, 99, 116, 95, 114, 58, 117, 110, 108,
    97, 98, 101, 108, 101, 100, 95, 116, 58, 115, 48, 0] \<rparr>]"
    "packed_walk parse_xattr_item ([0, 0, 0, 0, 0, 0, 0, 0, 0, 0, 0, 0, 0, 0, 0, 0, 0, 9, 0, 0, 0, 0, 0, 0, 0, 14,
    0, 10, 0, 8, 117, 115, 101, 114, 46, 111, 110, 100, 105, 114, 111, 110, 45, 97, 45, 100, 105, 114, 101, 99, 116,
    111, 114, 121]) 0 =
    [\<lparr> xa_name = str ''user.ondir'', xa_value = [111, 110, 45, 97, 45, 100, 105, 114,
    101, 99, 116, 111, 114, 121] \<rparr>]"
  by (rule one_xattr, simp add: parse_xattr_item_def dir_offsets read_bytes Let_def usize_checked_add_def usize_max_def
      from_utf8_lossy_ascii str_def)+

lemma xattr_tests:
  "xattr_items_are_listed_with_full_names crc" "values_are_byte_exact crc"
  "attributes_are_scoped_to_their_own_inode crc" "an_inode_without_attributes_lists_nothing crc"
proof -
  obtain n where n: "node_parse crc xattr_leaf = Inr n" "leaf_items n = xattr_leaf_items"
    by (rule xattr_leaf_node)
  note eval = list_xattrs_def n xattr_leaf_items_def XATTR_ITEM_KEY_def xattr_records [simplified] FILE_OBJECTID_def
    DIR_OBJECTID_def str_def Let_def
  show "xattr_items_are_listed_with_full_names crc"
    by (simp add: xattr_items_are_listed_with_full_names_def eval)
  show "values_are_byte_exact crc"
    by (simp add: values_are_byte_exact_def eval)
  show "attributes_are_scoped_to_their_own_inode crc"
    by (simp add: attributes_are_scoped_to_their_own_inode_def eval)
  show "an_inode_without_attributes_lists_nothing crc"
    by (simp add: an_inode_without_attributes_lists_nothing_def eval)
qed

section \<open>Properties\<close>

text \<open>
  Claim C19. Blocks of real disks decode to what the kernel and its tools say of them. The superblock that mkfs
  wrote, the chunk tree, the FS tree, and the leaves with hard links and with attributes give every field, chunk,
  address, inode, listing, path, content, name and value that the integration tests assert, checksums included; a
  flipped byte is noticed, and a block that is no superblock is refused with the bytes found.
\<close>

theorem real_blocks_decode:
  "fixture_superblock_matches_oracle \<and> bad_magic_fails_loud_with_offending_bytes \<and>
   truncated_buffer_does_not_panic \<and> empty_buffer_does_not_panic \<and>
   header_size_is_101_bytes \<and> chunk_root_header_matches_dump_tree \<and> chunk_root_leaf_items_iterate_in_bounds \<and>
   chunk_items_decode_geometry_and_stripes \<and> node_crc32c_verifies_on_clean_fixture \<and> node_crc32c_fails_on_byte_flip \<and>
   chunk_map_from_chunk_root_node_maps_logical_addresses \<and>
   fs_tree_leaf_header_matches_dump_tree \<and> known_inodes_decode_size_mode_and_mtime \<and>
   read_inode_absent_objectid_is_none \<and> list_dir_root_matches_ls_i \<and> list_dir_subdir_matches_ls_i \<and>
   list_dir_of_a_file_or_absent_dir_is_empty \<and> read_by_path_resolves_known_files \<and>
   read_by_path_missing_component_is_none \<and> read_by_path_tolerates_extra_and_trailing_slashes \<and>
   key_type_constants_match_the_on_disk_values \<and>
   read_inline_file_small_txt_matches_mount_sha256 c \<and> read_inline_nested_leaf_txt_matches_mount_sha256 c \<and>
   read_file_of_absent_inode_is_a_loud_error c \<and>
   xattr_items_are_listed_with_full_names crc \<and> values_are_byte_exact crc \<and>
   attributes_are_scoped_to_their_own_inode crc \<and> an_inode_without_attributes_lists_nothing crc \<and>
   a_hard_linked_inode_reports_every_name_with_its_parent_tier1 crc \<and>
   two_names_packed_in_one_inode_ref_item_are_both_returned crc \<and>
   a_singly_linked_file_reports_exactly_one_name crc \<and> an_inode_absent_from_the_leaf_yields_no_names crc"
  by (intro conjI superblock_test superblock_error_tests node_tests chunk_item_tests flip_test inode_tests
      listing_tests path_tests inline_content_tests xattr_tests hardlink_tests)

end
