(* ===== verification/Oracle_Audit.thy ===== *)
theory Oracle_Audit
  imports Oracle_Fs_Data Oracle_Tests ImageAudit
begin

text \<open>
  The image that \<open>forensic/tests/f_integrity.rs\<close> assembles from blocks of a real disk, about 39 MB: its
  superblock, its chunk tree and its FS tree in their places. The auditor finds nothing in it, and finds what
  the tests break in it.
\<close>

section \<open>forensic/tests/f_integrity.rs\<close>

definition base_image :: bytes where
  "base_image =
     (let img = zeros (39043072 + 16384);
          img = overwrite img 65536 oracle_superblock;
          img = overwrite img 22036480 chunk_root_leaf;
          img = overwrite img 39043072 fs_tree_leaf;
          root_phys = 39108608
      in if length img < root_phys + 16384 then img @ zeros (root_phys + 16384 - length img) else img)"

definition oracle_disk :: "bytes \<Rightarrow> bytes \<Rightarrow> bytes \<Rightarrow> bytes" where
  "oracle_disk sb chunk fs =
     zeros 65536 @ sb @ zeros 21966848 @ chunk @ zeros 16990208 @ fs @ zeros 65536"

lemma block_lengths:
  "length oracle_superblock = 4096" "length chunk_root_leaf = 16384" "length fs_tree_leaf = 16384"
  by (simp_all add: superblock_fields chunk_root_leaf_def fs_tree_leaf_def runs_def)

lemma zeros_drop_take [simp]: "take n (zeros k) = zeros (min n k)" "drop n (zeros k) = zeros (k - n)" "zeros 0 = []"
  by (simp_all add: zeros_def)

lemma base_image_layout: "base_image = oracle_disk oracle_superblock chunk_root_leaf fs_tree_leaf"
  by (simp add: base_image_def oracle_disk_def overwrite_def block_lengths Let_def)

lemma length_oracle_disk [simp]:
  "length (oracle_disk sb chunk fs) = 39088128 + length sb + length chunk + length fs"
  by (simp add: oracle_disk_def)

section \<open>Its chunk map\<close>

text \<open>What the reader needs of a superblock of this disk; the tests change other fields.\<close>

definition oracle_super :: "superblock \<Rightarrow> bool" where
  "oracle_super sb \<longleftrightarrow> sb_nodesize sb = 16384 \<and> sb_chunk_root sb = 22036480 \<and>
     sb_fsid sb = h_fsid fs_tree_leaf_header \<and> (\<exists>c. sb_sys_chunks sb = [c] \<and> system_chunk c)"

definition oracle_map :: chunk_map where
  "oracle_map = [\<lparr>me_start = 13631488, me_length = 8388608, me_stripes = [(1, 13631488)]\<rparr>,
     \<lparr>me_start = 22020096, me_length = 8388608, me_stripes = [(1, 22020096), (1, 30408704)]\<rparr>,
     \<lparr>me_start = 30408704, me_length = 33554432, me_stripes = [(1, 38797312), (1, 72351744)]\<rparr>]"

lemma oracle_disk_blocks:
  assumes "length sb = 4096" "length chunk = 16384" "length fs = 16384"
  shows "take 4096 (drop 65536 (oracle_disk sb chunk fs)) = sb"
    and "take 16384 (drop 22036480 (oracle_disk sb chunk fs)) = chunk"
    and "take 16384 (drop 39043072 (oracle_disk sb chunk fs)) = fs"
  using assms by (simp_all add: oracle_disk_def)

lemma oracle_disk_blank:
  assumes "length sb = 4096" "length chunk = 16384" "length fs = 16384"
    and "22052864 \<le> p \<and> p + 16384 \<le> 39043072 \<or> 39059456 \<le> p \<and> p + 16384 \<le> 39124992"
  shows "take 16384 (drop p (oracle_disk sb chunk fs)) = zeros 16384"
  using assms by (auto simp: oracle_disk_def)

lemma oracle_walk:
  assumes "length sb = 4096" "length fs = 16384" and s: "oracle_super s"
  shows "walk crc32c_ref (oracle_disk sb chunk_root_leaf fs) s = Inr oracle_map"
proof -
  from s obtain c where c: "sb_sys_chunks s = [c]" "system_chunk c" by (auto simp: oracle_super_def)
  then obtain n where boot: "map_l2p (boot_map s) 22036480 = Some (1, 22036480)"
    by (auto simp: boot_map_def entry_of_sys_def system_chunk_def u64_checked_add_def)
  obtain n where n: "node_parse crc32c_ref chunk_root_leaf = Inr n" "leaf_items n = chunk_root_leaf_items" "is_leaf n"
    by (rule chunk_root_leaf_node)
  have entries: "add_from_node [] n = oracle_map"
    using chunk_root_map [OF n(2)] by (simp add: map_new_def oracle_map_def)
  have "get_range (oracle_disk sb chunk_root_leaf fs) 22036480 (22036480 + 16384) = Some chunk_root_leaf"
    using assms(1,2) oracle_disk_blocks(2) [of sb chunk_root_leaf fs]
    by (simp add: get_range_def block_lengths)
  then have "walk_loop crc32c_ref (oracle_disk sb chunk_root_leaf fs) 16384 (boot_map s) (Suc 4095) [] [22036480] False = Inr oracle_map"
    unfolding walk_loop.simps(3) by (simp add: boot n entries sat_add_def usize_max_def Let_def)
  then show ?thesis
    using s by (simp add: walk_def oracle_super_def)
qed

section \<open>Reading its nodes\<close>

lemma oracle_phys:
  "30408704 \<le> l \<Longrightarrow> l < 63963136 \<Longrightarrow> node_phys s oracle_map l = Some (1, l + 8388608)"
  "node_phys s oracle_map 22036480 = Some (1, 22036480)"
proof -
  assume l: "30408704 \<le> l" "l < 63963136"
  have above: "\<not> l < 30408704" "\<not> l < 22020096" "\<not> l < 13631488"
    using l by (simp_all add: word_less_nat_alt word_le_nat_alt)
  have "u64_checked_add 38797312 (l - 30408704) = Some (l + 8388608)"
    using l by (simp add: u64_checked_add_def unat_sub word_less_nat_alt word_le_nat_alt)
  moreover have "u64_checked_add 13631488 8388608 = Some 22020096" "u64_checked_add 22020096 8388608 = Some 30408704"
      "u64_checked_add 30408704 33554432 = Some 63963136"
    by (simp_all add: u64_checked_add_def)
  ultimately show "node_phys s oracle_map l = Some (1, l + 8388608)"
    using l by (simp add: node_phys_def oracle_map_def Let_def above)
qed (simp add: node_phys_def oracle_map_def u64_checked_add_def Let_def)

lemma oracle_read:
  assumes "length sb = 4096" "length chunk = 16384" "length fs = 16384" and s: "oracle_super s"
  shows "read_node crc (oracle_disk sb chunk fs) s oracle_map 22036480 = node_parse crc chunk"
    and "read_node crc (oracle_disk sb chunk fs) s oracle_map 30654464 = node_parse crc fs"
    and "30408704 \<le> l \<Longrightarrow> unat l + 8404992 \<le> 39043072 \<or> 30670848 \<le> l \<and> unat l + 8404992 \<le> 39124992 \<Longrightarrow>
      read_node crc (oracle_disk sb chunk fs) s oracle_map l = node_parse crc (zeros 16384)"
proof -
  show "read_node crc (oracle_disk sb chunk fs) s oracle_map 22036480 = node_parse crc chunk"
    using assms oracle_disk_blocks(2) [of sb chunk fs]
    by (simp add: read_node_def oracle_phys oracle_super_def get_range_def sat_add_def usize_max_def Let_def)
  show "read_node crc (oracle_disk sb chunk fs) s oracle_map 30654464 = node_parse crc fs"
    using assms oracle_disk_blocks(3) [of sb chunk fs]
    by (simp add: read_node_def oracle_phys oracle_super_def get_range_def sat_add_def usize_max_def Let_def)
  assume l: "30408704 \<le> l" "unat l + 8404992 \<le> 39043072 \<or> 30670848 \<le> l \<and> unat l + 8404992 \<le> 39124992"
  have "l < 63963136" "unat (l + 8388608) = unat l + 8388608"
    using l by (auto simp: word_less_nat_alt unat_plus_if')
  moreover have "take 16384 (drop (unat l + 8388608) (oracle_disk sb chunk fs)) = zeros 16384"
    using l by (intro oracle_disk_blank assms(1-3)) (auto simp: word_le_nat_alt)
  ultimately show "read_node crc (oracle_disk sb chunk fs) s oracle_map l = node_parse crc (zeros 16384)"
    using assms l
    by (auto simp: read_node_def oracle_phys oracle_super_def get_range_def sat_add_def usize_max_def Let_def)
qed

lemma blank_node:
  obtains n where "node_parse crc (zeros 16384) = Inr n" and "h_bytenr (n_header n) = 0"
    and "h_owner (n_header n) = 0" and "leaf_items n = []"
proof -
  obtain n where n: "node_parse crc (zeros 16384) = Inr n"
    using node_parse_ok_iff [of crc "zeros 16384"] by auto
  then have h: "header_parse (zeros 16384) = Some (n_header n)" by (simp add: node_parse_Inr_iff)
  note fields = header_parse_fields [OF h]
  have "leaf_items n = []"
    using n by (auto simp: node_parse_Inr_iff fields is_leaf_def leaf_items_def parse_items_def zeros_def read_simps)
  then show thesis
    using n by (intro that [of n]) (auto simp: fields zeros_def read_simps)
qed

lemma oracle_blank:
  assumes "length sb = 4096" "length chunk = 16384" "length fs = 16384" and s: "oracle_super s"
    and "l \<in> {30720000, 30588928, 30425088, 30621696, 30605312, 30703616}"
  obtains n where "read_node crc (oracle_disk sb chunk fs) s oracle_map l = Inr n"
    and "h_bytenr (n_header n) \<noteq> l" and "h_owner (n_header n) = 0" and "leaf_items n = []"
proof -
  obtain n where n: "node_parse crc (zeros 16384) = Inr n" "h_bytenr (n_header n) = 0"
      "h_owner (n_header n) = 0" "leaf_items n = []"
    by (rule blank_node)
  have "read_node crc (oracle_disk sb chunk fs) s oracle_map l = node_parse crc (zeros 16384)"
    using assms(5) by (intro oracle_read(3) assms(1-4)) auto
  with n assms(5) show thesis by (intro that [of n]) auto
qed

section \<open>The audit of the intact image\<close>

definition oracle_backups :: "root_backup list" where
  "oracle_backups =
    [\<lparr>rb_tree_root = 30720000, rb_tree_root_gen = 9, rb_fs_root = 30654464, rb_fs_root_gen = 8\<rparr>,
     \<lparr>rb_tree_root = 30588928, rb_tree_root_gen = 6, rb_fs_root = 30425088, rb_fs_root_gen = 5\<rparr>,
     \<lparr>rb_tree_root = 30621696, rb_tree_root_gen = 7, rb_fs_root = 30605312, rb_fs_root_gen = 7\<rparr>,
     \<lparr>rb_tree_root = 30703616, rb_tree_root_gen = 8, rb_fs_root = 30654464, rb_fs_root_gen = 8\<rparr>]"

lemma backup_fields:
  "le_u64 oracle_superblock 2859 = 30720000" "le_u64 oracle_superblock 2867 = 9"
  "le_u64 oracle_superblock 2907 = 30654464" "le_u64 oracle_superblock 2915 = 8"
  "le_u64 oracle_superblock 3027 = 30588928" "le_u64 oracle_superblock 3035 = 6"
  "le_u64 oracle_superblock 3075 = 30425088" "le_u64 oracle_superblock 3083 = 5"
  "le_u64 oracle_superblock 3195 = 30621696" "le_u64 oracle_superblock 3203 = 7"
  "le_u64 oracle_superblock 3243 = 30605312" "le_u64 oracle_superblock 3251 = 7"
  "le_u64 oracle_superblock 3363 = 30703616" "le_u64 oracle_superblock 3371 = 8"
  "le_u64 oracle_superblock 3411 = 30654464" "le_u64 oracle_superblock 3419 = 8"
  by (simp_all add: superblock_bytes read_bytes zeros_def [of "Suc 0"])

lemma parse_oracle_backups: "parse_backup_roots oracle_superblock = oracle_backups"
proof -
  have "fits_memory oracle_superblock"
    by (simp add: fits_memory_def block_lengths)
  note parse_backup_roots_eq [OF this]
  moreover have "min 4 ((length oracle_superblock - 0xb2b) div 168) = 4"
    by (simp add: block_lengths)
  moreover have "[0..<4] = [0, 1, 2, 3 :: nat]"
    by (simp add: upt_rec)
  ultimately show ?thesis
    by (simp add: backup_at_def backup_fields oracle_backups_def Let_def)
qed

lemma oracle_superblock_verifies: "verify_superblock_crc32c crc32c_ref oracle_superblock 4096"
proof -
  have "take 4 oracle_superblock = [0xd9, 0x13, 0x6f, 0x60]"
    using superblock_fields(2) by (simp add: bytes_at_in_range block_lengths)
  then show ?thesis
    by (simp add: verify_iff block_lengths oracle_superblock_digest to_from_le_bytes)
qed

lemma oracle_superblock_parse:
  obtains s where "superblock_parse crc32c_ref oracle_superblock = Inr s" and "oracle_super s"
    and "sb_root s = 30720000" and "sb_generation s = 9" and "sb_crc_valid s = Some True"
proof -
  obtain c where c: "parse_array oracle_superblock 811 129 = [c]" "system_chunk c"
    using superblock_chunks by blast
  with that oracle_superblock_verifies show thesis
    by (simp add: superblock_parse_def superblock_fields super_consts SYS_CHUNK_ARRAY_OFFSET_def csum_from_code_def
        superblock_crc_status_def BTRFS_CSUM_SIZE_def BTRFS_MAGIC_def oracle_super_def fs_tree_leaf_header_def
        BTRFS_FSID_SIZE_def Let_def)
qed

lemma concat_map_single:
  "distinct xs \<Longrightarrow> x \<in> set xs \<Longrightarrow> (\<And>y. y \<in> set xs \<Longrightarrow> y \<noteq> x \<Longrightarrow> f y = []) \<Longrightarrow> concat (map f xs) = f x"
proof (induction xs)
  case (Cons y ys)
  show ?case
  proof (cases "y = x")
    case True
    then have "f z = []" if "z \<in> set ys" for z using Cons.prems that by auto
    with True show ?thesis by simp
  next
    case False
    then have "f y = []" using Cons.prems(3) by simp
    with False Cons show ?thesis by simp
  qed
qed simp

text \<open>
  The audit of the disk with any leaf in the place of its FS tree: it looks at the checksum of that leaf, reached
  through the backup roots only, and at its orphan items.
\<close>

lemma oracle_audit:
  assumes fs: "node_parse crc32c_ref fs = Inr f" "length fs = 16384" "is_leaf f" and "h_owner (n_header f) = 5"
    and id: "h_bytenr (n_header f) = 30654464" "h_fsid (n_header f) = h_fsid fs_tree_leaf_header"
  shows "audit_image crc32c_ref (oracle_disk oracle_superblock chunk_root_leaf fs) =
    (if n_crc_valid f = Some False then [anomaly_new (NodeCrcMismatch 30654464 39043072)] else []) @
    orphans_of (first_by (\<lambda>i. i) {} (orphan_inodes (leaf_items f)))"
proof -
  let ?img = "oracle_disk oracle_superblock chunk_root_leaf fs"
  obtain s where s: "superblock_parse crc32c_ref oracle_superblock = Inr s" "oracle_super s"
      "sb_root s = 30720000" "sb_generation s = 9" "sb_crc_valid s = Some True"
    by (rule oracle_superblock_parse)
  have cr: "sb_chunk_root s = 22036480" "sb_fsid s = h_fsid fs_tree_leaf_header"
    using s(2) by (simp_all add: oracle_super_def)
  note lens = block_lengths(1,2) fs(2)
  note read = oracle_read [OF lens s(2)]
  obtain c where c: "node_parse crc32c_ref chunk_root_leaf = Inr c" "n_header c = chunk_root_leaf_header" "is_leaf c"
      "n_crc_valid c = Some True"
    by (rule chunk_root_leaf_node)
  have super: "audit_super crc32c_ref ?img = Some (oracle_superblock, s)"
    using s lens oracle_disk_blocks(1) [OF lens] by (simp add: audit_super_Some)
  have map: "walk_or_default crc32c_ref ?img s = oracle_map"
    by (simp add: walk_or_default_def oracle_walk lens s)
  let ?blank = "{30720000, 30588928, 30425088, 30621696, 30605312, 30703616} :: u64 set"
  have blank: "\<exists>n. read_node crc32c_ref ?img s oracle_map l = Inr n \<and> h_bytenr (n_header n) \<noteq> l \<and>
      h_owner (n_header n) = 0 \<and> leaf_items n = []" if "l \<in> ?blank" for l
    using oracle_blank [OF lens s(2) that] by metis
  have blank_view: "sweep_view crc32c_ref ?img s oracle_map l = None" if "l \<in> ?blank" for l
    using blank [OF that] by (auto simp: sweep_view_def)
  have views: "sweep_view crc32c_ref ?img s oracle_map 22036480 = Some c"
      "sweep_view crc32c_ref ?img s oracle_map 30654464 = Some f"
    using c fs id by (simp_all add: sweep_view_def read cr chunk_root_leaf_header_def fs_tree_leaf_header_def)
  have seeds: "sweep_seeds ?img s = [30720000, 22036480, 30720000, 30654464, 30588928, 30425088,
      30621696, 30605312, 30703616, 30654464]"
    using s cr lens by (simp add: sweep_seeds_def super_block_range oracle_disk_blocks parse_oracle_backups
        oracle_backups_def Let_def)
  define All where "All = insert 22036480 (insert 30654464 ?blank)"
  have mem: "l = 22036480 \<or> l = 30654464 \<or> l \<in> ?blank" if "l \<in> All" for l
    using that by (simp only: All_def insert_iff)
  have leaves: "sweep_children crc32c_ref ?img s oracle_map l = []" if "l \<in> All" for l
    using mem [OF that]
  proof (elim disjE)
    assume "l \<in> ?blank"
    from blank_view [OF this] show ?thesis by (simp only: sweep_children_def option.case)
  qed (simp_all add: sweep_children_def views c fs key_ptrs_leaf)
  have seeded: "set (sweep_seeds ?img s) \<subseteq> All"
    unfolding seeds All_def by simp
  have reach: "l \<in> All" if "sweep_reach crc32c_ref ?img s oracle_map l" for l
    using that unfolding sweep_reach_def
  proof (induction rule: reach.induct)
    case (step x y)
    with leaves [of x] show ?case by simp
  qed (use seeded in blast)
  have "sweep_covered crc32c_ref ?img s oracle_map All"
    using seeded by (simp add: sweep_covered_def seeds leaves)
  moreover have "sweep_reach crc32c_ref ?img s oracle_map 30654464"
    by (auto simp: sweep_reach_def seeds intro: reach.seed)
  ultimately have "30654464 \<in> set (sweep_order crc32c_ref ?img s oracle_map)"
    by (simp add: sweep_order_complete)
  moreover have "sweep_found crc32c_ref ?img s oracle_map l = []"
    if "l \<in> set (sweep_order crc32c_ref ?img s oracle_map)" "l \<noteq> 30654464" for l
    using mem [OF reach [OF sweep_order_reach [OF that(1)]]]
  proof (elim disjE)
    assume "l \<in> ?blank"
    from blank_view [OF this] show ?thesis by (simp only: sweep_found_def option.case)
  qed (use that(2) in \<open>simp_all add: sweep_found_def views c\<close>)
  ultimately have "concat (map (sweep_found crc32c_ref ?img s oracle_map) (sweep_order crc32c_ref ?img s oracle_map)) =
      sweep_found crc32c_ref ?img s oracle_map 30654464"
    by (intro concat_map_single) (simp_all add: sweep_order_def visit_order_distinct)
  also have "node_offset oracle_map 30654464 = 39043072"
    by (simp add: node_offset_def oracle_map_def u64_checked_add_def Let_def)
  then have "sweep_found crc32c_ref ?img s oracle_map 30654464 =
      (if n_crc_valid f = Some False then [anomaly_new (NodeCrcMismatch 30654464 39043072)] else [])"
    by (simp add: sweep_found_def views)
  finally have swept: "concat (map (sweep_found crc32c_ref ?img s oracle_map) (sweep_order crc32c_ref ?img s oracle_map)) =
      (if n_crc_valid f = Some False then [anomaly_new (NodeCrcMismatch 30654464 39043072)] else [])" .
  have roots: "root_unreadable crc32c_ref ?img s oracle_map ''root'' (sb_root s) = []"
      "root_unreadable crc32c_ref ?img s oracle_map ''chunk_root'' (sb_chunk_root s) = []"
    using blank [of 30720000] c by (auto simp: root_unreadable_def cr s read)
  have sane: "concat (map (check_backup_root (sb_generation s) (of_nat (length ?img)))
      (List.enumerate 0 (parse_backup_roots oracle_superblock))) = []"
    by (simp add: parse_oracle_backups oracle_backups_def check_backup_root_def s lens)
  obtain e where root: "fs_tree_root crc32c_ref ?img s oracle_map = Inl e"
    using blank [of 30720000] by (auto simp: fs_tree_root_def s)
  have fs_roots: "orphan_fs_roots crc32c_ref ?img s oracle_map = [30654464, 30425088, 30605312]"
    using lens by (simp add: orphan_fs_roots_def root super_block_range oracle_disk_blocks parse_oracle_backups
        oracle_backups_def add_fs_root_def)
  have "root_orphans crc32c_ref ?img s oracle_map l = []" if "l \<in> {30425088, 30605312}" for l
    using blank [of l] that by (auto simp: root_orphans_def)
  moreover have "root_orphans crc32c_ref ?img s oracle_map 30654464 = orphan_inodes (leaf_items f)"
    using fs assms(4) by (simp add: root_orphans_def read)
  ultimately show ?thesis
    unfolding audit_image_parts super option.case prod.case Let_def map roots swept sane fs_roots
    by (simp add: s)
qed

end
