(* ===== verification/Oracle_Integrity.thy ===== *)
theory Oracle_Integrity
  imports Oracle_Audit "HOL-Library.Sublist"
begin

text \<open>
  The tests of \<open>forensic/tests/f_integrity.rs\<close> over the image assembled from blocks of a real disk: it is clean,
  and each defect that a test plants in it is reported with its code and severity.
\<close>

section \<open>The tests\<close>

definition has_kind :: "(anomaly_kind \<Rightarrow> bool) \<Rightarrow> anomaly list \<Rightarrow> bool" where
  "has_kind is_kind anomalies \<longleftrightarrow> list_ex (\<lambda>a. is_kind (an_kind a)) anomalies"

definition first_of_kind :: "(anomaly_kind \<Rightarrow> bool) \<Rightarrow> anomaly list \<Rightarrow> (anomaly \<Rightarrow> bool) \<Rightarrow> bool" where
  "first_of_kind is_kind anomalies P \<longleftrightarrow> unwrapping (find (\<lambda>a. is_kind (an_kind a)) anomalies) P"

fun is_super_crc :: "anomaly_kind \<Rightarrow> bool" where
  "is_super_crc (SuperblockCrcMismatch _) = True"
| "is_super_crc _ = False"

fun is_node_crc :: "anomaly_kind \<Rightarrow> bool" where
  "is_node_crc (NodeCrcMismatch _ _) = True"
| "is_node_crc _ = False"

fun is_node_crc_of :: "u64 \<Rightarrow> anomaly_kind \<Rightarrow> bool" where
  "is_node_crc_of l (NodeCrcMismatch bytenr _) = (bytenr = l)"
| "is_node_crc_of l _ = False"

fun is_divergence :: "anomaly_kind \<Rightarrow> bool" where
  "is_divergence (BackupRootDivergence _ _ _ _) = True"
| "is_divergence _ = False"

fun is_orphan_of :: "u64 \<Rightarrow> anomaly_kind \<Rightarrow> bool" where
  "is_orphan_of i (OrphanedInode inode) = (inode = i)"
| "is_orphan_of i _ = False"

fun is_geometry :: "anomaly_kind \<Rightarrow> bool" where
  "is_geometry (ImpossibleGeometry _ _ _) = True"
| "is_geometry _ = False"

definition write_u64 :: "bytes \<Rightarrow> nat \<Rightarrow> u64 \<Rightarrow> bytes" where
  "write_u64 img off v = overwrite img off (to_le_bytes v)"

definition reseal_sb :: "bytes \<Rightarrow> bytes" where
  "reseal_sb img = overwrite img 65536 (seal crc32c_ref (take 4096 (drop 65536 img)))"

definition reseal_node :: "bytes \<Rightarrow> nat \<Rightarrow> bytes" where
  "reseal_node img off = overwrite img off (seal crc32c_ref (take 16384 (drop off img)))"

definition clean_image_emits_no_anomalies :: "(anomaly \<Rightarrow> report_source \<Rightarrow> 'f) \<Rightarrow> bool" where
  "clean_image_emits_no_anomalies to_finding \<longleftrightarrow>
     audit_image crc32c_ref base_image = [] \<and>
     audit_findings crc32c_ref to_finding base_image (str ''volume: base'') = []"

definition corrupt_superblock_csum_flags_superblock_crc_mismatch :: bool where
  "corrupt_superblock_csum_flags_superblock_crc_mismatch \<longleftrightarrow>
     (let img = base_image[65536 + 0x30 := base_image ! (65536 + 0x30) XOR 0xFF];
          anomalies = audit_image crc32c_ref img in
      has_kind is_super_crc anomalies \<and>
      first_of_kind is_super_crc anomalies (\<lambda>a.
        an_code a = ''BTRFS-SUPERBLOCK-CRC-MISMATCH'' \<and> an_severity a = High))"

definition byte_flipped_node_flags_crc_mismatch :: bool where
  "byte_flipped_node_flags_crc_mismatch \<longleftrightarrow>
     (let img = base_image[39043072 + 200 := base_image ! (39043072 + 200) XOR 0xFF];
          anomalies = audit_image crc32c_ref img in
      has_kind (is_node_crc_of 30654464) anomalies \<and>
      first_of_kind is_node_crc anomalies (\<lambda>a. an_code a = ''BTRFS-CRC-MISMATCH'' \<and> an_severity a = High))"

definition backup_root_newer_than_current_flags_divergence :: bool where
  "backup_root_newer_than_current_flags_divergence \<longleftrightarrow>
     (let img = base_image;
          cur_gen = le_u64 img (65536 + 0x48);
          img = write_u64 img (65536 + 0xb2b + 8) (cur_gen + 5);
          img = reseal_sb img;
          anomalies = audit_image crc32c_ref img in
      has_kind is_divergence anomalies \<and>
      first_of_kind is_divergence anomalies (\<lambda>a.
        an_code a = ''BTRFS-BACKUP-ROOT-DIVERGENCE'' \<and> an_severity a = High))"

fun is_divergence_for :: "string \<Rightarrow> anomaly_kind \<Rightarrow> bool" where
  "is_divergence_for part (BackupRootDivergence _ reason _ _) = sublist part reason"
| "is_divergence_for part _ = False"

definition backup_fs_root_gen_newer_flags_divergence :: bool where
  "backup_fs_root_gen_newer_flags_divergence \<longleftrightarrow>
     (let img = base_image;
          cur_gen = le_u64 img (65536 + 0x48);
          slot1 = 65536 + 0xb2b + 168;
          img = write_u64 img (slot1 + 56) (cur_gen + 3);
          img = reseal_sb img in
      has_kind (is_divergence_for ''fs_root generation'') (audit_image crc32c_ref img))"

definition backup_tree_root_past_image_flags_divergence :: bool where
  "backup_tree_root_past_image_flags_divergence \<longleftrightarrow>
     (let img = base_image;
          slot2 = 65536 + 0xb2b + 2 * 168;
          huge = of_nat (length img) + 1000000;
          img = write_u64 img slot2 huge;
          img = reseal_sb img in
      has_kind (is_divergence_for ''past the end of the image'') (audit_image crc32c_ref img))"

definition crafted_orphan_item_flags_orphaned_inode :: bool where
  "crafted_orphan_item_flags_orphaned_inode \<longleftrightarrow>
     (let img = base_image;
          it0 = 39043072 + 101;
          orphan_objectid = - 1 - 4;
          img = write_u64 img it0 orphan_objectid;
          img = img[it0 + 8 := 48];
          img = write_u64 img (it0 + 9) 257;
          img = reseal_node img 39043072;
          anomalies = audit_image crc32c_ref img in
      first_of_kind (is_orphan_of 257) anomalies (\<lambda>a.
        an_code a = ''BTRFS-ORPHANED-INODE'' \<and> an_severity a = Medium))"

definition impossible_geometry_root_past_image_flags_finding :: bool where
  "impossible_geometry_root_past_image_flags_finding \<longleftrightarrow>
     (let img = base_image;
          img = write_u64 img (65536 + 0x50) (- 1);
          img = reseal_sb img;
          anomalies = audit_image crc32c_ref img in
      has_kind is_geometry anomalies \<and>
      first_of_kind is_geometry anomalies (\<lambda>a.
        an_code a = ''BTRFS-IMPOSSIBLE-GEOMETRY'' \<and> an_severity a = High))"

fun is_geometry_of :: "string \<Rightarrow> anomaly_kind \<Rightarrow> bool" where
  "is_geometry_of f (ImpossibleGeometry field _ _) = (field = f)"
| "is_geometry_of f _ = False"

definition zero_root_logical_is_not_a_geometry_error :: bool where
  "zero_root_logical_is_not_a_geometry_error \<longleftrightarrow>
     (let img = base_image;
          img = write_u64 img (65536 + 0x50) 0;
          img = reseal_sb img in
      \<not> has_kind (is_geometry_of ''root'') (audit_image crc32c_ref img))"

definition superblock_parse_over_whole_image_is_sound :: bool where
  "superblock_parse_over_whole_image_is_sound \<longleftrightarrow>
     expecting (superblock_parse crc32c_ref (take BTRFS_SUPER_INFO_SIZE (drop BTRFS_SUPER_INFO_OFFSET base_image)))
       (\<lambda>sb. sb_generation sb = 9)"

definition superblock_present_but_wrong_magic_yields_no_findings :: bool where
  "superblock_present_but_wrong_magic_yields_no_findings \<longleftrightarrow>
     audit_image crc32c_ref (zeros (65536 + 4096 + 16384)) = []"

section \<open>They hold\<close>

lemma update_overwrite: "i < length xs \<Longrightarrow> xs[i := x] = overwrite xs i [x]"
  by (simp add: overwrite_def upd_conv_take_nth_drop)

lemma overwrite_inside:
  "length A = a \<Longrightarrow> k + length e \<le> length B \<Longrightarrow> overwrite (A @ B @ Z) (a + k) e = A @ overwrite B k e @ Z"
  by (simp add: overwrite_def)

lemma overwrite_oracle_disk:
  assumes "length sb = 4096" "length chunk = 16384" "length fs = 16384"
  shows "k + length e \<le> 4096 \<Longrightarrow> overwrite (oracle_disk sb chunk fs) (65536 + k) e = oracle_disk (overwrite sb k e) chunk fs"
    and "k + length e \<le> 16384 \<Longrightarrow> overwrite (oracle_disk sb chunk fs) (39043072 + k) e = oracle_disk sb chunk (overwrite fs k e)"
proof -
  show "k + length e \<le> 4096 \<Longrightarrow> overwrite (oracle_disk sb chunk fs) (65536 + k) e = oracle_disk (overwrite sb k e) chunk fs"
    unfolding oracle_disk_def using assms by (intro overwrite_inside) simp_all
  assume "k + length e \<le> 16384"
  then have "overwrite ((zeros 65536 @ sb @ zeros 21966848 @ chunk @ zeros 16990208) @ fs @ zeros 65536) (39043072 + k) e =
      (zeros 65536 @ sb @ zeros 21966848 @ chunk @ zeros 16990208) @ overwrite fs k e @ zeros 65536"
    using assms by (intro overwrite_inside) simp_all
  then show "overwrite (oracle_disk sb chunk fs) (39043072 + k) e = oracle_disk sb chunk (overwrite fs k e)"
    by (simp add: oracle_disk_def)
qed

lemma length_base_image: "length base_image = 39124992"
  by (simp add: base_image_layout block_lengths)

lemma no_orphans: "orphan_inodes fs_tree_leaf_items = []"
  by (simp add: orphan_inodes_def fs_tree_leaf_items_def ORPHAN_OBJECTID_def)

lemma clean_test: "clean_image_emits_no_anomalies to_finding" "superblock_parse_over_whole_image_is_sound"
proof -
  obtain f where f: "node_parse crc32c_ref fs_tree_leaf = Inr f" "n_header f = fs_tree_leaf_header"
      "leaf_items f = fs_tree_leaf_items" "is_leaf f" "n_crc_valid f = Some True"
    by (rule fs_tree_leaf_node)
  note no_orphans
  then have "audit_image crc32c_ref base_image = []"
    using oracle_audit [OF f(1) block_lengths(3) f(4)] f
    by (simp add: base_image_layout fs_tree_leaf_header_def orphans_of_def)
  then show "clean_image_emits_no_anomalies to_finding"
    by (simp add: clean_image_emits_no_anomalies_def audit_findings_def Let_def)
  obtain s where "superblock_parse crc32c_ref oracle_superblock = Inr s" "sb_generation s = 9"
    by (rule oracle_superblock_parse)
  then show "superblock_parse_over_whole_image_is_sound"
    using oracle_disk_blocks(1) [OF block_lengths]
    by (simp add: superblock_parse_over_whole_image_is_sound_def base_image_layout super_consts)
qed

text \<open>A superblock block that differs from the disk's own outside the fields that decide about the parse.\<close>

lemma edited_superblock:
  assumes "length blk = 4096"
    and same: "\<And>k n. (k, n) \<in> {(0x40, 8), (0x48, 8), (0x90, 4), (0xc4, 2)} \<Longrightarrow>
      get_range blk k (k + n) = get_range oracle_superblock k (k + n)"
  obtains s where "superblock_parse crc32c_ref blk = Inr s" and "sb_generation s = 9"
    and "sb_crc_valid s = Some (verify_superblock_crc32c crc32c_ref blk 4096)"
proof -
  have "bytes_at blk 0x40 8 = bytes_at oracle_superblock 0x40 8" "le_u64 blk 0x48 = le_u64 oracle_superblock 0x48"
    "le_u32 blk 0x90 = le_u32 oracle_superblock 0x90" "le_u16 blk 0xc4 = le_u16 oracle_superblock 0xc4"
    using same [of 64 8] same [of 72 8] same [of 144 4] same [of 196 2] assms(1) block_lengths(1)
    by (simp_all add: le_u64_def le_u32_def le_u16_def bytes_at_in_range get_range_def)
  then show thesis
    using assms(1) that
    by (simp add: superblock_parse_def superblock_fields super_consts csum_from_code_def
        superblock_crc_status_def BTRFS_CSUM_SIZE_def BTRFS_MAGIC_def Let_def)
qed

lemma flip_differs:
  fixes xs :: bytes
  assumes "i < length xs"
  shows "overwrite xs i [xs ! i XOR 0xFF] \<noteq> xs"
proof
  assume "overwrite xs i [xs ! i XOR 0xFF] = xs"
  then have "xs[i := xs ! i XOR 0xFF] ! i = xs ! i" using assms by (simp add: update_overwrite)
  then have "xs ! i XOR xs ! i XOR 0xFF = 0" using assms by simp
  then show False by (simp flip: xor.assoc)
qed

lemma anomaly_new_fields [simp]:
  "an_kind (anomaly_new k) = k" "an_code (anomaly_new k) = kind_code k" "an_severity (anomaly_new k) = kind_severity k"
  by (simp_all add: anomaly_new_def)

text \<open>A reported anomaly has the code and the severity of its kind.\<close>

lemma reported_fields:
  "a \<in> set (audit_image crc img) \<Longrightarrow> an_code a = kind_code (an_kind a) \<and> an_severity a = kind_severity (an_kind a)"
  using audit_kinds [of a crc img] anomaly_new_fields(2,3) [of "an_kind a"] by metis

lemma reported:
  assumes "anomaly_new k \<in> set (audit_image crc img)" and "is_kind k"
    and kinds: "\<And>k'. is_kind k' \<Longrightarrow> kind_code k' = c \<and> kind_severity k' = sev"
  shows "has_kind is_kind (audit_image crc img)"
    and "first_of_kind is_kind (audit_image crc img) (\<lambda>a. an_code a = c \<and> an_severity a = sev)"
proof -
  let ?as = "audit_image crc img"
  show "has_kind is_kind ?as" using assms(1,2) by (auto simp: has_kind_def list_ex_iff intro!: bexI [of _ "anomaly_new k"])
  obtain b where "find (\<lambda>a. is_kind (an_kind a)) ?as = Some b"
    using assms(1,2) by (cases "find (\<lambda>a. is_kind (an_kind a)) ?as") (auto simp: find_None_iff)
  moreover from this have "is_kind (an_kind b)" "b \<in> set ?as" by (auto simp: find_Some_iff)
  ultimately show "first_of_kind is_kind ?as (\<lambda>a. an_code a = c \<and> an_severity a = sev)"
    using kinds reported_fields by (simp add: first_of_kind_def)
qed

lemma tested_kinds:
  "is_super_crc k \<Longrightarrow> kind_code k = ''BTRFS-SUPERBLOCK-CRC-MISMATCH'' \<and> kind_severity k = High"
  "is_node_crc k \<Longrightarrow> kind_code k = ''BTRFS-CRC-MISMATCH'' \<and> kind_severity k = High"
  "is_node_crc_of l k \<Longrightarrow> kind_code k = ''BTRFS-CRC-MISMATCH'' \<and> kind_severity k = High"
  "is_divergence k \<Longrightarrow> kind_code k = ''BTRFS-BACKUP-ROOT-DIVERGENCE'' \<and> kind_severity k = High"
  "is_divergence_for part k \<Longrightarrow> kind_code k = ''BTRFS-BACKUP-ROOT-DIVERGENCE'' \<and> kind_severity k = High"
  "is_orphan_of i k \<Longrightarrow> kind_code k = ''BTRFS-ORPHANED-INODE'' \<and> kind_severity k = Medium"
  "is_geometry k \<Longrightarrow> kind_code k = ''BTRFS-IMPOSSIBLE-GEOMETRY'' \<and> kind_severity k = High"
  by (cases k; simp)+

lemma super_crc_test: "corrupt_superblock_csum_flags_superblock_crc_mismatch"
proof -
  let ?x = "oracle_superblock ! 48 XOR 0xFF"
  define blk where "blk = overwrite oracle_superblock 48 [?x]"
  have len: "length blk = 4096" by (simp add: blk_def block_lengths)
  have at: "base_image ! (65536 + 48) = oracle_superblock ! 48"
    by (simp add: base_image_layout oracle_disk_def nth_append block_lengths)
  have img: "base_image[65536 + 48 := base_image ! (65536 + 48) XOR 0xFF] = oracle_disk blk chunk_root_leaf fs_tree_leaf"
    unfolding at blk_def
    using overwrite_oracle_disk(1) [OF block_lengths, where k = 48 and e = "[?x]"]
    by (simp add: update_overwrite base_image_layout block_lengths)
  have "get_range blk k (k + n) = get_range oracle_superblock k (k + n)"
    if "(k, n) \<in> {(0x40, 8), (0x48, 8), (0x90, 4), (0xc4, 2)}" for k n
    using that unfolding blk_def by (intro reads_overwrite) (auto simp: block_lengths)
  from edited_superblock [OF len this] obtain s where s: "superblock_parse crc32c_ref blk = Inr s"
    "sb_crc_valid s = Some (verify_superblock_crc32c crc32c_ref blk 4096)" by blast
  obtain s' where s': "superblock_parse crc32c_ref oracle_superblock = Inr s'" "sb_crc_valid s' = Some True"
    by (rule oracle_superblock_parse)
  have "\<not> verify_superblock_crc32c crc32c_ref blk 4096"
    unfolding blk_def using oracle_superblock_verifies flip_differs [where xs = oracle_superblock and i = 48]
    by (intro ref.edit_detected) (auto simp: block_lengths)
  moreover have "audit_super crc32c_ref (oracle_disk blk chunk_root_leaf fs_tree_leaf) = Some (blk, s)"
    using s oracle_disk_blocks(1) [of blk chunk_root_leaf fs_tree_leaf] len by (simp add: audit_super_Some block_lengths)
  ultimately have "anomaly_new (SuperblockCrcMismatch 65536) \<in> set (audit_image crc32c_ref (oracle_disk blk chunk_root_leaf fs_tree_leaf))"
    by (simp add: audit_image_parts s Let_def)
  note found = reported [OF this]
  show ?thesis
    unfolding corrupt_superblock_csum_flags_superblock_crc_mismatch_def Let_def img
    by (intro conjI found [OF _ tested_kinds(1)]) simp_all
qed

text \<open>A defect in the FS tree's leaf.\<close>

lemma header_parse_prefix:
  assumes "101 \<le> length b" "101 \<le> length b'" "take 101 b = take 101 b'"
  shows "header_parse b = header_parse b'"
proof -
  have "get_range b k (k + n) = get_range b' k (k + n)" if "k + n \<le> 101" for k n
    using get_range_take [OF that, of b] get_range_take [OF that, of b'] assms(3) by simp
  then have "le_u64 b k = le_u64 b' k" if "k + 8 \<le> 101" for k
    using that by (simp add: le_u64_def)
  moreover have "le_u32 b k = le_u32 b' k" if "k + 4 \<le> 101" for k
    using \<open>\<And>k n. k + n \<le> 101 \<Longrightarrow> get_range b k (k + n) = get_range b' k (k + n)\<close> that by (simp add: le_u32_def)
  moreover have "b ! k = b' ! k" if "k < 101" for k
    using that assms(3) nth_take [OF that, of b] nth_take [OF that, of b'] by simp
  then have "u8_at b k = u8_at b' k" if "k < 101" for k
    using that assms(1,2) by (simp add: u8_at_def)
  moreover from this have "bytes_at b k n = bytes_at b' k n" if "k + n \<le> 101" for k n
    using that by (simp add: bytes_at_def)
  ultimately show ?thesis
    using assms(1,2) by (simp add: header_parse_def BTRFS_HEADER_SIZE_def)
qed

lemma node_crc_test: "byte_flipped_node_flags_crc_mismatch"
proof -
  let ?x = "fs_tree_leaf ! 200 XOR 0xFF"
  define fs where "fs = overwrite fs_tree_leaf 200 [?x]"
  have len: "length fs = 16384" by (simp add: fs_def block_lengths)
  have at: "base_image ! (39043072 + 200) = fs_tree_leaf ! 200"
    by (simp add: base_image_layout oracle_disk_def nth_append block_lengths)
  have img: "base_image[39043072 + 200 := base_image ! (39043072 + 200) XOR 0xFF] = oracle_disk oracle_superblock chunk_root_leaf fs"
    unfolding at fs_def
    using overwrite_oracle_disk(2) [OF block_lengths, where k = 200 and e = "[?x]"]
    by (simp add: update_overwrite base_image_layout block_lengths)
  obtain g where g: "node_parse crc32c_ref fs_tree_leaf = Inr g" "n_header g = fs_tree_leaf_header" "is_leaf g"
      "n_crc_valid g = Some True"
    by (rule fs_tree_leaf_node)
  obtain f where f: "node_parse crc32c_ref fs = Inr f"
    using node_parse_ok_iff [of crc32c_ref fs] len by auto
  have "take 101 fs = take 101 fs_tree_leaf"
    by (simp add: fs_def take_overwrite_before block_lengths)
  then have "header_parse fs = header_parse fs_tree_leaf"
    by (intro header_parse_prefix) (simp_all add: len block_lengths)
  then have h: "n_header f = fs_tree_leaf_header"
    using f g by (simp add: node_parse_Inr_iff)
  have "is_leaf f"
    using f g(1,3) h g(2) by (simp add: is_leaf_iff)
  have "\<not> verify_superblock_crc32c crc32c_ref fs 16384"
    unfolding fs_def using g(1,4) flip_differs [where xs = fs_tree_leaf and i = 200]
    by (intro ref.edit_detected) (auto simp: node_parse_Inr_iff block_lengths)
  then have "n_crc_valid f = Some False"
    using f len by (simp add: node_parse_Inr_iff)
  with oracle_audit [OF f len \<open>is_leaf f\<close>] h
  have "anomaly_new (NodeCrcMismatch 30654464 39043072) \<in>
      set (audit_image crc32c_ref (oracle_disk oracle_superblock chunk_root_leaf fs))"
    by (simp add: fs_tree_leaf_header_def)
  note found = reported [OF this]
  show ?thesis
    unfolding byte_flipped_node_flags_crc_mismatch_def Let_def img
    by (intro conjI found(1) [OF _ tested_kinds(3)] found(2) [OF _ tested_kinds(2)]) simp_all
qed

text \<open>A defect in the backup array.\<close>

lemma get_range_seal: "4 \<le> k \<Longrightarrow> 4 \<le> length b \<Longrightarrow> get_range (seal crc b) k n = get_range b k n"
  by (simp add: seal_def get_range_overwrite_after)

lemma reseal_sb_disk:
  assumes "length sb = 4096" "length chunk = 16384" "length fs = 16384"
  shows "reseal_sb (oracle_disk sb chunk fs) = oracle_disk (seal crc32c_ref sb) chunk fs"
  using overwrite_oracle_disk(1) [OF assms, where k = 0 and e = "seal crc32c_ref sb"] assms
  by (simp add: reseal_sb_def oracle_disk_blocks) (simp add: overwrite_def)

lemma edited_backups:
  fixes v :: u64
  assumes "2859 \<le> k" and "k + 8 \<le> 4096"
  obtains blk s where "reseal_sb (write_u64 base_image (65536 + k) v) = oracle_disk blk chunk_root_leaf fs_tree_leaf"
    and "audit_super crc32c_ref (oracle_disk blk chunk_root_leaf fs_tree_leaf) = Some (blk, s)"
    and "sb_generation s = 9" and "parse_backup_roots blk = map (backup_at blk) [0, 1, 2, 3]"
    and "le_u64 blk k = v" and "length blk = 4096" and "\<And>i. 4 \<le> i \<Longrightarrow> i + 8 \<le> k \<or> k + 8 \<le> i \<Longrightarrow> le_u64 blk i = le_u64 oracle_superblock i"
proof -
  let ?o = "overwrite oracle_superblock k (to_le_bytes v)"
  define blk where "blk = seal crc32c_ref ?o"
  have len: "length ?o = 4096" "length blk = 4096"
    using assms(2) by (simp_all add: blk_def block_lengths)
  have range: "get_range blk i (i + n) = get_range oracle_superblock i (i + n)"
    if "4 \<le> i" "i + n \<le> k \<or> k + 8 \<le> i" for i n
  proof -
    have "get_range ?o i (i + n) = get_range oracle_superblock i (i + n)"
      using that assms(2) by (intro reads_overwrite) (auto simp: block_lengths)
    then show ?thesis
      unfolding blk_def using that(1) len by (simp add: get_range_seal)
  qed
  have "get_range blk i (i + n) = get_range oracle_superblock i (i + n)"
    if "(i, n) \<in> {(0x40, 8), (0x48, 8), (0x90, 4), (0xc4, 2)}" for i n
    using that assms(1) by (intro range) auto
  from edited_superblock [OF len(2) this] obtain s where s: "superblock_parse crc32c_ref blk = Inr s" "sb_generation s = 9"
    by blast
  have img: "reseal_sb (write_u64 base_image (65536 + k) v) = oracle_disk blk chunk_root_leaf fs_tree_leaf"
    using overwrite_oracle_disk(1) [OF block_lengths, where k = k and e = "to_le_bytes v"] assms(2)
    by (simp add: write_u64_def base_image_layout reseal_sb_disk block_lengths blk_def)
  have "fits_memory blk" by (simp add: fits_memory_def len)
  note parse_backup_roots_eq [OF this]
  moreover have "[0..<min 4 ((length blk - 0xb2b) div 168)] = [0, 1, 2, 3]"
    by (simp add: len upt_rec)
  ultimately have backups: "parse_backup_roots blk = map (backup_at blk) [0, 1, 2, 3]"
    by (simp only:)
  have "get_range blk k (k + 8) = get_range ?o k (k + 8)"
    unfolding blk_def using assms(1) len by (simp add: get_range_seal)
  also have "\<dots> = Some (to_le_bytes v)"
    using assms(2) by (simp add: overwrite_def get_range_def block_lengths)
  finally have "le_u64 blk k = v"
    by (simp add: le_u64_def from_to_le_bytes)
  moreover have "le_u64 blk i = le_u64 oracle_superblock i" if "4 \<le> i" "i + 8 \<le> k \<or> k + 8 \<le> i" for i
    using range [OF that] by (simp add: le_u64_def)
  ultimately show thesis
    using s img backups len oracle_disk_blocks(1) [of blk chunk_root_leaf fs_tree_leaf]
    by (intro that [of blk s]) (simp_all add: audit_super_Some block_lengths)
qed

lemma backup_reported:
  assumes "audit_super crc img = Some (blk, s)" and "parse_backup_roots blk = map (backup_at blk) [0, 1, 2, 3]"
    and "check_backup_root (sb_generation s) (of_nat (length img)) (i, backup_at blk i) = [a]" and "i \<in> {0, 1, 2, 3}"
  shows "a \<in> set (audit_image crc img)"
proof -
  have "(i, backup_at blk i) \<in> set (List.enumerate 0 (parse_backup_roots blk))"
    using assms(2,4) by auto
  then show ?thesis
    unfolding audit_image_parts assms(1) option.case prod.case Let_def set_append set_concat set_map
    using assms(3) by fastforce
qed

lemma base_generation: "le_u64 base_image 65608 = 9"
proof -
  have "le_u64 base_image 65608 = le_u64 (oracle_superblock @ drop 69632 base_image) 72"
    by (simp add: base_image_layout oracle_disk_def le_u64_skip block_lengths)
  also have "\<dots> = 9"
    by (simp add: le_u64_append block_lengths superblock_fields)
  finally show ?thesis .
qed

lemma divergence_test: "backup_root_newer_than_current_flags_divergence"
proof -
  obtain blk s where img: "reseal_sb (write_u64 base_image (65536 + 2867) 14) = oracle_disk blk chunk_root_leaf fs_tree_leaf"
    and super: "audit_super crc32c_ref (oracle_disk blk chunk_root_leaf fs_tree_leaf) = Some (blk, s)"
    and s: "sb_generation s = 9" and backups: "parse_backup_roots blk = map (backup_at blk) [0, 1, 2, 3]"
    and v: "le_u64 blk 2867 = 14"
    by (rule edited_backups [of 2867 14]) auto
  have "anomaly_new (BackupRootDivergence 0 ''tree_root generation newer than the current committed generation'' 14 9)
      \<in> set (audit_image crc32c_ref (oracle_disk blk chunk_root_leaf fs_tree_leaf))"
    by (rule backup_reported [OF super backups, of 0]) (simp_all add: s check_backup_root_def backup_at_def v)
  note found = reported [OF this]
  have "has_kind is_divergence (audit_image crc32c_ref (oracle_disk blk chunk_root_leaf fs_tree_leaf))"
    "first_of_kind is_divergence (audit_image crc32c_ref (oracle_disk blk chunk_root_leaf fs_tree_leaf)) (\<lambda>a.
       an_code a = ''BTRFS-BACKUP-ROOT-DIVERGENCE'' \<and> an_severity a = High)"
    by (rule found; simp add: tested_kinds)+
  then show ?thesis
    by (simp add: backup_root_newer_than_current_flags_divergence_def base_generation img [simplified])
qed

lemma fs_root_divergence_test: "backup_fs_root_gen_newer_flags_divergence"
proof -
  obtain blk s where img: "reseal_sb (write_u64 base_image (65536 + 3083) 12) = oracle_disk blk chunk_root_leaf fs_tree_leaf"
    and super: "audit_super crc32c_ref (oracle_disk blk chunk_root_leaf fs_tree_leaf) = Some (blk, s)"
    and s: "sb_generation s = 9" and backups: "parse_backup_roots blk = map (backup_at blk) [0, 1, 2, 3]"
    and v: "le_u64 blk 3083 = 12"
    and frame: "\<And>i. 4 \<le> i \<Longrightarrow> i + 8 \<le> 3083 \<or> 3083 + 8 \<le> i \<Longrightarrow> le_u64 blk i = le_u64 oracle_superblock i"
    by (rule edited_backups [of 3083 12]) auto
  have "anomaly_new (BackupRootDivergence 1 ''fs_root generation newer than the current committed generation'' 12 9)
      \<in> set (audit_image crc32c_ref (oracle_disk blk chunk_root_leaf fs_tree_leaf))"
    by (rule backup_reported [OF super backups, of 1])
      (simp_all add: s check_backup_root_def backup_at_def v frame backup_fields)
  from reported(1) [OF this _ tested_kinds(5)]
  have "has_kind (is_divergence_for ''fs_root generation'')
      (audit_image crc32c_ref (oracle_disk blk chunk_root_leaf fs_tree_leaf))"
    by (simp add: sublist_code)
  then show ?thesis
    by (simp add: backup_fs_root_gen_newer_flags_divergence_def base_generation img [simplified])
qed

lemma tree_root_divergence_test: "backup_tree_root_past_image_flags_divergence"
proof -
  obtain blk s where img: "reseal_sb (write_u64 base_image (65536 + 3195) 40124992) = oracle_disk blk chunk_root_leaf fs_tree_leaf"
    and super: "audit_super crc32c_ref (oracle_disk blk chunk_root_leaf fs_tree_leaf) = Some (blk, s)"
    and s: "sb_generation s = 9" and backups: "parse_backup_roots blk = map (backup_at blk) [0, 1, 2, 3]"
    and v: "le_u64 blk 3195 = 40124992" and len: "length blk = 4096"
    and frame: "\<And>i. 4 \<le> i \<Longrightarrow> i + 8 \<le> 3195 \<or> 3195 + 8 \<le> i \<Longrightarrow> le_u64 blk i = le_u64 oracle_superblock i"
    by (rule edited_backups [of 3195 40124992]) auto
  have "anomaly_new (BackupRootDivergence 2 ''tree_root logical address lies past the end of the image'' 7 9)
      \<in> set (audit_image crc32c_ref (oracle_disk blk chunk_root_leaf fs_tree_leaf))"
    by (intro backup_reported [OF super backups, of 2])
      (simp_all add: s check_backup_root_def backup_at_def v frame backup_fields block_lengths len)
  from reported(1) [OF this _ tested_kinds(5)]
  have "has_kind (is_divergence_for ''past the end of the image'')
      (audit_image crc32c_ref (oracle_disk blk chunk_root_leaf fs_tree_leaf))"
    by (simp add: sublist_code)
  then show ?thesis
    by (simp add: backup_tree_root_past_image_flags_divergence_def img [simplified] length_base_image)
qed

lemma leaf_first_key:
  "overwrite (encode_leaf h gap ((k, d) # its)) 101 (encode_disk_key k') = encode_leaf h gap ((k', d) # its)"
  if "wf_header h"
  using that by (simp add: encode_leaf_def encode_item_header_def overwrite_def data_size_def)

lemma overwrite_key:
  assumes "k + 17 \<le> length xs" and "length a = 8" and "length c = 8"
  shows "overwrite (overwrite (overwrite xs k a) (k + 8) [t]) (k + 9) c = overwrite xs k (a @ [t] @ c)"
  using assms by (simp add: overwrite_def add.commute)

lemma orphan_test: "crafted_orphan_item_flags_orphaned_inode"
proof -
  let ?a = "to_le_bytes (- 5 :: u64)" and ?c = "to_le_bytes (257 :: u64)"
  let ?key = "\<lparr>k_objectid = - 5, k_type = 48, k_offset = 257\<rparr>"
  obtain k d its where items: "fs_tree_leaf_items = (k, d) # its"
    by (simp add: fs_tree_leaf_items_def)
  let ?leaf = "encode_leaf fs_tree_leaf_header (zeros 14105) ((?key, d) # its)"
  have wf0: "wf_leaf fs_tree_leaf_header (zeros 14105) fs_tree_leaf_items"
    by (simp add: wf_leaf_def wf_header_def data_size_def fs_tree_leaf_header_def fs_tree_leaf_items_def)
  have "overwrite fs_tree_leaf 101 (encode_disk_key ?key) = ?leaf"
    using leaf_first_key wf0 by (simp add: fs_tree_leaf_layout items wf_leaf_def)
  then have leaf: "overwrite (overwrite (overwrite fs_tree_leaf 101 ?a) 109 [48]) 110 ?c = ?leaf"
    using overwrite_key [of 101 fs_tree_leaf ?a ?c 48] by (simp add: block_lengths encode_disk_key_def)
  have "length (overwrite (overwrite (overwrite fs_tree_leaf 101 ?a) 109 [48]) 110 ?c) = 16384"
    by (simp add: block_lengths)
  then have len: "length ?leaf = 16384" by (simp only: leaf)
  define fs where "fs = seal crc32c_ref ?leaf"
  define h where "h = fs_tree_leaf_header\<lparr>h_csum := to_le_bytes (crc32c_ref (drop 32 ?leaf))\<rparr>"
  have "length (h_csum fs_tree_leaf_header) = 4"
    using wf0 by (simp add: wf_leaf_def wf_header_def)
  from seal_leaf [OF this] have h: "fs = encode_leaf h (zeros 14105) ((?key, d) # its)"
    unfolding fs_def h_def by blast
  have len_fs: "length fs = 16384" by (simp add: fs_def len)
  let ?D = "oracle_disk oracle_superblock chunk_root_leaf"
  note disk_edit = overwrite_oracle_disk(2) [OF block_lengths(1,2)]
  have "reseal_node (write_u64 ((write_u64 base_image (39043072 + 101) (- 5))[39043072 + 109 := 48]) (39043072 + 110) 257) 39043072 = ?D fs"
  proof -
    have "write_u64 base_image (39043072 + 101) (- 5) = ?D (overwrite fs_tree_leaf 101 ?a)"
      using disk_edit [where k = 101 and e = "?a" and fs = fs_tree_leaf]
      by (simp add: write_u64_def base_image_layout block_lengths)
    moreover have "(?D (overwrite fs_tree_leaf 101 ?a))[39043072 + 109 := 48] =
        ?D (overwrite (overwrite fs_tree_leaf 101 ?a) 109 [48])"
      using disk_edit [where k = 109 and e = "[48]" and fs = "overwrite fs_tree_leaf 101 ?a"]
      by (simp add: update_overwrite block_lengths)
    moreover have "write_u64 (?D (overwrite (overwrite fs_tree_leaf 101 ?a) 109 [48])) (39043072 + 110) 257 = ?D ?leaf"
      using disk_edit [where k = 110 and e = "?c" and fs = "overwrite (overwrite fs_tree_leaf 101 ?a) 109 [48]"]
      by (simp add: write_u64_def block_lengths leaf [simplified])
    moreover have "reseal_node (?D ?leaf) 39043072 = ?D fs"
      using disk_edit [where k = 0 and e = fs and fs = "?leaf"] len len_fs
      by (simp add: reseal_node_def oracle_disk_blocks block_lengths fs_def) (simp add: overwrite_def)
    ultimately show ?thesis by (simp only:)
  qed
  note img = this [simplified]
  have wf: "wf_leaf h (zeros 14105) ((?key, d) # its)"
    using wf0 by (simp add: items wf_leaf_def wf_header_def h_def)
  obtain f where f: "node_parse crc32c_ref fs = Inr f"
    using node_parse_ok_iff [of crc32c_ref fs] len_fs by auto
  note parsed = encode_leaf_items [OF wf f [unfolded h]]
  have id: "h_owner (n_header f) = 5" "h_bytenr (n_header f) = 30654464" "h_fsid (n_header f) = h_fsid fs_tree_leaf_header"
    unfolding parsed(1) by (simp_all add: h_def fs_tree_leaf_header_def)
  have "257 \<in> set (orphan_inodes (leaf_items f))"
    by (auto simp: parsed(2) orphan_inodes_iff ORPHAN_OBJECTID_def)
  then have "257 \<in> set (first_by (\<lambda>i. i) {} (orphan_inodes (leaf_items f)))"
    using first_by_image [of "\<lambda>i. i" "{}" "orphan_inodes (leaf_items f)"] by simp
  then have "anomaly_new (OrphanedInode 257) \<in> set (audit_image crc32c_ref (?D fs))"
    unfolding oracle_audit [OF f len_fs parsed(3) id] by (simp add: orphans_of_def)
  from reported(2) [OF this _ tested_kinds(6)]
  have "first_of_kind (is_orphan_of 257) (audit_image crc32c_ref (?D fs))
      (\<lambda>a. an_code a = ''BTRFS-ORPHANED-INODE'' \<and> an_severity a = Medium)"
    by simp
  then show ?thesis
    by (simp add: crafted_orphan_item_flags_orphaned_inode_def img)
qed

text \<open>The bootstrap chunk array is read from behind the fields that a test changes.\<close>

definition same_suffix :: "nat \<Rightarrow> bytes \<Rightarrow> bytes \<Rightarrow> bool" where
  "same_suffix k b b' \<longleftrightarrow> drop k b = drop k b' \<and> length b = length b' \<and> k \<le> length b \<and> k \<le> usize_max"

lemma sat_add_above: "same_suffix k b b' \<Longrightarrow> k \<le> p \<Longrightarrow> k \<le> sat_add p n"
  by (simp add: sat_add_def same_suffix_def)

lemma suffix_reads:
  assumes "same_suffix k b b'" and "k \<le> p"
  shows "le_u64 b p = le_u64 b' p" "le_u32 b p = le_u32 b' p" "le_u16 b p = le_u16 b' p"
    "disk_key_parse b p = disk_key_parse b' p" "stripe_at b p = stripe_at b' p"
  using assms le_u64_drop [of k b "p - k"] le_u64_drop [of k b' "p - k"] le_u32_drop [of k b "p - k"]
    le_u32_drop [of k b' "p - k"] le_u16_drop [of k b "p - k"] le_u16_drop [of k b' "p - k"]
    disk_key_parse_drop [of k b "p - k"] disk_key_parse_drop [of k b' "p - k"]
    stripe_at_drop [of k b "p - k"] stripe_at_drop [of k b' "p - k"]
  by (simp_all add: same_suffix_def)

lemma parse_stripes_suffix: "same_suffix k b b' \<Longrightarrow> k \<le> p \<Longrightarrow> parse_stripes b p n = parse_stripes b' p n"
  by (induction n arbitrary: p) (simp_all add: suffix_reads sat_add_above)

lemma sys_chunk_entry_suffix:
  assumes "same_suffix k b b'" and "k \<le> p"
  shows "sys_chunk_entry b lim p = sys_chunk_entry b' lim p"
  using assms sat_add_above [OF assms] sat_add_above [OF assms(1) sat_add_above [OF assms]]
  by (simp add: sys_chunk_entry_def Let_def suffix_reads [OF assms(1)] parse_stripes_suffix [OF assms(1)] trans_le_add1)

lemma parse_array_suffix:
  assumes "same_suffix k b b'" and "k \<le> p"
  shows "parse_array_from b lim p = parse_array_from b' lim p"
  using assms(2)
proof (induction "Suc lim - p" arbitrary: p rule: less_induct)
  case less
  have "parse_array_from b lim p' = parse_array_from b' lim p'" if "p < p'" "p' \<le> lim" for p'
    using that less.prems by (intro less.hyps) auto
  then show ?case
    unfolding parse_array_from.simps [of b lim p] parse_array_from.simps [of b' lim p]
      sys_chunk_entry_suffix [OF assms(1) less.prems]
    by (auto split: option.split)
qed

text \<open>The superblock with another root address, sealed again.\<close>

lemma edited_root:
  fixes v :: u64
  obtains blk s where "reseal_sb (write_u64 base_image (65536 + 80) v) = oracle_disk blk chunk_root_leaf fs_tree_leaf"
    and "audit_super crc32c_ref (oracle_disk blk chunk_root_leaf fs_tree_leaf) = Some (blk, s)"
    and "oracle_super s" and "sb_root s = v" and "length blk = 4096"
proof -
  let ?o = "overwrite oracle_superblock 80 (to_le_bytes v)"
  define blk where "blk = seal crc32c_ref ?o"
  have len: "length blk = 4096" "length ?o = 4096"
    by (simp_all add: blk_def block_lengths)
  have range: "get_range blk i (i + n) = get_range oracle_superblock i (i + n)"
    if "4 \<le> i" "i + n \<le> 80 \<or> 88 \<le> i" for i n
  proof -
    have "get_range ?o i (i + n) = get_range oracle_superblock i (i + n)"
      using that by (intro reads_overwrite) (auto simp: block_lengths)
    then show ?thesis
      unfolding blk_def using that(1) len by (simp add: get_range_seal)
  qed
  have "get_range blk i (i + n) = get_range oracle_superblock i (i + n)"
    if "(i, n) \<in> {(0x40, 8), (0x48, 8), (0x90, 4), (0xc4, 2)}" for i n
    using that by (intro range) auto
  from edited_superblock [OF len(1) this] obtain s where s: "superblock_parse crc32c_ref blk = Inr s" by blast
  have "drop 88 blk = drop 88 oracle_superblock"
    using len by (simp add: blk_def drop_seal drop_overwrite_after block_lengths)
  then have suffix: "same_suffix 88 blk oracle_superblock"
    by (simp add: same_suffix_def len block_lengths usize_max_def)
  note reads = suffix_reads [OF suffix]
  have "bytes_at blk 0x20 16 = bytes_at oracle_superblock 0x20 16"
    using range [of 32 16] len by (simp add: bytes_at_in_range get_range_def block_lengths)
  moreover have "parse_array blk 811 129 = parse_array oracle_superblock 811 129"
    using parse_array_suffix [OF suffix, of 811] by (simp add: parse_array_def len block_lengths)
  moreover obtain c where "parse_array oracle_superblock 811 129 = [c]" "system_chunk c"
    using superblock_chunks by blast
  ultimately have "oracle_super s"
    using s by (auto simp: superblock_parse_def superblock_fields super_consts SYS_CHUNK_ARRAY_OFFSET_def
        oracle_super_def fs_tree_leaf_header_def BTRFS_FSID_SIZE_def reads Let_def split: if_splits)
  moreover have "get_range blk 80 (80 + 8) = get_range ?o 80 (80 + 8)"
    unfolding blk_def using len by (simp add: get_range_seal)
  then have "le_u64 blk 80 = v"
    by (simp add: le_u64_def overwrite_def get_range_def block_lengths from_to_le_bytes)
  then have "sb_root s = v"
    using s by (auto simp: superblock_parse_def Let_def split: if_splits)
  moreover have "reseal_sb (write_u64 base_image (65536 + 80) v) = oracle_disk blk chunk_root_leaf fs_tree_leaf"
    using overwrite_oracle_disk(1) [OF block_lengths, where k = 80 and e = "to_le_bytes v"]
    by (simp add: write_u64_def base_image_layout reseal_sb_disk block_lengths blk_def)
  ultimately show thesis
    using s len oracle_disk_blocks(1) [of blk chunk_root_leaf fs_tree_leaf]
    by (intro that [of blk s]) (simp_all add: audit_super_Some block_lengths)
qed

lemma edited_root_map:
  assumes "length blk = 4096" and "oracle_super s"
  shows "walk_or_default crc32c_ref (oracle_disk blk chunk_root_leaf fs_tree_leaf) s = oracle_map"
  using oracle_walk [OF assms(1) block_lengths(3) assms(2)] by (simp add: walk_or_default_def)

lemma geometry_test: "impossible_geometry_root_past_image_flags_finding"
proof -
  obtain blk s where img: "reseal_sb (write_u64 base_image (65536 + 80) (- 1)) = oracle_disk blk chunk_root_leaf fs_tree_leaf"
    and super: "audit_super crc32c_ref (oracle_disk blk chunk_root_leaf fs_tree_leaf) = Some (blk, s)"
    and s: "oracle_super s" "sb_root s = - 1" and len: "length blk = 4096"
    by (rule edited_root [of "- 1"])
  let ?img = "oracle_disk blk chunk_root_leaf fs_tree_leaf"
  obtain c where "sb_sys_chunks s = [c]" "system_chunk c"
    using s(1) by (auto simp: oracle_super_def)
  then have "node_phys s oracle_map (- 1) = None"
    by (auto simp: node_phys_def oracle_map_def u64_checked_add_def system_chunk_def sys_chunk_l2p_def)
  then have "\<not> is_ok (read_node crc32c_ref ?img s oracle_map (- 1))"
    by (simp add: read_node_def)
  then have "anomaly_new (ImpossibleGeometry ''root'' (- 1) (of_nat (length ?img))) \<in> set (audit_image crc32c_ref ?img)"
    unfolding audit_image_parts super option.case prod.case Let_def edited_root_map [OF len s(1)]
    by (simp add: root_unreadable_def s)
  note found = reported [OF this _ tested_kinds(7)]
  have "has_kind is_geometry (audit_image crc32c_ref ?img)"
    "first_of_kind is_geometry (audit_image crc32c_ref ?img) (\<lambda>a.
       an_code a = ''BTRFS-IMPOSSIBLE-GEOMETRY'' \<and> an_severity a = High)"
    by (rule found; simp)+
  then show ?thesis
    by (simp add: impossible_geometry_root_past_image_flags_finding_def img [simplified])
qed

lemma geometry_of_root:
  assumes "a \<in> set (audit_image crc img)" and "is_geometry_of ''root'' (an_kind a)"
    and "audit_super crc img = Some (blk, s)"
  shows "a \<in> set (root_unreadable crc img s (walk_or_default crc img s) ''root'' (sb_root s))"
proof -
  have other: "a \<notin> set (check_backup_root g len (slot, b))" "a \<notin> set (sweep_found crc img s m l)"
    "a \<notin> set (orphans_of is)" "a \<notin> set (root_unreadable crc img s m ''chunk_root'' l)"
    "a \<noteq> anomaly_new (SuperblockCrcMismatch 65536)" for g len slot b m l "is"
    using assms(2)
    by (auto simp: check_backup_root_def sweep_found_iff orphans_of_def root_unreadable_def split: if_splits)
  show ?thesis
    using assms(1) unfolding audit_image_parts assms(3) option.case prod.case Let_def
    by (auto simp: other split: if_splits)
qed

lemma zero_root_test: "zero_root_logical_is_not_a_geometry_error"
proof -
  obtain blk s where img: "reseal_sb (write_u64 base_image (65536 + 80) 0) = oracle_disk blk chunk_root_leaf fs_tree_leaf"
    and super: "audit_super crc32c_ref (oracle_disk blk chunk_root_leaf fs_tree_leaf) = Some (blk, s)"
    and root: "sb_root s = 0"
    by (rule edited_root [of 0])
  have "\<not> has_kind (is_geometry_of ''root'') (audit_image crc32c_ref (oracle_disk blk chunk_root_leaf fs_tree_leaf))"
    using geometry_of_root [OF _ _ super] by (auto simp: has_kind_def list_ex_iff root root_unreadable_def)
  then show ?thesis
    by (simp add: zero_root_logical_is_not_a_geometry_error_def img [simplified])
qed

lemma wrong_magic_test: "superblock_present_but_wrong_magic_yields_no_findings"
proof -
  have "bytes_at (zeros 4096) 64 8 = replicate 8 0"
    by (simp add: bytes_at_in_range zeros_def)
  then have "audit_super crc32c_ref (zeros (65536 + 4096 + 16384)) = None"
    by (simp add: audit_super_def superblock_parse_def super_consts BTRFS_MAGIC_def str_def replicate_num)
  then show ?thesis
    by (simp add: superblock_present_but_wrong_magic_yields_no_findings_def audit_image_parts)
qed

section \<open>Properties\<close>

text \<open>
  Claim C8. The auditor on an image of a real disk, whatever leaf stands in the place of its FS tree: it is reached
  through the backup roots only, and the audit reports its checksum, if that fails, and its orphan items, and nothing
  else. The disk as it is is clean; a changed superblock, a flipped byte of a node, a backup root from the future or
  past the image, a crafted orphan and an impossible root are each reported under their code, and an absent root is not.
\<close>

theorem real_image_audited:
  "(\<forall>fs f. length fs = 16384 \<and> node_parse crc32c_ref fs = Inr f \<and> is_leaf f \<and> h_owner (n_header f) = 5 \<and>
      h_bytenr (n_header f) = 30654464 \<and> h_fsid (n_header f) = h_fsid fs_tree_leaf_header \<longrightarrow>
      audit_image crc32c_ref (oracle_disk oracle_superblock chunk_root_leaf fs) =
        (if n_crc_valid f = Some False then [anomaly_new (NodeCrcMismatch 30654464 39043072)] else []) @
        orphans_of (first_by (\<lambda>i. i) {} (orphan_inodes (leaf_items f)))) \<and>
   clean_image_emits_no_anomalies to_finding \<and> superblock_parse_over_whole_image_is_sound \<and>
   corrupt_superblock_csum_flags_superblock_crc_mismatch \<and> byte_flipped_node_flags_crc_mismatch \<and>
   backup_root_newer_than_current_flags_divergence \<and> backup_fs_root_gen_newer_flags_divergence \<and>
   backup_tree_root_past_image_flags_divergence \<and> crafted_orphan_item_flags_orphaned_inode \<and>
   impossible_geometry_root_past_image_flags_finding \<and> zero_root_logical_is_not_a_geometry_error \<and>
   superblock_present_but_wrong_magic_yields_no_findings"
  using oracle_audit clean_test super_crc_test node_crc_test divergence_test fs_root_divergence_test
    tree_root_divergence_test orphan_test geometry_test zero_root_test wrong_magic_test
  by blast

theorem real_image_audited_witness:
  "audit_image crc32c_ref (oracle_disk oracle_superblock chunk_root_leaf fs_tree_leaf) = []"
proof -
  obtain f where f: "node_parse crc32c_ref fs_tree_leaf = Inr f" "n_header f = fs_tree_leaf_header"
      "leaf_items f = fs_tree_leaf_items" "is_leaf f" "n_crc_valid f = Some True"
    by (rule fs_tree_leaf_node)
  have "length fs_tree_leaf = 16384 \<and> node_parse crc32c_ref fs_tree_leaf = Inr f \<and> is_leaf f \<and> h_owner (n_header f) = 5 \<and>
      h_bytenr (n_header f) = 30654464 \<and> h_fsid (n_header f) = h_fsid fs_tree_leaf_header"
    using f by (simp add: block_lengths fs_tree_leaf_header_def)
  from real_image_audited [THEN conjunct1, rule_format, OF this] show ?thesis
    by (simp add: f no_orphans orphans_of_def)
qed

end
