(* ===== verification/Spec2Isabelle.thy ===== *)
theory Spec2Isabelle
  imports Mount ImageAudit Carve Fuzz Safe_Vfs Unit_Tests Bounds Oracle_Fs_Tests Oracle_Integrity
begin

text \<open>
  A model of btrfs-forensic, a reader and an auditor of btrfs images, and the theorems that make
  it correct.

  The program. The crate \<open>btrfs-core\<close> (\<open>core/src\<close>) is a chain of readers, each on the bytes the one
  before it delivers. \<open>Superblock::parse\<close> reads the 4096-byte superblock with its bootstrap chunk
  array; \<open>ChunkMap::walk\<close> starts from that array and walks the chunk tree into the full
  logical-to-physical map; \<open>read_node\<close> translates a logical address, cuts one tree block out of the
  image and parses it; \<open>fs_tree_root\<close>, \<open>read_inode\<close>, \<open>list_dir\<close>, \<open>read_by_path\<close> and
  \<open>read_file_from_leaf\<close> work on the items of one leaf; the \<open>vfs\<close> adapter holds the mounted state and
  answers the operations of the \<open>FileSystem\<close> trait. The crate \<open>btrfs-forensic\<close>
  (\<open>forensic/src/lib.rs\<close>) calls the readers: \<open>audit_image\<close> runs five checks over an image and
  collects anomalies, \<open>recover_deleted\<close> compares older FS trees with the current one. There is no
  shared mutable state: a record per data structure, values passed from reader to reader, a list
  of results that grows.

  The theories, in the order of the code.
  \<^item> \<open>Prelude\<close>: \<open>bytes\<close>, the slice accesses of the standard library (\<open>get_range\<close> is \<open>slice::get\<close>),
    saturating and checked arithmetic, results as \<open>btrfs_error + 'a\<close>, the collection \<open>read_simps\<close>.
  \<^item> \<open>Bytes\<close> (\<open>bytes.rs\<close>, and the copies in the auditor), \<open>Errors\<close> (\<open>error.rs\<close>), \<open>Utf8\<close>
    (\<open>String::from_utf8_lossy\<close> of the standard library), \<open>Crc\<close> (\<open>crc.rs\<close>; locale \<open>checksum\<close>).
  \<^item> \<open>Chunk\<close> (\<open>chunk.rs\<close>; locale \<open>linear_map\<close>, the contract of both translations), \<open>Superblock\<close>
    (\<open>superblock.rs\<close>), \<open>Node\<close> and \<open>ChunkMap\<close> (\<open>node.rs\<close>; locale \<open>capped_table\<close>, the contract of the
    three tables the parsers read behind a header).
  \<^item> \<open>Records\<close> and \<open>FsTree\<close> (\<open>fstree.rs\<close>; locale \<open>packed_records\<close>, the contract of attributes and back
    references), \<open>Extent\<close> (\<open>extent.rs\<close>), \<open>Vfs\<close> (\<open>vfs.rs\<close>; locale \<open>image_source\<close>),
    \<open>Mount\<close> (properties of the adapter over a whole image, and a disk to mount).
  \<^item> \<open>Worklist\<close> (locales \<open>worklist\<close> and \<open>collecting\<close>, a search with a budget), \<open>Anomaly\<close> and \<open>Integrity\<close>
    (the anomaly kinds and the five checks of \<open>forensic/src/lib.rs\<close>), \<open>SmallDisk\<close> (a disk to evaluate
    on), \<open>ImageAudit\<close> (properties of the whole audit).
  \<^item> \<open>Sha256\<close> (\<open>sha256_hex\<close>) and \<open>Carve\<close> (\<open>recover_deleted_from_leaves\<close>, \<open>recover_deleted\<close>).
  \<^item> \<open>Panic\<close> (runs that may panic) and the same code as such runs: \<open>Safe_Readers\<close> (\<open>bytes.rs\<close>, \<open>chunk.rs\<close>,
    \<open>crc.rs\<close>, \<open>superblock.rs\<close>), \<open>Safe_Nodes\<close> (\<open>node.rs\<close>), \<open>Safe_Content\<close> (\<open>fstree.rs\<close>, \<open>extent.rs\<close>), \<open>Safe_Forensic\<close>
    (\<open>forensic/src/lib.rs\<close>), \<open>Safe_Vfs\<close> (\<open>vfs.rs\<close>), and \<open>Fuzz\<close>, the seven targets of \<open>fuzz/fuzz_targets\<close>.
  \<^item> \<open>Bounds\<close>: how much a hostile image can make the walk, the audit and the recovery return.
  \<^item> \<open>Crafted\<close>, the image the tests of \<open>vfs.rs\<close> build, and \<open>Unit_Tests\<close>, the tests inside the source files.
  \<^item> The integration tests, over blocks of real disks (\<open>tests/data\<close>), byte for byte: \<open>Fast_Crc\<close> (the reference
    CRC32c over mostly empty blocks), \<open>Oracle_Data\<close> and \<open>Oracle_Fs_Data\<close> (the blocks, and what lies where in
    them), \<open>Oracle_Hash\<close> and \<open>Oracle_Fs_Hash\<close> (the digests of three files), \<open>Oracle_Superblock\<close>, \<open>Oracle_Tests\<close>,
    \<open>Oracle_Fs_Tests\<close> (\<open>core/tests\<close>, \<open>forensic/tests/f_carve.rs\<close>), \<open>Oracle_Audit\<close> and \<open>Oracle_Integrity\<close>
    (\<open>forensic/tests/f_integrity.rs\<close>).

  How the model corresponds to the code. A struct is a record with a prefix for its fields (\<open>sb_\<close>,
  \<open>h_\<close>, \<open>i_\<close>, \<open>de_\<close>, ...), an enum a datatype, \<open>u8\<close> to \<open>u64\<close> words of that width, \<open>usize\<close> a \<open>nat\<close> whose
  saturating and checked operations are written out at 64 bits, \<open>String\<close> its UTF-8 bytes. Names that
  clash with HOL constants are changed: \<open>total\<close> is \<open>len_all\<close>. An early return is a branch, \<open>?\<close> is
  \<open>try_res\<close> or a case, an iterator chain the list functions of the same names. A loop is a fold over
  the list it runs through, or a recursive function whose argument is what shrinks.

  Budgets and termination. \<open>walk_loop\<close> and \<open>sweep_loop\<close> recurse over the code's own budgets, 4096
  visited nodes and 8192 pops, so the model stops where the code does. \<open>walk_complete\<close> shows that the first is
  enough for every tree of at most 4096 nodes; \<open>sweep_complete\<close> that the second is enough when the
  addresses pushed, counted with repetition (\<open>sweep_covered\<close>), are at most 8192. \<open>lzo_loop\<close>, \<open>packed_walk\<close> and
  \<open>parse_array\<close> recurse on the bytes that are left, with the progress of each step proved; the padding
  loop of SHA-256 is a total function, \<open>sha_pad_faithful\<close> says what it stops with.

  Panics. The theories up to \<open>Carve\<close> give every operation its value with the code's guards, on list
  functions that are total. The theories \<open>Safe_...\<close> repeat each function as a \<open>do\<close> block whose indexing,
  slicing, copying, \<open>usize\<close> arithmetic, remainders and allocations are the partial operations of \<open>Panic\<close>, in the
  order of the code: \<open>f_p x = Some y\<close> is that \<open>f\<close> returns \<open>y\<close>, \<open>None\<close> is that it panics. A lemma per function
  (\<open>f_p_Some\<close>, in the collection \<open>run_simps\<close>) says that it never panics and has the value of the total model, so
  the two models of a function are tied to each other. Overflow counts as a panic, as in a build with
  overflow checks, which is the stricter reading. What is assumed: a slice has at most \<open>isize::MAX\<close> bytes
  (\<open>fits_memory\<close>); for reading file content the image has at most 256 MiB, or nodes of at most 64 KiB and an
  image of at most \<open>2 ^ 50\<close> bytes (\<open>readable_size\<close>), so that the extents of one leaf together fit into one
  buffer; the LZO decoder returns no more than the buffer it was given holds (\<open>codec_fits\<close>). Running out of memory
  below \<open>isize::MAX\<close> is not a panic of this model; \<open>holes_add_up\<close> shows how large a buffer can get.

  Parameters. The digest function of the \<open>crc\<close> crate (\<open>crc\<close>; its contract, that a nonzero change of
  at most 32 bits changes the digest, is the locale \<open>checksum\<close>, and the reference computation of the
  repository's tests, \<open>crc32c_ref\<close>, is an instance). The decoders of \<open>flate2\<close>, \<open>ruzstd\<close> and \<open>lzo\<close>
  (\<open>codecs\<close>), of which nothing is assumed except in \<open>lzo_frame_roundtrip\<close>, where segments decode to given
  texts. The byte source of \<open>forensic-vfs\<close>, with the documented contract of its \<open>read_at\<close>, and
  \<open>Observation::to_finding\<close> of \<open>forensicnomicon\<close>, an argument of \<open>audit_findings\<close>. \<open>fits_memory\<close>
  is the bound that Rust puts on every slice.

  What the lemmas show.
  \<^item> Layouts: an \<open>encode_...\<close> function writes each structure as the on-disk format has it, and the
    parser reads every field back (superblock, chunk array, leaf, interior node, inode, directory
    entry, root item, attribute, back reference, inline and regular extent, LZO frame). What a parser skips is an
    argument where a property speaks of items the kernel wrote (\<open>inode_item_bytes\<close>, \<open>dir_item_bytes\<close>, \<open>inline_bytes\<close>, \<open>encode_xattr\<close>).
  \<^item> Exactness: for any bytes, when an operation succeeds, with which value, and which error it gives
    otherwise (superblock, nodes, lookup, mount, file content, regular extents, backup roots).
  \<^item> Walks: the chunk map is the collection of all chunk items of the tree, and nothing else; the
    sweep reports reachable corrupted nodes, once, and all of them within its budget.
  \<^item> Refinement and equivalence: path resolution implements the inductive relation \<open>path_to\<close>; a client of
    the mounted adapter that looks a path up name by name reads what the reader's own path resolution gives, when
    the root directory is 256;
    reading in pieces is reading the file; \<open>sha256_hex\<close> computes the functions the standard writes; both chunk
    translations are the linear map of their chunk.
  \<^item> The auditor: an edit of up to four bytes of a reachable, sealed node is reported, unless it touches what
    identifies the node (bytes 4 to 55); the silence of the audit is characterised; an anomaly's code and evidence determine it.
  \<^item> The carver: which files are recovered from a pair of leaves and from an image, each once, with the
    name, bytes and digest they had.

  \<^item> Panics: the fuzz targets return on every input, the content ones on inputs of up to 256 MiB; the opened
    adapter never panics; opening does exactly when the source claims more than a buffer can hold.
  \<^item> The tests: every unit test of the repository holds of the model, for every digest function and
    every codec; among them those of the adapter over an image of 4 MiB that is built as the code builds it.
  \<^item> Real disks: leaves that the kernel wrote are values of \<open>encode_leaf\<close>, their checksums verify under the reference
    CRC32c, and the readers give what the kernel's tools print for them (\<open>real_blocks_decode\<close>); the file deleted on
    such a disk comes back with the digest taken before (\<open>real_deletion_recovered\<close>); the audit of the 39 MB image that
    the tests assemble is known exactly for every leaf in the place of its FS tree (\<open>real_image_audited\<close>). They
    show that the layouts of the model are those of real disks, and that what other theorems assume of an image
    does occur.
  \<^item> Bounds: \<open>output_bounded\<close> limits every list that a hostile image can produce by the budgets and the node size.

  Where the code is weaker than its documentation, the theorems state what the code does: see
  \<open>no_holes_gap_shifts_data\<close>, \<open>chunk_map_lookup_exact\<close>, \<open>list_dir_exact\<close>, \<open>backup_roots_exact\<close>,
  \<open>sweep_sound\<close>, \<open>deleted_files_exact\<close>, \<open>holes_add_up\<close> and \<open>open_panics_iff\<close>.

  Not modelled: \<open>core/src/lib.rs\<close>, which only declares and re-exports; of the tests under \<open>core/tests\<close> and
  \<open>forensic/tests\<close> those that read a whole image named by the environment, those over the output of compressors
  (the decoders are parameters), and those over nodes that the test files build themselves; the constants no function uses
  (\<open>BLOCK_GROUP_...\<close>, \<open>INODE_ITEM_SIZE\<close>, \<open>TIMESTAMP_SIZE\<close>); the time the code takes and the memory it needs
  beside the sizes of its buffers.
\<close>

end
